(* ===== verification/Prelude.thy ===== *)
theory Prelude
  imports Main "HOL-Library.Word" "HOL-Library.Sublist" "HOL-Library.List_Lexorder"
    "HOL-Library.Char_ord" "HOL-Library.State_Monad" "HOL-Library.AList"
begin

text \<open>
  Shared ground of the development: the types and abbreviations that name Go's values, Go
  errors as values, the functions of Go's \<open>strings\<close>, \<open>strconv\<close>, \<open>bytes\<close> and \<open>slices\<close> packages
  that the sources call, the rules that run a program of the state monad, and the generic
  lemmas on lists, words and sorted lists that the component theories share.

  Conventions. A Go \<open>[]byte\<close>, \<open>net.IP\<close> or slice is a list; the nil slice is the empty list (the
  program never builds an empty slice that is not nil where it compares with nil). A Go string
  is a \<open>string\<close> of bytes. A Go map is an association list, the nil map is the empty list; reading an
  absent key of a \<open>map[string]string\<close> gives the empty string (\<open>mget\<close>), and two maps are equal
  for \<open>reflect.DeepEqual\<close> when they agree on every key (\<open>meq\<close>).
\<close>

unbundle bit_operations_syntax

named_theorems run_simps "rules that run a program of the state monad"
named_theorems ip_simps "rules that compute with addresses and networks"

type_synonym byte = "8 word"
type_synonym strmap = "(string \<times> string) list"

subsection \<open>Errors as values\<close>

text \<open>
  \<open>Errorf f args\<close> and \<open>Wrapf f args e\<close> are the values of \<open>fmt.Errorf\<close> with the format string \<open>f\<close> of
  the source and its arguments printed as strings; \<open>Wrapf\<close> is the form with \<open>%w\<close>. \<open>Sentinel\<close> is a
  package variable made by \<open>errors.New\<close>. \<open>ParseError\<close> is the error of \<open>net.ParseCIDR\<close>,
  \<open>net.ParseMAC\<close>; \<open>StatusError\<close> is an error of the Kubernetes API with its reason.
\<close>

datatype status_reason = NotFound | AlreadyExists | Conflict | OtherReason

datatype sentinel =
    ErrNoAvailableIP | ErrNoAvailableMac | ErrNetworkConflict | ErrIPRangesConflict

datatype error =
    Sentinel sentinel
  | ParseError string string
  | StatusError status_reason
  | Errorf string "string list"
  | Wrapf string "string list" error

text \<open>\<open>errors.Is\<close> and \<open>apierrors.ReasonForError\<close> look through the chain of wrapped errors.\<close>

fun root_error :: "error \<Rightarrow> error" where
  "root_error (Wrapf f as e) = root_error e"
| "root_error e = e"

definition errors_Is :: "error \<Rightarrow> sentinel \<Rightarrow> bool" where
  "errors_Is e s = (root_error e = Sentinel s)"

definition IsNotFound :: "error \<Rightarrow> bool" where
  "IsNotFound e = (root_error e = StatusError NotFound)"

definition IsAlreadyExists :: "error \<Rightarrow> bool" where
  "IsAlreadyExists e = (root_error e = StatusError AlreadyExists)"

definition IsConflict :: "error \<Rightarrow> bool" where
  "IsConflict e = (root_error e = StatusError Conflict)"

subsection \<open>Strings\<close>

text \<open>\<open>fmt.Sprintf\<close> with \<open>%v\<close> or \<open>%d\<close> on an integer.\<close>

fun show_nat :: "nat \<Rightarrow> string" where
  "show_nat n = (if n < 10 then [char_of (48 + n)]
                 else show_nat (n div 10) @ [char_of (48 + n mod 10)])"

declare show_nat.simps [simp del]

definition show_int :: "int \<Rightarrow> string" where
  "show_int i = (if i < 0 then CHR ''-'' # show_nat (nat (- i)) else show_nat (nat i))"

text \<open>\<open>strings.Split\<close> with a separator of one character.\<close>

fun strings_Split :: "string \<Rightarrow> char \<Rightarrow> string list" where
  "strings_Split [] sep = [[]]"
| "strings_Split (c # cs) sep =
     (if c = sep then [] # strings_Split cs sep
      else (case strings_Split cs sep of
              [] \<Rightarrow> [[c]]
            | w # ws \<Rightarrow> (c # w) # ws))"

text \<open>\<open>strings.TrimSpace\<close> on ASCII text.\<close>

definition is_space :: "char \<Rightarrow> bool" where
  "is_space c = (c \<in> {CHR '' '', CHR 0x09, CHR 0x0A, CHR 0x0B, CHR 0x0C, CHR 0x0D})"

definition strings_TrimSpace :: "string \<Rightarrow> string" where
  "strings_TrimSpace s = rev (dropWhile is_space (rev (dropWhile is_space s)))"

text \<open>\<open>strings.ReplaceAll\<close> with patterns of one character.\<close>

definition replace_char :: "char \<Rightarrow> string \<Rightarrow> string \<Rightarrow> string" where
  "replace_char c r s = concat (map (\<lambda>x. if x = c then r else [x]) s)"

text \<open>\<open>strings.ToLower\<close> on ASCII text.\<close>

definition lower_char :: "char \<Rightarrow> char" where
  "lower_char c = (let n = (of_char c :: nat) in
     if 65 \<le> n \<and> n \<le> 90 then char_of (n + 32) else c)"

definition strings_ToLower :: "string \<Rightarrow> string" where
  "strings_ToLower s = map lower_char s"

text \<open>\<open>strings.TrimSuffix\<close>.\<close>

definition strings_TrimSuffix :: "string \<Rightarrow> string \<Rightarrow> string" where
  "strings_TrimSuffix s suf = (if suffix suf s then take (length s - length suf) s else s)"

text \<open>\<open>strings.Contains\<close>.\<close>

fun strings_Contains :: "string \<Rightarrow> string \<Rightarrow> bool" where
  "strings_Contains [] sub = (sub = [])"
| "strings_Contains (c # cs) sub = (prefix sub (c # cs) \<or> strings_Contains cs sub)"

lemma strings_Contains_iff: "strings_Contains s sub \<longleftrightarrow> sublist sub s"
  by (induction s) (auto simp: sublist_Cons_right)

subsection \<open>Maps\<close>

definition mget :: "strmap \<Rightarrow> string \<Rightarrow> string" where
  "mget m k = (case map_of m k of None \<Rightarrow> [] | Some v \<Rightarrow> v)"

definition meq :: "('k \<times> 'v) list \<Rightarrow> ('k \<times> 'v) list \<Rightarrow> bool" where
  "meq m n = (\<forall>k \<in> set (map fst m @ map fst n). map_of m k = map_of n k)"

lemma meq_iff: "meq m n \<longleftrightarrow> map_of m = map_of n"
proof
  assume eq: "meq m n"
  show "map_of m = map_of n"
  proof
    fix k
    show "map_of m k = map_of n k"
    proof (cases "k \<in> set (map fst m @ map fst n)")
      case True
      with eq show ?thesis by (simp only: meq_def)
    next
      case False
      then have "map_of m k = None" and "map_of n k = None"
        by (auto simp: map_of_eq_None_iff)
      then show ?thesis by simp
    qed
  qed
qed (simp add: meq_def)

lemma mget_update [simp]: "mget (AList.update k v m) k' = (if k' = k then v else mget m k')"
  by (simp add: mget_def AList.update_conv')

lemma mget_delete [simp]: "mget (AList.delete k m) k' = (if k' = k then [] else mget m k')"
  by (simp add: mget_def AList.delete_conv')

lemma mget_Nil [simp]: "mget [] k = []"
  by (simp add: mget_def)

lemma strings_Split_not_Nil [simp]: "strings_Split s c \<noteq> []"
  by (cases s) (auto split: list.splits)

subsection \<open>Byte strings\<close>

text \<open>\<open>bytes.Compare\<close>: the lexicographic order.\<close>

fun bytes_Compare :: "byte list \<Rightarrow> byte list \<Rightarrow> int" where
  "bytes_Compare [] [] = 0"
| "bytes_Compare [] (b # bs) = - 1"
| "bytes_Compare (a # as) [] = 1"
| "bytes_Compare (a # as) (b # bs) =
     (if a < b then - 1 else if b < a then 1 else bytes_Compare as bs)"

text \<open>The number that a byte string denotes, most significant byte first.\<close>

fun bval :: "byte list \<Rightarrow> nat" where
  "bval [] = 0"
| "bval (b # bs) = unat b * 256 ^ length bs + bval bs"

lemma unat_byte_less [simp]: "unat (b :: byte) < 256"
  using unsigned_less [of b, where 'a = nat] by simp

lemma bval_less: "bval bs < 256 ^ length bs"
proof (induction bs)
  case Nil
  show ?case by simp
next
  case (Cons b bs)
  have "unat b * 256 ^ length bs + bval bs < (unat b + 1) * 256 ^ length bs"
    using Cons.IH by simp
  also have "\<dots> \<le> 256 * 256 ^ length bs"
    using unat_byte_less [of b] by (intro mult_le_mono1) linarith
  finally show ?case by simp
qed

lemma bval_append: "bval (xs @ ys) = bval xs * 256 ^ length ys + bval ys"
  by (induction xs) (auto simp: algebra_simps power_add)

lemma bval_cons_less:
  assumes "length as = length bs"
  shows "bval (a # as) < bval (b # bs) \<longleftrightarrow> a < b \<or> a = b \<and> bval as < bval bs"
proof -
  let ?N = "256 ^ length bs :: nat"
  have as: "bval as < ?N" and bs: "bval bs < ?N"
    using bval_less [of as] bval_less [of bs] assms by simp_all
  consider "unat a < unat b" | "unat a = unat b" | "unat b < unat a" by linarith
  then show ?thesis
  proof cases
    case 1
    then have "(unat a + 1) * ?N \<le> unat b * ?N" by (intro mult_le_mono1) simp
    with as have "unat a * ?N + bval as < unat b * ?N" by simp
    with 1 assms show ?thesis by (auto simp: word_less_nat_alt)
  next
    case 2
    then have "a = b" by (simp add: word_eq_iff_unsigned [where 'a = nat])
    with assms show ?thesis by simp
  next
    case 3
    then have "(unat b + 1) * ?N \<le> unat a * ?N" by (intro mult_le_mono1) simp
    with bs have "unat b * ?N + bval bs < unat a * ?N" by simp
    with 3 assms show ?thesis by (auto simp: word_less_nat_alt)
  qed
qed

lemma bval_inj:
  assumes "length as = length bs"
  shows "bval as = bval bs \<longleftrightarrow> as = bs"
  using assms
proof (induction as bs rule: list_induct2)
  case Nil
  show ?case by simp
next
  case (Cons a as b bs)
  have "bval (a # as) = bval (b # bs) \<longleftrightarrow>
      \<not> bval (a # as) < bval (b # bs) \<and> \<not> bval (b # bs) < bval (a # as)"
    by linarith
  also have "\<dots> \<longleftrightarrow> a = b \<and> bval as = bval bs"
    by (auto simp only: bval_cons_less [OF Cons.hyps] bval_cons_less [OF Cons.hyps [symmetric]]
        not_less)
  finally show ?case using Cons.IH by simp
qed

lemma bytes_Compare_less:
  "length as = length bs \<Longrightarrow> bytes_Compare as bs < 0 \<longleftrightarrow> bval as < bval bs"
  by (induction as bs rule: list_induct2) (auto simp: bval_cons_less simp del: bval.simps)

lemma bytes_Compare_swap: "bytes_Compare as bs = - bytes_Compare bs as"
  by (induction as bs rule: bytes_Compare.induct) auto

lemma bytes_Compare_refl [simp]: "bytes_Compare as as = 0"
  by (induction as) auto

lemma bytes_Compare_eq: "bytes_Compare as bs = 0 \<longleftrightarrow> as = bs"
  by (induction as bs rule: bytes_Compare.induct) auto

lemma bytes_Compare_gr:
  "length as = length bs \<Longrightarrow> bytes_Compare as bs > 0 \<longleftrightarrow> bval bs < bval as"
  using bytes_Compare_less [of bs as] bytes_Compare_swap [of as bs] by simp

lemma bytes_Compare_le:
  "length as = length bs \<Longrightarrow> bytes_Compare as bs \<le> 0 \<longleftrightarrow> bval as \<le> bval bs"
  using bytes_Compare_gr [of as bs] by linarith

lemma bytes_Compare_ge:
  "length as = length bs \<Longrightarrow> 0 \<le> bytes_Compare as bs \<longleftrightarrow> bval bs \<le> bval as"
  using bytes_Compare_less [of as bs] by linarith

text \<open>The order of \<open>bytes.Compare\<close> is the lexicographic order of the library.\<close>

lemma bytes_Compare_list_less: "bytes_Compare as bs < 0 \<longleftrightarrow> as < bs"
  by (induction as bs rule: bytes_Compare.induct) auto

lemma bval_less_iff_list: "length as = length bs \<Longrightarrow> as < bs \<longleftrightarrow> bval as < bval bs"
  using bytes_Compare_less [of as bs] bytes_Compare_list_less [of as bs] by simp

lemma bval_le_iff_list: "length as = length bs \<Longrightarrow> as \<le> bs \<longleftrightarrow> bval as \<le> bval bs"
  using bval_less_iff_list [of bs as] by (simp add: not_less [symmetric])

subsection \<open>Running programs\<close>

declare State_Monad.run_state_bind [run_simps]
declare State_Monad.run_state_return [run_simps]

end
