(* ===== verification/GoNet.thy ===== *)
theory GoNet
  imports Prelude
begin

text \<open>
  The parts of Go's standard packages \<open>net\<close> and \<open>net/netip\<close> that the sources call, as Go defines
  them: addresses (\<open>net.IP\<close>: byte slices of length 4 or 16, nil is the empty list), masks, networks,
  the parsers \<open>ParseIP\<close>, \<open>ParseCIDR\<close>, \<open>ParseMAC\<close> and the printers \<open>String\<close>. The last part
  relates them to numbers: masking with a CIDR mask is rounding down to a multiple of a power
  of two, so a network is an interval of addresses.
\<close>

subsection \<open>Addresses\<close>

type_synonym net_IP = "byte list"
type_synonym IPMask = "byte list"

record IPNet =
  NetIP :: net_IP
  NetMask :: IPMask

definition v4InV6Prefix :: "byte list" where
  "v4InV6Prefix = [0, 0, 0, 0, 0, 0, 0, 0, 0, 0, 255, 255]"

definition To4 :: "net_IP \<Rightarrow> net_IP" where
  "To4 ip = (if length ip = 4 then ip
             else if length ip = 16 \<and> take 12 ip = v4InV6Prefix then drop 12 ip
             else [])"

definition To16 :: "net_IP \<Rightarrow> net_IP" where
  "To16 ip = (if length ip = 4 then v4InV6Prefix @ ip
              else if length ip = 16 then ip
              else [])"

definition IP_Equal :: "net_IP \<Rightarrow> net_IP \<Rightarrow> bool" where
  "IP_Equal ip x =
     (if length ip = length x then ip = x
      else if length ip = 4 \<and> length x = 16 then take 12 x = v4InV6Prefix \<and> ip = drop 12 x
      else if length ip = 16 \<and> length x = 4 then take 12 ip = v4InV6Prefix \<and> drop 12 ip = x
      else False)"

definition and_bytes :: "byte list \<Rightarrow> byte list \<Rightarrow> byte list" where
  "and_bytes xs ys = map2 (\<lambda>x y. x AND y) xs ys"

definition IP_Mask :: "net_IP \<Rightarrow> IPMask \<Rightarrow> net_IP" where
  "IP_Mask ip m =
     (let m = (if length m = 16 \<and> length ip = 4 \<and> take 12 m = replicate 12 255
               then drop 12 m else m);
          ip = (if length m = 4 \<and> length ip = 16 \<and> take 12 ip = v4InV6Prefix
                then drop 12 ip else ip)
      in if length ip \<noteq> length m then [] else and_bytes ip m)"

fun mask_bytes :: "nat \<Rightarrow> nat \<Rightarrow> IPMask" where
  "mask_bytes n 0 = []"
| "mask_bytes n (Suc l) =
     (if 8 \<le> n then 255 # mask_bytes (n - 8) l
      else NOT (drop_bit n 255) # mask_bytes 0 l)"

definition CIDRMask :: "nat \<Rightarrow> nat \<Rightarrow> IPMask" where
  "CIDRMask ones bits =
     (if bits \<noteq> 32 \<and> bits \<noteq> 128 then [] else if ones > bits then []
      else mask_bytes ones (bits div 8))"

definition networkNumberAndMask :: "IPNet \<Rightarrow> (net_IP \<times> IPMask) option" where
  "networkNumberAndMask n =
     (let ip4 = To4 (NetIP n); m = NetMask n in
      if ip4 = [] \<and> length (NetIP n) \<noteq> 16 then None
      else let ip = (if ip4 = [] then NetIP n else ip4) in
        if length m = 4 then (if length ip \<noteq> 4 then None else Some (ip, m))
        else if length m = 16 then (if length ip = 4 then Some (ip, drop 12 m) else Some (ip, m))
        else None)"

definition Contains :: "IPNet \<Rightarrow> net_IP \<Rightarrow> bool" where
  "Contains n ip =
     (case networkNumberAndMask n of
        None \<Rightarrow> ip = []
      | Some (nn, m) \<Rightarrow>
          (let x = To4 ip; ip = (if x \<noteq> [] then x else ip) in
           length ip = length nn \<and> and_bytes nn m = and_bytes ip m))"

subsection \<open>Parsing addresses\<close>

definition digit_val :: "char \<Rightarrow> nat option" where
  "digit_val c = (let n = (of_char c :: nat) in
     if 48 \<le> n \<and> n \<le> 57 then Some (n - 48) else None)"

definition hex_val :: "char \<Rightarrow> nat option" where
  "hex_val c = (let n = (of_char c :: nat) in
     if 48 \<le> n \<and> n \<le> 57 then Some (n - 48)
     else if 97 \<le> n \<and> n \<le> 102 then Some (n - 87)
     else if 65 \<le> n \<and> n \<le> 70 then Some (n - 55) else None)"

definition is_hex :: "char \<Rightarrow> bool" where
  "is_hex c = (hex_val c \<noteq> None)"

definition hex_num :: "string \<Rightarrow> nat" where
  "hex_num s = foldl (\<lambda>a c. a * 16 + (case hex_val c of None \<Rightarrow> 0 | Some d \<Rightarrow> d)) 0 s"

text \<open>
  \<open>parse4 s val digLen start octets\<close>: the loop of \<open>netip.parseIPv4Fields\<close>; \<open>start\<close> holds at the
  first character and after a dot; \<open>octets\<close> are the octets read so far, the last one first.
\<close>

fun parse4 :: "string \<Rightarrow> nat \<Rightarrow> nat \<Rightarrow> bool \<Rightarrow> byte list \<Rightarrow> byte list option" where
  "parse4 [] val digLen start octets =
     (if length octets < 3 then None else Some (rev (of_nat val # octets)))"
| "parse4 (c # cs) val digLen start octets =
     (case digit_val c of
        Some d \<Rightarrow>
          if digLen = 1 \<and> val = 0 then None
          else if val * 10 + d > 255 then None
          else parse4 cs (val * 10 + d) (digLen + 1) False octets
      | None \<Rightarrow>
          if c = CHR ''.'' then
            if start \<or> cs = [] then None
            else if length octets = 3 then None
            else parse4 cs 0 0 True (of_nat val # octets)
          else None)"

definition parseIPv4Fields :: "string \<Rightarrow> byte list option" where
  "parseIPv4Fields s = parse4 s 0 0 True []"

text \<open>
  \<open>parse6 n s ip ellipsis\<close>: the loop of \<open>netip.parseIPv6\<close> with room for \<open>n\<close> more groups of
  sixteen bits, the bytes \<open>ip\<close> read so far and the place of \<open>::\<close> if there was one.
\<close>

fun parse6 :: "nat \<Rightarrow> string \<Rightarrow> byte list \<Rightarrow> nat option \<Rightarrow> (byte list \<times> nat option) option" where
  "parse6 0 s ip ellipsis = (if s = [] then Some (ip, ellipsis) else None)"
| "parse6 (Suc n) s ip ellipsis =
     (let ds = takeWhile is_hex s; rest = dropWhile is_hex s in
      if ds = [] \<or> length ds > 4 then None
      else if rest \<noteq> [] \<and> hd rest = CHR ''.'' then
        (if ellipsis = None \<and> length ip \<noteq> 12 then None
         else if length ip + 4 > 16 then None
         else map_option (\<lambda>q. (ip @ q, ellipsis)) (parseIPv4Fields s))
      else
        (let ip = ip @ [of_nat (hex_num ds div 256), of_nat (hex_num ds)] in
         case rest of
           [] \<Rightarrow> Some (ip, ellipsis)
         | c # s \<Rightarrow>
             if c \<noteq> CHR '':'' \<or> s = [] then None
             else if hd s = CHR '':'' then
               (if ellipsis \<noteq> None then None
                else if tl s = [] then Some (ip, Some (length ip))
                else parse6 n (tl s) ip (Some (length ip)))
             else parse6 n s ip ellipsis))"

definition expand6 :: "byte list \<times> nat option \<Rightarrow> byte list option" where
  "expand6 r = (case r of (ip, ellipsis) \<Rightarrow>
     if length ip < 16 then
       map_option (\<lambda>e. take e ip @ replicate (16 - length ip) 0 @ drop e ip) ellipsis
     else if ellipsis \<noteq> None then None else Some ip)"

definition parseIPv6 :: "string \<Rightarrow> byte list option" where
  "parseIPv6 s =
     (if take 2 s = ''::'' then
        (if drop 2 s = [] then Some (replicate 16 0)
         else Option.bind (parse6 8 (drop 2 s) [] (Some 0)) expand6)
      else Option.bind (parse6 8 s [] None) expand6)"

text \<open>
  \<open>netip.ParseAddr\<close>: the address and whether it is an IPv6 one (\<open>Is6\<close>). An address with a zone
  is refused by both callers, \<open>net.ParseIP\<close> and \<open>net.ParseCIDR\<close>, so a \<open>%\<close> is refused here.
\<close>

definition ParseAddr :: "string \<Rightarrow> (bool \<times> byte list) option" where
  "ParseAddr s =
     (case dropWhile (\<lambda>c. c \<noteq> CHR ''.'' \<and> c \<noteq> CHR '':'' \<and> c \<noteq> CHR ''%'') s of
        [] \<Rightarrow> None
      | c # _ \<Rightarrow>
          if c = CHR ''.'' then map_option (\<lambda>q. (False, q)) (parseIPv4Fields s)
          else if c = CHR '':'' then
            (if CHR ''%'' \<in> set s then None else map_option (\<lambda>q. (True, q)) (parseIPv6 s))
          else None)"

definition ParseIP :: "string \<Rightarrow> net_IP" where
  "ParseIP s =
     (case ParseAddr s of None \<Rightarrow> [] | Some (is6, q) \<Rightarrow> (if is6 then q else v4InV6Prefix @ q))"

text \<open>\<open>net.dtoi\<close>, which gives up at \<open>big\<close>; the rest of the string must be empty.\<close>

fun dtoi :: "string \<Rightarrow> nat \<Rightarrow> nat option" where
  "dtoi [] n = Some n"
| "dtoi (c # cs) n =
     (case digit_val c of
        None \<Rightarrow> None
      | Some d \<Rightarrow> if int (n * 10 + d) \<ge> 0xFFFFFF then None else dtoi cs (n * 10 + d))"

definition ParseCIDR :: "string \<Rightarrow> error + net_IP \<times> IPNet" where
  "ParseCIDR s =
     (let err = Inl (ParseError ''CIDR address'' s);
          addr = takeWhile (\<lambda>c. c \<noteq> CHR ''/'') s;
          rest = dropWhile (\<lambda>c. c \<noteq> CHR ''/'') s
      in if rest = [] then err
         else case ParseAddr addr of
           None \<Rightarrow> err
         | Some (is6, q) \<Rightarrow>
             (let iplen = (if is6 then 16 else 4) in
              case (if tl rest = [] then None else dtoi (tl rest) 0) of
                None \<Rightarrow> err
              | Some n \<Rightarrow>
                  if n > 8 * iplen then err
                  else let m = CIDRMask n (8 * iplen);
                           ip = (if is6 then q else v4InV6Prefix @ q)
                       in Inr (ip, \<lparr>NetIP = IP_Mask ip m, NetMask = m\<rparr>)))"

subsection \<open>Printing addresses\<close>

definition join_with :: "string \<Rightarrow> string list \<Rightarrow> string" where
  "join_with sep ws = (case ws of [] \<Rightarrow> [] | w # ws \<Rightarrow> w @ concat (map (\<lambda>v. sep @ v) ws))"

definition hex_digit :: "nat \<Rightarrow> char" where
  "hex_digit d = (if d < 10 then char_of (48 + d) else char_of (87 + d))"

fun show_hex :: "nat \<Rightarrow> string" where
  "show_hex n = (if n < 16 then [hex_digit n] else show_hex (n div 16) @ [hex_digit (n mod 16)])"

declare show_hex.simps [simp del]

fun groups16 :: "byte list \<Rightarrow> nat list" where
  "groups16 (a # b # bs) = (unat a * 256 + unat b) # groups16 bs"
| "groups16 _ = []"

text \<open>The leftmost longest run of at least two zero groups, as its start and its end.\<close>

definition zero_run :: "nat list \<Rightarrow> nat \<Rightarrow> nat" where
  "zero_run gs i = length (takeWhile (\<lambda>g. g = 0) (drop i gs))"

definition longest_run :: "nat list \<Rightarrow> nat \<times> nat" where
  "longest_run gs = foldl (\<lambda>(s, l) i. let r = zero_run gs i in
     if 2 \<le> r \<and> l < r then (i, r) else (s, l)) (0, 0) [0 ..< length gs]"

definition show_ipv6 :: "byte list \<Rightarrow> string" where
  "show_ipv6 ip =
     (let gs = groups16 ip; (s, l) = longest_run gs in
      if l = 0 then join_with '':'' (map show_hex gs)
      else join_with '':'' (map show_hex (take s gs)) @ ''::'' @
           join_with '':'' (map show_hex (drop (s + l) gs)))"

definition show_ipv4 :: "byte list \<Rightarrow> string" where
  "show_ipv4 ip = join_with ''.'' (map (\<lambda>b. show_nat (unat b)) ip)"

definition show_byte_hex :: "byte \<Rightarrow> string" where
  "show_byte_hex b = [hex_digit (unat b div 16), hex_digit (unat b mod 16)]"

definition IP_String :: "net_IP \<Rightarrow> string" where
  "IP_String ip =
     (if ip = [] then ''<nil>''
      else if length ip \<noteq> 4 \<and> length ip \<noteq> 16 then ''?'' @ concat (map show_byte_hex ip)
      else if To4 ip \<noteq> [] then show_ipv4 (To4 ip)
      else show_ipv6 ip)"

text \<open>\<open>net.simpleMaskLength\<close>, for the masks that \<open>ParseCIDR\<close> makes.\<close>

definition mask_ones :: "IPMask \<Rightarrow> nat option" where
  "mask_ones m = find (\<lambda>n. mask_bytes n (length m) = m) [0 ..< 8 * length m + 1]"

definition IPNet_String :: "IPNet \<Rightarrow> string" where
  "IPNet_String n =
     (case networkNumberAndMask n of
        None \<Rightarrow> ''<nil>''
      | Some (nn, m) \<Rightarrow>
          IP_String nn @ ''/'' @
          (case mask_ones m of
             None \<Rightarrow> concat (map show_byte_hex m)
           | Some l \<Rightarrow> show_nat l))"

subsection \<open>Hardware addresses\<close>

text \<open>\<open>net.xtoi2\<close>: two hexadecimal digits, followed by nothing or by the separator \<open>e\<close>.\<close>

definition xtoi2 :: "string \<Rightarrow> char \<Rightarrow> byte option" where
  "xtoi2 s e =
     (if length s > 2 \<and> s ! 2 \<noteq> e then None
      else if length s < 2 \<or> \<not> is_hex (s ! 0) \<or> \<not> is_hex (s ! 1) then None
      else Some (of_nat (hex_num (take 2 s))))"

fun mac_colon :: "nat \<Rightarrow> string \<Rightarrow> char \<Rightarrow> byte list option" where
  "mac_colon 0 s e = Some []"
| "mac_colon (Suc n) s e =
     (case xtoi2 s e of
        None \<Rightarrow> None
      | Some b \<Rightarrow> map_option ((#) b) (mac_colon n (drop 3 s) e))"

fun mac_dot :: "nat \<Rightarrow> string \<Rightarrow> char \<Rightarrow> byte list option" where
  "mac_dot 0 s e = Some []"
| "mac_dot (Suc n) s e =
     (case (xtoi2 (take 2 s) (CHR 0x00), xtoi2 (drop 2 s) e) of
        (Some a, Some b) \<Rightarrow> map_option (\<lambda>r. a # b # r) (mac_dot n (drop 5 s) e)
      | _ \<Rightarrow> None)"

definition ParseMAC :: "string \<Rightarrow> error + byte list" where
  "ParseMAC s =
     (let err = ParseError ''MAC address'' s;
          ok = (\<lambda>n. n = 6 \<or> n = 8 \<or> n = (20::nat));
          res = (\<lambda>r. case r of None \<Rightarrow> Inl err | Some hw \<Rightarrow> Inr hw)
      in if length s < 14 then Inl err
         else if s ! 2 = CHR '':'' \<or> s ! 2 = CHR ''-'' then
           (let n = (length s + 1) div 3 in
            if (length s + 1) mod 3 \<noteq> 0 \<or> \<not> ok n then Inl err
            else res (mac_colon n s (s ! 2)))
         else if s ! 4 = CHR ''.'' then
           (let n = 2 * (length s + 1) div 5 in
            if (length s + 1) mod 5 \<noteq> 0 \<or> \<not> ok n then Inl err
            else res (mac_dot (n div 2) s (s ! 4)))
         else Inl err)"

definition HardwareAddr_String :: "byte list \<Rightarrow> string" where
  "HardwareAddr_String hw = join_with '':'' (map show_byte_hex hw)"

subsection \<open>Masks as numbers\<close>

lemma length_mask_bytes [simp]: "length (mask_bytes n l) = l"
  by (induction l arbitrary: n) auto

lemma length_and_bytes [simp]: "length (and_bytes xs ys) = min (length xs) (length ys)"
  by (simp add: and_bytes_def)

lemma and_bytes_Cons [simp]: "and_bytes (x # xs) (y # ys) = (x AND y) # and_bytes xs ys"
  by (simp add: and_bytes_def)

lemma and_bytes_Nil [simp]: "and_bytes [] ys = []" "and_bytes xs [] = []"
  by (simp_all add: and_bytes_def)

lemma byte_255: "(255 :: byte) = mask 8"
  by (simp add: mask_eq_exp_minus_1)

lemma and_byte_255 [simp]: "b AND 255 = (b :: byte)"
  unfolding byte_255 by (rule bit_word_eqI) (simp add: bit_simps)

lemma partial_mask:
  "n < 8 \<Longrightarrow> b AND NOT (drop_bit n 255) = push_bit (8 - n) (drop_bit (8 - n) (b :: byte))"
  unfolding byte_255 by (rule bit_word_eqI) (auto simp: bit_simps)

lemma unat_partial_mask:
  assumes "n < 8"
  shows "unat (b AND NOT (drop_bit n 255)) = unat (b :: byte) div 2 ^ (8 - n) * 2 ^ (8 - n)"
proof -
  have le: "unat b div 2 ^ (8 - n) * 2 ^ (8 - n) \<le> unat b" by simp
  then have "unat b div 2 ^ (8 - n) * 2 ^ (8 - n) < 256"
    using unat_byte_less [of b] by linarith
  then show ?thesis
    unfolding partial_mask [OF assms] unsigned_push_bit_eq unat_drop_bit_eq
    by (simp add: push_bit_eq_mult drop_bit_eq_div take_bit_eq_mod)
qed

lemma div_pow_add:
  fixes a v k m :: nat
  assumes "k \<le> m"
  shows "(a * 2 ^ m + v) div 2 ^ k = a * 2 ^ (m - k) + v div 2 ^ k"
proof -
  have eq: "a * 2 ^ m + v = v + a * 2 ^ (m - k) * 2 ^ k"
    using assms by (simp add: mult.assoc flip: power_add)
  show ?thesis by (subst eq) simp
qed

lemma div_mult_add:
  fixes a v k m :: nat
  assumes "k \<le> m"
  shows "(a * 2 ^ m + v) div 2 ^ k * 2 ^ k = a * 2 ^ m + v div 2 ^ k * 2 ^ k"
  using assms by (simp add: div_pow_add add_mult_distrib mult.assoc flip: power_add)

lemma bval_and_mask:
  "length bs = l \<Longrightarrow> n \<le> 8 * l \<Longrightarrow>
     bval (and_bytes bs (mask_bytes n l)) = bval bs div 2 ^ (8 * l - n) * 2 ^ (8 * l - n)"
proof (induction l arbitrary: n bs)
  case 0
  then show ?case by simp
next
  case (Suc l)
  then obtain b cs where bs: "bs = b # cs" and cs: "length cs = l" by (cases bs) auto
  have pow: "(256::nat) ^ l = 2 ^ (8 * l)" by (simp add: power_mult)
  show ?case
  proof (cases "8 \<le> n")
    case True
    have "8 * Suc l - n = 8 * l - (n - 8)" using True by simp
    moreover have "bval (and_bytes cs (mask_bytes (n - 8) l)) =
        bval cs div 2 ^ (8 * l - (n - 8)) * 2 ^ (8 * l - (n - 8))"
      using Suc.prems(2) True by (intro Suc.IH cs) simp
    moreover have "8 * l - (n - 8) \<le> 8 * l" by simp
    ultimately show ?thesis
      using True by (simp add: bs cs pow div_mult_add del: power_Suc)
  next
    case False
    have "bval cs < 2 ^ (8 * l)" using bval_less [of cs] by (simp add: cs pow)
    then have zero: "bval (and_bytes cs (mask_bytes 0 l)) = 0"
      using Suc.IH [OF cs, of 0] by simp
    have exp: "(2::nat) ^ (8 * Suc l - n) = 2 ^ (8 * l) * 2 ^ (8 - n)"
    proof -
      have "8 * Suc l - n = 8 * l + (8 - n)" using False by simp
      then show ?thesis by (simp only: power_add)
    qed
    have "(unat b * 2 ^ (8 * l) + bval cs) div 2 ^ (8 * l) = unat b"
      using \<open>bval cs < 2 ^ (8 * l)\<close> by simp
    then have "(unat b * 2 ^ (8 * l) + bval cs) div 2 ^ (8 * Suc l - n) * 2 ^ (8 * Suc l - n) =
        unat b div 2 ^ (8 - n) * 2 ^ (8 - n) * 2 ^ (8 * l)"
      unfolding exp div_mult2_eq by (simp only: mult_ac)
    then show ?thesis
      using False zero unat_partial_mask [of n b] by (simp add: bs cs pow del: mult_Suc_right)
  qed
qed

subsection \<open>Networks as intervals of addresses\<close>

text \<open>
  \<open>cidr_net n p\<close>: \<open>n\<close> is a network as \<open>ParseCIDR\<close> makes it, with a prefix of \<open>p\<close> bits: an IPv4
  network of four bytes or an IPv6 network of sixteen bytes outside \<open>::ffff:0:0/96\<close>.
\<close>

definition cidr_net :: "IPNet \<Rightarrow> nat \<Rightarrow> bool" where
  "cidr_net n p \<longleftrightarrow>
     (length (NetIP n) = 4 \<or> length (NetIP n) = 16 \<and> To4 (NetIP n) = []) \<and>
     p \<le> 8 * length (NetIP n) \<and>
     NetMask n = mask_bytes p (length (NetIP n)) \<and>
     and_bytes (NetIP n) (NetMask n) = NetIP n"

definition net_bits :: "IPNet \<Rightarrow> nat \<Rightarrow> nat" where
  "net_bits n p = 8 * length (NetIP n) - p"

definition net_base :: "IPNet \<Rightarrow> nat" where
  "net_base n = bval (To16 (NetIP n))"

lemma and_bytes_idem: "and_bytes (and_bytes xs m) m = and_bytes xs m"
  by (induction xs m rule: list_induct2') (auto simp: and_bytes_def)

lemma length_v4InV6Prefix [simp]: "length v4InV6Prefix = 12"
  by (simp add: v4InV6Prefix_def)

lemma length_To16: "length (To16 ip) = 16 \<or> To16 ip = []"
  by (simp add: To16_def)

lemma To16_16 [simp]: "length ip = 16 \<Longrightarrow> To16 ip = ip"
  by (simp add: To16_def)

lemma To16_4: "length ip = 4 \<Longrightarrow> To16 ip = v4InV6Prefix @ ip"
  by (simp add: To16_def)

lemma To16_eq_Nil: "To16 ip = [] \<longleftrightarrow> length ip \<noteq> 4 \<and> length ip \<noteq> 16"
  by (auto simp: To16_def)

lemma To16_idem [simp]: "To16 (To16 ip) = To16 ip"
  by (simp add: To16_def)

lemma To4_append [simp]: "length q = 4 \<Longrightarrow> To4 (v4InV6Prefix @ q) = q"
  by (simp add: To4_def)

lemma To4_16: "length ip = 16 \<Longrightarrow> To4 ip \<noteq> [] \<longleftrightarrow> (\<exists>q. length q = 4 \<and> ip = v4InV6Prefix @ q)"
proof
  assume "length ip = 16" and "To4 ip \<noteq> []"
  then have "take 12 ip = v4InV6Prefix" and "length (drop 12 ip) = 4"
    by (auto simp: To4_def split: if_splits)
  then show "\<exists>q. length q = 4 \<and> ip = v4InV6Prefix @ q"
    by (metis append_take_drop_id)
next
  assume "\<exists>q. length q = 4 \<and> ip = v4InV6Prefix @ q"
  then show "To4 ip \<noteq> []" by auto
qed

lemma IP_Equal_16 [simp]:
  "length a = 16 \<Longrightarrow> length b = 16 \<Longrightarrow> IP_Equal a b \<longleftrightarrow> a = b"
  by (simp add: IP_Equal_def)

lemma IP_Equal_iff_To16:
  assumes "length a = 4 \<or> length a = 16" and "length b = 4 \<or> length b = 16"
  shows "IP_Equal a b \<longleftrightarrow> To16 a = To16 b"
proof -
  have *: "take 12 x = v4InV6Prefix \<and> y = drop 12 x \<longleftrightarrow> v4InV6Prefix @ y = x"
    if "length x = 16" "length y = 4" for x y :: net_IP
    using that by (auto simp: append_eq_conv_conj)
  show ?thesis
    using assms * [of b a] * [of a b]
    by (auto simp: IP_Equal_def To16_def)
qed

text \<open>In sixteen bytes, \<open>and_bytes ip m\<close> agrees with the network number when the quotients agree.\<close>

lemma masked_eq_iff:
  assumes "length a = l" and "length b = l" and "p \<le> 8 * l"
  shows "and_bytes a (mask_bytes p l) = and_bytes b (mask_bytes p l) \<longleftrightarrow>
         bval a div 2 ^ (8 * l - p) = bval b div 2 ^ (8 * l - p)"
proof -
  have "and_bytes a (mask_bytes p l) = and_bytes b (mask_bytes p l) \<longleftrightarrow>
      bval (and_bytes a (mask_bytes p l)) = bval (and_bytes b (mask_bytes p l))"
    using assms by (subst bval_inj) simp_all
  then show ?thesis using assms by (simp add: bval_and_mask)
qed


lemma quotient_split:
  fixes T T' D D' :: nat
  assumes "D < 2 ^ m" and "D' < 2 ^ m" and "k \<le> m"
  shows "(T * 2 ^ m + D) div 2 ^ k = (T' * 2 ^ m + D') div 2 ^ k \<longleftrightarrow>
         T = T' \<and> D div 2 ^ k = D' div 2 ^ k"
proof
  assume eq: "(T * 2 ^ m + D) div 2 ^ k = (T' * 2 ^ m + D') div 2 ^ k"
  have pow: "(2::nat) ^ m = 2 ^ k * 2 ^ (m - k)" using assms(3) by (simp flip: power_add)
  have "(T * 2 ^ m + D) div 2 ^ m = (T' * 2 ^ m + D') div 2 ^ m"
    using eq unfolding pow div_mult2_eq by simp
  then have T: "T = T'" using assms by simp
  have "T * 2 ^ m + D div 2 ^ k * 2 ^ k = T' * 2 ^ m + D' div 2 ^ k * 2 ^ k"
    using eq by (simp flip: div_mult_add [OF assms(3)])
  with T show "T = T' \<and> D div 2 ^ k = D' div 2 ^ k" by simp
next
  assume "T = T' \<and> D div 2 ^ k = D' div 2 ^ k"
  then show "(T * 2 ^ m + D) div 2 ^ k = (T' * 2 ^ m + D') div 2 ^ k"
    by (simp add: div_pow_add [OF assms(3)])
qed

lemma mapped_quotient:
  assumes "length a = 16" and "length q = 4" and "k \<le> 32"
  shows "bval a div 2 ^ k = bval (v4InV6Prefix @ q) div 2 ^ k \<longleftrightarrow>
         take 12 a = v4InV6Prefix \<and> bval (drop 12 a) div 2 ^ k = bval q div 2 ^ k"
proof -
  have len: "length (take 12 a) = length v4InV6Prefix" using assms by simp
  have "bval a = bval (take 12 a @ drop 12 a)" by simp
  also have "\<dots> = bval (take 12 a) * 2 ^ 32 + bval (drop 12 a)"
    using assms by (simp only: bval_append) simp
  finally have a: "bval a = bval (take 12 a) * 2 ^ 32 + bval (drop 12 a)" .
  have q: "bval (v4InV6Prefix @ q) = bval v4InV6Prefix * 2 ^ 32 + bval q"
    using assms by (simp add: bval_append)
  have "bval (drop 12 a) < 2 ^ 32" and "bval q < 2 ^ 32"
    using bval_less [of "drop 12 a"] bval_less [of q] assms by simp_all
  then show ?thesis
    unfolding a q bval_inj [OF len, symmetric] by (rule quotient_split [OF _ _ assms(3)])
qed

lemma Contains_16:
  assumes net: "cidr_net n p" and a: "length a = 16"
  shows "Contains n a \<longleftrightarrow>
         bval a div 2 ^ net_bits n p = net_base n div 2 ^ net_bits n p \<and>
         (length (NetIP n) = 16 \<longrightarrow> To4 a = [])"
proof (cases "length (NetIP n) = 4")
  case True
  with net have m: "NetMask n = mask_bytes p 4" and p: "p \<le> 32"
    and self: "and_bytes (NetIP n) (NetMask n) = NetIP n"
    by (auto simp: cidr_net_def)
  have nn: "networkNumberAndMask n = Some (NetIP n, mask_bytes p 4)"
    using True by (auto simp: networkNumberAndMask_def To4_def Let_def m)
  have base: "net_base n = bval (v4InV6Prefix @ NetIP n)" and k: "net_bits n p = 32 - p"
    using True by (simp_all add: net_base_def To16_4 net_bits_def)
  have "Contains n a \<longleftrightarrow> take 12 a = v4InV6Prefix \<and>
      and_bytes (NetIP n) (mask_bytes p 4) = and_bytes (drop 12 a) (mask_bytes p 4)"
    using True a by (auto simp: Contains_def nn To4_def Let_def)
  also have "\<dots> \<longleftrightarrow> take 12 a = v4InV6Prefix \<and>
      bval (drop 12 a) div 2 ^ (32 - p) = bval (NetIP n) div 2 ^ (32 - p)"
    using True a p masked_eq_iff [of "NetIP n" 4 "drop 12 a" p] by auto
  also have "\<dots> \<longleftrightarrow> bval a div 2 ^ (32 - p) = bval (v4InV6Prefix @ NetIP n) div 2 ^ (32 - p)"
    using a True by (simp add: mapped_quotient)
  finally show ?thesis using True by (simp add: base k)
next
  case False
  with net have len: "length (NetIP n) = 16" and "To4 (NetIP n) = []"
    and m: "NetMask n = mask_bytes p 16" and p: "p \<le> 128"
    by (auto simp: cidr_net_def)
  then have nn: "networkNumberAndMask n = Some (NetIP n, mask_bytes p 16)"
    by (auto simp: networkNumberAndMask_def Let_def m)
  have base: "net_base n = bval (NetIP n)" and k: "net_bits n p = 128 - p"
    using len by (simp_all add: net_base_def net_bits_def)
  have "length (To4 a) \<noteq> 16" using a by (simp add: To4_def)
  then have "Contains n a \<longleftrightarrow> To4 a = [] \<and>
      and_bytes (NetIP n) (mask_bytes p 16) = and_bytes a (mask_bytes p 16)"
    using len a by (auto simp: Contains_def nn Let_def)
  then show ?thesis
    using len a p masked_eq_iff [of "NetIP n" 16 a p] by (auto simp: base k)
qed

lemma parse4_length:
  "parse4 s val dl st octets = Some q \<Longrightarrow> length octets \<le> 3 \<Longrightarrow> length q = 4"
  by (induction s val dl st octets rule: parse4.induct) (auto split: option.splits if_splits)

lemma parseIPv4Fields_length: "parseIPv4Fields s = Some q \<Longrightarrow> length q = 4"
  unfolding parseIPv4Fields_def by (erule parse4_length) simp

lemma parse6_length:
  "parse6 n s ip e = Some (ip', e') \<Longrightarrow> length ip + 2 * n = 16 \<Longrightarrow>
     (\<forall>k. e = Some k \<longrightarrow> k \<le> length ip) \<Longrightarrow>
     length ip' \<le> 16 \<and> (\<forall>k. e' = Some k \<longrightarrow> k \<le> length ip')"
proof (induction n arbitrary: s ip e)
  case 0
  then show ?case by (auto split: if_splits)
next
  case (Suc n)
  define ip1 where "ip1 = ip @ [of_nat (hex_num (takeWhile is_hex s) div 256),
    of_nat (hex_num (takeWhile is_hex s))]"
  have len1: "length ip1 = length ip + 2" by (simp add: ip1_def)
  from Suc.prems(1)
  consider (v4) q where "ip' = ip @ q" "e' = e" "length ip + 4 \<le> 16" "parseIPv4Fields s = Some q"
    | (last) "ip' = ip1" "e' = e \<or> e' = Some (length ip1)"
    | (rec) s2 e2 where "parse6 n s2 ip1 e2 = Some (ip', e')" "e2 = e \<or> e2 = Some (length ip1)"
    by (auto simp: Let_def ip1_def split: if_splits list.splits)
  then show ?case
  proof cases
    case v4
    then show ?thesis using Suc.prems(3) by (auto dest: parseIPv4Fields_length)
  next
    case last
    then show ?thesis using Suc.prems(2,3) len1 by auto
  next
    case rec
    show ?thesis
      by (rule Suc.IH [OF rec(1)]) (use Suc.prems(2,3) rec(2) len1 in auto)
  qed
qed

lemma expand6_length:
  "expand6 (ip, e) = Some q \<Longrightarrow> length ip \<le> 16 \<Longrightarrow> (\<forall>k. e = Some k \<longrightarrow> k \<le> length ip) \<Longrightarrow> length q = 16"
  by (auto simp: expand6_def split: if_splits)

lemma parseIPv6_length: "parseIPv6 s = Some q \<Longrightarrow> length q = 16"
  by (auto simp: parseIPv6_def bind_eq_Some_conv split: if_splits
      dest!: parse6_length intro: expand6_length)

lemma ParseAddr_length:
  "ParseAddr s = Some (is6, q) \<Longrightarrow> length q = (if is6 then 16 else 4)"
  by (auto simp: ParseAddr_def split: list.splits if_splits
      dest: parseIPv4Fields_length parseIPv6_length)

lemma ParseIP_length: "length (ParseIP s) = 16 \<or> ParseIP s = []"
  by (auto simp: ParseIP_def split: option.splits dest: ParseAddr_length)

lemma CIDRMask_eq [simp]:
  "p \<le> 32 \<Longrightarrow> CIDRMask p 32 = mask_bytes p 4" "p \<le> 128 \<Longrightarrow> CIDRMask p 128 = mask_bytes p 16"
  by (simp_all add: CIDRMask_def)

text \<open>Masking does not move an address into \<open>::ffff:0:0/96\<close>.\<close>

lemma take12_val: "length a = 16 \<Longrightarrow> bval a div 2 ^ 32 = bval (take 12 a)"
proof -
  assume a: "length a = 16"
  have "bval a = bval (take 12 a @ drop 12 a)" by simp
  also have "\<dots> = bval (take 12 a) * 2 ^ 32 + bval (drop 12 a)"
    using a by (simp only: bval_append) simp
  finally show ?thesis using bval_less [of "drop 12 a"] a by simp
qed

lemma To4_masked:
  assumes ip: "length ip = 16" and p: "p \<le> 128" and ne: "To4 (and_bytes ip (mask_bytes p 16)) \<noteq> []"
  shows "To4 ip \<noteq> []"
proof -
  let ?m = "and_bytes ip (mask_bytes p 16)" and ?k = "128 - p"
  have len: "length ?m = 16" using ip by simp
  then have "take 12 ?m = v4InV6Prefix" using ne by (auto simp: To4_def split: if_splits)
  then have q: "bval ?m div 2 ^ 32 = 65535"
    using take12_val [OF len] by (simp add: v4InV6Prefix_def)
  have v: "bval ?m = bval ip div 2 ^ ?k * 2 ^ ?k"
    using ip p bval_and_mask [of ip 16 p] by simp
  have "?k \<le> 32"
  proof (rule ccontr)
    assume "\<not> ?k \<le> 32"
    then have k: "(?k - 33) + 1 + 32 = ?k" by simp
    have "(2::nat) ^ ((?k - 33) + 1 + 32) = 2 ^ (?k - 33) * 2 * 2 ^ 32"
      by (simp only: power_add power_one_right)
    then have pow: "(2::nat) ^ ?k = 2 ^ (?k - 33) * 2 * 2 ^ 32" by (simp only: k)
    obtain c where "bval ?m = c * 2 ^ ?k" using v by blast
    then have "bval ?m = c * 2 ^ (?k - 33) * 2 * 2 ^ 32" by (simp only: pow mult.assoc)
    then have "bval ?m div 2 ^ 32 = c * 2 ^ (?k - 33) * 2" by simp
    then have "even (bval ?m div 2 ^ 32)" by simp
    with q show False by simp
  qed
  then have "bval ip div 2 ^ 32 = bval ?m div 2 ^ 32"
  proof -
    assume k: "?k \<le> 32"
    then have "(2::nat) ^ 32 = 2 ^ ?k * 2 ^ (32 - ?k)" by (simp flip: power_add)
    then show ?thesis unfolding v by (simp only: div_mult2_eq) simp
  qed
  then have "bval (take 12 ip) = bval v4InV6Prefix"
    using q take12_val [OF ip] by (simp add: v4InV6Prefix_def)
  then have "take 12 ip = v4InV6Prefix" using ip by (subst (asm) bval_inj) simp_all
  then show ?thesis using ip by (simp add: To4_def)
qed

lemma ParseCIDR_length: "ParseCIDR s = Inr (ip, n) \<Longrightarrow> length ip = 16"
  by (auto simp: ParseCIDR_def Let_def split: option.splits if_splits dest!: ParseAddr_length)

lemma ParseCIDR_net:
  assumes parse: "ParseCIDR s = Inr (ip, n)" and plain: "length (NetIP n) = 4 \<or> To4 ip = []"
  shows "\<exists>p. cidr_net n p \<and> bval ip div 2 ^ net_bits n p = net_base n div 2 ^ net_bits n p \<and> (length (NetIP n) = 16 \<longrightarrow> To4 ip = [])"
proof -
  from parse
  consider (v6) m where "length ip = 16" "m \<le> 128"
      "n = \<lparr>NetIP = IP_Mask ip (mask_bytes m 16), NetMask = mask_bytes m 16\<rparr>"
    | (v4) q m where "length q = 4" "m \<le> 32" "ip = v4InV6Prefix @ q"
      "n = \<lparr>NetIP = IP_Mask ip (mask_bytes m 4), NetMask = mask_bytes m 4\<rparr>"
    by (auto simp: ParseCIDR_def Let_def not_less split: option.splits if_splits dest!: ParseAddr_length)
  then show ?thesis
  proof cases
    case v6
    then have mask: "IP_Mask ip (mask_bytes m 16) = and_bytes ip (mask_bytes m 16)"
      by (simp add: IP_Mask_def)
    have ne: "To4 ip = []" using plain v6 mask by simp
    then have "To4 (and_bytes ip (mask_bytes m 16)) = []" using To4_masked [of ip m] v6 by auto
    then have net: "cidr_net n m" using v6 mask by (simp add: cidr_net_def and_bytes_idem)
    have "bval ip div 2 ^ (128 - m) = bval (and_bytes ip (mask_bytes m 16)) div 2 ^ (128 - m)"
      using v6 by (simp add: bval_and_mask)
    then show ?thesis
      using net ne v6 mask by (intro exI [of _ m]) (simp add: net_bits_def net_base_def)
  next
    case v4
    then have mask: "IP_Mask ip (mask_bytes m 4) = and_bytes q (mask_bytes m 4)"
      by (simp add: IP_Mask_def)
    then have net: "cidr_net n m" using v4 by (simp add: cidr_net_def and_bytes_idem)
    have "bval q div 2 ^ (32 - m) = bval (and_bytes q (mask_bytes m 4)) div 2 ^ (32 - m)"
      using v4 by (simp add: bval_and_mask)
    then have "bval ip div 2 ^ (32 - m) =
        bval (v4InV6Prefix @ and_bytes q (mask_bytes m 4)) div 2 ^ (32 - m)"
      using v4 by (subst mapped_quotient) simp_all
    then show ?thesis
      using net v4 mask by (intro exI [of _ m]) (simp add: net_bits_def net_base_def To16_4)
  qed
qed

end
