(* ===== verification/Types.thy ===== *)
theory Types
  imports GoNet
begin

text \<open>
  The resources of the program: the custom resources \<open>FlatNetworkIP\<close> and \<open>FlatNetworkSubnet\<close> of
  \<open>pkg/apis/flatnetwork.pandaria.io/v1/types.go\<close>, one record per struct with the struct's fields
  (a prefix keeps two fields of one name apart), its constants, and the fields of Kubernetes'
  object metadata that the sources read or write.
\<close>

subsection \<open>Constants\<close>

abbreviation SubnetNamespace :: string where "SubnetNamespace \<equiv> ''cattle-flat-network''"

abbreviation AnnotationIP :: string where "AnnotationIP \<equiv> ''flatnetwork.pandaria.io/ip''"
abbreviation AnnotationSubnet :: string where
  "AnnotationSubnet \<equiv> ''flatnetwork.pandaria.io/subnet''"
abbreviation AnnotationMac :: string where "AnnotationMac \<equiv> ''flatnetwork.pandaria.io/mac''"
abbreviation AnnotationIngress :: string where
  "AnnotationIngress \<equiv> ''flatnetwork.pandaria.io/ingress''"
abbreviation AnnotationFlatNetworkService :: string where
  "AnnotationFlatNetworkService \<equiv> ''flatnetwork.pandaria.io/flatNetworkService''"
abbreviation AnnotationsIPv6to4 :: string where
  "AnnotationsIPv6to4 \<equiv> ''flatnetwork.pandaria.io/ipv6to4''"

abbreviation LabelSelectedIP :: string where
  "LabelSelectedIP \<equiv> ''flatnetwork.pandaria.io/selectedIP''"
abbreviation LabelSubnet :: string where "LabelSubnet \<equiv> ''flatnetwork.pandaria.io/subnet''"
abbreviation LabelFlatMode :: string where "LabelFlatMode \<equiv> ''flatnetwork.pandaria.io/flatMode''"
abbreviation LabelFlatNetworkIPType :: string where
  "LabelFlatNetworkIPType \<equiv> ''flatnetwork.pandaria.io/flatNetworkIPType''"
abbreviation LabelSelectedMac :: string where
  "LabelSelectedMac \<equiv> ''flatnetwork.pandaria.io/selectedMac''"
abbreviation LabelWorkloadSelector :: string where
  "LabelWorkloadSelector \<equiv> ''workload.user.cattle.io/workloadselector''"
abbreviation LabelProjectID :: string where "LabelProjectID \<equiv> ''field.cattle.io/projectId''"

abbreviation AllocateModeAuto :: string where "AllocateModeAuto \<equiv> ''auto''"
abbreviation AllocateModeSpecific :: string where "AllocateModeSpecific \<equiv> ''specific''"

abbreviation FlatModeIPvlan :: string where "FlatModeIPvlan \<equiv> ''ipvlan''"
abbreviation FlatModeMacvlan :: string where "FlatModeMacvlan \<equiv> ''macvlan''"

subsection \<open>Object metadata\<close>

record OwnerReference =
  ref_APIVersion :: string
  ref_Kind :: string
  ref_Name :: string
  ref_UID :: string
  ref_Controller :: "bool option"

record ObjectMeta =
  Name :: string
  Namespace :: string
  UID :: string
  ResourceVersion :: string
  Labels :: strmap
  Annotations :: strmap
  OwnerReferences :: "OwnerReference list"
  CreationTimestamp :: int
  DeletionTimestamp :: "int option"

subsection \<open>Addresses, ranges and routes\<close>

record IPRange =
  From :: net_IP
  To :: net_IP

definition IPRange_String :: "IPRange \<Rightarrow> string" where
  "IPRange_String r = [CHR 0x27] @ IP_String (From r) @ [CHR 0x27, CHR ''-'', CHR 0x27] @
     IP_String (To r) @ [CHR 0x27]"

text \<open>
  \<open>utils.Print\<close>: indented JSON. An address of a wrong length cannot be marshalled, and the text is
  then empty. \<open>json_string\<close> is the escaping of \<open>encoding/json\<close> for ASCII text.
\<close>

definition json_char :: "char \<Rightarrow> string" where
  "json_char c =
     (let n = (of_char c :: nat) in
      if n = 0x22 \<or> n = 0x5C then [CHR 0x5C, c]
      else if n = 8 then [CHR 0x5C, CHR ''b'']
      else if n = 12 then [CHR 0x5C, CHR ''f'']
      else if n = 10 then [CHR 0x5C, CHR ''n'']
      else if n = 13 then [CHR 0x5C, CHR ''r'']
      else if n = 9 then [CHR 0x5C, CHR ''t'']
      else if n < 32 \<or> n = 0x3C \<or> n = 0x3E \<or> n = 0x26 then
        [CHR 0x5C, CHR ''u'', CHR ''0'', CHR ''0'', hex_digit (n div 16), hex_digit (n mod 16)]
      else [c])"

definition json_string :: "string \<Rightarrow> string" where
  "json_string s = [CHR 0x22] @ concat (map json_char s) @ [CHR 0x22]"

definition json_IP :: "net_IP \<Rightarrow> string option" where
  "json_IP ip =
     (if ip = [] then Some (json_string [])
      else if To16 ip = [] then None else Some (json_string (IP_String ip)))"

text \<open>An object with the given fields, each a name with the text of its value.\<close>

definition json_object :: "(string \<times> string) list \<Rightarrow> string" where
  "json_object fs =
     ''{'' @ join_with '','' (map (\<lambda>(k, v). [CHR 0x0A] @ ''  '' @ json_string k @ '': '' @ v) fs) @
     [CHR 0x0A] @ ''}''"

definition Print_IPRange :: "IPRange \<Rightarrow> string" where
  "Print_IPRange r =
     (case (json_IP (From r), json_IP (To r)) of
        (Some f, Some t) \<Rightarrow> json_object [(''from'', f), (''to'', t)]
      | _ \<Rightarrow> [])"

record Route =
  route_Dev :: string
  route_Dst :: string
  route_Src :: net_IP
  route_Via :: net_IP
  route_Priority :: int

definition Print_Route :: "Route \<Rightarrow> string" where
  "Print_Route r =
     (case (json_IP (route_Src r), json_IP (route_Via r)) of
        (Some src, Some via) \<Rightarrow>
          json_object (
            [(''dev'', json_string (route_Dev r)), (''dst'', json_string (route_Dst r))] @
            (if route_Src r = [] then [] else [(''src'', src)]) @
            (if route_Via r = [] then [] else [(''via'', via)]) @
            [(''priority'', show_int (route_Priority r))])
      | _ \<Rightarrow> [])"

record RouteSettings =
  AddClusterCIDR :: bool
  AddServiceCIDR :: bool
  AddNodeCIDR :: bool
  AddPodIPToHost :: bool
  FlatNetworkDefaultGateway :: bool

subsection \<open>FlatNetworkIP\<close>

record IPSpec =
  Subnet :: string
  Addrs :: "net_IP list"
  MACs :: "string list"
  PodID :: string

record IPStatus =
  ip_Phase :: string
  ip_FailureMessage :: string
  AllocatedTimeStamp :: int
  Addr :: net_IP
  MAC :: string

record FlatNetworkIP =
  ip_meta :: ObjectMeta
  ip_Spec :: IPSpec
  ip_Status :: IPStatus

subsection \<open>FlatNetworkSubnet\<close>

record SubnetSpec =
  FlatMode :: string
  Master :: string
  VLAN :: int
  CIDR :: string
  Mode :: string
  IPvlanFlag :: string
  Gateway :: net_IP
  Ranges :: "IPRange list"
  Routes :: "Route list"
  Settings :: RouteSettings

record SubnetStatus =
  sn_Phase :: string
  sn_FailureMessage :: string
  sn_Gateway :: net_IP
  ReservedIP :: "(string \<times> IPRange list) list"
  UsedIP :: "IPRange list"
  UsedIPCount :: int
  UsedMAC :: "string list"

record FlatNetworkSubnet =
  sn_meta :: ObjectMeta
  sn_Spec :: SubnetSpec
  sn_Status :: SubnetStatus

abbreviation ip_Name :: "FlatNetworkIP \<Rightarrow> string" where "ip_Name ip \<equiv> Name (ip_meta ip)"
abbreviation ip_Namespace :: "FlatNetworkIP \<Rightarrow> string" where
  "ip_Namespace ip \<equiv> Namespace (ip_meta ip)"
abbreviation sn_Name :: "FlatNetworkSubnet \<Rightarrow> string" where "sn_Name s \<equiv> Name (sn_meta s)"
abbreviation sn_Namespace :: "FlatNetworkSubnet \<Rightarrow> string" where
  "sn_Namespace s \<equiv> Namespace (sn_meta s)"

end
