(* ===== verification/Ipcalc.thy ===== *)
theory Ipcalc
  imports Types
begin

text \<open>
  Address arithmetic and the allocator: \<open>pkg/ipcalc/ipcalc.go\<close>, function by function. The loops
  that search for an address may run forever in Go (a range that ends at the last IPv6 address
  wraps around), so they are partial functions into \<open>option\<close>: \<open>None\<close> is a loop that does not end.
\<close>

subsection \<open>Successor and predecessor\<close>

text \<open>The loops run from the last byte to the first, here over the reversed list.\<close>

fun inc_bytes :: "byte list \<Rightarrow> byte list" where
  "inc_bytes [] = []"
| "inc_bytes (b # bs) = (if b + 1 > 0 then (b + 1) # bs else (b + 1) # inc_bytes bs)"

definition IPIncrease :: "net_IP \<Rightarrow> net_IP" where
  "IPIncrease ip = rev (inc_bytes (rev ip))"

fun dec_bytes :: "byte list \<Rightarrow> byte list" where
  "dec_bytes [] = []"
| "dec_bytes (b # bs) = (if b - 1 \<noteq> 0xFF then (b - 1) # bs else (b - 1) # dec_bytes bs)"

definition IPDecrease :: "net_IP \<Rightarrow> net_IP" where
  "IPDecrease ip = rev (dec_bytes (rev ip))"

definition GetDefaultGateway :: "string \<Rightarrow> error + net_IP" where
  "GetDefaultGateway cidr =
     (case ParseCIDR cidr of
        Inl e \<Rightarrow> Inl e
      | Inr (ip, ipnet) \<Rightarrow> Inr (To16 (IPIncrease (IP_Mask ip (NetMask ipnet)))))"

subsection \<open>Ranges of addresses\<close>

definition IPInRanges :: "net_IP \<Rightarrow> IPRange list \<Rightarrow> bool" where
  "IPInRanges ip ipRanges =
     (if ipRanges = [] then False
      else let a = To16 ip in
        if a = [] then False
        else list_ex (\<lambda>r.
          if From r = [] \<or> To r = [] then False
          else bytes_Compare a (To16 (From r)) \<ge> 0 \<and> bytes_Compare a (To16 (To r)) \<le> 0) ipRanges)"

text \<open>
  The scan of \<open>AddIPToRange\<close>: \<open>Some\<close> the new list when \<open>ip\<close> extends a range or joins two ranges,
  \<open>None\<close> when it touches none.
\<close>

fun add_scan :: "net_IP \<Rightarrow> IPRange list \<Rightarrow> IPRange list option" where
  "add_scan ip [] = None"
| "add_scan ip (r # rs) =
     (let s1 = IPDecrease (From r); s2 = IPIncrease (To r) in
      if IP_Equal ip s1 then Some (r\<lparr>From := s1\<rparr> # rs)
      else if IP_Equal ip s2 then
        (case rs of
           [] \<Rightarrow> Some (r\<lparr>To := s2\<rparr> # rs)
         | nxt # rs' \<Rightarrow>
             if IP_Equal s2 (IPDecrease (From nxt)) then Some (nxt\<lparr>From := From r\<rparr> # rs')
             else Some (r\<lparr>To := s2\<rparr> # rs))
      else map_option ((#) r) (add_scan ip rs))"

definition AddIPToRange :: "net_IP \<Rightarrow> IPRange list \<Rightarrow> IPRange list" where
  "AddIPToRange ip ipRanges =
     (if ip = [] then ipRanges
      else if IPInRanges ip ipRanges then ipRanges
      else case add_scan ip ipRanges of
        Some rs \<Rightarrow> rs
      | None \<Rightarrow> sort_key From (ipRanges @ [\<lparr>From = ip, To = ip\<rparr>]))"

definition remove_from :: "net_IP \<Rightarrow> IPRange \<Rightarrow> IPRange list" where
  "remove_from ip r =
     (let start = To16 (From r); end = To16 (To r);
          a = bytes_Compare start ip; b = bytes_Compare end ip
      in if a < 0 \<and> b > 0 then
           [\<lparr>From = start, To = IPDecrease ip\<rparr>, \<lparr>From = IPIncrease ip, To = end\<rparr>]
         else if a = 0 \<and> b > 0 then [\<lparr>From = IPIncrease ip, To = end\<rparr>]
         else if a < 0 \<and> b = 0 then [\<lparr>From = start, To = IPDecrease ip\<rparr>]
         else if a = 0 \<and> b = 0 then []
         else [\<lparr>From = start, To = end\<rparr>])"

definition RemoveIPFromRange :: "net_IP \<Rightarrow> IPRange list \<Rightarrow> IPRange list" where
  "RemoveIPFromRange ip0 ipRanges =
     (let ip = To16 ip0 in
      if ip = [] then ipRanges
      else if \<not> IPInRanges ip ipRanges then ipRanges
      else sort_key From (concat (map (remove_from ip) ipRanges)))"

subsection \<open>Network and broadcast addresses\<close>

definition MaskXOR :: "IPMask \<Rightarrow> IPMask" where
  "MaskXOR m = (if m = [] then [] else map (\<lambda>b. b XOR 255) m)"

text \<open>\<open>a[i] += mask[i]\<close> for the indices of both.\<close>

fun add_mask :: "byte list \<Rightarrow> byte list \<Rightarrow> byte list" where
  "add_mask (a # as) (m # ms) = (a + m) # add_mask as ms"
| "add_mask as ms = as"

text \<open>The guard that opens the four functions below.\<close>

definition no_network :: "net_IP \<Rightarrow> IPNet option \<Rightarrow> bool" where
  "no_network ip network =
     (ip = [] \<or> (case network of None \<Rightarrow> True | Some n \<Rightarrow> NetIP n = [] \<or> NetMask n = []))"

definition IsBroadCast :: "net_IP \<Rightarrow> IPNet option \<Rightarrow> bool" where
  "IsBroadCast ip network =
     (case network of
        None \<Rightarrow> False
      | Some n \<Rightarrow>
          if no_network ip network then False
          else if To4 (NetIP n) \<noteq> [] then
            IP_Equal ip (add_mask (To4 (NetIP n)) (MaskXOR (NetMask n)))
          else if To16 (NetIP n) \<noteq> [] then
            IP_Equal ip (add_mask (To16 (NetIP n)) (MaskXOR (NetMask n)))
          else False)"

definition IsNetwork :: "net_IP \<Rightarrow> IPNet option \<Rightarrow> bool" where
  "IsNetwork ip network =
     (case network of
        None \<Rightarrow> False
      | Some n \<Rightarrow> if no_network ip network then False else IP_Equal ip (NetIP n))"

definition IPInNetwork :: "net_IP \<Rightarrow> IPNet option \<Rightarrow> bool" where
  "IPInNetwork ip network =
     (case network of
        None \<Rightarrow> False
      | Some n \<Rightarrow> if no_network ip network then False
                  else IP_Equal (IP_Mask ip (NetMask n)) (NetIP n))"

definition IsAvailableIP :: "net_IP \<Rightarrow> IPNet option \<Rightarrow> bool" where
  "IsAvailableIP ip network =
     (if no_network ip network then False
      else if \<not> IPInNetwork ip network then False
      else \<not> (IsBroadCast ip network \<or> IsNetwork ip network))"

subsection \<open>The allocator\<close>

text \<open>The skip over a used range that begins at \<open>start\<close>.\<close>

definition skip_used :: "net_IP \<Rightarrow> IPRange list \<Rightarrow> net_IP" where
  "skip_used start usedIPs =
     foldl (\<lambda>start u. if IP_Equal (From u) start then To16 (To u) else start) start usedIPs"

text \<open>
  The loop over one custom range. The loop variable \<open>ip\<close> and the variable \<open>start\<close> of the loop
  condition share their sixteen bytes, which \<open>IPIncrease\<close> changes in place.
\<close>

partial_function (option) scan_range ::
    "IPNet \<Rightarrow> IPRange list \<Rightarrow> net_IP \<Rightarrow> net_IP \<Rightarrow> net_IP option option" where
  "scan_range network usedIPs end ip =
     (if bytes_Compare ip end \<le> 0 then
        (if ip = [] \<or> \<not> IsAvailableIP ip (Some network) then
           scan_range network usedIPs end (IPIncrease ip)
         else if \<not> IPInRanges ip usedIPs then Some (Some ip)
         else scan_range network usedIPs end (IPIncrease ip))
      else Some None)"

text \<open>The loop over a whole network.\<close>

partial_function (option) scan_network ::
    "IPNet \<Rightarrow> IPRange list \<Rightarrow> net_IP \<Rightarrow> net_IP option option" where
  "scan_network network usedIPs ip =
     (if Contains network ip then
        (if To16 ip = [] \<or> \<not> IsAvailableIP (To16 ip) (Some network) then
           scan_network network usedIPs (IPIncrease (To16 ip))
         else if \<not> IPInRanges (To16 ip) usedIPs then Some (Some (To16 ip))
         else scan_network network usedIPs (IPIncrease (To16 ip)))
      else Some None)"

declare scan_range.simps [code] scan_network.simps [code]

fun scan_ranges :: "IPNet \<Rightarrow> IPRange list \<Rightarrow> IPRange list \<Rightarrow> net_IP option option" where
  "scan_ranges network usedIPs [] = Some None"
| "scan_ranges network usedIPs (r # rs) =
     (let start = skip_used (To16 (From r)) usedIPs; end = To16 (To r) in
      if start = [] \<or> end = [] then scan_ranges network usedIPs rs
      else case scan_range network usedIPs end start of
        None \<Rightarrow> None
      | Some (Some ip) \<Rightarrow> Some (Some ip)
      | Some None \<Rightarrow> scan_ranges network usedIPs rs)"

definition found_or_error :: "net_IP option \<Rightarrow> error + net_IP" where
  "found_or_error r = (case r of None \<Rightarrow> Inl (Sentinel ErrNoAvailableIP) | Some ip \<Rightarrow> Inr ip)"

definition GetAvailableIP ::
    "string \<Rightarrow> IPRange list \<Rightarrow> IPRange list \<Rightarrow> (error + net_IP) option" where
  "GetAvailableIP cidr ipRanges usedIPs =
     (case ParseCIDR cidr of
        Inl e \<Rightarrow> Some (Inl e)
      | Inr (ip, network) \<Rightarrow>
          if ipRanges \<noteq> [] then map_option found_or_error (scan_ranges network usedIPs ipRanges)
          else map_option found_or_error
            (scan_network network usedIPs
               (skip_used (IPIncrease (IP_Mask ip (NetMask network))) usedIPs)))"

subsection \<open>Conflicts between networks and between ranges\<close>

definition CheckNetworkConflict :: "string \<Rightarrow> string \<Rightarrow> error option" where
  "CheckNetworkConflict cidr1 cidr2 =
     (case ParseCIDR cidr1 of
        Inl e \<Rightarrow> Some (Wrapf ''failed to parse CIDR [%v]: %w'' [cidr1] e)
      | Inr (ip1, n1) \<Rightarrow>
          (case ParseCIDR cidr2 of
             Inl e \<Rightarrow> Some (Wrapf ''failed to parse CIDR [%v]: %w'' [cidr2] e)
           | Inr (ip2, n2) \<Rightarrow>
               if IP_Equal ip1 ip2 then
                 Some (Wrapf ''network [%v] already used: %w'' [cidr1] (Sentinel ErrNetworkConflict))
               else if Contains n1 ip2 then
                 Some (Wrapf ''network [%v] contains CIDR [%v]: %w'' [cidr1, cidr2]
                   (Sentinel ErrNetworkConflict))
               else if Contains n2 ip1 then
                 Some (Wrapf ''network [%v] contains CIDR [%v]: %w'' [cidr2, cidr1]
                   (Sentinel ErrNetworkConflict))
               else None))"

definition ipRangeConflict :: "IPRange \<Rightarrow> IPRange \<Rightarrow> error option" where
  "ipRangeConflict r1 r2 =
     (let a1 = To16 (From r1); a2 = To16 (To r1); b1 = To16 (From r2); b2 = To16 (To r2) in
      if a1 = [] \<or> a2 = [] then
        Some (Errorf ''invalid IP Range provided: %v'' [Print_IPRange r1])
      else if b1 = [] \<or> b2 = [] then
        Some (Errorf ''invalid IP Range provided: %v'' [Print_IPRange r2])
      else if IPInRanges a1 [\<lparr>From = b1, To = b2\<rparr>] \<or> IPInRanges a2 [\<lparr>From = b1, To = b2\<rparr>] then
        Some (Sentinel ErrIPRangesConflict)
      else if IPInRanges b1 [\<lparr>From = a1, To = a2\<rparr>] \<or> IPInRanges b2 [\<lparr>From = a1, To = a2\<rparr>] then
        Some (Sentinel ErrIPRangesConflict)
      else None)"

text \<open>The inner and the outer loop; the first conflict ends both.\<close>

fun conflict_with :: "IPRange \<Rightarrow> IPRange list \<Rightarrow> error option" where
  "conflict_with r1 [] = None"
| "conflict_with r1 (r2 # rs) =
     (case ipRangeConflict r1 r2 of
        Some e \<Rightarrow> Some (Wrapf ''range [%v] conflict with [%v]: %w''
                          [IPRange_String r1, IPRange_String r2] e)
      | None \<Rightarrow> conflict_with r1 rs)"

fun ranges_conflict :: "IPRange list \<Rightarrow> IPRange list \<Rightarrow> error option" where
  "ranges_conflict [] ranges2 = None"
| "ranges_conflict (r1 # rs) ranges2 =
     (case conflict_with r1 ranges2 of
        Some e \<Rightarrow> Some e
      | None \<Rightarrow> ranges_conflict rs ranges2)"

definition CheckIPRangesConflict :: "IPRange list \<Rightarrow> IPRange list \<Rightarrow> error option" where
  "CheckIPRangesConflict ranges1 ranges2 =
     (if ranges1 = [] \<or> ranges2 = [] then None else ranges_conflict ranges1 ranges2)"

end
