(* ===== verification/AddrRanges.thy ===== *)
theory AddrRanges
  imports Ipcalc
begin

text \<open>
  Correctness of the range lists of \<open>ipcalc.go\<close>: a list of ranges denotes a set of addresses, a
  canonical list (sixteen-byte bounds, sorted, disjoint, not even adjacent) is the only canonical
  list of its set, and \<open>AddIPToRange\<close> and \<open>RemoveIPFromRange\<close> are insertion and deletion on that set.
  The locale \<open>addr_store\<close> is the contract the controllers rely on.
\<close>

subsection \<open>Successor and predecessor as arithmetic\<close>

lemma length_inc_bytes [simp]: "length (inc_bytes bs) = length bs"
  by (induction bs) auto

lemma length_dec_bytes [simp]: "length (dec_bytes bs) = length bs"
  by (induction bs) auto

lemma length_IPIncrease [simp]: "length (IPIncrease ip) = length ip"
  by (simp add: IPIncrease_def)

lemma length_IPDecrease [simp]: "length (IPDecrease ip) = length ip"
  by (simp add: IPDecrease_def)

lemma bval_rev_Cons: "bval (rev (b # bs)) = bval (rev bs) * 256 + unat b"
  by (simp add: bval_append)

lemma unat_byte_inc: "b + 1 \<noteq> 0 \<Longrightarrow> unat (b + 1 :: byte) = unat b + 1"
  by (simp add: unat_word_ariths) (metis add.commute unat_byte_less Suc_eq_plus1 mod_less
      mod_Suc unat_eq_zero unatSuc)

lemma byte_minus_1: "(- 1 :: byte) = 255"
  by code_simp

lemma unat_byte_wrap: "b + 1 = 0 \<Longrightarrow> unat (b :: byte) = 255"
  by (simp add: eq_neg_iff_add_eq_0 [symmetric] byte_minus_1)

lemma bval_inc_bytes: "bval (rev (inc_bytes bs)) = (bval (rev bs) + 1) mod 256 ^ length bs"
proof (induction bs)
  case Nil
  show ?case by simp
next
  case (Cons b bs)
  have bound: "bval (rev bs) < 256 ^ length bs" using bval_less [of "rev bs"] by simp
  show ?case
  proof (cases "b + 1 = 0")
    case True
    then have b: "unat b = 255" by (rule unat_byte_wrap)
    have "bval (rev (inc_bytes (b # bs))) = (bval (rev bs) + 1) mod 256 ^ length bs * 256"
      using True Cons.IH by (simp del: rev.simps add: bval_rev_Cons)
    also have "\<dots> = ((bval (rev bs) + 1) * 256) mod (256 ^ length bs * 256)"
      by (rule mult_mod_left)
    finally show ?thesis by (simp del: rev.simps add: bval_rev_Cons b algebra_simps)
  next
    case False
    then have "0 < b + 1" by (simp add: word_neq_0_conv)
    then have "bval (rev (inc_bytes (b # bs))) = bval (rev bs) * 256 + (unat b + 1)"
      using unat_byte_inc [OF False] by (simp del: rev.simps add: bval_rev_Cons)
    moreover have "unat b + 1 < 256"
      using unat_byte_inc [OF False] unat_byte_less [of "b + 1"] by simp
    then have "bval (rev bs) * 256 + (unat b + 1) < 256 ^ length (b # bs)"
      using bound by simp
    ultimately show ?thesis by (simp del: rev.simps add: bval_rev_Cons)
  qed
qed

lemma bval_IPIncrease: "bval (IPIncrease ip) = (bval ip + 1) mod 256 ^ length ip"
  using bval_inc_bytes [of "rev ip"] by (simp add: IPIncrease_def)

lemma inc_dec_bytes: "inc_bytes (dec_bytes bs) = bs"
proof (induction bs)
  case (Cons b bs)
  have "b - 1 = 255 \<longleftrightarrow> b = 0" by (simp add: byte_minus_1 [symmetric] diff_eq_eq)
  then show ?case using Cons.IH by (auto simp: word_neq_0_conv)
qed simp

lemma IPIncrease_IPDecrease [simp]: "IPIncrease (IPDecrease ip) = ip"
  by (simp add: IPIncrease_def IPDecrease_def inc_dec_bytes)

text \<open>On sixteen bytes, away from the two ends of the address space.\<close>

definition addr_max :: nat where
  "addr_max = 256 ^ 16 - 1"

lemma addr_le_max: "length ip = 16 \<Longrightarrow> bval ip \<le> addr_max"
  using bval_less [of ip] by (simp add: addr_max_def)

lemma bval_inc16: "length ip = 16 \<Longrightarrow> bval ip < addr_max \<Longrightarrow> bval (IPIncrease ip) = bval ip + 1"
  by (simp add: bval_IPIncrease addr_max_def)

lemma bval_dec16:
  assumes "length ip = 16" and "0 < bval ip"
  shows "bval (IPDecrease ip) + 1 = bval ip"
proof -
  let ?v = "bval (IPDecrease ip)"
  have v: "?v < 256 ^ 16" using bval_less [of "IPDecrease ip"] assms by simp
  have "(?v + 1) mod 256 ^ 16 = bval ip"
    using bval_IPIncrease [of "IPDecrease ip"] assms by simp
  with assms v show ?thesis by (cases "?v + 1 = 256 ^ 16") auto
qed

lemma bval_dec16_zero:
  assumes "length ip = 16" and "bval ip = 0"
  shows "bval (IPDecrease ip) = addr_max"
proof -
  let ?v = "bval (IPDecrease ip)"
  have v: "?v < 256 ^ 16" using bval_less [of "IPDecrease ip"] assms by simp
  have "(?v + 1) mod 256 ^ 16 = 0"
    using bval_IPIncrease [of "IPDecrease ip"] assms by simp
  with v show ?thesis by (cases "?v + 1 = 256 ^ 16") (auto simp: addr_max_def)
qed

lemma bval_inc16_max: "length ip = 16 \<Longrightarrow> bval ip = addr_max \<Longrightarrow> bval (IPIncrease ip) = 0"
  by (simp add: bval_IPIncrease addr_max_def)

subsection \<open>The set of addresses of a list of ranges\<close>

definition range16 :: "IPRange \<Rightarrow> bool" where
  "range16 r \<longleftrightarrow> length (From r) = 16 \<and> length (To r) = 16 \<and> bval (From r) \<le> bval (To r)"

definition range_set :: "IPRange \<Rightarrow> nat set" where
  "range_set r = {bval (From r) .. bval (To r)}"

definition ranges_set :: "IPRange list \<Rightarrow> nat set" where
  "ranges_set rs = (\<Union>r \<in> set rs. range_set r)"

definition canon :: "IPRange list \<Rightarrow> bool" where
  "canon rs \<longleftrightarrow> list_all range16 rs \<and> sorted_wrt (\<lambda>r s. bval (To r) + 1 < bval (From s)) rs"

lemma ranges_set_simps [simp]:
  "ranges_set [] = {}"
  "ranges_set (r # rs) = range_set r \<union> ranges_set rs"
  "ranges_set (xs @ ys) = ranges_set xs \<union> ranges_set ys"
  by (auto simp: ranges_set_def)

lemma IPInRanges_iff:
  assumes "list_all range16 rs" and "length ip = 16"
  shows "IPInRanges ip rs \<longleftrightarrow> bval ip \<in> ranges_set rs"
proof -
  have "(if From r = [] \<or> To r = [] then False
         else bytes_Compare ip (To16 (From r)) \<ge> 0 \<and> bytes_Compare ip (To16 (To r)) \<le> 0) \<longleftrightarrow>
        bval ip \<in> range_set r" if "range16 r" for r
    using that assms(2)
    by (auto simp: range16_def range_set_def bytes_Compare_ge bytes_Compare_le)
  moreover have "ip \<noteq> []" using assms(2) by auto
  ultimately show ?thesis
    using assms
    by (auto simp: IPInRanges_def Let_def list_ex_iff list_all_iff ranges_set_def
        simp del: if_False)
qed

lemma range_set_bounds:
  "range16 r \<Longrightarrow> bval (From r) \<in> range_set r" "range16 r \<Longrightarrow> bval (To r) \<in> range_set r"
  by (auto simp: range16_def range_set_def)

lemma canon_Nil [simp]: "canon []"
  by (simp add: canon_def)

lemma canon_append:
  "canon (xs @ ys) \<longleftrightarrow> canon xs \<and> canon ys \<and> (\<forall>x \<in> ranges_set xs. \<forall>y \<in> ranges_set ys. x + 1 < y)"
proof -
  have "(\<forall>r \<in> set xs. \<forall>s \<in> set ys. bval (To r) + 1 < bval (From s)) \<longleftrightarrow>
      (\<forall>x \<in> ranges_set xs. \<forall>y \<in> ranges_set ys. x + 1 < y)"
    if "list_all range16 xs" "list_all range16 ys"
  proof
    assume *: "\<forall>r \<in> set xs. \<forall>s \<in> set ys. bval (To r) + 1 < bval (From s)"
    show "\<forall>x \<in> ranges_set xs. \<forall>y \<in> ranges_set ys. x + 1 < y"
      using * by (fastforce simp: ranges_set_def range_set_def)
  next
    assume *: "\<forall>x \<in> ranges_set xs. \<forall>y \<in> ranges_set ys. x + 1 < y"
    have "bval (To r) \<in> ranges_set xs" if "r \<in> set xs" for r
      using that \<open>list_all range16 xs\<close> range_set_bounds
      by (auto simp: ranges_set_def list_all_iff)
    moreover have "bval (From s) \<in> ranges_set ys" if "s \<in> set ys" for s
      using that \<open>list_all range16 ys\<close> range_set_bounds
      by (auto simp: ranges_set_def list_all_iff)
    ultimately show "\<forall>r \<in> set xs. \<forall>s \<in> set ys. bval (To r) + 1 < bval (From s)"
      using * by blast
  qed
  then show ?thesis by (auto simp: canon_def sorted_wrt_append)
qed

lemma canon_Cons:
  "canon (r # rs) \<longleftrightarrow> range16 r \<and> canon rs \<and> (\<forall>x \<in> ranges_set rs. bval (To r) + 1 < x)"
proof -
  have "canon [r] \<longleftrightarrow> range16 r" by (simp add: canon_def)
  moreover have "(\<forall>x \<in> range_set r. \<forall>y \<in> ranges_set rs. x + 1 < y) \<longleftrightarrow>
      (\<forall>y \<in> ranges_set rs. bval (To r) + 1 < y)" if "range16 r"
    using range_set_bounds(2) [OF that] by (fastforce simp: range_set_def)
  ultimately show ?thesis using canon_append [of "[r]" rs] by auto
qed

lemma canon_range16: "canon rs \<Longrightarrow> list_all range16 rs"
  by (simp add: canon_def)

text \<open>A canonical list is determined by its set.\<close>

lemma canon_first:
  assumes "canon (r # rs)"
  shows "bval (From r) \<in> ranges_set (r # rs)"
    and "\<And>x. x \<in> ranges_set (r # rs) \<Longrightarrow> bval (From r) \<le> x"
    and "bval (To r) + 1 \<notin> ranges_set (r # rs)"
    and "ranges_set rs = ranges_set (r # rs) - {.. bval (To r)}"
  using assms by (force simp: canon_Cons range16_def range_set_def)+

lemma canon_unique: "canon rs \<Longrightarrow> canon ts \<Longrightarrow> ranges_set rs = ranges_set ts \<Longrightarrow> rs = ts"
proof (induction rs arbitrary: ts)
  case Nil
  then show ?case by (cases ts) (use canon_first(1) in fastforce)+
next
  case (Cons r rs)
  then obtain t us where ts: "ts = t # us"
    using canon_first(1) [OF Cons.prems(1)] by (cases ts) auto
  note r = Cons.prems(1) and t = Cons.prems(2) [unfolded ts]
  have set: "ranges_set (r # rs) = ranges_set (t # us)" using Cons.prems(3) ts by simp
  have r16: "range16 r" "range16 t" using r t by (simp_all add: canon_Cons)
  have fr: "bval (From r) = bval (From t)"
    using canon_first(1,2) [OF r] canon_first(1,2) [OF t] set by (metis le_antisym)
  have to: "bval (To r) = bval (To t)"
  proof (rule ccontr)
    assume "bval (To r) \<noteq> bval (To t)"
    then consider "bval (To r) < bval (To t)" | "bval (To t) < bval (To r)" by linarith
    then show False
    proof cases
      case 1
      then have "bval (To r) + 1 \<in> range_set t"
        using fr r16 by (auto simp: range_set_def range16_def)
      then show False using canon_first(3) [OF r] unfolding set by simp
    next
      case 2
      then have "bval (To t) + 1 \<in> range_set r"
        using fr r16 by (auto simp: range_set_def range16_def)
      then show False using canon_first(3) [OF t] unfolding set [symmetric] by simp
    qed
  qed
  have "ranges_set rs = ranges_set us"
    using canon_first(4) [OF r] canon_first(4) [OF t] set to by simp
  then have "rs = us" using Cons.IH r t by (simp add: canon_Cons)
  moreover have "r = t"
    using fr to r16 by (simp add: range16_def bval_inj)
  ultimately show ?case by (simp add: ts)
qed

subsection \<open>AddIPToRange is insertion\<close>

text \<open>An address of sixteen bytes that is neither \<open>::\<close> nor the last address.\<close>

definition inner_addr :: "net_IP \<Rightarrow> bool" where
  "inner_addr ip \<longleftrightarrow> length ip = 16 \<and> ip \<noteq> replicate 16 0 \<and> ip \<noteq> replicate 16 255"

lemma bval_replicate_0: "bval (replicate n 0) = 0"
  by (induction n) simp_all

lemma bval_replicate_255: "bval (replicate n 255) + 1 = 256 ^ n"
  by (induction n) simp_all

lemma bval_ends:
  "bval (replicate 16 0) = 0" "bval (replicate 16 255) = addr_max"
  using bval_replicate_0 [of 16] bval_replicate_255 [of 16]
  by (simp_all only: addr_max_def)

lemma inner_addr_iff: "inner_addr ip \<longleftrightarrow> length ip = 16 \<and> 0 < bval ip \<and> bval ip < addr_max"
proof -
  have "ip = replicate 16 0 \<longleftrightarrow> bval ip = 0" if "length ip = 16"
    using that bval_inj [of ip "replicate 16 0"] bval_ends(1) by simp
  moreover have "ip = replicate 16 255 \<longleftrightarrow> bval ip = addr_max" if "length ip = 16"
    using that bval_inj [of ip "replicate 16 255"] bval_ends(2) by simp
  ultimately show ?thesis
    using addr_le_max [of ip] by (auto simp: inner_addr_def)
qed

text \<open>What the two tests of the scan mean for an inner address.\<close>

lemma eq_IPDecrease:
  assumes "inner_addr ip" and "length x = 16"
  shows "IP_Equal ip (IPDecrease x) \<longleftrightarrow> bval ip + 1 = bval x"
proof -
  have "IP_Equal ip (IPDecrease x) \<longleftrightarrow> bval ip = bval (IPDecrease x)"
    using assms by (simp add: inner_addr_iff bval_inj)
  also have "\<dots> \<longleftrightarrow> bval ip + 1 = bval x"
    using assms bval_dec16 [of x] bval_dec16_zero [of x]
    by (cases "bval x = 0") (auto simp: inner_addr_iff)
  finally show ?thesis .
qed

lemma eq_IPIncrease:
  assumes "inner_addr ip" and "length x = 16"
  shows "IP_Equal ip (IPIncrease x) \<longleftrightarrow> bval ip = bval x + 1"
proof -
  have "IP_Equal ip (IPIncrease x) \<longleftrightarrow> bval ip = bval (IPIncrease x)"
    using assms by (simp add: inner_addr_iff bval_inj)
  also have "\<dots> \<longleftrightarrow> bval ip = bval x + 1"
    using assms bval_inc16 [of x] bval_inc16_max [of x] addr_le_max [of x]
    by (cases "bval x = addr_max") (auto simp: inner_addr_iff)
  finally show ?thesis .
qed

lemma add_scan_None_iff:
  assumes "inner_addr ip"
  shows "list_all range16 rs \<Longrightarrow> add_scan ip rs = None \<longleftrightarrow>
    (\<forall>r \<in> set rs. bval ip + 1 \<noteq> bval (From r) \<and> bval ip \<noteq> bval (To r) + 1)"
proof (induction rs)
  case (Cons r rs)
  have rs: "list_all range16 rs" using Cons.prems by simp
  have r: "length (From r) = 16" "length (To r) = 16"
    using Cons.prems by (simp_all add: range16_def)
  show ?case
    using Cons.IH [OF rs] eq_IPDecrease [OF assms r(1)] eq_IPIncrease [OF assms r(2)]
    by (auto simp: Let_def split: list.split)
qed simp

lemma add_scan_below:
  assumes "inner_addr ip" and "canon rs" and "\<And>x. x \<in> ranges_set rs \<Longrightarrow> bval ip + 1 < x"
  shows "add_scan ip rs = None"
proof -
  have "bval ip + 1 \<noteq> bval (From r) \<and> bval ip \<noteq> bval (To r) + 1" if "r \<in> set rs" for r
  proof -
    have "range16 r" using canon_range16 [OF assms(2)] that by (simp add: list_all_iff)
    then have "bval (From r) \<in> ranges_set rs" and "bval (From r) \<le> bval (To r)"
      using that range_set_bounds(1) by (auto simp: ranges_set_def range16_def)
    then show ?thesis using assms(3) by fastforce
  qed
  then show ?thesis using add_scan_None_iff [OF assms(1) canon_range16 [OF assms(2)]] by blast
qed

lemma canon_ConsD:
  assumes "canon (r # rs)"
  shows "range16 r" "canon rs" "length (From r) = 16" "length (To r) = 16" "bval (From r) \<le> bval (To r)"
    "x \<in> ranges_set rs \<Longrightarrow> bval (To r) + 1 < x"
  using assms by (auto simp: canon_Cons range16_def)

lemma add_scan_low:
  assumes ip: "inner_addr ip" and "canon (r # rs)" and low: "bval ip + 1 = bval (From r)" and run: "add_scan ip (r # rs) = Some ts"
  shows "canon ts \<and> ranges_set ts = insert (bval ip) (ranges_set (r # rs))"
proof -
  note r = canon_ConsD(1,2,6) [OF assms(2)] and len = canon_ConsD(3-5) [OF assms(2)]
  have s1: "IP_Equal ip (IPDecrease (From r))" using ip len low by (simp add: eq_IPDecrease)
  have "bval (IPDecrease (From r)) = bval ip" using low bval_dec16 [of "From r"] len by simp
  then have "range_set (r\<lparr>From := IPDecrease (From r)\<rparr>) = insert (bval ip) (range_set r)"
    and "range16 (r\<lparr>From := IPDecrease (From r)\<rparr>)"
    using low len by (auto simp: range_set_def range16_def)
  moreover have "ts = r\<lparr>From := IPDecrease (From r)\<rparr> # rs"
    using run s1 by (simp add: Let_def)
  ultimately show ?thesis using r by (simp add: canon_Cons)
qed

lemma add_scan_high:
  assumes ip: "inner_addr ip" and "canon (r # rs)" and high: "bval ip = bval (To r) + 1" "\<not> bval ip + 1 = bval (From r)"
    and run: "add_scan ip (r # rs) = Some ts"
  shows "canon ts \<and> ranges_set ts = insert (bval ip) (ranges_set (r # rs))"
proof -
  note r = canon_ConsD(1,2,6) [OF assms(2)] and len = canon_ConsD(3-5) [OF assms(2)]
  have inc: "bval (IPIncrease (To r)) = bval ip"
    using high ip len addr_le_max [of "To r"] by (simp add: bval_inc16 inner_addr_iff)
  have low: "\<not> IP_Equal ip (IPDecrease (From r))" "IP_Equal ip (IPIncrease (To r))"
    using ip len high by (simp_all add: eq_IPDecrease eq_IPIncrease)
  have inner: "inner_addr (IPIncrease (To r))"
    using ip inc len by (simp add: inner_addr_iff)
  show ?thesis
  proof (cases "\<exists>nxt us. rs = nxt # us \<and> bval ip + 1 = bval (From nxt)")
    case True
    then obtain nxt us where rs: "rs = nxt # us" and nxt: "bval ip + 1 = bval (From nxt)" by blast
    have n16: "range16 nxt" using r(2) rs by (simp add: canon_Cons)
    then have "IP_Equal (IPIncrease (To r)) (IPDecrease (From nxt))"
      using nxt inner inc by (simp add: eq_IPDecrease range16_def)
    then have ts: "ts = nxt\<lparr>From := From r\<rparr> # us"
      using run low rs by (simp add: Let_def)
    have "range_set (nxt\<lparr>From := From r\<rparr>) = insert (bval ip) (range_set r \<union> range_set nxt)"
      and "range16 (nxt\<lparr>From := From r\<rparr>)"
      using high nxt len n16 by (auto simp: range_set_def range16_def)
    then show ?thesis using r(2) ts rs by (auto simp: canon_Cons)
  next
    case False
    then have ts: "ts = r\<lparr>To := IPIncrease (To r)\<rparr> # rs"
    proof (cases rs)
      case Nil
      then show ?thesis using run low by (simp add: Let_def)
    next
      case (Cons nxt us)
      then have "length (From nxt) = 16" using r(2) by (simp add: canon_Cons range16_def)
      then have "\<not> IP_Equal (IPIncrease (To r)) (IPDecrease (From nxt))"
        using False Cons eq_IPDecrease [OF inner] inc by simp
      then show ?thesis using run low Cons by (simp add: Let_def)
    qed
    have "range_set (r\<lparr>To := IPIncrease (To r)\<rparr>) = insert (bval ip) (range_set r)"
      and r16: "range16 (r\<lparr>To := IPIncrease (To r)\<rparr>)"
      using high len inc by (auto simp: range_set_def range16_def)
    moreover have "bval ip + 1 < x" if "x \<in> ranges_set rs" for x
    proof (cases rs)
      case (Cons nxt us)
      then have "bval (From nxt) \<le> x" using canon_first(2) [of nxt us x] r(2) that by simp
      moreover have "bval (To r) + 1 < bval (From nxt)"
        using r(3) canon_first(1) [of nxt us] r(2) Cons by simp
      ultimately show ?thesis using False Cons high by fastforce
    qed (use that in simp)
    ultimately show ?thesis using r ts inc by (simp add: canon_Cons)
  qed
qed

lemma add_scan_Some:
  assumes "inner_addr ip" and "canon rs" and "bval ip \<notin> ranges_set rs" and "add_scan ip rs = Some ts"
  shows "canon ts \<and> ranges_set ts = insert (bval ip) (ranges_set rs)"
  using assms(2-)
proof (induction rs arbitrary: ts)
  case (Cons r rs)
  note ip = assms(1) and r = canon_ConsD(1,2,6) [OF Cons.prems(1)] and len = canon_ConsD(3-5) [OF Cons.prems(1)]
  show ?case
  proof (cases "bval ip + 1 = bval (From r) \<or> bval ip = bval (To r) + 1")
    case True
    then show ?thesis
      using add_scan_low [OF ip Cons.prems(1) _ Cons.prems(3)] add_scan_high [OF ip Cons.prems(1) _ _ Cons.prems(3)] by blast
  next
    case other: False
    then have "\<not> IP_Equal ip (IPDecrease (From r))" "\<not> IP_Equal ip (IPIncrease (To r))"
      using ip len by (simp_all add: eq_IPDecrease eq_IPIncrease)
    then obtain us where us: "add_scan ip rs = Some us" and ts: "ts = r # us"
      using Cons.prems(3) by (auto simp: Let_def)
    have out: "bval ip \<notin> range_set r" "bval ip \<notin> ranges_set rs" using Cons.prems(2) by simp_all
    have IH: "canon us" "ranges_set us = insert (bval ip) (ranges_set rs)"
      using Cons.IH [OF r(2) out(2) us] by simp_all
    have "bval (To r) + 1 < bval ip"
    proof (rule ccontr)
      assume "\<not> bval (To r) + 1 < bval ip"
      then have lt: "bval ip + 1 < bval (From r)"
        using other out len by (auto simp: range_set_def)
      have "bval ip + 1 < x" if "x \<in> ranges_set rs" for x
        using r(3) [OF that] lt len(3) by linarith
      then have "add_scan ip rs = None" using add_scan_below [OF ip r(2)] by blast
      then show False using us by simp
    qed
    then show ?thesis using IH r ts by (auto simp: canon_Cons)
  qed
qed simp

text \<open>Sorting a list of separated ranges by their first address makes it canonical.\<close>

definition separated :: "IPRange \<Rightarrow> IPRange \<Rightarrow> bool" where
  "separated r s \<longleftrightarrow> bval (To r) + 1 < bval (From s) \<or> bval (To s) + 1 < bval (From r)"

lemma separated_commute: "separated r s \<longleftrightarrow> separated s r"
  by (auto simp: separated_def)

lemma canon_sort:
  assumes r16: "list_all range16 xs" and "distinct xs"
    and sep: "\<And>r s. r \<in> set xs \<Longrightarrow> s \<in> set xs \<Longrightarrow> r \<noteq> s \<Longrightarrow> separated r s"
  shows "canon (sort_key From xs)"
proof -
  let ?ys = "sort_key From xs"
  have "bval (To (?ys ! i)) + 1 < bval (From (?ys ! j))" if "i < j" "j < length ?ys" for i j
  proof -
    have mem: "?ys ! i \<in> set xs" "?ys ! j \<in> set xs"
      using that nth_mem [of i ?ys] nth_mem [of j ?ys] by simp_all
    have "?ys ! i \<noteq> ?ys ! j"
      using that assms(2) nth_eq_iff_index_eq [of ?ys i j] by simp
    then have "separated (?ys ! i) (?ys ! j)" using sep mem by blast
    moreover have "From (?ys ! i) \<le> From (?ys ! j)"
      using that sorted_nth_mono [of "map From ?ys" i j] by simp
    then have "bval (From (?ys ! i)) \<le> bval (From (?ys ! j))"
      using mem r16 by (simp add: bval_le_iff_list range16_def list_all_iff)
    moreover have "bval (From (?ys ! j)) \<le> bval (To (?ys ! j))"
      using mem r16 by (simp add: range16_def list_all_iff)
    ultimately show ?thesis by (auto simp: separated_def)
  qed
  then show ?thesis
    using r16 by (auto simp: canon_def list_all_iff sorted_wrt_iff_nth_less)
qed

lemma canon_separated:
  assumes "canon rs" and "r \<in> set rs" and "s \<in> set rs" and "r \<noteq> s"
  shows "separated r s"
proof -
  obtain i j where i: "i < length rs" "r = rs ! i" and j: "j < length rs" "s = rs ! j"
    using assms(2,3) by (auto simp: in_set_conv_nth)
  then have "i \<noteq> j" using assms(4) by blast
  then show ?thesis
    using assms(1) i j
    by (cases i j rule: linorder_cases) (auto simp: canon_def sorted_wrt_iff_nth_less separated_def)
qed

lemma canon_distinct: "canon rs \<Longrightarrow> distinct rs"
proof (induction rs)
  case (Cons r rs)
  have "r \<notin> set rs"
  proof
    assume "r \<in> set rs"
    moreover have r16: "range16 r" using Cons.prems by (simp add: canon_Cons)
    ultimately have "bval (From r) \<in> ranges_set rs"
      using range_set_bounds(1) by (auto simp: ranges_set_def)
    then show False using Cons.prems r16 by (auto simp: canon_Cons range16_def)
  qed
  then show ?case using Cons by (simp add: canon_Cons)
qed simp

lemma canon_sort_id: "canon rs \<Longrightarrow> sort_key From rs = rs"
proof -
  assume c: "canon rs"
  have "From (rs ! i) \<le> From (rs ! j)" if "i < j" "j < length rs" for i j
  proof -
    have "bval (To (rs ! i)) + 1 < bval (From (rs ! j))"
      using c that by (simp add: canon_def sorted_wrt_iff_nth_less)
    moreover have "range16 (rs ! i)" "range16 (rs ! j)"
      using c that nth_mem [of i rs] nth_mem [of j rs] by (simp_all add: canon_def list_all_iff)
    ultimately show ?thesis by (simp add: range16_def bval_le_iff_list)
  qed
  then have "sorted (map From rs)" by (auto simp: sorted_wrt_iff_nth_less)
  then show ?thesis by (rule sort_key_id_if_sorted)
qed

text \<open>The branch that appends a new range and sorts.\<close>

lemma add_append:
  assumes ip: "inner_addr ip" and rs: "canon rs" and out: "bval ip \<notin> ranges_set rs"
    and none: "add_scan ip rs = None"
  shows "canon (sort_key From (rs @ [\<lparr>From = ip, To = ip\<rparr>]))"
    and "ranges_set (sort_key From (rs @ [\<lparr>From = ip, To = ip\<rparr>])) = insert (bval ip) (ranges_set rs)"
proof -
  let ?n = "\<lparr>From = ip, To = ip\<rparr>"
  have sep: "separated r ?n" if "r \<in> set rs" for r
  proof -
    have "bval ip + 1 \<noteq> bval (From r) \<and> bval ip \<noteq> bval (To r) + 1"
      using none add_scan_None_iff [OF ip canon_range16 [OF rs]] that by blast
    moreover have "bval ip \<notin> range_set r" using out that by (auto simp: ranges_set_def)
    ultimately show ?thesis by (auto simp: separated_def range_set_def)
  qed
  have new: "range16 ?n" using ip by (simp add: inner_addr_def range16_def)
  have "?n \<notin> set rs"
    using out range_set_bounds(1) [OF new] by (auto simp: ranges_set_def)
  moreover have "separated r s" if "r \<in> set (rs @ [?n])" "s \<in> set (rs @ [?n])" "r \<noteq> s" for r s
    using that canon_separated [OF rs] sep [of r] sep [of s] separated_commute [of s r] by auto
  ultimately show "canon (sort_key From (rs @ [?n]))"
    using canon_range16 [OF rs] canon_distinct [OF rs] new by (intro canon_sort) auto
  show "ranges_set (sort_key From (rs @ [?n])) = insert (bval ip) (ranges_set rs)"
    by (auto simp: ranges_set_def range_set_def)
qed

lemma AddIPToRange_inserts:
  assumes ip: "inner_addr ip" and rs: "canon rs"
  shows "canon (AddIPToRange ip rs) \<and> ranges_set (AddIPToRange ip rs) = insert (bval ip) (ranges_set rs)"
proof -
  have len: "length ip = 16" "ip \<noteq> []" using ip by (auto simp: inner_addr_def)
  show ?thesis
  proof (cases "bval ip \<in> ranges_set rs")
    case True
    then show ?thesis
      using rs len IPInRanges_iff [OF canon_range16 [OF rs] len(1)]
      by (auto simp: AddIPToRange_def)
  next
    case False
    then have *: "AddIPToRange ip rs = (case add_scan ip rs of Some ts \<Rightarrow> ts
        | None \<Rightarrow> sort_key From (rs @ [\<lparr>From = ip, To = ip\<rparr>]))"
      using len IPInRanges_iff [OF canon_range16 [OF rs] len(1)] by (simp add: AddIPToRange_def)
    show ?thesis
      using add_append [OF ip rs False] add_scan_Some [OF ip rs False]
      by (cases "add_scan ip rs") (simp_all add: *)
  qed
qed

subsection \<open>RemoveIPFromRange is deletion\<close>

lemma remove_from_range:
  assumes ip: "length ip = 16" and r: "range16 r"
  shows "canon (remove_from ip r) \<and> ranges_set (remove_from ip r) = range_set r - {bval ip}"
proof -
  have len: "length (From r) = 16" "length (To r) = 16" "bval (From r) \<le> bval (To r)"
    using r by (simp_all add: range16_def)
  have inc: "bval (IPIncrease ip) = bval ip + 1" if "bval ip < bval (To r)"
    using that ip len addr_le_max [of "To r"] by (simp add: bval_inc16)
  have eq: "bytes_Compare x ip = 0 \<longleftrightarrow> bval x = bval ip" if "length x = 16" for x
    using that ip by (simp add: bytes_Compare_eq bval_inj)
  have dec: "bval (IPDecrease ip) = bval ip - 1" if "bval (From r) < bval ip"
    using that ip bval_dec16 [of ip] by simp
  consider (mid) "bval (From r) < bval ip" "bval ip < bval (To r)"
    | (first) "bval (From r) = bval ip" "bval ip < bval (To r)"
    | (last) "bval (From r) < bval ip" "bval ip = bval (To r)"
    | (only) "bval (From r) = bval ip" "bval ip = bval (To r)"
    | (below) "bval ip < bval (From r)" | (above) "bval (To r) < bval ip"
    using len by linarith
  note cs = this
  show ?thesis
    using ip len
    by (cases rule: cs)
      (auto simp: remove_from_def Let_def bytes_Compare_less bytes_Compare_gr eq
        canon_Cons range16_def range_set_def inc dec)
qed


lemma canon_remove:
  assumes ip: "length ip = 16"
  shows "canon rs \<Longrightarrow> canon (concat (map (remove_from ip) rs)) \<and>
    ranges_set (concat (map (remove_from ip) rs)) = ranges_set rs - {bval ip}"
proof (induction rs)
  case (Cons r rs)
  have r: "range16 r" "canon rs" "\<And>x. x \<in> ranges_set rs \<Longrightarrow> bval (To r) + 1 < x"
    using Cons.prems by (auto simp: canon_Cons)
  let ?a = "remove_from ip r" and ?b = "concat (map (remove_from ip) rs)"
  have a: "canon ?a" "ranges_set ?a = range_set r - {bval ip}"
    using remove_from_range [OF ip r(1)] by simp_all
  have b: "canon ?b" "ranges_set ?b = ranges_set rs - {bval ip}" using Cons.IH r(2) by simp_all
  have "x + 1 < y" if "x \<in> ranges_set ?a" "y \<in> ranges_set ?b" for x y
    using that a(2) b(2) r(3) [of y] by (simp add: range_set_def)
  then have "canon (?a @ ?b)" using a(1) b(1) unfolding canon_append by blast
  moreover have "ranges_set (?a @ ?b) = ranges_set (r # rs) - {bval ip}"
    unfolding ranges_set_simps a(2) b(2) by blast
  ultimately show ?case by simp
qed simp

lemma RemoveIPFromRange_deletes:
  assumes ip: "length ip = 16" and rs: "canon rs"
  shows "canon (RemoveIPFromRange ip rs) \<and> ranges_set (RemoveIPFromRange ip rs) = ranges_set rs - {bval ip}"
proof -
  have "To16 ip = ip" "ip \<noteq> []" using ip by auto
  then have "RemoveIPFromRange ip rs =
      (if bval ip \<in> ranges_set rs then concat (map (remove_from ip) rs) else rs)"
    using canon_remove [OF ip rs] IPInRanges_iff [OF canon_range16 [OF rs] ip]
    by (simp add: RemoveIPFromRange_def canon_sort_id)
  then show ?thesis using canon_remove [OF ip rs] rs by simp
qed

subsection \<open>The contract of an address store\<close>

text \<open>
  What the controllers rely on: the store denotes a set of addresses, adding and removing are
  insertion and deletion on it, membership is membership, and a set has one representation, so
  that two stores may be compared with \<open>reflect.DeepEqual\<close>.
\<close>

locale addr_store =
  fixes add :: "'a \<Rightarrow> 's \<Rightarrow> 's"
    and rem :: "'a \<Rightarrow> 's \<Rightarrow> 's"
    and mem :: "'a \<Rightarrow> 's \<Rightarrow> bool"
    and addrs :: "'s \<Rightarrow> 'n set"
    and num :: "'a \<Rightarrow> 'n"
    and wf :: "'s \<Rightarrow> bool"
    and ok :: "'a \<Rightarrow> bool"
  assumes wf_add: "ok a \<Longrightarrow> wf s \<Longrightarrow> wf (add a s)"
    and addrs_add: "ok a \<Longrightarrow> wf s \<Longrightarrow> addrs (add a s) = insert (num a) (addrs s)"
    and wf_rem: "ok a \<Longrightarrow> wf s \<Longrightarrow> wf (rem a s)"
    and addrs_rem: "ok a \<Longrightarrow> wf s \<Longrightarrow> addrs (rem a s) = addrs s - {num a}"
    and mem_iff: "ok a \<Longrightarrow> wf s \<Longrightarrow> mem a s \<longleftrightarrow> num a \<in> addrs s"
    and canonical: "wf s \<Longrightarrow> wf t \<Longrightarrow> addrs s = addrs t \<Longrightarrow> s = t"
begin

lemma mem_add: "ok a \<Longrightarrow> ok b \<Longrightarrow> wf s \<Longrightarrow> mem b (add a s) \<longleftrightarrow> num b = num a \<or> mem b s"
  by (simp add: mem_iff wf_add addrs_add)

lemma mem_rem: "ok a \<Longrightarrow> ok b \<Longrightarrow> wf s \<Longrightarrow> mem b (rem a s) \<longleftrightarrow> num b \<noteq> num a \<and> mem b s"
  by (auto simp: mem_iff wf_rem addrs_rem)

lemma rem_add: "ok a \<Longrightarrow> wf s \<Longrightarrow> \<not> mem a s \<Longrightarrow> rem a (add a s) = s"
  by (rule canonical) (auto simp: wf_add wf_rem addrs_add addrs_rem mem_iff)

lemma add_rem: "ok a \<Longrightarrow> wf s \<Longrightarrow> mem a s \<Longrightarrow> add a (rem a s) = s"
  by (rule canonical) (auto simp: wf_add wf_rem addrs_add addrs_rem mem_iff)

lemma add_commute: "ok a \<Longrightarrow> ok b \<Longrightarrow> wf s \<Longrightarrow> add a (add b s) = add b (add a s)"
  by (rule canonical) (auto simp: wf_add addrs_add)

lemma add_rem_commute:
  "ok a \<Longrightarrow> ok b \<Longrightarrow> wf s \<Longrightarrow> num a \<noteq> num b \<Longrightarrow> add a (rem b s) = rem b (add a s)"
  by (rule canonical) (auto simp: wf_add wf_rem addrs_add addrs_rem)

lemma fold_add:
  "list_all ok as \<Longrightarrow> wf s \<Longrightarrow> wf (fold add as s) \<and> addrs (fold add as s) = addrs s \<union> num ` set as"
  by (induction as arbitrary: s) (auto simp: wf_add addrs_add)

lemma fold_add_order:
  assumes "list_all ok as" and "list_all ok bs" and "wf s" and "num ` set as = num ` set bs"
  shows "fold add as s = fold add bs s"
  using fold_add [OF assms(1,3)] fold_add [OF assms(2,3)] assms(4) by (intro canonical) auto

end

interpretation rng: addr_store AddIPToRange RemoveIPFromRange IPInRanges ranges_set bval canon inner_addr
proof (unfold_locales, goal_cases)
  case (5 a s)
  then show ?case by (simp add: IPInRanges_iff canon_range16 inner_addr_def)
next
  case (6 s t)
  then show ?case by (rule canon_unique)
qed (simp_all add: AddIPToRange_inserts RemoveIPFromRange_deletes inner_addr_def)


subsection \<open>Properties\<close>

text \<open>
  C6. \<open>AddIPToRange\<close> keeps the list of ranges canonical (sorted, disjoint, never adjacent) and
  afterwards holds exactly the addresses it held before and the new one, in every branch: the
  address is there already, it extends a range, joins two ranges or starts a new range.
\<close>

theorem AddIPToRange_membership:
  assumes "inner_addr ip" and "canon rs"
  shows "canon (AddIPToRange ip rs) \<and>
    (\<forall>b. length b = 16 \<longrightarrow> IPInRanges b (AddIPToRange ip rs) = (b = ip \<or> IPInRanges b rs))"
proof -
  have add: "canon (AddIPToRange ip rs)" "ranges_set (AddIPToRange ip rs) = insert (bval ip) (ranges_set rs)"
    using AddIPToRange_inserts [OF assms] by simp_all
  have "IPInRanges b (AddIPToRange ip rs) = (b = ip \<or> IPInRanges b rs)" if "length b = 16" for b
    using that assms add
    by (simp add: IPInRanges_iff canon_range16 inner_addr_def bval_inj)
  then show ?thesis using add(1) by simp
qed

theorem AddIPToRange_membership_witness:
  "IPInRanges (ParseIP ''10.1.0.3'') (AddIPToRange (ParseIP ''10.1.0.3'')
     [\<lparr>From = ParseIP ''10.1.0.1'', To = ParseIP ''10.1.0.2''\<rparr>, \<lparr>From = ParseIP ''10.1.0.4'', To = ParseIP ''10.1.0.9''\<rparr>])"
proof -
  let ?rs = "[\<lparr>From = ParseIP ''10.1.0.1'', To = ParseIP ''10.1.0.2''\<rparr>,
    \<lparr>From = ParseIP ''10.1.0.4'', To = ParseIP ''10.1.0.9''\<rparr>]"
  have ips: "ParseIP ''10.1.0.1'' = [0, 0, 0, 0, 0, 0, 0, 0, 0, 0, 255, 255, 10, 1, 0, 1]"
    "ParseIP ''10.1.0.2'' = [0, 0, 0, 0, 0, 0, 0, 0, 0, 0, 255, 255, 10, 1, 0, 2]"
    "ParseIP ''10.1.0.4'' = [0, 0, 0, 0, 0, 0, 0, 0, 0, 0, 255, 255, 10, 1, 0, 4]"
    "ParseIP ''10.1.0.9'' = [0, 0, 0, 0, 0, 0, 0, 0, 0, 0, 255, 255, 10, 1, 0, 9]"
    by code_simp+
  have "canon ?rs" by (simp add: canon_def range16_def ips)
  moreover have "inner_addr (ParseIP ''10.1.0.3'')" by code_simp
  ultimately show ?thesis
    using AddIPToRange_membership [of "ParseIP ''10.1.0.3''" ?rs] by (simp add: inner_addr_def)
qed

text \<open>
  C18. \<open>RemoveIPFromRange\<close> keeps the list canonical and removes exactly the address, also when it
  splits a range in two; an address that is not in the list leaves it as it is.
\<close>

theorem RemoveIPFromRange_membership:
  assumes "length ip = 16" and "canon rs"
  shows "canon (RemoveIPFromRange ip rs) \<and>
    (\<forall>b. length b = 16 \<longrightarrow> IPInRanges b (RemoveIPFromRange ip rs) = (b \<noteq> ip \<and> IPInRanges b rs)) \<and>
    (\<not> IPInRanges ip rs \<longrightarrow> RemoveIPFromRange ip rs = rs)"
proof -
  have rem: "canon (RemoveIPFromRange ip rs)" "ranges_set (RemoveIPFromRange ip rs) = ranges_set rs - {bval ip}"
    using RemoveIPFromRange_deletes [OF assms] by simp_all
  have "IPInRanges b (RemoveIPFromRange ip rs) = (b \<noteq> ip \<and> IPInRanges b rs)" if "length b = 16" for b
    using that assms rem by (auto simp: IPInRanges_iff canon_range16 bval_inj)
  then show ?thesis using rem(1) assms(1) by (simp add: RemoveIPFromRange_def Let_def)
qed

theorem RemoveIPFromRange_membership_witness:
  "IPInRanges (ParseIP ''10.1.0.4'')
     (RemoveIPFromRange (ParseIP ''10.1.0.3'') [\<lparr>From = ParseIP ''10.1.0.1'', To = ParseIP ''10.1.0.9''\<rparr>])"
proof -
  let ?rs = "[\<lparr>From = ParseIP ''10.1.0.1'', To = ParseIP ''10.1.0.9''\<rparr>]"
  have ips: "ParseIP ''10.1.0.1'' = [0, 0, 0, 0, 0, 0, 0, 0, 0, 0, 255, 255, 10, 1, 0, 1]"
    "ParseIP ''10.1.0.9'' = [0, 0, 0, 0, 0, 0, 0, 0, 0, 0, 255, 255, 10, 1, 0, 9]"
    by code_simp+
  have "canon ?rs" by (simp add: canon_def range16_def ips)
  moreover have "length (ParseIP ''10.1.0.3'') = 16" "length (ParseIP ''10.1.0.4'') = 16"
    "ParseIP ''10.1.0.4'' \<noteq> ParseIP ''10.1.0.3''" "IPInRanges (ParseIP ''10.1.0.4'') ?rs"
    by code_simp+
  ultimately show ?thesis
    using RemoveIPFromRange_membership [of "ParseIP ''10.1.0.3''" ?rs] by blast
qed

text \<open>
  Releasing an address right after it was added gives back the same list of ranges, and adding
  it again after its release too: the list has one representation for each set.
\<close>

theorem AddIPToRange_RemoveIPFromRange:
  assumes "inner_addr ip" and "canon rs"
  shows "(if IPInRanges ip rs then AddIPToRange ip (RemoveIPFromRange ip rs) = rs
          else RemoveIPFromRange ip (AddIPToRange ip rs) = rs)"
  using rng.rem_add [OF assms] rng.add_rem [OF assms] by simp

theorem AddIPToRange_RemoveIPFromRange_witness:
  "RemoveIPFromRange (ParseIP ''10.1.0.3'') (AddIPToRange (ParseIP ''10.1.0.3'') []) = []"
proof -
  have "inner_addr (ParseIP ''10.1.0.3'')" "\<not> IPInRanges (ParseIP ''10.1.0.3'') []" by code_simp+
  then show ?thesis
    using AddIPToRange_RemoveIPFromRange [of "ParseIP ''10.1.0.3''" "[]"] by simp
qed

text \<open>
  The used ranges computed from a list of addresses depend neither on the order of the list
  nor on repetitions, so two controllers that see the same addresses compute equal status fields.
\<close>

theorem AddIPToRange_order_irrelevant:
  assumes "list_all inner_addr as" and "list_all inner_addr bs" and "set as = set bs" and "canon rs"
  shows "fold AddIPToRange as rs = fold AddIPToRange bs rs"
  using assms by (intro rng.fold_add_order) simp_all

theorem AddIPToRange_order_irrelevant_witness:
  "fold AddIPToRange [ParseIP ''10.1.0.3'', ParseIP ''10.1.0.1'', ParseIP ''10.1.0.2''] [] =
   fold AddIPToRange [ParseIP ''10.1.0.1'', ParseIP ''10.1.0.2'', ParseIP ''10.1.0.3'', ParseIP ''10.1.0.1''] []"
proof (rule AddIPToRange_order_irrelevant)
  show "list_all inner_addr [ParseIP ''10.1.0.3'', ParseIP ''10.1.0.1'', ParseIP ''10.1.0.2'']"
    by code_simp
  show "list_all inner_addr
      [ParseIP ''10.1.0.1'', ParseIP ''10.1.0.2'', ParseIP ''10.1.0.3'', ParseIP ''10.1.0.1'']"
    by code_simp
qed auto

end
