(* ===== verification/AddrAlloc.thy ===== *)
theory AddrAlloc
  imports AddrRanges
begin

text \<open>
  Correctness of the allocator and of the conflict checks of \<open>ipcalc.go\<close>. A network that
  \<open>ParseCIDR\<close> returns is an interval of numbers, \<open>IsNetwork\<close> and \<open>IsBroadCast\<close> are its two ends,
  the search loops return the first free address of the interval or report that there is none,
  and two networks or two lists of ranges conflict exactly when they share an address.
\<close>

subsection \<open>A parsed network is an interval\<close>

lemma unat_mask_fill:
  assumes "p < 8" and "b AND NOT (drop_bit p 255) = (b :: byte)"
  shows "unat (b + (NOT (drop_bit p 255) XOR 255)) + 1 = unat b + 2 ^ (8 - p)"
proof -
  have fill: "NOT (drop_bit p 255) XOR 255 = (mask (8 - p) :: byte)"
    unfolding byte_255 using assms(1) by (intro bit_word_eqI) (auto simp: bit_simps)
  obtain q where q: "unat b = q * 2 ^ (8 - p)"
    using unat_partial_mask [OF assms(1), of b] assms(2) by metis
  have pow: "(256 :: nat) = 2 ^ p * 2 ^ (8 - p)"
    using assms(1) by (simp flip: power_add)
  have "q * 2 ^ (8 - p) < 2 ^ p * 2 ^ (8 - p)" using unat_byte_less [of b] by (simp only: q pow)
  then have "q + 1 \<le> 2 ^ p" by simp
  then have "(q + 1) * 2 ^ (8 - p) \<le> 256" unfolding pow by (rule mult_le_mono1)
  moreover have m: "unat (mask (8 - p) :: byte) = 2 ^ (8 - p) - 1"
  proof -
    from assms(1) consider "p = 0" | "p = 1" | "p = 2" | "p = 3" | "p = 4" | "p = 5" | "p = 6" | "p = 7"
      by linarith
    then show ?thesis by cases (simp_all add: mask_eq_exp_minus_1)
  qed
  ultimately have "unat b + unat (mask (8 - p) :: byte) < 256"
    by (simp add: q algebra_simps)
  then have "unat (b + mask (8 - p)) = unat b + unat (mask (8 - p) :: byte)"
    by (simp add: unat_word_ariths)
  then show ?thesis unfolding fill by (simp add: m)
qed

lemma length_add_mask [simp]: "length (add_mask as ms) = length as"
  by (induction as ms rule: add_mask.induct) auto

lemma bval_add_mask:
  "length bs = l \<Longrightarrow> p \<le> 8 * l \<Longrightarrow> and_bytes bs (mask_bytes p l) = bs \<Longrightarrow>
   bval (add_mask bs (map (\<lambda>b. b XOR 255) (mask_bytes p l))) + 1 = bval bs + 2 ^ (8 * l - p)"
proof (induction l arbitrary: bs p)
  case 0
  then show ?case by simp
next
  case (Suc l)
  then obtain b cs where bs: "bs = b # cs" "length cs = l" by (cases bs) auto
  show ?case
  proof (cases "8 \<le> p")
    case True
    then have *: "bval (add_mask cs (map (\<lambda>b. b XOR 255) (mask_bytes (p - 8) l))) + 1 =
        bval cs + 2 ^ (8 * l - (p - 8))"
      using Suc.IH [of cs "p - 8"] Suc.prems bs by simp
    show ?thesis using True * bs by simp
  next
    case False
    then have *: "bval (add_mask cs (map (\<lambda>b. b XOR 255) (mask_bytes 0 l))) + 1 =
        bval cs + 2 ^ (8 * l)"
      using Suc.IH [of cs 0] Suc.prems bs by simp
    have "bval cs = bval cs div 2 ^ (8 * l) * 2 ^ (8 * l)"
      using bval_and_mask [of cs l 0] Suc.prems(3) False bs by simp
    then have zero: "bval cs = 0" using bval_less [of cs] bs(2) by (simp add: power_mult)
    have "unat (b + (NOT (drop_bit p 255) XOR 255)) + 1 = unat b + 2 ^ (8 - p)"
      using unat_mask_fill [of p b] False Suc.prems(3) bs by simp
    moreover have "(2::nat) ^ (8 * Suc l - p) = 2 ^ (8 - p) * 256 ^ l"
    proof -
      have "8 * Suc l - p = (8 - p) + 8 * l" using False by simp
      then show ?thesis by (simp only: power_add power_mult) simp
    qed
    moreover have "x * w + y + 1 = u * w + f * w" if "x + 1 = u + f" "y + 1 = w" for x y u f w :: nat
      using that by (metis add.assoc add_mult_distrib mult_1)
    ultimately show ?thesis
      using False * bs(2) zero by (simp add: bs(1) power_mult)
  qed
qed


text \<open>
  \<open>plain_cidr\<close>: the string is an IPv4 network, or an IPv6 network that is not written as an
  IPv4-mapped address and does not hold \<open>::ffff:0:0/96\<close>, the block that \<open>net.IP\<close> reads as IPv4.
\<close>

definition plain_net :: "net_IP \<Rightarrow> IPNet \<Rightarrow> bool" where
  "plain_net ip n =
     (length (NetIP n) = 4 \<or>
      To4 ip = [] \<and> and_bytes (v4InV6Prefix @ [0, 0, 0, 0]) (NetMask n) \<noteq> NetIP n)"

definition plain_cidr :: "string \<Rightarrow> bool" where
  "plain_cidr cidr =
     (case ParseCIDR cidr of Inl e \<Rightarrow> False | Inr (ip, n) \<Rightarrow> plain_net ip n)"

text \<open>\<open>net_span n p\<close>: the network with prefix \<open>p\<close> as an interval of numbers.\<close>

definition net_span :: "IPNet \<Rightarrow> nat \<Rightarrow> nat set" where
  "net_span n p = {net_base n ..< net_base n + 2 ^ net_bits n p}"

definition plain_span :: "IPNet \<Rightarrow> nat \<Rightarrow> bool" where
  "plain_span n p \<longleftrightarrow> cidr_net n p \<and>
     (length (NetIP n) = 16 \<longrightarrow> (\<forall>a. length a = 16 \<longrightarrow> bval a \<in> net_span n p \<longrightarrow> To4 a = []))"

lemma div_eq_iff_interval:
  fixes b k x :: nat
  assumes "b = b div 2 ^ k * 2 ^ k"
  shows "x div 2 ^ k = b div 2 ^ k \<longleftrightarrow> x \<in> {b ..< b + 2 ^ k}"
proof -
  obtain c where b: "b = c * 2 ^ k" using assms by blast
  have "x div 2 ^ k = c \<longleftrightarrow> c * 2 ^ k \<le> x \<and> x < Suc c * 2 ^ k"
    using less_eq_div_iff_mult_less_eq [of "2 ^ k" c x] div_less_iff_less_mult [of "2 ^ k" x "Suc c"]
    by (auto simp: less_Suc_eq_le)
  then show ?thesis by (simp add: b add.commute)
qed

lemma net_base_aligned:
  assumes "cidr_net n p"
  shows "net_base n = net_base n div 2 ^ net_bits n p * 2 ^ net_bits n p"
proof (cases "length (NetIP n) = 4")
  case True
  then have "bval (NetIP n) = bval (NetIP n) div 2 ^ (32 - p) * 2 ^ (32 - p)"
    using assms bval_and_mask [of "NetIP n" 4 p] by (auto simp: cidr_net_def)
  then show ?thesis
    using True assms div_mult_add [of "32 - p" 32 "bval v4InV6Prefix" "bval (NetIP n)"]
    by (simp add: net_base_def net_bits_def To16_4 bval_append cidr_net_def)
next
  case False
  then show ?thesis
    using assms bval_and_mask [of "NetIP n" 16 p] by (auto simp: cidr_net_def net_base_def net_bits_def)
qed

lemma net_span_iff:
  "cidr_net n p \<Longrightarrow> x \<in> net_span n p \<longleftrightarrow> x div 2 ^ net_bits n p = net_base n div 2 ^ net_bits n p"
  using div_eq_iff_interval [OF net_base_aligned] by (simp add: net_span_def)


text \<open>An IPv6 network that does not hold \<open>::ffff:0:0\<close> holds no IPv4-mapped address.\<close>

lemma plain_net_span:
  assumes net: "cidr_net n p" and plain: "plain_net ip n"
  shows "plain_span n p"
proof -
  have "To4 a = []"
    if six: "length (NetIP n) = 16" and a: "length a = 16" and span: "bval a \<in> net_span n p" for a
  proof (rule ccontr)
    let ?k = "net_bits n p" and ?z = "v4InV6Prefix @ [0, 0, 0, 0]"
    assume "To4 a \<noteq> []"
    then have a32: "bval a div 2 ^ 32 = 65535"
      using take12_val [OF a] a by (auto simp: To4_def v4InV6Prefix_def split: if_splits)
    have q: "bval a div 2 ^ ?k = net_base n div 2 ^ ?k" using span net_span_iff [OF net] by simp
    have base: "net_base n = bval (NetIP n)" "?k = 128 - p" and p: "p \<le> 128"
      and self: "NetMask n = mask_bytes p 16" "and_bytes (NetIP n) (mask_bytes p 16) = NetIP n"
      using six net by (auto simp: net_base_def net_bits_def cidr_net_def)
    show False
    proof (cases "?k \<le> 32")
      case True
      then have "(2::nat) ^ 32 = 2 ^ ?k * 2 ^ (32 - ?k)" by (simp flip: power_add)
      then have "net_base n div 2 ^ 32 = 65535" using q a32 by (simp only: div_mult2_eq)
      then have "bval (take 12 (NetIP n)) = bval v4InV6Prefix"
        using take12_val [OF six] base by (simp add: v4InV6Prefix_def)
      then have "To4 (NetIP n) \<noteq> []" using six by (subst (asm) bval_inj) (auto simp: To4_def)
      then show False using net six by (auto simp: cidr_net_def)
    next
      case False
      then have "?k = 32 + (?k - 32)" by simp
      then have pow: "(2::nat) ^ ?k = 2 ^ 32 * 2 ^ (?k - 32)" by (metis power_add)
      have "bval ?z div 2 ^ 32 = 65535" by (simp add: v4InV6Prefix_def)
      then have "bval ?z div 2 ^ ?k = net_base n div 2 ^ ?k"
        using q a32 unfolding pow div_mult2_eq by simp
      then have "and_bytes ?z (mask_bytes p 16) = and_bytes (NetIP n) (mask_bytes p 16)"
        using masked_eq_iff [of ?z 16 "NetIP n" p] six p base by simp
      then show False using plain self six by (simp add: plain_net_def)
    qed
  qed
  then show ?thesis using net by (simp add: plain_span_def)
qed

lemma plain_cidr_span:
  assumes "plain_cidr cidr" and "ParseCIDR cidr = Inr (ip, n)"
  shows "\<exists>p. plain_span n p \<and> bval ip \<in> net_span n p"
proof -
  have plain: "plain_net ip n" using assms by (simp add: plain_cidr_def)
  then have "length (NetIP n) = 4 \<or> To4 ip = []" by (auto simp: plain_net_def)
  then obtain p where "cidr_net n p" "bval ip div 2 ^ net_bits n p = net_base n div 2 ^ net_bits n p"
    using ParseCIDR_net [OF assms(2)] by blast
  then show ?thesis using plain_net_span [OF _ plain] net_span_iff by blast
qed

text \<open>The predicates of \<open>ipcalc.go\<close> on such a network.\<close>

lemma Contains_span:
  "plain_span n p \<Longrightarrow> length a = 16 \<Longrightarrow> Contains n a \<longleftrightarrow> bval a \<in> net_span n p"
  using Contains_16 [of n p a] net_span_iff [of n p "bval a"] by (auto simp: plain_span_def)

lemma net_some:
  assumes "cidr_net n p" and "length a = 16"
  shows "\<not> no_network a (Some n)"
  using assms by (auto simp: no_network_def cidr_net_def)

lemma IPInNetwork_span:
  assumes span: "plain_span n p" and a: "length a = 16"
  shows "IPInNetwork a (Some n) \<longleftrightarrow> bval a \<in> net_span n p"
proof -
  have net: "cidr_net n p" using span by (simp add: plain_span_def)
  have "IPInNetwork a (Some n) \<longleftrightarrow> Contains n a"
  proof (cases "length (NetIP n) = 4")
    case True
    then show ?thesis
      using net a
      by (auto simp: IPInNetwork_def net_some [OF net a] cidr_net_def IP_Mask_def IP_Equal_def
          Contains_def networkNumberAndMask_def To4_def Let_def)
  next
    case False
    then have "IPInNetwork a (Some n) \<longleftrightarrow> and_bytes a (mask_bytes p 16) = and_bytes (NetIP n) (mask_bytes p 16)"
      using net a by (auto simp: IPInNetwork_def net_some [OF net a] cidr_net_def IP_Mask_def IP_Equal_def)
    also have "\<dots> \<longleftrightarrow> bval a \<in> net_span n p"
      using masked_eq_iff [of a 16 "NetIP n" p] net a False net_span_iff [OF net]
      by (auto simp: cidr_net_def net_base_def net_bits_def)
    finally show ?thesis using Contains_span [OF span a] by simp
  qed
  then show ?thesis using Contains_span [OF span a] by simp
qed

lemma IsNetwork_iff:
  assumes net: "cidr_net n p" and a: "length a = 16"
  shows "IsNetwork a (Some n) \<longleftrightarrow> bval a = net_base n"
proof -
  have len: "length (NetIP n) = 4 \<or> length (NetIP n) = 16" using net by (auto simp: cidr_net_def)
  then have "IsNetwork a (Some n) \<longleftrightarrow> a = To16 (NetIP n)"
    using a by (simp add: IsNetwork_def net_some [OF net a] IP_Equal_iff_To16)
  also have "\<dots> \<longleftrightarrow> bval a = net_base n"
    using a len by (auto simp: net_base_def To16_def bval_inj)
  finally show ?thesis .
qed

lemma last_address:
  assumes net: "cidr_net n p"
  defines "b \<equiv> To16 (add_mask (NetIP n) (map (\<lambda>b. b XOR 255) (mask_bytes p (length (NetIP n)))))"
  shows "length b = 16" and "bval b + 1 = net_base n + 2 ^ net_bits n p"
proof -
  let ?l = "length (NetIP n)"
  let ?b = "add_mask (NetIP n) (map (\<lambda>b. b XOR 255) (mask_bytes p ?l))"
  have len: "?l = 4 \<or> ?l = 16" using net by (auto simp: cidr_net_def)
  then show "length b = 16" by (auto simp: b_def To16_def)
  have "bval ?b + 1 = bval (NetIP n) + 2 ^ (8 * ?l - p)"
    using net by (intro bval_add_mask) (auto simp: cidr_net_def)
  then show "bval b + 1 = net_base n + 2 ^ net_bits n p"
    using len by (auto simp: b_def To16_def net_base_def net_bits_def bval_append)
qed

lemma net_base_addr: "cidr_net n p \<Longrightarrow> length (To16 (NetIP n)) = 16 \<and> bval (To16 (NetIP n)) = net_base n"
  by (auto simp: net_base_def cidr_net_def To16_def)

lemma IsBroadCast_iff:
  assumes net: "cidr_net n p" and a: "length a = 16"
  shows "IsBroadCast a (Some n) \<longleftrightarrow> bval a + 1 = net_base n + 2 ^ net_bits n p"
proof -
  let ?l = "length (NetIP n)"
  let ?b = "add_mask (NetIP n) (map (\<lambda>b. b XOR 255) (mask_bytes p ?l))"
  have len: "?l = 4 \<or> ?l = 16" and ne: "mask_bytes p ?l \<noteq> []" using net by (auto simp: cidr_net_def)
  have "IsBroadCast a (Some n) \<longleftrightarrow> IP_Equal a ?b"
    using net len a ne
    by (auto simp: IsBroadCast_def net_some [OF net a] cidr_net_def MaskXOR_def To4_def)
  also have "\<dots> \<longleftrightarrow> a = To16 ?b" using len a by (simp add: IP_Equal_iff_To16)
  also have "\<dots> \<longleftrightarrow> bval a = bval (To16 ?b)"
    using a last_address(1) [OF net] by (simp add: bval_inj)
  finally show ?thesis using last_address(2) [OF net] by linarith
qed

lemma IsAvailableIP_iff:
  assumes span: "plain_span n p" and a: "length a = 16"
  shows "IsAvailableIP a (Some n) \<longleftrightarrow>
    net_base n < bval a \<and> bval a + 1 < net_base n + 2 ^ net_bits n p"
proof -
  have net: "cidr_net n p" using span by (simp add: plain_span_def)
  show ?thesis
    using IPInNetwork_span [OF span a] IsNetwork_iff [OF net a] IsBroadCast_iff [OF net a] net_some [OF net a]
    by (auto simp: IsAvailableIP_def net_span_def)
qed


subsection \<open>The search loops\<close>

text \<open>An address the allocator may hand out.\<close>

definition free_addr :: "IPNet \<Rightarrow> IPRange list \<Rightarrow> net_IP \<Rightarrow> bool" where
  "free_addr n usedIPs a \<longleftrightarrow>
     length a = 16 \<and> IsAvailableIP a (Some n) \<and> \<not> IPInRanges a usedIPs"

text \<open>\<open>search_result P lo hi r\<close>: \<open>r\<close> is the first address with \<open>P\<close> in the interval, if there is one.\<close>

definition search_result :: "(net_IP \<Rightarrow> bool) \<Rightarrow> nat \<Rightarrow> nat \<Rightarrow> net_IP option \<Rightarrow> bool" where
  "search_result P lo hi r \<longleftrightarrow>
     (case r of
        None \<Rightarrow> \<forall>b. P b \<and> lo \<le> bval b \<longrightarrow> hi < bval b
      | Some a \<Rightarrow> P a \<and> lo \<le> bval a \<and> bval a \<le> hi \<and> (\<forall>b. P b \<and> lo \<le> bval b \<longrightarrow> bval a \<le> bval b))"

lemma search_result_step:
  assumes "search_result P (Suc lo) hi r" and "\<And>b. P b \<Longrightarrow> bval b \<noteq> lo"
  shows "search_result P lo hi r"
  using assms(1) assms(2)
  by (auto simp: search_result_def Suc_le_eq le_less split: option.splits)

lemma not_free_at:
  assumes "\<not> free_addr n usedIPs ip" and "length ip = 16" and "free_addr n usedIPs b"
  shows "bval b \<noteq> bval ip"
  using assms by (metis bval_inj free_addr_def)

lemma scan_range_unfold:
  assumes "length ip = 16" and "length end = 16"
  shows "scan_range n usedIPs end ip =
    (if bval ip \<le> bval end then
       (if free_addr n usedIPs ip then Some (Some ip) else scan_range n usedIPs end (IPIncrease ip))
     else Some None)"
proof -
  have "ip \<noteq> []" using assms(1) by auto
  then show ?thesis
    using assms by (subst scan_range.simps) (simp add: bytes_Compare_le free_addr_def)
qed

lemma scan_range_search:
  assumes "length ip = 16" and "length end = 16" and "bval end < addr_max"
  shows "\<exists>r. scan_range n usedIPs end ip = Some r \<and>
    search_result (free_addr n usedIPs) (bval ip) (bval end) r"
  using assms
proof (induction "Suc (bval end) - bval ip" arbitrary: ip rule: less_induct)
  case less
  note unfold = scan_range_unfold [OF less.prems(1,2), of n usedIPs]
  consider (out) "bval end < bval ip" | (hit) "bval ip \<le> bval end" "free_addr n usedIPs ip"
    | (miss) "bval ip \<le> bval end" "\<not> free_addr n usedIPs ip"
    by linarith
  then show ?case
  proof cases
    case out
    then show ?thesis using unfold by (auto simp: search_result_def)
  next
    case hit
    then show ?thesis using unfold by (auto simp: search_result_def)
  next
    case miss
    then have inc: "bval (IPIncrease ip) = Suc (bval ip)"
      using less.prems bval_inc16 [of ip] by simp
    obtain r where r: "scan_range n usedIPs end (IPIncrease ip) = Some r"
        "search_result (free_addr n usedIPs) (Suc (bval ip)) (bval end) r"
      using less.hyps [of "IPIncrease ip"] less.prems miss inc
      by (auto simp: Suc_diff_le)
    have "search_result (free_addr n usedIPs) (bval ip) (bval end) r"
      using r(2) not_free_at [OF miss(2) less.prems(1)] by (rule search_result_step)
    then show ?thesis using unfold r(1) miss by simp
  qed
qed

lemma scan_network_unfold:
  assumes "plain_span n p" and "length ip = 16"
  shows "scan_network n usedIPs ip =
    (if bval ip \<in> net_span n p then
       (if free_addr n usedIPs ip then Some (Some ip) else scan_network n usedIPs (IPIncrease ip))
     else Some None)"
proof -
  have "ip \<noteq> []" using assms(2) by auto
  then show ?thesis
    using assms Contains_span [OF assms] by (subst scan_network.simps) (simp add: free_addr_def)
qed

text \<open>The last address of the network; its successor is outside, also when it wraps to \<open>::\<close>.\<close>

definition net_last :: "IPNet \<Rightarrow> nat \<Rightarrow> nat" where
  "net_last n p = net_base n + 2 ^ net_bits n p - 1"

lemma net_span_last: "x \<in> net_span n p \<longleftrightarrow> net_base n \<le> x \<and> x \<le> net_last n p"
proof -
  have "0 < (2::nat) ^ net_bits n p" by simp
  then show ?thesis unfolding net_span_def net_last_def atLeastLessThan_iff by linarith
qed

lemma net_last_addr: "cidr_net n p \<Longrightarrow> \<exists>b. length b = 16 \<and> bval b = net_last n p"
  using last_address [of n p] unfolding net_last_def by (metis add_diff_cancel_right')

lemma net_last_le_max: "cidr_net n p \<Longrightarrow> net_last n p \<le> addr_max"
  using last_address [of n p] addr_le_max unfolding net_last_def by fastforce

lemma plain_base_pos:
  assumes "plain_span n p" and "net_last n p = addr_max"
  shows "0 < net_base n"
proof (rule ccontr)
  let ?z = "v4InV6Prefix @ [0, 0, 0, 0]"
  assume "\<not> 0 < net_base n"
  then have "bval ?z \<in> net_span n p"
    using assms(2) addr_le_max [of ?z] by (simp add: net_span_last)
  moreover have "To4 ?z \<noteq> []" "length ?z = 16" by simp_all
  ultimately have "length (NetIP n) \<noteq> 16" using assms(1) unfolding plain_span_def by blast
  then have "length (NetIP n) = 4" using assms(1) by (auto simp: plain_span_def cidr_net_def)
  moreover have "0 < bval v4InV6Prefix" by (simp add: v4InV6Prefix_def)
  ultimately show False
    using \<open>\<not> 0 < net_base n\<close> by (simp add: net_base_def To16_4 bval_append)
qed

lemma scan_network_search:
  assumes span: "plain_span n p" and "length ip = 16" and "net_base n \<le> bval ip"
  shows "\<exists>r. scan_network n usedIPs ip = Some r \<and>
    search_result (free_addr n usedIPs) (bval ip) (net_last n p) r"
  using assms(2,3)
proof (induction "Suc (net_last n p) - bval ip" arbitrary: ip rule: less_induct)
  case less
  note unfold = scan_network_unfold [OF span less.prems(1), of usedIPs]
  consider (out) "net_last n p < bval ip" | (hit) "bval ip \<le> net_last n p" "free_addr n usedIPs ip"
    | (last) "bval ip = net_last n p" "\<not> free_addr n usedIPs ip" "bval ip = addr_max"
    | (miss) "bval ip \<le> net_last n p" "\<not> free_addr n usedIPs ip" "bval ip < addr_max"
    | (over) "bval ip < net_last n p" "bval ip = addr_max"
    using addr_le_max [OF less.prems(1)] by linarith
  then show ?case
  proof cases
    case out
    then show ?thesis using unfold less.prems by (auto simp: search_result_def net_span_last)
  next
    case hit
    then show ?thesis using unfold less.prems by (auto simp: search_result_def net_span_last)
  next
    case last
    then have "bval (IPIncrease ip) = 0" using bval_inc16_max less.prems by simp
    then have "bval (IPIncrease ip) \<notin> net_span n p"
      using plain_base_pos [OF span] last by (simp add: net_span_last)
    then have "scan_network n usedIPs (IPIncrease ip) = Some None"
      using scan_network_unfold [OF span] less.prems(1) by simp
    moreover have "net_last n p < bval b" if "free_addr n usedIPs b" "bval ip \<le> bval b" for b
      using not_free_at [OF last(2) less.prems(1) that(1)] that(2) last(1) by simp
    ultimately show ?thesis
      using unfold less.prems last by (auto simp: search_result_def net_span_last)
  next
    case miss
    then have inc: "bval (IPIncrease ip) = Suc (bval ip)"
      using less.prems bval_inc16 [of ip] by simp
    obtain r where r: "scan_network n usedIPs (IPIncrease ip) = Some r"
        "search_result (free_addr n usedIPs) (Suc (bval ip)) (net_last n p) r"
      using less.hyps [of "IPIncrease ip"] less.prems miss inc
      by (auto simp: Suc_diff_le)
    have "search_result (free_addr n usedIPs) (bval ip) (net_last n p) r"
      using r(2) not_free_at [OF miss(2) less.prems(1)] by (rule search_result_step)
    then show ?thesis using unfold r(1) miss less.prems by (simp add: net_span_last)
  next
    case over
    then show ?thesis using net_last_le_max [of n p] span by (simp add: plain_span_def)
  qed
qed


subsection \<open>Skipping a used range\<close>

lemma skip_used_search:
  assumes "list_all range16 usedIPs" and "length s = 16"
  shows "length (skip_used s usedIPs) = 16 \<and> bval s \<le> bval (skip_used s usedIPs) \<and>
    {bval s ..< bval (skip_used s usedIPs)} \<subseteq> ranges_set usedIPs"
  using assms
proof (induction usedIPs arbitrary: s)
  case Nil
  then show ?case by (simp add: skip_used_def)
next
  case (Cons u us)
  define t where "t = (if IP_Equal (From u) s then To16 (To u) else s)"
  have u: "range16 u" "list_all range16 us" using Cons.prems by simp_all
  have t: "length t = 16" "bval s \<le> bval t" "{bval s ..< bval t} \<subseteq> range_set u"
    using u(1) Cons.prems(2) by (auto simp: t_def range16_def range_set_def)
  have step: "skip_used s (u # us) = skip_used t us" by (simp add: skip_used_def t_def)
  show ?case
  proof (intro conjI subsetI)
    note IH = Cons.IH [OF u(2) t(1)]
    show "length (skip_used s (u # us)) = 16" and "bval s \<le> bval (skip_used s (u # us))"
      unfolding step using IH t(2) by linarith+
    show "x \<in> ranges_set (u # us)" if "x \<in> {bval s ..< bval (skip_used s (u # us))}" for x
      using that IH t(3) unfolding step by (cases "x < bval t") (auto simp: subset_iff)
  qed
qed

lemma skip_used_To16:
  assumes "list_all range16 usedIPs" and "length s = 4"
  shows "To16 (skip_used s usedIPs) = skip_used (To16 s) usedIPs \<and>
    (length (skip_used s usedIPs) = 4 \<or> length (skip_used s usedIPs) = 16)"
proof -
  have "length s = 4 \<or> length s = 16 \<Longrightarrow> list_all range16 us \<Longrightarrow>
      To16 (skip_used s us) = skip_used (To16 s) us \<and>
      (length (skip_used s us) = 4 \<or> length (skip_used s us) = 16)" for us s
  proof (induction us arbitrary: s)
    case (Cons u us)
    let ?t = "if IP_Equal (From u) s then To16 (To u) else s"
    have len: "length (From u) = 16" "length (To u) = 16" using Cons.prems by (simp_all add: range16_def)
    have "IP_Equal (From u) s \<longleftrightarrow> IP_Equal (From u) (To16 s)"
      using IP_Equal_iff_To16 [of "From u" s] IP_Equal_iff_To16 [of "From u" "To16 s"] len Cons.prems(1)
      by (auto simp: To16_def)
    then have "To16 ?t = (if IP_Equal (From u) (To16 s) then To16 (To u) else To16 s)" by simp
    moreover have "length ?t = 4 \<or> length ?t = 16" using len Cons.prems by auto
    ultimately show ?case using Cons.IH [of ?t] Cons.prems by (simp add: skip_used_def)
  qed (auto simp: skip_used_def)
  then show ?thesis using assms by blast
qed

lemma skip_search_result:
  assumes used: "list_all range16 usedIPs" and s: "length s = 16"
    and r: "search_result (free_addr n usedIPs) (bval (skip_used s usedIPs)) hi r"
  shows "search_result (free_addr n usedIPs) (bval s) hi r"
proof -
  have skip: "bval s \<le> bval (skip_used s usedIPs)"
      "{bval s ..< bval (skip_used s usedIPs)} \<subseteq> ranges_set usedIPs"
    using skip_used_search [OF used s] by simp_all
  have "bval (skip_used s usedIPs) \<le> bval b" if "free_addr n usedIPs b" "bval s \<le> bval b" for b
  proof (rule ccontr)
    assume "\<not> bval (skip_used s usedIPs) \<le> bval b"
    then have "bval b \<in> ranges_set usedIPs" using skip(2) that(2) by auto
    then show False using that(1) IPInRanges_iff [OF used, of b] by (auto simp: free_addr_def)
  qed
  then show ?thesis using r skip(1) by (auto simp: search_result_def split: option.splits)
qed

subsection \<open>GetAvailableIP\<close>

text \<open>A range the allocator can walk through: it does not end at the last IPv6 address.\<close>

definition walkable :: "IPRange \<Rightarrow> bool" where
  "walkable r \<longleftrightarrow> length (From r) = 16 \<and> length (To r) = 16 \<and> To r \<noteq> replicate 16 255"

lemma walkable_less_max: "walkable r \<Longrightarrow> bval (To r) < addr_max"
  using addr_le_max [of "To r"] bval_inj [of "To r" "replicate 16 255"] bval_ends(2)
  by (auto simp: walkable_def le_less)

text \<open>The first address of the first range that has one.\<close>

definition ranges_result :: "(net_IP \<Rightarrow> bool) \<Rightarrow> IPRange list \<Rightarrow> net_IP option \<Rightarrow> bool" where
  "ranges_result P rs r \<longleftrightarrow>
     (case r of
        None \<Rightarrow> \<forall>b. P b \<longrightarrow> bval b \<notin> ranges_set rs
      | Some a \<Rightarrow> \<exists>xs q ys. rs = xs @ q # ys \<and> P a \<and> bval a \<in> range_set q \<and>
          (\<forall>b. P b \<longrightarrow> bval b \<notin> ranges_set xs) \<and>
          (\<forall>b. P b \<and> bval b \<in> range_set q \<longrightarrow> bval a \<le> bval b))"

lemma ranges_result_Cons:
  assumes "\<And>b. P b \<Longrightarrow> bval b \<notin> range_set q" and "ranges_result P rs r"
  shows "ranges_result P (q # rs) r"
proof (cases r)
  case None
  then show ?thesis using assms by (auto simp: ranges_result_def)
next
  case (Some a)
  then obtain xs q' ys where rs: "rs = xs @ q' # ys" and
      a: "P a" "bval a \<in> range_set q'" "\<forall>b. P b \<longrightarrow> bval b \<notin> ranges_set xs"
        "\<forall>b. P b \<and> bval b \<in> range_set q' \<longrightarrow> bval a \<le> bval b"
    using assms(2) by (auto simp: ranges_result_def)
  then show ?thesis
    unfolding ranges_result_def Some option.case
    using assms(1) by (intro exI [of _ "q # xs"] exI [of _ q'] exI [of _ ys]) auto
qed

lemma scan_ranges_search:
  assumes used: "list_all range16 usedIPs"
  shows "list_all walkable rs \<Longrightarrow>
    \<exists>r. scan_ranges n usedIPs rs = Some r \<and> ranges_result (free_addr n usedIPs) rs r"
proof (induction rs)
  case Nil
  then show ?case by (simp add: ranges_result_def)
next
  case (Cons q rs)
  let ?P = "free_addr n usedIPs"
  have q: "length (From q) = 16" "length (To q) = 16" "bval (To q) < addr_max"
    using Cons.prems walkable_less_max by (simp_all add: walkable_def)
  let ?s = "skip_used (From q) usedIPs"
  have s: "length ?s = 16" using skip_used_search [OF used q(1)] by simp
  obtain r where r: "scan_range n usedIPs (To q) ?s = Some r"
      "search_result ?P (bval ?s) (bval (To q)) r"
    using scan_range_search [OF s q(2,3)] by blast
  note res = skip_search_result [OF used q(1) r(2)]
  have ne: "?s \<noteq> []" "To q \<noteq> []" using s q by auto
  show ?case
  proof (cases r)
    case (Some a)
    then have "scan_ranges n usedIPs (q # rs) = Some (Some a)" using r(1) q ne by simp
    moreover have "ranges_result ?P (q # rs) (Some a)"
      using res unfolding Some ranges_result_def option.case
      by (intro exI [of _ "[]"] exI [of _ q] exI [of _ rs]) (auto simp: search_result_def range_set_def)
    ultimately show ?thesis by blast
  next
    case None
    then have "scan_ranges n usedIPs (q # rs) = scan_ranges n usedIPs rs" using r(1) q ne by simp
    moreover have "bval b \<notin> range_set q" if "?P b" for b
      using res that None by (auto simp: search_result_def range_set_def)
    ultimately show ?thesis using Cons.IH Cons.prems ranges_result_Cons by auto
  qed
qed


lemma ParseCIDR_NetIP: "ParseCIDR s = Inr (ip, n) \<Longrightarrow> NetIP n = IP_Mask ip (NetMask n)"
  by (auto simp: ParseCIDR_def Let_def split: option.splits if_splits)

lemma scan_network_To16:
  assumes "length x = 4"
  shows "scan_network n usedIPs x = scan_network n usedIPs (To16 x)"
proof -
  have "Contains n x = Contains n (To16 x)"
    using assms by (auto simp: Contains_def To4_def To16_def Let_def split: option.splits)
  then show ?thesis
    by (subst (1 2) scan_network.simps) (simp only: To16_idem)
qed

lemma scan_network_below:
  "plain_span n p \<Longrightarrow> length ip = 16 \<Longrightarrow> bval ip < net_base n \<Longrightarrow> scan_network n usedIPs ip = Some None"
  by (simp add: scan_network_unfold net_span_last)

text \<open>The first address the search over a whole network looks at.\<close>

lemma first_address:
  assumes net: "cidr_net n p" and k: "0 < net_bits n p"
  shows "bval (To16 (IPIncrease (NetIP n))) = net_base n + 1"
proof -
  let ?l = "length (NetIP n)"
  have len: "?l = 4 \<or> ?l = 16" using net by (auto simp: cidr_net_def)
  have last: "bval (add_mask (NetIP n) (map (\<lambda>b. b XOR 255) (mask_bytes p ?l))) + 1 =
      bval (NetIP n) + 2 ^ (8 * ?l - p)"
    using net by (intro bval_add_mask) (auto simp: cidr_net_def)
  have "bval (add_mask (NetIP n) (map (\<lambda>b. b XOR 255) (mask_bytes p ?l))) < 256 ^ ?l"
    using bval_less [of "add_mask (NetIP n) (map (\<lambda>b. b XOR 255) (mask_bytes p ?l))"] by simp
  moreover have "2 \<le> (2::nat) ^ (8 * ?l - p)"
    using k power_increasing [of 1 "8 * ?l - p" "2::nat"] by (simp add: net_bits_def)
  ultimately have "bval (NetIP n) + 1 < 256 ^ ?l" using last by linarith
  then have "bval (IPIncrease (NetIP n)) = bval (NetIP n) + 1" by (simp add: bval_IPIncrease)
  then show ?thesis using len by (auto simp: net_base_def To16_def bval_append)
qed

lemma free_addr_inside:
  "plain_span n p \<Longrightarrow> free_addr n usedIPs b \<Longrightarrow> net_base n < bval b \<and> bval b < net_last n p"
  using IsAvailableIP_iff [of n p b] by (auto simp: free_addr_def net_last_def)

lemma free_addr_bits: "plain_span n p \<Longrightarrow> free_addr n usedIPs b \<Longrightarrow> 0 < net_bits n p"
  using free_addr_inside [of n p usedIPs b] by (cases "net_bits n p = 0") (auto simp: net_last_def)

definition least_free :: "IPNet \<Rightarrow> IPRange list \<Rightarrow> net_IP option \<Rightarrow> bool" where
  "least_free n usedIPs r \<longleftrightarrow>
     (case r of
        None \<Rightarrow> \<forall>b. \<not> free_addr n usedIPs b
      | Some a \<Rightarrow> free_addr n usedIPs a \<and> (\<forall>b. free_addr n usedIPs b \<longrightarrow> bval a \<le> bval b))"

lemma scan_network_least:
  assumes span: "plain_span n p" and used: "list_all range16 usedIPs"
  shows "\<exists>r. scan_network n usedIPs (skip_used (IPIncrease (NetIP n)) usedIPs) = Some r \<and>
    least_free n usedIPs r"
proof -
  let ?P = "free_addr n usedIPs"
  let ?s = "To16 (IPIncrease (NetIP n))"
  have net: "cidr_net n p" using span by (simp add: plain_span_def)
  then have len: "length (NetIP n) = 4 \<or> length (NetIP n) = 16" by (auto simp: cidr_net_def)
  then have s: "length ?s = 16" by (auto simp: To16_def)
  have t: "length (skip_used ?s usedIPs) = 16" "bval ?s \<le> bval (skip_used ?s usedIPs)"
    using skip_used_search [OF used s] by simp_all
  have eq: "scan_network n usedIPs (skip_used (IPIncrease (NetIP n)) usedIPs) =
      scan_network n usedIPs (skip_used ?s usedIPs)"
    using skip_used_To16 [OF used, of "IPIncrease (NetIP n)"] len scan_network_To16
    by (metis To16_16 length_IPIncrease)
  show ?thesis
  proof (cases "net_base n \<le> bval (skip_used ?s usedIPs)")
    case True
    then obtain r where r: "scan_network n usedIPs (skip_used ?s usedIPs) = Some r"
        "search_result ?P (bval (skip_used ?s usedIPs)) (net_last n p) r"
      using scan_network_search [OF span t(1)] by blast
    have res: "search_result ?P (bval ?s) (net_last n p) r"
      using skip_search_result [OF used s r(2)] .
    have "bval ?s \<le> bval b" if "?P b" for b
      using first_address [OF net free_addr_bits [OF span that]] free_addr_inside [OF span that] by simp
    then have "least_free n usedIPs r"
      using res free_addr_inside [OF span]
      by (fastforce simp: search_result_def least_free_def split: option.splits)
    then show ?thesis using r(1) eq by auto
  next
    case False
    then have "scan_network n usedIPs (skip_used ?s usedIPs) = Some None"
      using scan_network_below [OF span t(1)] by simp
    moreover have "\<not> ?P b" for b
      using first_address [OF net] free_addr_bits [OF span, of usedIPs b] t(2) False by auto
    ultimately show ?thesis using eq by (auto simp: least_free_def)
  qed
qed


lemma GetAvailableIP_network:
  assumes "plain_cidr cidr" and parse: "ParseCIDR cidr = Inr (ip, n)" and used: "list_all range16 usedIPs"
  shows "\<exists>r. GetAvailableIP cidr [] usedIPs = Some (found_or_error r) \<and> least_free n usedIPs r"
proof -
  obtain p where "plain_span n p" using plain_cidr_span [OF assms(1) parse] by blast
  then obtain r where "scan_network n usedIPs (skip_used (IPIncrease (NetIP n)) usedIPs) = Some r"
      "least_free n usedIPs r"
    using scan_network_least [OF _ used] by blast
  then show ?thesis
    using ParseCIDR_NetIP [OF parse] by (intro exI [of _ r]) (simp add: GetAvailableIP_def parse)
qed

lemma GetAvailableIP_ranges:
  assumes parse: "ParseCIDR cidr = Inr (ip, n)" and used: "list_all range16 usedIPs"
    and "list_all walkable rs" and "rs \<noteq> []"
  shows "\<exists>r. GetAvailableIP cidr rs usedIPs = Some (found_or_error r) \<and>
    ranges_result (free_addr n usedIPs) rs r"
proof -
  obtain r where "scan_ranges n usedIPs rs = Some r" "ranges_result (free_addr n usedIPs) rs r"
    using scan_ranges_search [OF used assms(3)] by blast
  then show ?thesis using assms(4) by (intro exI [of _ r]) (simp add: GetAvailableIP_def parse)
qed

lemma found_or_error_iff:
  "found_or_error r = Inr a \<longleftrightarrow> r = Some a"
  "found_or_error r = Inl e \<longleftrightarrow> r = None \<and> e = Sentinel ErrNoAvailableIP"
  by (auto simp: found_or_error_def split: option.splits)

text \<open>A range that ends at the last IPv6 address and has no free address: the loop does not end.\<close>

lemma scan_range_diverges:
  assumes none: "\<And>a. \<not> free_addr n usedIPs a" and e: "length e = 16" "bval e = addr_max"
    and "length ip = 16"
  shows "scan_range n usedIPs e ip = None"
proof (rule ccontr)
  let ?Q = "\<lambda>n us e ip. (\<forall>a. \<not> free_addr n us a) \<longrightarrow> length e = 16 \<longrightarrow> bval e = addr_max \<longrightarrow> length ip \<noteq> 16"
  assume "scan_range n usedIPs e ip \<noteq> None"
  then obtain r where r: "scan_range n usedIPs e ip = Some r" by auto
  have "?Q n usedIPs e ip"
  proof (rule scan_range.raw_induct [where P = "\<lambda>n us e ip y. ?Q n us e ip", OF _ r], intro impI notI)
    fix f n us e ip y
    assume IH: "\<And>n us e ip y. f n us e ip = Some y \<Longrightarrow> ?Q n us e ip"
      and body: "(if bytes_Compare ip e \<le> 0
        then if ip = [] \<or> \<not> IsAvailableIP ip (Some n) then f n us e (IPIncrease ip)
             else if \<not> IPInRanges ip us then Some (Some ip) else f n us e (IPIncrease ip)
        else Some None) = Some y"
      and none: "\<forall>a. \<not> free_addr n us a" and e: "length e = 16" "bval e = addr_max"
      and ip: "length ip = 16"
    have "bytes_Compare ip e \<le> 0" using addr_le_max [OF ip] ip e by (simp add: bytes_Compare_le)
    moreover have "\<not> (ip \<noteq> [] \<and> IsAvailableIP ip (Some n) \<and> \<not> IPInRanges ip us)"
      using none ip by (auto simp: free_addr_def)
    ultimately have "f n us e (IPIncrease ip) = Some y" using body by (auto split: if_splits)
    then show False using IH none e ip by fastforce
  qed
  then show False using assms by blast
qed

subsection \<open>Every address the allocator returns is free\<close>

lemma scan_range_free:
  assumes "scan_range n us e ip = Some (Some a)" and "length ip = 16"
  shows "free_addr n us a"
proof -
  have "\<forall>a. y = Some a \<longrightarrow> length ip = 16 \<longrightarrow> free_addr n us a"
    if "scan_range n us e ip = Some y" for y
  proof (rule scan_range.raw_induct [OF _ that, where P = "\<lambda>n us e ip y. \<forall>a. y = Some a \<longrightarrow> length ip = 16 \<longrightarrow> free_addr n us a"],
      intro allI impI)
    fix f n us e ip y a
    assume IH: "\<And>n us e ip y. f n us e ip = Some y \<Longrightarrow> \<forall>a. y = Some a \<longrightarrow> length ip = 16 \<longrightarrow> free_addr n us a"
      and body: "(if bytes_Compare ip e \<le> 0
        then if ip = [] \<or> \<not> IsAvailableIP ip (Some n) then f n us e (IPIncrease ip)
             else if \<not> IPInRanges ip us then Some (Some ip) else f n us e (IPIncrease ip)
        else Some None) = Some y"
      and y: "y = Some a" and ip: "length ip = 16"
    show "free_addr n us a"
      using body y ip IH [of n us e "IPIncrease ip" y] by (auto simp: free_addr_def split: if_splits)
  qed
  then show ?thesis using assms by blast
qed

lemma scan_network_free:
  assumes "scan_network n us ip = Some (Some a)"
  shows "free_addr n us a"
proof -
  have "\<forall>a. y = Some a \<longrightarrow> free_addr n us a" if "scan_network n us ip = Some y" for y
  proof (rule scan_network.raw_induct [OF _ that, where P = "\<lambda>n us ip y. \<forall>a. y = Some a \<longrightarrow> free_addr n us a"],
      intro allI impI)
    fix f n us ip y a
    assume IH: "\<And>n us ip y. f n us ip = Some y \<Longrightarrow> \<forall>a. y = Some a \<longrightarrow> free_addr n us a"
      and body: "(if Contains n ip
        then if To16 ip = [] \<or> \<not> IsAvailableIP (To16 ip) (Some n) then f n us (IPIncrease (To16 ip))
             else if \<not> IPInRanges (To16 ip) us then Some (Some (To16 ip)) else f n us (IPIncrease (To16 ip))
        else Some None) = Some y"
      and y: "y = Some a"
    show "free_addr n us a"
      using body y IH [of n us "IPIncrease (To16 ip)" y] length_To16 [of ip]
      by (auto simp: free_addr_def split: if_splits)
  qed
  then show ?thesis using assms by blast
qed

lemma skip_used_length:
  assumes "length s = 16 \<or> s = []" shows "length (skip_used s us) = 16 \<or> skip_used s us = []"
  using assms
proof (induction us arbitrary: s)
  case (Cons u us)
  then show ?case
    using Cons.IH [of "if IP_Equal (From u) s then To16 (To u) else s"] length_To16 [of "To u"]
    by (simp add: skip_used_def)
qed (simp add: skip_used_def)

lemma scan_ranges_free: "scan_ranges n us rs = Some (Some a) \<Longrightarrow> free_addr n us a"
proof (induction rs)
  case (Cons r rs)
  let ?s = "skip_used (To16 (From r)) us"
  have "length ?s = 16 \<or> ?s = []" using skip_used_length length_To16 by blast
  then show ?case
    using Cons scan_range_free [of n us "To16 (To r)" ?s a]
    by (auto simp: Let_def split: if_splits option.splits)
qed simp

lemma GetAvailableIP_free:
  assumes "GetAvailableIP cidr rs us = Some (Inr a)"
  shows "\<exists>ip n. ParseCIDR cidr = Inr (ip, n) \<and> free_addr n us a"
  using assms scan_ranges_free scan_network_free
  by (auto simp: GetAvailableIP_def found_or_error_iff split: sum.splits if_splits)

lemma free_addr_inner:
  assumes "plain_cidr cidr" and "ParseCIDR cidr = Inr (ip, n)" and "free_addr n us a"
  shows "inner_addr a"
proof -
  obtain p where span: "plain_span n p" using plain_cidr_span [OF assms(1,2)] by blast
  then have "net_last n p \<le> addr_max" using net_last_le_max by (simp add: plain_span_def)
  then show ?thesis
    using free_addr_inside [OF span assms(3)] assms(3) by (simp add: inner_addr_iff free_addr_def)
qed

subsection \<open>Conflicts\<close>

lemma spans_nested:
  assumes c: "cidr_net n p" "cidr_net n' p'" and k: "net_bits n p \<le> net_bits n' p'"
    and x: "x \<in> net_span n p" "x \<in> net_span n' p'" and y: "y \<in> net_span n p"
  shows "y \<in> net_span n' p'"
proof -
  let ?k = "net_bits n p" and ?k' = "net_bits n' p'"
  have "y div 2 ^ ?k = x div 2 ^ ?k" using c(1) x(1) y by (simp add: net_span_iff)
  moreover have "(2::nat) ^ ?k' = 2 ^ ?k * 2 ^ (?k' - ?k)" using k by (simp flip: power_add)
  ultimately have "y div 2 ^ ?k' = x div 2 ^ ?k'" by (simp only: div_mult2_eq)
  then show ?thesis using c(2) x(2) by (simp add: net_span_iff)
qed

lemma CheckNetworkConflict_None_iff:
  assumes "plain_cidr cidr1" and "plain_cidr cidr2"
    and p1: "ParseCIDR cidr1 = Inr (ip1, n1)" and p2: "ParseCIDR cidr2 = Inr (ip2, n2)"
  shows "CheckNetworkConflict cidr1 cidr2 = None \<longleftrightarrow>
    (\<nexists>a. length a = 16 \<and> Contains n1 a \<and> Contains n2 a)"
proof -
  obtain k1 where s1: "plain_span n1 k1" "bval ip1 \<in> net_span n1 k1"
    using plain_cidr_span [OF assms(1) p1] by blast
  obtain k2 where s2: "plain_span n2 k2" "bval ip2 \<in> net_span n2 k2"
    using plain_cidr_span [OF assms(2) p2] by blast
  have net: "cidr_net n1 k1" "cidr_net n2 k2" using s1 s2 by (simp_all add: plain_span_def)
  have len: "length ip1 = 16" "length ip2 = 16" using p1 p2 ParseCIDR_length by blast+
  have "CheckNetworkConflict cidr1 cidr2 = None \<longleftrightarrow>
      \<not> IP_Equal ip1 ip2 \<and> \<not> Contains n1 ip2 \<and> \<not> Contains n2 ip1"
    by (simp add: CheckNetworkConflict_def p1 p2)
  also have "\<dots> \<longleftrightarrow> ip1 \<noteq> ip2 \<and> bval ip2 \<notin> net_span n1 k1 \<and> bval ip1 \<notin> net_span n2 k2"
    using len s1 s2 by (simp add: Contains_span)
  also have "\<dots> \<longleftrightarrow> (\<nexists>a. length a = 16 \<and> bval a \<in> net_span n1 k1 \<and> bval a \<in> net_span n2 k2)"
    using spans_nested [OF net] spans_nested [OF net(2) net(1)] len s1(2) s2(2) nle_le by blast
  also have "\<dots> \<longleftrightarrow> (\<nexists>a. length a = 16 \<and> Contains n1 a \<and> Contains n2 a)"
    using s1 s2 by (auto simp: Contains_span)
  finally show ?thesis .
qed

lemma bval_surj: "x < 256 ^ l \<Longrightarrow> \<exists>a. length a = l \<and> bval a = x"
proof (induction l arbitrary: x)
  case (Suc l)
  obtain a where a: "length a = l" "bval a = x mod 256 ^ l"
    using Suc.IH [of "x mod 256 ^ l"] by auto
  have "x div 256 ^ l < 256" using Suc.prems by (simp add: less_mult_imp_div_less)
  then have "unat (of_nat (x div 256 ^ l) :: byte) = x div 256 ^ l"
    by (simp add: unat_of_nat)
  then show ?case using a by (intro exI [of _ "of_nat (x div 256 ^ l) # a"]) (simp add: div_mult_mod_eq)
qed simp

lemma ranges_set_addr:
  assumes "list_all range16 rs" and "x \<in> ranges_set rs"
  shows "\<exists>a. length a = 16 \<and> bval a = x"
proof -
  obtain r where "range16 r" "x \<le> bval (To r)"
    using assms by (auto simp: ranges_set_def range_set_def list_all_iff)
  then have "x < 256 ^ 16" using bval_less [of "To r"] by (simp add: range16_def)
  then show ?thesis by (rule bval_surj)
qed

lemma ipRangeConflict_None_iff:
  assumes "range16 r" and "range16 s"
  shows "ipRangeConflict r s = None \<longleftrightarrow> range_set r \<inter> range_set s = {}"
proof -
  have len: "length (From r) = 16" "length (To r) = 16" "length (From s) = 16" "length (To s) = 16"
    using assms by (simp_all add: range16_def)
  then have ne: "From r \<noteq> []" "To r \<noteq> []" "From s \<noteq> []" "To s \<noteq> []" by auto
  have inr: "IPInRanges a [\<lparr>From = From q, To = To q\<rparr>] \<longleftrightarrow> bval a \<in> range_set q"
    if "length a = 16" "range16 q" for a q
    using that IPInRanges_iff [of "[q]" a] by (cases q) simp
  have "ipRangeConflict r s = None \<longleftrightarrow>
      \<not> (bval (From r) \<in> range_set s \<or> bval (To r) \<in> range_set s) \<and>
      \<not> (bval (From s) \<in> range_set r \<or> bval (To s) \<in> range_set r)"
    using len ne inr assms by (simp add: ipRangeConflict_def Let_def)
  then show ?thesis
    using assms by (auto simp: range16_def range_set_def)
qed

lemma CheckIPRangesConflict_None_iff:
  assumes "list_all range16 rs" and "list_all range16 ts"
  shows "CheckIPRangesConflict rs ts = None \<longleftrightarrow> ranges_set rs \<inter> ranges_set ts = {}"
proof -
  have inner: "conflict_with r ts = None \<longleftrightarrow> range_set r \<inter> ranges_set ts = {}" if "range16 r" for r
    using assms(2) that
  proof (induction ts)
    case (Cons t ts)
    then show ?case
      using ipRangeConflict_None_iff [of r t] by (cases "ipRangeConflict r t") auto
  qed simp
  have "ranges_conflict rs ts = None \<longleftrightarrow> ranges_set rs \<inter> ranges_set ts = {}"
    using assms(1)
  proof (induction rs)
    case (Cons r rs)
    then show ?case using inner [of r] by (cases "conflict_with r ts") auto
  qed simp
  then show ?thesis by (auto simp: CheckIPRangesConflict_def)
qed


subsection \<open>Properties\<close>

text \<open>
  C5. For a network without custom ranges the allocator always returns: the lowest address that is
  inside the network, is neither its network nor its broadcast address and is not used, or
  \<open>ErrNoAvailableIP\<close>, and then there is no such address.
\<close>

theorem GetAvailableIP_least_free:
  assumes "plain_cidr cidr" and "ParseCIDR cidr = Inr (ip, n)" and "list_all range16 usedIPs"
  shows "(\<exists>a. GetAvailableIP cidr [] usedIPs = Some (Inr a) \<and> free_addr n usedIPs a \<and>
           (\<forall>b. free_addr n usedIPs b \<longrightarrow> bval a \<le> bval b)) \<or>
         (GetAvailableIP cidr [] usedIPs = Some (Inl (Sentinel ErrNoAvailableIP)) \<and>
           (\<forall>b. \<not> free_addr n usedIPs b))"
  using GetAvailableIP_network [OF assms]
  by (auto simp: least_free_def found_or_error_def split: option.splits)

theorem GetAvailableIP_least_free_witness:
  "\<exists>a. GetAvailableIP ''10.1.0.0/16'' [] [\<lparr>From = ParseIP ''10.1.0.1'', To = ParseIP ''10.1.0.9''\<rparr>] =
      Some (Inr a) \<and> a = ParseIP ''10.1.0.10'' \<and>
    (\<forall>b. free_addr \<lparr>NetIP = [10, 1, 0, 0], NetMask = [255, 255, 0, 0]\<rparr>
            [\<lparr>From = ParseIP ''10.1.0.1'', To = ParseIP ''10.1.0.9''\<rparr>] b \<longrightarrow> bval a \<le> bval b)"
proof -
  let ?u = "[\<lparr>From = ParseIP ''10.1.0.1'', To = ParseIP ''10.1.0.9''\<rparr>]"
  let ?n = "\<lparr>NetIP = [10, 1, 0, 0], NetMask = [255, 255, 0, 0]\<rparr>"
  have plain: "plain_cidr ''10.1.0.0/16''" by code_simp
  have parse: "ParseCIDR ''10.1.0.0/16'' = Inr (ParseIP ''10.1.0.0'', ?n)" by code_simp
  have ips: "ParseIP ''10.1.0.1'' = [0, 0, 0, 0, 0, 0, 0, 0, 0, 0, 255, 255, 10, 1, 0, 1]"
    "ParseIP ''10.1.0.9'' = [0, 0, 0, 0, 0, 0, 0, 0, 0, 0, 255, 255, 10, 1, 0, 9]"
    by code_simp+
  have used: "list_all range16 ?u" by (simp add: range16_def ips)
  have run: "GetAvailableIP ''10.1.0.0/16'' [] ?u = Some (Inr (ParseIP ''10.1.0.10''))" by code_simp
  show ?thesis
    using GetAvailableIP_least_free [OF plain parse used] run by auto
qed

text \<open>
  C15. With custom ranges that do not end at the last IPv6 address the allocator always returns: the
  lowest free address of the first range that has one, or \<open>ErrNoAvailableIP\<close>, and then no address
  of the ranges is free.
\<close>

theorem GetAvailableIP_first_range:
  assumes "ParseCIDR cidr = Inr (ip, n)" and "list_all range16 usedIPs"
    and "list_all walkable rs" and "rs \<noteq> []"
  shows "(\<exists>a xs q ys. GetAvailableIP cidr rs usedIPs = Some (Inr a) \<and> rs = xs @ q # ys \<and>
           free_addr n usedIPs a \<and> bval a \<in> range_set q \<and>
           (\<forall>b. free_addr n usedIPs b \<longrightarrow> bval b \<notin> ranges_set xs) \<and>
           (\<forall>b. free_addr n usedIPs b \<and> bval b \<in> range_set q \<longrightarrow> bval a \<le> bval b)) \<or>
         (GetAvailableIP cidr rs usedIPs = Some (Inl (Sentinel ErrNoAvailableIP)) \<and>
           (\<forall>b. free_addr n usedIPs b \<longrightarrow> bval b \<notin> ranges_set rs))"
proof -
  obtain r where r: "GetAvailableIP cidr rs usedIPs = Some (found_or_error r)"
      "ranges_result (free_addr n usedIPs) rs r"
    using GetAvailableIP_ranges [OF assms] by blast
  show ?thesis
  proof (cases r)
    case None
    then show ?thesis using r by (simp add: ranges_result_def found_or_error_def)
  next
    case (Some a)
    then show ?thesis
      using r unfolding Some ranges_result_def option.case found_or_error_def by blast
  qed
qed

theorem GetAvailableIP_first_range_witness:
  "let rs = [\<lparr>From = ParseIP ''10.1.0.4'', To = ParseIP ''10.1.0.5''\<rparr>];
       used = [\<lparr>From = ParseIP ''10.1.0.4'', To = ParseIP ''10.1.0.5''\<rparr>]
   in GetAvailableIP ''10.1.0.0/16'' rs used = Some (Inl (Sentinel ErrNoAvailableIP)) \<and>
      (\<forall>b. free_addr \<lparr>NetIP = [10, 1, 0, 0], NetMask = [255, 255, 0, 0]\<rparr> used b \<longrightarrow>
         bval b \<notin> ranges_set rs)"
proof -
  let ?u = "[\<lparr>From = ParseIP ''10.1.0.4'', To = ParseIP ''10.1.0.5''\<rparr>]"
  let ?n = "\<lparr>NetIP = [10, 1, 0, 0], NetMask = [255, 255, 0, 0]\<rparr>"
  have parse: "ParseCIDR ''10.1.0.0/16'' = Inr (ParseIP ''10.1.0.0'', ?n)" by code_simp
  have ips: "ParseIP ''10.1.0.4'' = [0, 0, 0, 0, 0, 0, 0, 0, 0, 0, 255, 255, 10, 1, 0, 4]"
    "ParseIP ''10.1.0.5'' = [0, 0, 0, 0, 0, 0, 0, 0, 0, 0, 255, 255, 10, 1, 0, 5]"
    by code_simp+
  have used: "list_all range16 ?u" by (simp add: range16_def ips)
  have walk: "list_all walkable ?u" by code_simp
  have run: "GetAvailableIP ''10.1.0.0/16'' ?u ?u = Some (Inl (Sentinel ErrNoAvailableIP))" by code_simp
  show ?thesis
    using GetAvailableIP_first_range [OF parse used walk] run by (simp add: Let_def)
qed

text \<open>
  C34. The broadcast address is the highest address of the network and the network address the
  lowest; an address is available exactly when it lies strictly between them.
\<close>

theorem IsAvailableIP_between:
  assumes "plain_cidr cidr" and "ParseCIDR cidr = Inr (ip, n)" and "length a = 16"
  shows "(IsNetwork a (Some n) \<longleftrightarrow>
           Contains n a \<and> (\<forall>b. length b = 16 \<and> Contains n b \<longrightarrow> bval a \<le> bval b)) \<and>
         (IsBroadCast a (Some n) \<longleftrightarrow>
           Contains n a \<and> (\<forall>b. length b = 16 \<and> Contains n b \<longrightarrow> bval b \<le> bval a)) \<and>
         (IsAvailableIP a (Some n) \<longleftrightarrow>
           Contains n a \<and> \<not> IsNetwork a (Some n) \<and> \<not> IsBroadCast a (Some n))"
proof -
  obtain p where span: "plain_span n p" using plain_cidr_span [OF assms(1,2)] by blast
  then have net: "cidr_net n p" by (simp add: plain_span_def)
  have ends: "\<exists>b. length b = 16 \<and> bval b = net_base n" "\<exists>b. length b = 16 \<and> bval b = net_last n p"
    using net_base_addr [OF net] net_last_addr [OF net] by blast+
  have "IsNetwork a (Some n) \<longleftrightarrow> bval a = net_base n" "IsBroadCast a (Some n) \<longleftrightarrow> bval a = net_last n p"
    using IsNetwork_iff [OF net assms(3)] IsBroadCast_iff [OF net assms(3)]
    by (auto simp: net_last_def)
  moreover have "Contains n b \<longleftrightarrow> net_base n \<le> bval b \<and> bval b \<le> net_last n p" if "length b = 16" for b
    using Contains_span [OF span that] by (simp add: net_span_last)
  moreover have "net_base n \<le> net_last n p"
    using one_le_power [of "2::nat" "net_bits n p"] unfolding net_last_def by linarith
  moreover have "IsAvailableIP a (Some n) \<longleftrightarrow>
      Contains n a \<and> \<not> IsNetwork a (Some n) \<and> \<not> IsBroadCast a (Some n)"
    using IPInNetwork_span [OF span assms(3)] Contains_span [OF span assms(3)] net_some [OF net assms(3)]
    by (auto simp: IsAvailableIP_def)
  ultimately show ?thesis using ends assms(3) by (metis le_antisym order_refl)
qed

theorem IsAvailableIP_between_witness:
  "Contains \<lparr>NetIP = [10, 1, 0, 0], NetMask = [255, 255, 0, 0]\<rparr> (ParseIP ''10.1.255.255'') \<and>
   bval (ParseIP ''10.1.7.7'') \<le> bval (ParseIP ''10.1.255.255'')"
proof -
  let ?n = "\<lparr>NetIP = [10, 1, 0, 0], NetMask = [255, 255, 0, 0]\<rparr>"
  have plain: "plain_cidr ''10.1.0.0/16''" by code_simp
  have parse: "ParseCIDR ''10.1.0.0/16'' = Inr (ParseIP ''10.1.0.0'', ?n)" by code_simp
  have len: "length (ParseIP ''10.1.255.255'') = 16" "length (ParseIP ''10.1.7.7'') = 16" by code_simp+
  have "IsBroadCast (ParseIP ''10.1.255.255'') (Some ?n)" "Contains ?n (ParseIP ''10.1.7.7'')"
    by code_simp+
  then show ?thesis using IsAvailableIP_between [OF plain parse len(1)] len(2) by blast
qed

text \<open>
  C33. Two networks conflict exactly when they have an address in common.
\<close>

theorem CheckNetworkConflict_iff_overlap:
  assumes "plain_cidr cidr1" and "plain_cidr cidr2"
    and "ParseCIDR cidr1 = Inr (ip1, n1)" and "ParseCIDR cidr2 = Inr (ip2, n2)"
  shows "CheckNetworkConflict cidr1 cidr2 = None \<longleftrightarrow>
    (\<nexists>a. length a = 16 \<and> Contains n1 a \<and> Contains n2 a)"
  by (rule CheckNetworkConflict_None_iff [OF assms])

theorem CheckNetworkConflict_iff_overlap_witness:
  "CheckNetworkConflict ''10.1.0.0/16'' ''10.2.0.0/16'' = None \<and>
   (\<nexists>a. length a = 16 \<and> Contains \<lparr>NetIP = [10, 1, 0, 0], NetMask = [255, 255, 0, 0]\<rparr> a \<and>
      Contains \<lparr>NetIP = [10, 2, 0, 0], NetMask = [255, 255, 0, 0]\<rparr> a)"
proof -
  have plain: "plain_cidr ''10.1.0.0/16''" "plain_cidr ''10.2.0.0/16''" by code_simp+
  have parse: "ParseCIDR ''10.1.0.0/16'' =
      Inr (ParseIP ''10.1.0.0'', \<lparr>NetIP = [10, 1, 0, 0], NetMask = [255, 255, 0, 0]\<rparr>)"
    "ParseCIDR ''10.2.0.0/16'' =
      Inr (ParseIP ''10.2.0.0'', \<lparr>NetIP = [10, 2, 0, 0], NetMask = [255, 255, 0, 0]\<rparr>)"
    by code_simp+
  have "CheckNetworkConflict ''10.1.0.0/16'' ''10.2.0.0/16'' = None" by code_simp
  then show ?thesis using CheckNetworkConflict_iff_overlap [OF plain parse] by blast
qed

text \<open>
  Two lists of ranges are accepted exactly when no address is in both.
\<close>

theorem CheckIPRangesConflict_iff_overlap:
  assumes "list_all range16 rs" and "list_all range16 ts"
  shows "CheckIPRangesConflict rs ts = None \<longleftrightarrow>
    (\<nexists>a. length a = 16 \<and> IPInRanges a rs \<and> IPInRanges a ts)"
proof -
  have "ranges_set rs \<inter> ranges_set ts = {} \<longleftrightarrow>
      (\<nexists>a. length a = 16 \<and> bval a \<in> ranges_set rs \<and> bval a \<in> ranges_set ts)"
    using ranges_set_addr [OF assms(1)] by (auto simp: disjoint_iff)
  then show ?thesis
    using CheckIPRangesConflict_None_iff [OF assms] IPInRanges_iff assms by blast
qed

theorem CheckIPRangesConflict_iff_overlap_witness:
  "let r = \<lparr>From = ParseIP ''10.1.0.1'', To = ParseIP ''10.1.0.9''\<rparr>
   in CheckIPRangesConflict [r] [r] \<noteq> None \<and> (\<exists>a. length a = 16 \<and> IPInRanges a [r] \<and> IPInRanges a [r])"
proof -
  let ?r = "\<lparr>From = ParseIP ''10.1.0.1'', To = ParseIP ''10.1.0.9''\<rparr>"
  have ips: "ParseIP ''10.1.0.1'' = [0, 0, 0, 0, 0, 0, 0, 0, 0, 0, 255, 255, 10, 1, 0, 1]"
    "ParseIP ''10.1.0.9'' = [0, 0, 0, 0, 0, 0, 0, 0, 0, 0, 255, 255, 10, 1, 0, 9]"
    by code_simp+
  have r: "list_all range16 [?r]" by (simp add: range16_def ips)
  have "CheckIPRangesConflict [?r] [?r] \<noteq> None" by code_simp
  then show ?thesis using CheckIPRangesConflict_iff_overlap [OF r r] by (simp add: Let_def)
qed

text \<open>
  The scan of a custom range that ends at the last IPv6 address never returns when no address
  of the network is free: the successor of the last address is \<open>::\<close>, which is again below the end.
\<close>

theorem GetAvailableIP_never_returns:
  assumes "ParseCIDR cidr = Inr (ip, n)" and "\<And>a. \<not> free_addr n usedIPs a"
    and "list_all range16 usedIPs" and "length (From r) = 16" and "To r = replicate 16 255"
  shows "GetAvailableIP cidr (r # rs) usedIPs = None"
proof -
  have len: "length (skip_used (From r) usedIPs) = 16"
    using skip_used_search [OF assms(3,4)] by simp
  then have ne: "skip_used (From r) usedIPs \<noteq> []" by auto
  have "scan_range n usedIPs (To r) (skip_used (From r) usedIPs) = None"
    using assms(2,5) len bval_ends(2) by (intro scan_range_diverges) simp_all
  then show ?thesis
    using assms ne by (simp add: GetAvailableIP_def)
qed

theorem GetAvailableIP_never_returns_witness:
  "GetAvailableIP ''10.1.0.4/32'' [\<lparr>From = ParseIP ''10.1.0.4'', To = replicate 16 255\<rparr>] [] = None"
proof -
  let ?n = "\<lparr>NetIP = [10, 1, 0, 4], NetMask = [255, 255, 255, 255]\<rparr>"
  have parse: "ParseCIDR ''10.1.0.4/32'' = Inr (ParseIP ''10.1.0.4'', ?n)" by code_simp
  have "cidr_net ?n 32" by code_simp
  then have "plain_span ?n 32" by (simp add: plain_span_def)
  then have "\<not> free_addr ?n [] a" for a
    using free_addr_bits [of ?n 32 "[]" a] by (auto simp: net_bits_def)
  moreover have "length (ParseIP ''10.1.0.4'') = 16" by code_simp
  ultimately show ?thesis using parse by (intro GetAvailableIP_never_returns) simp_all
qed

end
