(* ===== verification/Common.thy ===== *)
theory Common
  imports AddrAlloc
begin

text \<open>
  Validation shared by the controllers and the webhook: \<open>pkg/common/common.go\<close>, and the mode and
  flag names of \<open>pkg/cni/macvlan\<close> and \<open>pkg/cni/ipvlan\<close>. A nil error is \<open>None\<close>. A list of pointers
  to subnets is a list of options, where a nil pointer is \<open>None\<close>. Integers are Go's 64-bit \<open>int\<close>s; no
  operation here overflows.
\<close>

subsection \<open>Modes and flags of the interfaces\<close>

text \<open>The constants of the netlink package; the last constructor is any other value.\<close>

datatype MacvlanMode =
    MACVLAN_MODE_BRIDGE | MACVLAN_MODE_PRIVATE | MACVLAN_MODE_VEPA | MACVLAN_MODE_PASSTHRU
  | MACVLAN_MODE_OTHER nat

datatype IPVlanMode = IPVLAN_MODE_L2 | IPVLAN_MODE_L3 | IPVLAN_MODE_L3S | IPVLAN_MODE_OTHER nat

datatype IPVlanFlag =
    IPVLAN_FLAG_BRIDGE | IPVLAN_FLAG_PRIVATE | IPVLAN_FLAG_VEPA | IPVLAN_FLAG_OTHER nat

fun macvlan_ModeToString :: "MacvlanMode \<Rightarrow> error + string" where
  "macvlan_ModeToString MACVLAN_MODE_BRIDGE = Inr ''bridge''"
| "macvlan_ModeToString MACVLAN_MODE_PRIVATE = Inr ''private''"
| "macvlan_ModeToString MACVLAN_MODE_VEPA = Inr ''vepa''"
| "macvlan_ModeToString MACVLAN_MODE_PASSTHRU = Inr ''passthru''"
| "macvlan_ModeToString (MACVLAN_MODE_OTHER m) = Inl (Errorf ''unknown macvlan mode: %q'' [show_nat m])"

definition macvlan_ModeFromString :: "string \<Rightarrow> error + MacvlanMode" where
  "macvlan_ModeFromString s =
     (if s = [] \<or> s = ''bridge'' then Inr MACVLAN_MODE_BRIDGE
      else if s = ''private'' then Inr MACVLAN_MODE_PRIVATE
      else if s = ''vepa'' then Inr MACVLAN_MODE_VEPA
      else if s = ''passthru'' then Inr MACVLAN_MODE_PASSTHRU
      else Inl (Errorf ''unknown macvlan mode: %q'' [s]))"

fun ipvlan_ModeToString :: "IPVlanMode \<Rightarrow> error + string" where
  "ipvlan_ModeToString IPVLAN_MODE_L2 = Inr ''l2''"
| "ipvlan_ModeToString IPVLAN_MODE_L3 = Inr ''l3''"
| "ipvlan_ModeToString IPVLAN_MODE_L3S = Inr ''l3s''"
| "ipvlan_ModeToString (IPVLAN_MODE_OTHER m) = Inl (Errorf ''unknown ipvlan mode: %v'' [show_nat m])"

definition ipvlan_ModeFromString :: "string \<Rightarrow> error + IPVlanMode" where
  "ipvlan_ModeFromString s =
     (if s = [] \<or> s = ''l2'' then Inr IPVLAN_MODE_L2
      else if s = ''l3'' then Inr IPVLAN_MODE_L3
      else if s = ''l3s'' then Inr IPVLAN_MODE_L3S
      else Inl (Errorf ''unknown ipvlan mode: %q'' [s]))"

definition ipvlan_FlagFromString :: "string \<Rightarrow> error + IPVlanFlag" where
  "ipvlan_FlagFromString s =
     (if s = [] \<or> s = ''bridge'' then Inr IPVLAN_FLAG_BRIDGE
      else if s = ''private'' then Inr IPVLAN_FLAG_PRIVATE
      else if s = ''vepa'' then Inr IPVLAN_FLAG_VEPA
      else Inl (Errorf ''unknow ipvlan flag: %q'' [s]))"

fun ipvlan_FlagToString :: "IPVlanFlag \<Rightarrow> error + string" where
  "ipvlan_FlagToString IPVLAN_FLAG_BRIDGE = Inr ''bridge''"
| "ipvlan_FlagToString IPVLAN_FLAG_PRIVATE = Inr ''private''"
| "ipvlan_FlagToString IPVLAN_FLAG_VEPA = Inr ''vepa''"
| "ipvlan_FlagToString (IPVLAN_FLAG_OTHER f) = Inl (Errorf ''unknown ipvlan flag: %v'' [show_nat f])"

subsection \<open>Validation of one subnet\<close>

text \<open>The first invalid range with the reason.\<close>

fun isValidRanges :: "IPRange list \<Rightarrow> IPNet \<Rightarrow> (IPRange \<times> error) option" where
  "isValidRanges [] network = None"
| "isValidRanges (r # rs) network =
     (let s1 = To16 (From r); s2 = To16 (To r) in
      if s1 = [] then Some (r, Errorf ''invalid IP address %q'' [IP_String s1])
      else if s2 = [] then Some (r, Errorf ''invalid IP address %q'' [IP_String s2])
      else if \<not> Contains network s1 then
        Some (r, Errorf ''addr %q not inside the network %q'' [IP_String s1, IPNet_String network])
      else if \<not> Contains network s2 then
        Some (r, Errorf ''addr %q not inside the network %q'' [IP_String s2, IPNet_String network])
      else if bytes_Compare s1 s2 > 0 then
        Some (r, Errorf (''invalid subnet range: '' @ [CHR 0x27] @ ''From'' @ [CHR 0x27] @
                           '' should <= '' @ [CHR 0x27] @ ''To'' @ [CHR 0x27]) [])
      else isValidRanges rs network)"

abbreviation MaxInt32 :: int where "MaxInt32 \<equiv> 2147483647"

fun isValidRoutes :: "IPNet \<Rightarrow> Route list \<Rightarrow> (Route \<times> error) option" where
  "isValidRoutes network [] = None"
| "isValidRoutes network (r # rs) =
     (if route_Dev r = [] then Some (r, Errorf ''route dev not specified'' [])
      else if route_Dst r = [] then Some (r, Errorf ''route dst not specified'' [])
      else case ParseCIDR (route_Dst r) of
        Inl e \<Rightarrow> Some (r, Wrapf ''route dst %q invalid: %w'' [route_Dst r] e)
      | Inr _ \<Rightarrow>
          if route_Via r \<noteq> [] \<and> \<not> Contains network (route_Via r) then
            Some (r, Errorf ''invalid gateway ip %q: not in subnet CIDR'' [IP_String (route_Via r)])
          else if route_Priority r < 0 \<or> route_Priority r > MaxInt32 then
            Some (r, Errorf ''invalid route priority (metrics)'' [])
          else isValidRoutes network rs)"

definition ValidateSubnet :: "FlatNetworkSubnet \<Rightarrow> error option" where
  "ValidateSubnet subnet =
     (let spec = sn_Spec subnet in
      if FlatMode spec \<noteq> FlatModeMacvlan \<and> FlatMode spec \<noteq> FlatModeIPvlan then
        Some (Errorf ''unrecognized subnet flatMode [%v]'' [FlatMode spec])
      else case ParseCIDR (CIDR spec) of
        Inl e \<Rightarrow> Some (Wrapf ''failed to parse subnet CIDR [%v]: %w'' [CIDR spec] e)
      | Inr (_, network) \<Rightarrow>
          if Gateway spec \<noteq> [] \<and> \<not> Contains network (Gateway spec) then
            Some (Errorf ''invalid subnet gateway [%v] provided'' [IP_String (Gateway spec)])
          else case isValidRanges (Ranges spec) network of
            Some (r, e) \<Rightarrow> Some (Wrapf ''invalid subnet ranges %v: %w'' [Print_IPRange r] e)
          | None \<Rightarrow>
              (case isValidRoutes network (Routes spec) of
                 Some (r, e) \<Rightarrow> Some (Wrapf ''invalid subnet routes %v: %w'' [Print_Route r] e)
               | None \<Rightarrow> None))"

subsection \<open>Conflicts between subnets\<close>

fun CheckSubnetConflict :: "FlatNetworkSubnet \<Rightarrow> FlatNetworkSubnet option list \<Rightarrow> error option" where
  "CheckSubnetConflict subnet [] = None"
| "CheckSubnetConflict subnet (None # ss) = CheckSubnetConflict subnet ss"
| "CheckSubnetConflict subnet (Some s # ss) =
     (if sn_Name s = sn_Name subnet then CheckSubnetConflict subnet ss
      else if FlatMode (sn_Spec s) \<noteq> FlatMode (sn_Spec subnet) then CheckSubnetConflict subnet ss
      else if VLAN (sn_Spec s) \<noteq> VLAN (sn_Spec subnet) then CheckSubnetConflict subnet ss
      else case CheckNetworkConflict (CIDR (sn_Spec s)) (CIDR (sn_Spec subnet)) of
        None \<Rightarrow> CheckSubnetConflict subnet ss
      | Some e \<Rightarrow>
          if Ranges (sn_Spec s) \<noteq> [] \<and> Ranges (sn_Spec subnet) \<noteq> [] then
            (case CheckIPRangesConflict (Ranges (sn_Spec subnet)) (Ranges (sn_Spec s)) of
               Some e \<Rightarrow> Some (Wrapf ''range conflict with subnet [%v]: %w'' [sn_Name s] e)
             | None \<Rightarrow> None)
          else
            Some (Wrapf ''subnet [%v] and [%v] have potential CIDR conflicts: %w''
                    [sn_Name s, sn_Name subnet] e))"

text \<open>The second part of \<open>CheckSubnetFlatMode\<close>, the loop over the other subnets.\<close>

fun same_vlan_flat_mode :: "FlatNetworkSubnet \<Rightarrow> FlatNetworkSubnet option list \<Rightarrow> error option" where
  "same_vlan_flat_mode subnet [] = None"
| "same_vlan_flat_mode subnet (None # ss) = same_vlan_flat_mode subnet ss"
| "same_vlan_flat_mode subnet (Some s # ss) =
     (if sn_Name s = sn_Name subnet then same_vlan_flat_mode subnet ss
      else if VLAN (sn_Spec s) \<noteq> VLAN (sn_Spec subnet) then same_vlan_flat_mode subnet ss
      else
        let master = (if VLAN (sn_Spec s) \<noteq> 0
                      then Master (sn_Spec s) @ ''.'' @ show_int (VLAN (sn_Spec s))
                      else Master (sn_Spec s))
        in if FlatMode (sn_Spec s) \<noteq> FlatMode (sn_Spec subnet) then
             Some (Errorf ''subnet [%v] in flatMode [%v] already using master iface [%v]''
                     [sn_Name s, FlatMode (sn_Spec s), master])
           else same_vlan_flat_mode subnet ss)"

definition CheckSubnetFlatMode ::
    "FlatNetworkSubnet \<Rightarrow> FlatNetworkSubnet option list \<Rightarrow> error option" where
  "CheckSubnetFlatMode subnet subnets =
     (let spec = sn_Spec subnet; rest = same_vlan_flat_mode subnet subnets in
      if FlatMode spec = FlatModeMacvlan then
        (case macvlan_ModeFromString (Mode spec) of
           Inl e \<Rightarrow> Some (Wrapf ''invalid %q mode %q: %w'' [FlatMode spec, Mode spec] e)
         | Inr _ \<Rightarrow>
             if IPvlanFlag spec \<noteq> [] then
               Some (Errorf ''ipvlanFlag should be empty when flatMode is %q'' [FlatMode spec])
             else rest)
      else if FlatMode spec = FlatModeIPvlan then
        (case ipvlan_ModeFromString (Mode spec) of
           Inl e \<Rightarrow> Some (Wrapf ''invalid %q mode %q: %w'' [FlatMode spec, Mode spec] e)
         | Inr _ \<Rightarrow>
             (case ipvlan_FlagFromString (IPvlanFlag spec) of
                Inl e \<Rightarrow> Some (Wrapf ''invalid %q flag %q: %w'' [FlatMode spec, IPvlanFlag spec] e)
              | Inr _ \<Rightarrow> rest))
      else
        Some (Errorf ''invalid subnet flatMode %q provided, available: [%v, %v]''
                [FlatMode spec, FlatModeMacvlan, FlatModeIPvlan]))"

subsection \<open>Annotations of pods\<close>

fun parse_ips :: "string list \<Rightarrow> error + net_IP list" where
  "parse_ips [] = Inr []"
| "parse_ips (v # vs) =
     (let ip = ParseIP v in
      if ip = [] then Inl (Errorf ''invalid annotation IP list [%v]: invalid IP format'' [v])
      else case parse_ips vs of Inl e \<Rightarrow> Inl e | Inr ips \<Rightarrow> Inr (ip # ips))"

definition CheckPodAnnotationIPs :: "string \<Rightarrow> error + net_IP list" where
  "CheckPodAnnotationIPs s =
     (if s = [] \<or> s = AllocateModeAuto then Inr []
      else let ip = ParseIP s in
        if ip \<noteq> [] then Inr [ip]
        else let spec = strings_Split (strings_TrimSpace s) (CHR ''-'') in
          if spec = [] then
            Inl (Errorf ''invalid annotation IP list [%v], should separated by comma'' [s])
          else parse_ips spec)"

fun parse_macs :: "string \<Rightarrow> string list \<Rightarrow> error + string list" where
  "parse_macs s [] = Inr []"
| "parse_macs s (v # vs) =
     (case ParseMAC v of
        Inl e \<Rightarrow> Inl (Wrapf ''invalid mac [%v] found in annotation [%v]: %w'' [v, s] e)
      | Inr m \<Rightarrow>
          (case parse_macs s vs of
             Inl e \<Rightarrow> Inl e
           | Inr ms \<Rightarrow> Inr (HardwareAddr_String m # ms)))"

definition CheckPodAnnotationMACs :: "string \<Rightarrow> error + string list" where
  "CheckPodAnnotationMACs s =
     (if s = [] \<or> s = AllocateModeAuto then Inr []
      else parse_macs s (strings_Split (strings_TrimSpace s) (CHR ''-'')))"

subsection \<open>Keys of workloads\<close>

text \<open>The dynamic type of a \<open>metav1.Object\<close>, as far as the type switch tells it, and its metadata.\<close>

datatype object_type = Deployment | DaemonSet | StatefulSet | ReplicaSet | CronJob | Job | OtherObject

definition GetWorkloadKind :: "object_type \<Rightarrow> string" where
  "GetWorkloadKind w =
     (case w of
        Deployment \<Rightarrow> ''Deployment''
      | DaemonSet \<Rightarrow> ''DaemonSet''
      | StatefulSet \<Rightarrow> ''StatefulSet''
      | CronJob \<Rightarrow> ''CronJob''
      | Job \<Rightarrow> ''Job''
      | _ \<Rightarrow> '''')"

definition GetWorkloadReservdIPKey :: "object_type \<Rightarrow> ObjectMeta \<Rightarrow> string" where
  "GetWorkloadReservdIPKey w m =
     (let k = GetWorkloadKind w in
      if k = [] then [] else k @ ''/'' @ Namespace m @ ''/'' @ Name m)"


subsection \<open>Normal forms of ranges\<close>

definition norm_range :: "IPRange \<Rightarrow> IPRange" where
  "norm_range r = \<lparr>From = To16 (From r), To = To16 (To r)\<rparr>"

lemma scan_ranges_norm: "scan_ranges n used (map norm_range rs) = scan_ranges n used rs"
proof (induction rs)
  case (Cons r rs)
  then show ?case by (simp add: norm_range_def Let_def cong: option.case_cong)
qed simp

lemma GetAvailableIP_norm: "GetAvailableIP cidr (map norm_range rs) used = GetAvailableIP cidr rs used"
  by (auto simp: GetAvailableIP_def scan_ranges_norm split: sum.splits)

lemma IPInRanges_norm:
  assumes "list_all (\<lambda>r. To16 (From r) \<noteq> [] \<and> To16 (To r) \<noteq> []) rs"
  shows "IPInRanges a (map norm_range rs) = IPInRanges a rs"
proof -
  have "From r \<noteq> [] \<and> To r \<noteq> []" if "r \<in> set rs" for r
    using assms that by (auto simp: list_all_iff To16_def split: if_splits)
  then show ?thesis
    using assms by (auto simp: IPInRanges_def Let_def list_ex_iff list_all_iff norm_range_def)
qed

lemma isValidRanges_None:
  "isValidRanges rs n = None \<Longrightarrow> list_all (\<lambda>r. To16 (From r) \<noteq> [] \<and> To16 (To r) \<noteq> [] \<and>
     Contains n (To16 (From r)) \<and> Contains n (To16 (To r)) \<and>
     bytes_Compare (To16 (From r)) (To16 (To r)) \<le> 0) rs"
  by (induction rs) (auto simp: Let_def not_less split: if_splits)

lemma isValidRanges_norm:
  assumes "isValidRanges rs n = None"
  shows "list_all range16 (map norm_range rs)"
proof -
  have "range16 (norm_range r)" if "r \<in> set rs" for r
  proof -
    have len: "length (To16 (From r)) = 16" "length (To16 (To r)) = 16"
      using isValidRanges_None [OF assms] that length_To16 by (auto simp: list_all_iff)
    then show ?thesis
      using isValidRanges_None [OF assms] that
      by (auto simp: list_all_iff range16_def norm_range_def bytes_Compare_le)
  qed
  then show ?thesis by (simp add: list_all_iff)
qed

lemma isValidRanges_IPInRanges:
  assumes "isValidRanges rs n = None"
  shows "IPInRanges a (map norm_range rs) = IPInRanges a rs"
  using isValidRanges_None [OF assms] by (intro IPInRanges_norm) (auto simp: list_all_iff)

lemma CheckIPRangesConflict_norm:
  "CheckIPRangesConflict (map norm_range rs) (map norm_range ts) = None \<longleftrightarrow>
   CheckIPRangesConflict rs ts = None"
proof -
  have one: "ipRangeConflict (norm_range r) (norm_range t) = None \<longleftrightarrow> ipRangeConflict r t = None" for r t
    by (simp add: ipRangeConflict_def norm_range_def Let_def)
  have inner: "conflict_with (norm_range r) (map norm_range ts) = None \<longleftrightarrow> conflict_with r ts = None" for r
  proof (induction ts)
    case (Cons t ts)
    then show ?case
      using one [of r t]
      by (cases "ipRangeConflict r t"; cases "ipRangeConflict (norm_range r) (norm_range t)") auto
  qed simp
  have "ranges_conflict (map norm_range rs) (map norm_range ts) = None \<longleftrightarrow> ranges_conflict rs ts = None"
  proof (induction rs)
    case (Cons r rs)
    then show ?case
      using inner [of r]
      by (cases "conflict_with r ts"; cases "conflict_with (norm_range r) (map norm_range ts)") auto
  qed simp
  then show ?thesis by (simp add: CheckIPRangesConflict_def)
qed

text \<open>What \<open>ValidateSubnet\<close> guarantees.\<close>

lemma ValidateSubnet_None:
  assumes "ValidateSubnet s = None"
  obtains ip n where "ParseCIDR (CIDR (sn_Spec s)) = Inr (ip, n)"
    and "FlatMode (sn_Spec s) \<in> {FlatModeMacvlan, FlatModeIPvlan}"
    and "Gateway (sn_Spec s) \<noteq> [] \<Longrightarrow> Contains n (Gateway (sn_Spec s))"
    and "isValidRanges (Ranges (sn_Spec s)) n = None" and "isValidRoutes n (Routes (sn_Spec s)) = None"
  using assms
  by (auto simp: ValidateSubnet_def Let_def split: if_splits sum.splits option.splits prod.splits)

lemma ValidateSubnet_ranges:
  assumes "ValidateSubnet s = None" and "ParseCIDR (CIDR (sn_Spec s)) = Inr (ip, n)"
  shows "isValidRanges (Ranges (sn_Spec s)) n = None"
  using assms by (elim ValidateSubnet_None) simp

text \<open>The addresses that the allocator may hand out for a subnet.\<close>

definition allocatable :: "FlatNetworkSubnet \<Rightarrow> net_IP \<Rightarrow> bool" where
  "allocatable s a \<longleftrightarrow> length a = 16 \<and>
     (case ParseCIDR (CIDR (sn_Spec s)) of
        Inl e \<Rightarrow> False
      | Inr (ip, n) \<Rightarrow> IsAvailableIP a (Some n) \<and>
          (Ranges (sn_Spec s) = [] \<or> IPInRanges a (Ranges (sn_Spec s))))"

lemma validated_ranges:
  assumes valid: "ValidateSubnet s = None" and parse: "ParseCIDR (CIDR (sn_Spec s)) = Inr (ip, n)"
    and last: "\<not> Contains n (replicate 16 255)"
  defines "rs \<equiv> map norm_range (Ranges (sn_Spec s))"
  shows "list_all range16 rs" and "list_all walkable rs"
    and "\<And>a. IPInRanges a rs = IPInRanges a (Ranges (sn_Spec s))"
proof -
  have v: "isValidRanges (Ranges (sn_Spec s)) n = None"
    by (rule ValidateSubnet_ranges [OF valid parse])
  show r: "list_all range16 rs" unfolding rs_def by (rule isValidRanges_norm [OF v])
  have "Contains n (To r)" if "r \<in> set rs" for r
    using isValidRanges_None [OF v] that by (auto simp: rs_def list_all_iff norm_range_def)
  then show "list_all walkable rs"
    using r last unfolding list_all_iff walkable_def range16_def by metis
  show "IPInRanges a rs = IPInRanges a (Ranges (sn_Spec s))" for a
    unfolding rs_def by (rule isValidRanges_IPInRanges [OF v])
qed

lemma GetAvailableIP_validated:
  assumes valid: "ValidateSubnet s = None" and plain: "plain_cidr (CIDR (sn_Spec s))"
    and last: "\<And>ip n. ParseCIDR (CIDR (sn_Spec s)) = Inr (ip, n) \<Longrightarrow> \<not> Contains n (replicate 16 255)"
    and used: "list_all range16 used"
  shows "(\<exists>a. GetAvailableIP (CIDR (sn_Spec s)) (Ranges (sn_Spec s)) used = Some (Inr a) \<and>
            allocatable s a \<and> \<not> IPInRanges a used) \<or>
         (GetAvailableIP (CIDR (sn_Spec s)) (Ranges (sn_Spec s)) used = Some (Inl (Sentinel ErrNoAvailableIP)) \<and>
            (\<forall>a. allocatable s a \<longrightarrow> IPInRanges a used))"
proof -
  obtain ip n where parse: "ParseCIDR (CIDR (sn_Spec s)) = Inr (ip, n)"
    using valid by (elim ValidateSubnet_None)
  let ?rs = "map norm_range (Ranges (sn_Spec s))"
  note vr = validated_ranges [OF valid parse last [OF parse]]
  have al: "allocatable s a \<and> \<not> IPInRanges a used \<longleftrightarrow>
      free_addr n used a \<and> (Ranges (sn_Spec s) = [] \<or> IPInRanges a (Ranges (sn_Spec s)))" for a
    by (auto simp: allocatable_def parse free_addr_def)
  show ?thesis
  proof (cases "Ranges (sn_Spec s) = []")
    case True
    obtain r where "GetAvailableIP (CIDR (sn_Spec s)) [] used = Some (found_or_error r)" "least_free n used r"
      using GetAvailableIP_network [OF plain parse used] by blast
    then show ?thesis
      using True al by (cases r) (auto simp: least_free_def found_or_error_def)
  next
    case False
    then obtain r where r: "GetAvailableIP (CIDR (sn_Spec s)) ?rs used = Some (found_or_error r)"
        "ranges_result (free_addr n used) ?rs r"
      using GetAvailableIP_ranges [OF parse used vr(2)] by auto
    have mem: "bval a \<in> ranges_set ?rs \<longleftrightarrow> IPInRanges a (Ranges (sn_Spec s))" if "free_addr n used a" for a
      using that vr(3) [of a] IPInRanges_iff [OF vr(1), of a] by (simp add: free_addr_def)
    show ?thesis
    proof (cases r)
      case None
      then show ?thesis
        using r al mem False unfolding GetAvailableIP_norm ranges_result_def found_or_error_def
        by simp blast
    next
      case (Some a)
      then have "free_addr n used a" "bval a \<in> ranges_set ?rs"
        using r(2) by (auto simp: ranges_result_def)
      then show ?thesis
        using r(1) al mem False Some unfolding GetAvailableIP_norm found_or_error_def by auto
    qed
  qed
qed

subsection \<open>Conflicts\<close>

definition overlapping :: "FlatNetworkSubnet \<Rightarrow> FlatNetworkSubnet \<Rightarrow> bool" where
  "overlapping subnet s \<longleftrightarrow> sn_Name s \<noteq> sn_Name subnet \<and>
     FlatMode (sn_Spec s) = FlatMode (sn_Spec subnet) \<and> VLAN (sn_Spec s) = VLAN (sn_Spec subnet) \<and>
     CheckNetworkConflict (CIDR (sn_Spec s)) (CIDR (sn_Spec subnet)) \<noteq> None"

lemma CheckSubnetConflict_find:
  "CheckSubnetConflict subnet ss = None \<longleftrightarrow>
     (case find (overlapping subnet) (map the (filter (\<lambda>s. s \<noteq> None) ss)) of
        None \<Rightarrow> True
      | Some s \<Rightarrow> Ranges (sn_Spec s) \<noteq> [] \<and> Ranges (sn_Spec subnet) \<noteq> [] \<and>
          CheckIPRangesConflict (Ranges (sn_Spec subnet)) (Ranges (sn_Spec s)) = None)"
  by (induction subnet ss rule: CheckSubnetConflict.induct)
    (auto simp: overlapping_def split: option.splits)

lemma find_append_first: "find P xs = None \<Longrightarrow> P x \<Longrightarrow> find P (xs @ x # ys) = Some x"
  by (induction xs) (auto split: if_splits)

lemma find_SomeD: "find P xs = Some x \<Longrightarrow> x \<in> set xs \<and> P x"
  by (induction xs) (auto split: if_splits)

lemma IsAvailableIP_Contains:
  assumes "plain_cidr cidr" and "ParseCIDR cidr = Inr (ip, n)" and "length a = 16"
    and "IsAvailableIP a (Some n)"
  shows "Contains n a"
proof -
  obtain p where span: "plain_span n p" using plain_cidr_span [OF assms(1,2)] by blast
  then show ?thesis
    using IPInNetwork_span [OF span assms(3)] Contains_span [OF span assms(3)] assms(4)
    by (auto simp: IsAvailableIP_def split: if_splits)
qed

lemma no_shared_address:
  assumes acc: "CheckSubnetConflict subnet (pre @ Some s # post) = None"
    and first: "\<And>t. Some t \<in> set pre \<Longrightarrow> \<not> overlapping subnet t"
    and other: "sn_Name s \<noteq> sn_Name subnet" "FlatMode (sn_Spec s) = FlatMode (sn_Spec subnet)"
      "VLAN (sn_Spec s) = VLAN (sn_Spec subnet)"
    and valid: "ValidateSubnet subnet = None" "ValidateSubnet s = None"
    and plain: "plain_cidr (CIDR (sn_Spec subnet))" "plain_cidr (CIDR (sn_Spec s))"
  shows "\<not> (allocatable subnet a \<and> allocatable s a)"
proof
  assume a: "allocatable subnet a \<and> allocatable s a"
  obtain ip1 n1 where p1: "ParseCIDR (CIDR (sn_Spec subnet)) = Inr (ip1, n1)"
    using valid(1) by (elim ValidateSubnet_None)
  obtain ip2 n2 where p2: "ParseCIDR (CIDR (sn_Spec s)) = Inr (ip2, n2)"
    using valid(2) by (elim ValidateSubnet_None)
  have len: "length a = 16" using a by (simp add: allocatable_def)
  have c: "Contains n1 a" "Contains n2 a"
    using IsAvailableIP_Contains [OF plain(1) p1 len] IsAvailableIP_Contains [OF plain(2) p2 len] a
    by (simp_all add: allocatable_def p1 p2)
  then have "CheckNetworkConflict (CIDR (sn_Spec s)) (CIDR (sn_Spec subnet)) \<noteq> None"
    using CheckNetworkConflict_None_iff [OF plain(2) plain(1) p2 p1] len by blast
  then have ov: "overlapping subnet s" using other by (simp add: overlapping_def)
  have "find (overlapping subnet) (map the (filter (\<lambda>s. s \<noteq> None) pre)) = None"
    using first by (auto simp: find_None_iff)
  then have "find (overlapping subnet) (map the (filter (\<lambda>s. s \<noteq> None) (pre @ Some s # post))) = Some s"
    using ov by (simp add: find_append_first)
  then have ne: "Ranges (sn_Spec s) \<noteq> []" "Ranges (sn_Spec subnet) \<noteq> []"
      "CheckIPRangesConflict (Ranges (sn_Spec subnet)) (Ranges (sn_Spec s)) = None"
    using acc by (simp_all add: CheckSubnetConflict_find)
  let ?r1 = "map norm_range (Ranges (sn_Spec subnet))" and ?r2 = "map norm_range (Ranges (sn_Spec s))"
  have v: "isValidRanges (Ranges (sn_Spec subnet)) n1 = None" "isValidRanges (Ranges (sn_Spec s)) n2 = None"
    using ValidateSubnet_ranges [OF valid(1) p1] ValidateSubnet_ranges [OF valid(2) p2] by simp_all
  have r16: "list_all range16 ?r1" "list_all range16 ?r2" using v isValidRanges_norm by blast+
  have "IPInRanges a ?r1" "IPInRanges a ?r2"
    using a ne p1 p2 v by (simp_all add: allocatable_def isValidRanges_IPInRanges)
  then have "bval a \<in> ranges_set ?r1 \<inter> ranges_set ?r2"
    using r16 len by (simp add: IPInRanges_iff)
  then show False
    using ne(3) CheckIPRangesConflict_None_iff [OF r16] by (auto simp: CheckIPRangesConflict_norm)
qed


subsection \<open>Hardware addresses in normal form\<close>

lemma hex_val_digit: "d < 16 \<Longrightarrow> hex_val (hex_digit d) = Some d"
  by (auto simp: hex_val_def hex_digit_def Let_def)

lemma hex_digit_not_sep: "d < 16 \<Longrightarrow> hex_digit d \<noteq> CHR '':'' \<and> hex_digit d \<noteq> CHR ''-''"
  using hex_val_digit [of d] by (auto simp: hex_val_def)

lemma xtoi2_show:
  assumes "rest = [] \<or> hd rest = e"
  shows "xtoi2 (show_byte_hex b @ rest) e = Some b"
proof -
  have d: "unat b div 16 < 16" "unat b mod 16 < 16"
    using unat_byte_less [of b] by (simp_all add: div_less_iff_less_mult)
  have "hex_num (show_byte_hex b) = unat b"
    using d by (simp add: hex_num_def show_byte_hex_def hex_val_digit)
  then show ?thesis
    using assms d
    by (cases rest) (auto simp: xtoi2_def show_byte_hex_def is_hex_def hex_val_digit)
qed

lemma length_show_byte_hex [simp]: "length (show_byte_hex b) = 2"
  by (simp add: show_byte_hex_def)

lemma HardwareAddr_Cons:
  "HardwareAddr_String (b # bs) = show_byte_hex b @ (if bs = [] then [] else CHR '':'' # HardwareAddr_String bs)"
  by (cases bs) (simp_all add: HardwareAddr_String_def join_with_def)

lemma mac_colon_show: "mac_colon (length hw) (HardwareAddr_String hw) (CHR '':'') = Some hw"
proof (induction hw)
  case (Cons b bs)
  have x: "xtoi2 (HardwareAddr_String (b # bs)) (CHR '':'') = Some b"
    unfolding HardwareAddr_Cons by (rule xtoi2_show) simp
  have "bs \<noteq> [] \<Longrightarrow> drop 3 (HardwareAddr_String (b # bs)) = HardwareAddr_String bs"
    by (simp add: HardwareAddr_Cons)
  then show ?case using Cons.IH x by (cases bs) simp_all
qed simp

lemma length_HardwareAddr: "hw \<noteq> [] \<Longrightarrow> length (HardwareAddr_String hw) + 1 = 3 * length hw"
proof (induction hw)
  case (Cons b bs)
  then show ?case by (cases bs) (simp_all add: HardwareAddr_Cons)
qed simp

lemma ParseMAC_show:
  assumes "length hw = 6 \<or> length hw = 8 \<or> length hw = 20"
  shows "ParseMAC (HardwareAddr_String hw) = Inr hw"
proof -
  obtain a b bs where hw: "hw = a # b # bs" using assms by (cases hw; cases "tl hw") auto
  have len: "length (HardwareAddr_String hw) + 1 = 3 * length hw"
    using hw by (intro length_HardwareAddr) simp
  have sep: "HardwareAddr_String hw ! 2 = CHR '':''"
    by (simp add: hw HardwareAddr_Cons nth_append)
  have n: "(length (HardwareAddr_String hw) + 1) div 3 = length hw"
    "(length (HardwareAddr_String hw) + 1) mod 3 = 0"
    unfolding len by simp_all
  have "\<not> length (HardwareAddr_String hw) < 14" using len assms by auto
  then show ?thesis
    using assms sep n mac_colon_show [of hw] by (simp add: ParseMAC_def Let_def)
qed

lemma ParseMAC_length:
  assumes "ParseMAC s = Inr hw"
  shows "length hw = 6 \<or> length hw = 8 \<or> length hw = 20"
proof -
  have colon: "mac_colon n t e = Some bs \<Longrightarrow> length bs = n" for n t e bs
    by (induction n arbitrary: t bs) (auto split: option.splits)
  have dot: "mac_dot n t e = Some bs \<Longrightarrow> length bs = 2 * n" for n t e bs
    by (induction n arbitrary: t bs) (auto split: option.splits)
  define ok :: "nat \<Rightarrow> bool" where "ok n \<longleftrightarrow> n = 6 \<or> n = 8 \<or> n = 20" for n
  have even: "ok m \<Longrightarrow> 2 * (m div 2) = m" for m :: nat by (auto simp: ok_def)
  from assms obtain n e where "ok n" "mac_colon n s e = Some hw \<or> mac_dot (n div 2) s e = Some hw"
    unfolding ParseMAC_def Let_def ok_def [symmetric]
    by (auto split: if_splits option.splits)
  then show ?thesis using colon dot even by (auto simp flip: ok_def)
qed

lemma parse_macs_normal:
  "parse_macs s vs = Inr ms \<Longrightarrow> list_all (\<lambda>m. \<exists>hw. ParseMAC m = Inr hw \<and> HardwareAddr_String hw = m) ms"
proof (induction vs arbitrary: ms)
  case (Cons v vs)
  then obtain hw ms' where "ParseMAC v = Inr hw" "parse_macs s vs = Inr ms'" "ms = HardwareAddr_String hw # ms'"
    by (auto split: sum.splits)
  then show ?case using Cons.IH ParseMAC_show [OF ParseMAC_length [of v hw]] by simp
qed simp

lemma parse_ips_length: "parse_ips vs = Inr ips \<Longrightarrow> list_all (\<lambda>ip. length ip = 16) ips"
proof (induction vs arbitrary: ips)
  case (Cons v vs)
  then show ?case using ParseIP_length [of v] by (auto simp: Let_def split: if_splits sum.splits)
qed simp

subsection \<open>Keys\<close>

lemma append_slash_inj:
  assumes "CHR ''/'' \<notin> set a" and "CHR ''/'' \<notin> set b" and "a @ CHR ''/'' # x = b @ CHR ''/'' # y"
  shows "a = b \<and> x = y"
  using assms
proof (induction a arbitrary: b)
  case Nil
  then show ?case by (cases b) auto
next
  case (Cons c a)
  then show ?case by (cases b) auto
qed

lemma key_inj:
  assumes "GetWorkloadKind w \<noteq> []" and "GetWorkloadKind w' \<noteq> []"
    and "CHR ''/'' \<notin> set (Namespace m)" and "CHR ''/'' \<notin> set (Namespace m')"
    and eq: "GetWorkloadReservdIPKey w m = GetWorkloadReservdIPKey w' m'"
  shows "w = w' \<and> Namespace m = Namespace m' \<and> Name m = Name m'"
proof -
  have k: "CHR ''/'' \<notin> set (GetWorkloadKind v)" for v
    by (cases v) (simp_all add: GetWorkloadKind_def)
  have "GetWorkloadKind w @ CHR ''/'' # (Namespace m @ CHR ''/'' # Name m) =
      GetWorkloadKind w' @ CHR ''/'' # (Namespace m' @ CHR ''/'' # Name m')"
    using eq assms(1,2) by (simp add: GetWorkloadReservdIPKey_def)
  from append_slash_inj [OF k k this]
  have "GetWorkloadKind w = GetWorkloadKind w'"
    "Namespace m @ CHR ''/'' # Name m = Namespace m' @ CHR ''/'' # Name m'" by simp_all
  moreover from append_slash_inj [OF assms(3,4) this(2)]
  have "Namespace m = Namespace m' \<and> Name m = Name m'" .
  moreover have "w = w'"
    using \<open>GetWorkloadKind w = GetWorkloadKind w'\<close> assms(1)
    by (cases w; cases w') (simp_all add: GetWorkloadKind_def)
  ultimately show ?thesis by simp
qed

subsection \<open>Properties\<close>

text \<open>A subnet with a name, a CIDR and ranges, for the examples.\<close>

definition example_subnet :: "string \<Rightarrow> string \<Rightarrow> IPRange list \<Rightarrow> FlatNetworkSubnet" where
  "example_subnet name cidr rs =
     \<lparr>sn_meta = \<lparr>Name = name, Namespace = SubnetNamespace, UID = [], ResourceVersion = [], Labels = [],
        Annotations = [], OwnerReferences = [], CreationTimestamp = 0, DeletionTimestamp = None\<rparr>,
      sn_Spec = \<lparr>FlatMode = FlatModeMacvlan, Master = ''eth0'', VLAN = 0, CIDR = cidr, Mode = [],
        IPvlanFlag = [], Gateway = [], Ranges = rs, Routes = [],
        Settings = \<lparr>AddClusterCIDR = False, AddServiceCIDR = False, AddNodeCIDR = False,
          AddPodIPToHost = False, FlatNetworkDefaultGateway = False\<rparr>\<rparr>,
      sn_Status = \<lparr>sn_Phase = [], sn_FailureMessage = [], sn_Gateway = [], ReservedIP = [], UsedIP = [],
        UsedIPCount = 0, UsedMAC = []\<rparr>\<rparr>"

definition example_range :: "string \<Rightarrow> string \<Rightarrow> IPRange" where
  "example_range lo hi = \<lparr>From = ParseIP lo, To = ParseIP hi\<rparr>"

text \<open>
  For every subnet that \<open>ValidateSubnet\<close> accepts, whose network does not reach the end of the
  IPv6 space, the allocator returns, whatever ranges it has: an address that belongs to the subnet
  and is not used, or \<open>ErrNoAvailableIP\<close> when all of them are used.
\<close>

theorem ValidateSubnet_allocates:
  assumes "ValidateSubnet s = None" and "plain_cidr (CIDR (sn_Spec s))"
    and "ParseCIDR (CIDR (sn_Spec s)) = Inr (ip, n)" and "\<not> Contains n (replicate 16 255)"
    and "list_all range16 used"
  shows "(\<exists>a. GetAvailableIP (CIDR (sn_Spec s)) (Ranges (sn_Spec s)) used = Some (Inr a) \<and>
            allocatable s a \<and> \<not> IPInRanges a used) \<or>
         (GetAvailableIP (CIDR (sn_Spec s)) (Ranges (sn_Spec s)) used = Some (Inl (Sentinel ErrNoAvailableIP)) \<and>
            (\<forall>a. allocatable s a \<longrightarrow> IPInRanges a used))"
  using assms by (intro GetAvailableIP_validated) auto

theorem ValidateSubnet_allocates_witness:
  "\<exists>a. GetAvailableIP ''10.1.0.0/16'' [example_range ''10.1.0.4'' ''10.1.0.9''] [] = Some (Inr a) \<and>
     allocatable (example_subnet ''a'' ''10.1.0.0/16'' [example_range ''10.1.0.4'' ''10.1.0.9'']) a"
proof -
  let ?s = "example_subnet ''a'' ''10.1.0.0/16'' [example_range ''10.1.0.4'' ''10.1.0.9'']"
  let ?n = "\<lparr>NetIP = [10, 1, 0, 0], NetMask = [255, 255, 0, 0]\<rparr>"
  have v: "ValidateSubnet ?s = None" by code_simp
  have plain: "plain_cidr (CIDR (sn_Spec ?s))" by code_simp
  have parse: "ParseCIDR (CIDR (sn_Spec ?s)) = Inr (ParseIP ''10.1.0.0'', ?n)" by code_simp
  have last: "\<not> Contains ?n (replicate 16 255)" by code_simp
  have cidr: "CIDR (sn_Spec ?s) = ''10.1.0.0/16''" "Ranges (sn_Spec ?s) = [example_range ''10.1.0.4'' ''10.1.0.9'']"
    by (simp_all add: example_subnet_def)
  have "GetAvailableIP ''10.1.0.0/16'' [example_range ''10.1.0.4'' ''10.1.0.9''] [] \<noteq>
      Some (Inl (Sentinel ErrNoAvailableIP))"
    by code_simp
  then show ?thesis
    using ValidateSubnet_allocates [OF v plain parse last, of "[]"] by (auto simp: cidr)
qed

text \<open>
  C29. When \<open>CheckSubnetConflict\<close> accepts a subnet, then the subnet shares no address with any subnet that the check compares: the other
  subnets of its mode and VLAN in the list up to the first one whose network overlaps, and that one too. No address can be handed out for
  both. Behind the first overlapping subnet the check does not look.
\<close>

theorem CheckSubnetConflict_no_shared_address:
  assumes "CheckSubnetConflict subnet (pre @ Some s # post) = None"
    and "list_all (\<lambda>t. \<forall>u. t = Some u \<longrightarrow> \<not> overlapping subnet u) pre"
    and "sn_Name s \<noteq> sn_Name subnet" and "FlatMode (sn_Spec s) = FlatMode (sn_Spec subnet)"
    and "VLAN (sn_Spec s) = VLAN (sn_Spec subnet)"
    and "ValidateSubnet subnet = None" and "ValidateSubnet s = None"
    and "plain_cidr (CIDR (sn_Spec subnet))" and "plain_cidr (CIDR (sn_Spec s))"
  shows "\<not> (allocatable subnet a \<and> allocatable s a)"
proof (rule no_shared_address [OF assms(1) _ assms(3-)])
  show "\<not> overlapping subnet t" if "Some t \<in> set pre" for t
    using assms(2) that by (auto simp: list_all_iff)
qed

theorem CheckSubnetConflict_no_shared_address_witness:
  "\<not> (allocatable (example_subnet ''a'' ''10.1.0.0/16'' [example_range ''10.1.0.4'' ''10.1.0.9'']) (ParseIP ''10.1.0.5'') \<and>
      allocatable (example_subnet ''b'' ''10.1.0.0/16'' [example_range ''10.1.1.4'' ''10.1.1.9'']) (ParseIP ''10.1.0.5''))"
proof (rule CheckSubnetConflict_no_shared_address)
  let ?a = "example_subnet ''a'' ''10.1.0.0/16'' [example_range ''10.1.0.4'' ''10.1.0.9'']"
  let ?b = "example_subnet ''b'' ''10.1.0.0/16'' [example_range ''10.1.1.4'' ''10.1.1.9'']"
  let ?c = "example_subnet ''c'' ''10.2.0.0/16'' []" and ?d = "example_subnet ''d'' ''10.1.0.0/16'' [example_range ''10.1.2.4'' ''10.1.2.9'']"
  show "CheckSubnetConflict ?a ([None, Some ?c] @ Some ?b # [Some ?d]) = None" by code_simp
  have "\<not> overlapping ?a ?c" by code_simp
  then show "list_all (\<lambda>t. \<forall>u. t = Some u \<longrightarrow> \<not> overlapping ?a u) [None, Some ?c]" by simp
qed (code_simp)+

text \<open>
  Behind the first overlapping subnet the check is not enough: after an overlapping
  subnet whose ranges are disjoint it accepts without looking at the rest of the list, here a
  subnet with the very same range, so that both hand out the same address.
\<close>

theorem CheckSubnetConflict_stops_early:
  "let r = [example_range ''10.1.0.4'' ''10.1.0.9''];
       s = example_subnet ''a'' ''10.1.0.0/16'' r;
       t = example_subnet ''b'' ''10.1.0.0/16'' [example_range ''10.1.1.4'' ''10.1.1.9''];
       u = example_subnet ''c'' ''10.1.0.0/16'' r
   in CheckSubnetConflict s [Some t, Some u] = None \<and>
      CheckSubnetConflict s [Some u, Some t] \<noteq> None \<and>
      allocatable s (ParseIP ''10.1.0.5'') \<and> allocatable u (ParseIP ''10.1.0.5'')"
  unfolding Let_def by (intro conjI) code_simp+

text \<open>
  C35. The hardware addresses that \<open>CheckPodAnnotationMACs\<close> returns are in normal form: each parses,
  and prints as itself, so that equal addresses are equal strings.
\<close>

theorem CheckPodAnnotationMACs_normal:
  assumes "CheckPodAnnotationMACs s = Inr ms"
  shows "list_all (\<lambda>m. \<exists>hw. ParseMAC m = Inr hw \<and> HardwareAddr_String hw = m) ms"
  using assms parse_macs_normal by (auto simp: CheckPodAnnotationMACs_def split: if_splits)

theorem CheckPodAnnotationMACs_normal_witness:
  "\<exists>hw. ParseMAC ''0a:0b:0c:0d:0e:0f'' = Inr hw \<and> HardwareAddr_String hw = ''0a:0b:0c:0d:0e:0f''"
proof -
  have "CheckPodAnnotationMACs ''0A0B.0C0D.0E0F'' = Inr [''0a:0b:0c:0d:0e:0f'']" by code_simp
  from CheckPodAnnotationMACs_normal [OF this] show ?thesis by simp
qed

text \<open>
  The key of the reserved addresses of a workload tells workloads apart: equal keys belong to
  the same kind, namespace and name (a Kubernetes namespace has no slash).
\<close>

theorem GetWorkloadReservdIPKey_inj:
  assumes "GetWorkloadKind w \<noteq> []" and "GetWorkloadKind w' \<noteq> []"
    and "CHR ''/'' \<notin> set (Namespace m)" and "CHR ''/'' \<notin> set (Namespace m')"
    and "GetWorkloadReservdIPKey w m = GetWorkloadReservdIPKey w' m'"
  shows "w = w' \<and> Namespace m = Namespace m' \<and> Name m = Name m'"
  by (rule key_inj [OF assms])

theorem GetWorkloadReservdIPKey_inj_witness:
  "Name (sn_meta (example_subnet ''a'' ''10.1.0.0/16'' [])) = ''a'' \<and>
   GetWorkloadReservdIPKey Deployment (sn_meta (example_subnet ''a'' ''10.1.0.0/16'' [])) \<noteq>
   GetWorkloadReservdIPKey Job (sn_meta (example_subnet ''a'' ''10.1.0.0/16'' []))"
proof -
  let ?m = "sn_meta (example_subnet ''a'' ''10.1.0.0/16'' [])"
  have ns: "CHR ''/'' \<notin> set (Namespace ?m)" by code_simp
  show ?thesis
    using GetWorkloadReservdIPKey_inj [of Deployment Job ?m ?m] ns
    by (auto simp: example_subnet_def GetWorkloadKind_def)
qed

end
