(* ===== verification/KubeAPI.thy ===== *)
theory KubeAPI
  imports Common
begin

text \<open>
  What the controllers use of Kubernetes and of the generated clients, none of which is part of the
  repository: a record \<open>api\<close> of operations on a world of an arbitrary type, the argument of every
  handler below. An operation is a program of the state monad; a call that returns an object and an
  error in Go returns \<open>Inl\<close> of the error or \<open>Inr\<close> of the object.

  \<open>cache_Get\<close> and \<open>cache_List\<close> read an informer cache, the \<open>client_\<close> operations call the API
  server, \<open>acquire\<close> and \<open>release\<close> are the calls of the allocation lock (\<open>AllocLock\<close> models the lock
  itself), \<open>retry_\<close> is \<open>retry.RetryOnConflict\<close>, whose closure returns the value it assigns to the
  captured variable, \<open>err_text\<close> is the method \<open>Error\<close>: the text of an API error comes from the
  server, and \<open>nil_UsedIP\<close> says of an object from a cache whether its empty slice of used addresses is the nil slice, which the decoder
  of the objects decides and which \<open>reflect.DeepEqual\<close> tells from an empty one. Log output is left out. The locale \<open>kube\<close> states the documented behaviour the controllers
  rely on, and is interpreted by an API server in memory.
\<close>

subsection \<open>Objects\<close>

record Pod =
  pod_meta :: ObjectMeta
  pod_NodeName :: string

record Workload =
  w_type :: object_type
  w_meta :: ObjectMeta
  w_template :: ObjectMeta
  w_jobTemplate :: ObjectMeta

text \<open>What a handler does: it returns, it panics, or it does not return.\<close>

datatype 'a outcome = Returns 'a | Panics | Hangs

datatype backoff = DefaultRetry | DefaultBackoff

abbreviation ret :: "'a \<Rightarrow> ('w, 'a) state" where "ret \<equiv> State_Monad.return"

type_synonym key = "string \<times> string"

subsection \<open>Operations\<close>

record 'w api =
  subnetCache_Get :: "string \<Rightarrow> string \<Rightarrow> ('w, error + FlatNetworkSubnet) state"
  subnetCache_List :: "string \<Rightarrow> strmap \<Rightarrow> ('w, error + FlatNetworkSubnet option list) state"
  subnetClient_Update :: "FlatNetworkSubnet \<Rightarrow> ('w, error + FlatNetworkSubnet) state"
  subnetClient_UpdateStatus :: "FlatNetworkSubnet \<Rightarrow> ('w, error + FlatNetworkSubnet) state"
  ipCache_Get :: "string \<Rightarrow> string \<Rightarrow> ('w, error + FlatNetworkIP) state"
  ipCache_List :: "string \<Rightarrow> strmap \<Rightarrow> ('w, error + FlatNetworkIP option list) state"
  ipClient_Create :: "FlatNetworkIP \<Rightarrow> ('w, error + FlatNetworkIP) state"
  ipClient_Update :: "FlatNetworkIP \<Rightarrow> ('w, error + FlatNetworkIP) state"
  ipClient_UpdateStatus :: "FlatNetworkIP \<Rightarrow> ('w, error + FlatNetworkIP) state"
  ipClient_Delete :: "string \<Rightarrow> string \<Rightarrow> ('w, error option) state"
  podCache_Get :: "string \<Rightarrow> string \<Rightarrow> ('w, error + Pod) state"
  podClient_Update :: "Pod \<Rightarrow> ('w, error + Pod) state"
  podClient_Delete :: "string \<Rightarrow> string \<Rightarrow> ('w, error option) state"
  namespaceCache_Get :: "string \<Rightarrow> ('w, error + ObjectMeta) state"
  workloadCache_Get :: "object_type \<Rightarrow> string \<Rightarrow> string \<Rightarrow> ('w, error + ObjectMeta) state"
  workloadClient_Update :: "Workload \<Rightarrow> ('w, error + Workload) state"
  recorder_Event :: "Pod \<Rightarrow> string \<Rightarrow> string \<Rightarrow> string \<Rightarrow> ('w, unit) state"
  ipEnqueueAfter :: "string \<Rightarrow> string \<Rightarrow> int \<Rightarrow> ('w, unit) state"
  subnetEnqueueAfter :: "string \<Rightarrow> string \<Rightarrow> int \<Rightarrow> ('w, unit) state"
  podEnqueueAfter :: "string \<Rightarrow> string \<Rightarrow> int \<Rightarrow> ('w, unit) state"
  time_Now :: "('w, int) state"
  time_Sleep :: "int \<Rightarrow> ('w, unit) state"
  acquire :: "string \<Rightarrow> ('w, unit) state"
  release :: "string \<Rightarrow> ('w, unit) state"
  IsIPAllocating :: "string \<Rightarrow> ('w, bool) state"
  retry_subnet :: "backoff \<Rightarrow> ('w, error + FlatNetworkSubnet) state \<Rightarrow> ('w, error + FlatNetworkSubnet) state"
  retry_ip :: "backoff \<Rightarrow> ('w, error + FlatNetworkIP) state \<Rightarrow> ('w, error + FlatNetworkIP) state"
  retry_unit :: "backoff \<Rightarrow> ('w, error + unit) state \<Rightarrow> ('w, error + unit) state"
  err_text :: "error \<Rightarrow> string"
  nil_UsedIP :: "FlatNetworkSubnet \<Rightarrow> bool"

text \<open>Durations in nanoseconds, as \<open>time.Duration\<close>.\<close>

abbreviation time_Second :: int where "time_Second \<equiv> 1000000000"
abbreviation time_Minute :: int where "time_Minute \<equiv> 60 * time_Second"

subsection \<open>Running programs\<close>

lemma run_bind [run_simps]:
  "run_state (State_Monad.bind m f) w = (case run_state m w of (x, w') \<Rightarrow> run_state (f x) w')"
  by simp

lemma run_bindE:
  assumes "run_state (State_Monad.bind m f) w = (y, w')"
  obtains x w1 where "run_state m w = (x, w1)" and "run_state (f x) w1 = (y, w')"
  using assms by (auto split: prod.splits)

subsection \<open>The cluster behind the API\<close>

text \<open>A label selector made from a set: every label of the set has its value.\<close>

definition has_labels :: "strmap \<Rightarrow> ObjectMeta \<Rightarrow> bool" where
  "has_labels sel m = list_all (\<lambda>(k, v). map_of (Labels m) k = Some v) sel"

record cluster =
  c_subnets :: "key \<Rightarrow> FlatNetworkSubnet option"
  c_ips :: "key \<Rightarrow> FlatNetworkIP option"
  c_pods :: "key \<Rightarrow> Pod option"

text \<open>
  \<open>attempts f w r w'\<close>: the documented behaviour of \<open>RetryOnConflict\<close>. It calls \<open>f\<close> again as long as \<open>f\<close>
  returns a conflict, and returns the result of the last call.
\<close>

inductive attempts :: "('w, error + 'a) state \<Rightarrow> 'w \<Rightarrow> error + 'a \<Rightarrow> 'w \<Rightarrow> bool" for f where
  last: "run_state f w = (r, w') \<Longrightarrow> attempts f w r w'"
| again: "run_state f w = (Inl e, w1) \<Longrightarrow> IsConflict e \<Longrightarrow> attempts f w1 r w' \<Longrightarrow> attempts f w r w'"

text \<open>When a failed attempt leaves the cluster as it is, all attempts together act like one.\<close>

lemma attempts_view:
  assumes "attempts f w r w'"
    and run: "\<And>w r w1. run_state f w = (r, w1) \<Longrightarrow> R (view w) r (view w1)"
    and err: "\<And>c e c'. R c (Inl e) c' \<Longrightarrow> c' = c"
  shows "R (view w) r (view w')"
  using assms(1)
proof (induction rule: attempts.induct)
  case (last w r w')
  then show ?case by (rule run)
next
  case (again w e w1 r w')
  then have "view w1 = view w" using run err by blast
  then show ?case using again.IH by simp
qed

lemma attempts_preserve:
  assumes "attempts f w r w'" and "P w" and "\<And>w r w1. run_state f w = (r, w1) \<Longrightarrow> P w \<Longrightarrow> P w1"
  shows "P w'"
  using assms by (induction rule: attempts.induct) blast+

lemma attempts_last: "attempts f w r w' \<Longrightarrow> \<exists>w1. run_state f w1 = (r, w')"
  by (induction rule: attempts.induct) blast+

definition same_but_version :: "ObjectMeta \<Rightarrow> ObjectMeta \<Rightarrow> bool" where
  "same_but_version m m' \<longleftrightarrow> m'\<lparr>ResourceVersion := ResourceVersion m\<rparr> = m"

definition same_but_time :: "IPStatus \<Rightarrow> IPStatus \<Rightarrow> bool" where
  "same_but_time st st' \<longleftrightarrow> st'\<lparr>AllocatedTimeStamp := AllocatedTimeStamp st\<rparr> = st"

text \<open>
  The laws. \<open>view w\<close> is what the API server stores, each object under its namespace and name. The informer caches are fresh: a read returns
  what the server stores. An update of the status replaces the status of the stored object and
  gives it a new resource version, and is refused when the resource version is not the stored one;
  an update that returns an error changes nothing. A delete removes the object, or marks it in its
  metadata when a finalizer holds it, or does nothing.
\<close>

locale kube =
  fixes api :: "'w api" and view :: "'w \<Rightarrow> cluster"
  assumes keyed_subnet: "c_subnets (view w) (ns, n) = Some s \<Longrightarrow> sn_Namespace s = ns \<and> sn_Name s = n"
    and keyed_ip: "c_ips (view w) (ns, n) = Some i \<Longrightarrow> ip_Namespace i = ns \<and> ip_Name i = n"
    and subnet_Get: "run_state (subnetCache_Get api ns n) w = (r, w') \<Longrightarrow>
      view w' = view w \<and> (\<forall>s. r = Inr s \<longrightarrow> c_subnets (view w) (ns, n) = Some s)"
    and subnet_NotFound: "run_state (subnetCache_Get api ns n) w = (Inl e, w') \<Longrightarrow> IsNotFound e \<Longrightarrow>
      c_subnets (view w) (ns, n) = None"
    and ip_Get: "run_state (ipCache_Get api ns n) w = (r', w') \<Longrightarrow>
      view w' = view w \<and> (\<forall>i. r' = Inr i \<longrightarrow> c_ips (view w) (ns, n) = Some i)"
    and pod_Get: "run_state (podCache_Get api ns n) w = (r'', w') \<Longrightarrow>
      view w' = view w \<and> (\<forall>p. r'' = Inr p \<longrightarrow> c_pods (view w) (ns, n) = Some p)"
    and subnet_UpdateStatus: "run_state (subnetClient_UpdateStatus api s) w = (Inr s', w') \<Longrightarrow>
      \<exists>old. c_subnets (view w) (sn_Namespace s, sn_Name s) = Some old \<and>
        ResourceVersion (sn_meta old) = ResourceVersion (sn_meta s) \<and>
        same_but_version (sn_meta old) (sn_meta s') \<and> sn_Spec s' = sn_Spec old \<and>
        sn_Status s' = sn_Status s \<and>
        view w' = (view w)\<lparr>c_subnets := (c_subnets (view w))((sn_Namespace s, sn_Name s) \<mapsto> s')\<rparr>"
    and subnet_UpdateStatus_error:
      "run_state (subnetClient_UpdateStatus api s) w = (Inl e, w') \<Longrightarrow> view w' = view w"
    and ip_UpdateStatus: "run_state (ipClient_UpdateStatus api i) w = (Inr i', w') \<Longrightarrow>
      \<exists>old. c_ips (view w) (ip_Namespace i, ip_Name i) = Some old \<and>
        ResourceVersion (ip_meta old) = ResourceVersion (ip_meta i) \<and>
        same_but_version (ip_meta old) (ip_meta i') \<and> ip_Spec i' = ip_Spec old \<and>
        same_but_time (ip_Status i) (ip_Status i') \<and>
        view w' = (view w)\<lparr>c_ips := (c_ips (view w))((ip_Namespace i, ip_Name i) \<mapsto> i')\<rparr>"
    and ip_UpdateStatus_error:
      "run_state (ipClient_UpdateStatus api i) w = (Inl e, w') \<Longrightarrow> view w' = view w"
    and ip_Delete: "run_state (ipClient_Delete api ns n) w = (dr, w') \<Longrightarrow>
      view w' = view w \<or> view w' = (view w)\<lparr>c_ips := (c_ips (view w))((ns, n) := None)\<rparr> \<or>
      (\<exists>i m. c_ips (view w) (ns, n) = Some i \<and>
         view w' = (view w)\<lparr>c_ips := (c_ips (view w))((ns, n) \<mapsto> i\<lparr>ip_meta := m\<rparr>)\<rparr>)"
    and pod_Delete: "run_state (podClient_Delete api ns n) w = (dr, w') \<Longrightarrow>
      c_subnets (view w') = c_subnets (view w) \<and> c_ips (view w') = c_ips (view w)"
    and quiet: "view (snd (run_state (recorder_Event api p t m x) w)) = view w"
      "view (snd (run_state (ipEnqueueAfter api ns n d) w)) = view w"
      "view (snd (run_state (subnetEnqueueAfter api ns n d) w)) = view w"
      "view (snd (run_state (podEnqueueAfter api ns n d) w)) = view w"
      "view (snd (run_state (time_Now api) w)) = view w"
      "view (snd (run_state (time_Sleep api d) w)) = view w"
      "view (snd (run_state (acquire api n) w)) = view w"
      "view (snd (run_state (release api n) w)) = view w"
      "view (snd (run_state (IsIPAllocating api n) w)) = view w"
    and retry_subnet: "run_state (retry_subnet api b fs) w = (rs, w') \<Longrightarrow> attempts fs w rs w'"
    and retry_ip: "run_state (retry_ip api b fi) w = (ri, w') \<Longrightarrow> attempts fi w ri w'"
    and retry_unit: "run_state (retry_unit api b fu) w = (ru, w') \<Longrightarrow> attempts fu w ru w'"

text \<open>
  The laws for the subnet controller. A cache lists the stored objects of a namespace (of all
  namespaces, when it is empty) that have the labels. An update of the object replaces the labels and
  the specification, keeps the status and the deletion mark, and checks the resource version.
\<close>

locale kube_admin = kube +
  assumes subnet_List: "run_state (subnetCache_List api ns sel) w = (rl, w') \<Longrightarrow>
      view w' = view w \<and> (\<forall>xs. rl = Inr xs \<longrightarrow> set xs =
        {Some s | s k. c_subnets (view w) k = Some s \<and> (ns = [] \<or> fst k = ns) \<and> has_labels sel (sn_meta s)})"
    and ip_List: "run_state (ipCache_List api ns sel) w = (rli, w') \<Longrightarrow>
      view w' = view w \<and> (\<forall>xs. rli = Inr xs \<longrightarrow> set xs =
        {Some i | i k. c_ips (view w) k = Some i \<and> (ns = [] \<or> fst k = ns) \<and> has_labels sel (ip_meta i)})"
    and subnet_Update: "run_state (subnetClient_Update api s) w = (Inr s', w') \<Longrightarrow>
      \<exists>old. c_subnets (view w) (sn_Namespace s, sn_Name s) = Some old \<and>
        ResourceVersion (sn_meta old) = ResourceVersion (sn_meta s) \<and>
        Labels (sn_meta s') = Labels (sn_meta s) \<and> sn_Spec s' = sn_Spec s \<and> sn_Status s' = sn_Status old \<and>
        DeletionTimestamp (sn_meta s') = DeletionTimestamp (sn_meta old) \<and>
        view w' = (view w)\<lparr>c_subnets := (c_subnets (view w))((sn_Namespace s, sn_Name s) \<mapsto> s')\<rparr>"
    and subnet_Update_error:
      "run_state (subnetClient_Update api s) w = (Inl e, w') \<Longrightarrow> view w' = view w"

text \<open>
  The laws for the pod controller. A created object is stored with an empty status when there is none
  of its name; otherwise the call fails and changes nothing.
\<close>

locale kube_pods = kube +
  assumes ip_NotFound: "run_state (ipCache_Get api ns n) w = (Inl e, w') \<Longrightarrow> IsNotFound e \<Longrightarrow>
      c_ips (view w) (ns, n) = None"
    and ip_Create: "run_state (ipClient_Create api i) w = (Inr i', w') \<Longrightarrow>
      c_ips (view w) (ip_Namespace i, ip_Name i) = None \<and> ip_Spec i' = ip_Spec i \<and>
      Labels (ip_meta i') = Labels (ip_meta i) \<and> Addr (ip_Status i') = [] \<and> ip_Phase (ip_Status i') = [] \<and>
      view w' = (view w)\<lparr>c_ips := (c_ips (view w))((ip_Namespace i, ip_Name i) \<mapsto> i')\<rparr>"
    and ip_Create_error: "run_state (ipClient_Create api i) w = (Inl e, w') \<Longrightarrow> view w' = view w"
    and ip_AlreadyExists: "run_state (ipClient_Create api i) w = (Inl e, w') \<Longrightarrow> IsAlreadyExists e \<Longrightarrow>
      c_ips (view w) (ip_Namespace i, ip_Name i) \<noteq> None"
    and ip_Update: "run_state (ipClient_Update api i) w = (Inr i', w') \<Longrightarrow>
      \<exists>old. c_ips (view w) (ip_Namespace i, ip_Name i) = Some old \<and>
        ResourceVersion (ip_meta old) = ResourceVersion (ip_meta i) \<and>
        Labels (ip_meta i') = Labels (ip_meta i) \<and> ip_Spec i' = ip_Spec i \<and> ip_Status i' = ip_Status old \<and>
        view w' = (view w)\<lparr>c_ips := (c_ips (view w))((ip_Namespace i, ip_Name i) \<mapsto> i')\<rparr>"
    and ip_Update_error: "run_state (ipClient_Update api i) w = (Inl e, w') \<Longrightarrow> view w' = view w"
    and pod_Update: "run_state (podClient_Update api p) w = (pr, w') \<Longrightarrow>
      c_subnets (view w') = c_subnets (view w) \<and> c_ips (view w') = c_ips (view w)"
    and namespace_Get: "view (snd (run_state (namespaceCache_Get api n) w)) = view w"
    and workload_Get: "view (snd (run_state (workloadCache_Get api t ns n) w)) = view w"

text \<open>
  The laws for progress: an informer cache has synced, so that it returns every stored object; the
  server accepts an update of the status that carries the stored resource version; and a retried
  function that succeeds at once is not called again.
\<close>

locale kube_live = kube +
  assumes subnet_stored: "c_subnets (view w) (ns, n) = Some s \<Longrightarrow> \<exists>w'. run_state (subnetCache_Get api ns n) w = (Inr s, w')"
    and ip_stored: "c_ips (view w) (ns, n) = Some i \<Longrightarrow> \<exists>w'. run_state (ipCache_Get api ns n) w = (Inr i, w')"
    and pod_stored: "c_pods (view w) (ns, n) = Some p \<Longrightarrow> \<exists>w'. run_state (podCache_Get api ns n) w = (Inr p, w')"
    and subnet_accepted: "c_subnets (view w) (sn_Namespace s, sn_Name s) = Some old \<Longrightarrow>
      ResourceVersion (sn_meta old) = ResourceVersion (sn_meta s) \<Longrightarrow>
      \<exists>s' w'. run_state (subnetClient_UpdateStatus api s) w = (Inr s', w')"
    and ip_accepted: "c_ips (view w) (ip_Namespace i, ip_Name i) = Some oldi \<Longrightarrow>
      ResourceVersion (ip_meta oldi) = ResourceVersion (ip_meta i) \<Longrightarrow>
      \<exists>i' w'. run_state (ipClient_UpdateStatus api i) w = (Inr i', w')"
    and subnet_once: "run_state fs w = (Inr xs, w') \<Longrightarrow> run_state (retry_subnet api b fs) w = (Inr xs, w')"
    and ip_once: "run_state fi w = (Inr xi, w') \<Longrightarrow> run_state (retry_ip api b fi) w = (Inr xi, w')"

end
