(* ===== verification/MemCluster.thy ===== *)
theory MemCluster
  imports KubeAPI
begin

text \<open>
  An API server in memory, which shows that the laws of \<open>kube\<close> can hold and runs the handlers on
  concrete input: lists of objects, a counter for resource versions and a clock. \<open>mem_api\<close> reads
  the store directly, \<open>lag_api\<close> has an informer cache of the subnets that is one read behind.
\<close>

subsection \<open>Stores\<close>

definition store_get :: "('a \<Rightarrow> key) \<Rightarrow> key \<Rightarrow> 'a list \<Rightarrow> 'a option" where
  "store_get f k xs = find (\<lambda>x. f x = k) xs"

definition store_put :: "('a \<Rightarrow> key) \<Rightarrow> 'a \<Rightarrow> 'a list \<Rightarrow> 'a list" where
  "store_put f x xs = map (\<lambda>y. if f y = f x then x else y) xs"

lemma store_get_key: "store_get f k xs = Some x \<Longrightarrow> f x = k"
  by (induction xs) (auto simp: store_get_def split: if_splits)

lemma store_get_put_other: "k \<noteq> f x \<Longrightarrow> store_get f k (store_put f x xs) = store_get f k xs"
  by (induction xs) (auto simp: store_get_def store_put_def)

lemma store_get_put_same: "store_get f (f x) xs \<noteq> None \<Longrightarrow> store_get f (f x) (store_put f x xs) = Some x"
  by (induction xs) (auto simp: store_get_def store_put_def split: if_splits)

lemma store_get_put:
  assumes "store_get f k xs \<noteq> None" and "f x = k"
  shows "(\<lambda>k'. store_get f k' (store_put f x xs)) = (\<lambda>k'. store_get f k' xs)(k \<mapsto> x)"
  using assms store_get_put_other [of _ f x xs] store_get_put_same [of f x xs] by (auto simp: fun_eq_iff)

lemma store_get_filter:
  "(\<lambda>k'. store_get f k' (filter (\<lambda>x. f x \<noteq> k) xs)) = (\<lambda>k'. store_get f k' xs)(k := None)"
proof
  fix k'
  show "store_get f k' (filter (\<lambda>x. f x \<noteq> k) xs) = ((\<lambda>k'. store_get f k' xs)(k := None)) k'"
    by (induction xs) (auto simp: store_get_def)
qed

abbreviation sn_key :: "FlatNetworkSubnet \<Rightarrow> key" where "sn_key s \<equiv> (sn_Namespace s, sn_Name s)"
abbreviation ip_key :: "FlatNetworkIP \<Rightarrow> key" where "ip_key i \<equiv> (ip_Namespace i, ip_Name i)"
abbreviation pod_key :: "Pod \<Rightarrow> key" where "pod_key p \<equiv> (Namespace (pod_meta p), Name (pod_meta p))"

record mem =
  m_subnets :: "FlatNetworkSubnet list"
  m_ips :: "FlatNetworkIP list"
  m_pods :: "Pod list"
  m_cache :: "FlatNetworkSubnet list"
  m_version :: nat
  m_now :: int

definition mem_view :: "mem \<Rightarrow> cluster" where
  "mem_view w = \<lparr>c_subnets = (\<lambda>k. store_get sn_key k (m_subnets w)),
     c_ips = (\<lambda>k. store_get ip_key k (m_ips w)), c_pods = (\<lambda>k. store_get pod_key k (m_pods w))\<rparr>"

definition found :: "'a option \<Rightarrow> error + 'a" where
  "found r = (case r of None \<Rightarrow> Inl (StatusError NotFound) | Some x \<Rightarrow> Inr x)"

definition reads :: "('w \<Rightarrow> 'a) \<Rightarrow> ('w, 'a) state" where
  "reads f = State (\<lambda>w. (f w, w))"

definition next_version :: "mem \<Rightarrow> string" where
  "next_version w = show_nat (m_version w + 1)"

subsection \<open>Operations\<close>

definition mem_subnet_update :: "(FlatNetworkSubnet \<Rightarrow> FlatNetworkSubnet \<Rightarrow> FlatNetworkSubnet) \<Rightarrow>
    FlatNetworkSubnet \<Rightarrow> (mem, error + FlatNetworkSubnet) state" where
  "mem_subnet_update merge s = State (\<lambda>w.
     case store_get sn_key (sn_key s) (m_subnets w) of
       None \<Rightarrow> (Inl (StatusError NotFound), w)
     | Some old \<Rightarrow>
         if ResourceVersion (sn_meta old) \<noteq> ResourceVersion (sn_meta s) then (Inl (StatusError Conflict), w)
         else let s' = (merge old s)\<lparr>sn_meta := (sn_meta (merge old s))\<lparr>ResourceVersion := next_version w\<rparr>\<rparr>
           in (Inr s', w\<lparr>m_subnets := store_put sn_key s' (m_subnets w), m_version := m_version w + 1\<rparr>))"

definition mem_ip_update :: "(FlatNetworkIP \<Rightarrow> FlatNetworkIP \<Rightarrow> FlatNetworkIP) \<Rightarrow>
    FlatNetworkIP \<Rightarrow> (mem, error + FlatNetworkIP) state" where
  "mem_ip_update merge i = State (\<lambda>w.
     case store_get ip_key (ip_key i) (m_ips w) of
       None \<Rightarrow> (Inl (StatusError NotFound), w)
     | Some old \<Rightarrow>
         if ResourceVersion (ip_meta old) \<noteq> ResourceVersion (ip_meta i) then (Inl (StatusError Conflict), w)
         else let i' = (merge old i)\<lparr>ip_meta := (ip_meta (merge old i))\<lparr>ResourceVersion := next_version w\<rparr>\<rparr>
           in (Inr i', w\<lparr>m_ips := store_put ip_key i' (m_ips w), m_version := m_version w + 1\<rparr>))"

definition no_status :: IPStatus where
  "no_status = \<lparr>ip_Phase = [], ip_FailureMessage = [], AllocatedTimeStamp = 0, Addr = [], MAC = []\<rparr>"

definition mem_ip_create :: "FlatNetworkIP \<Rightarrow> (mem, error + FlatNetworkIP) state" where
  "mem_ip_create i = State (\<lambda>w.
     if store_get ip_key (ip_key i) (m_ips w) \<noteq> None then (Inl (StatusError AlreadyExists), w)
     else let i' = i\<lparr>ip_meta := (ip_meta i)\<lparr>ResourceVersion := next_version w\<rparr>, ip_Status := no_status\<rparr>
       in (Inr i', w\<lparr>m_ips := m_ips w @ [i'], m_version := m_version w + 1\<rparr>))"

definition mem_ip_delete :: "string \<Rightarrow> string \<Rightarrow> (mem, error option) state" where
  "mem_ip_delete ns n = State (\<lambda>w.
     if store_get ip_key (ns, n) (m_ips w) = None then (Some (StatusError NotFound), w)
     else (None, w\<lparr>m_ips := filter (\<lambda>i. ip_key i \<noteq> (ns, n)) (m_ips w)\<rparr>))"

definition mem_pod_delete :: "string \<Rightarrow> string \<Rightarrow> (mem, error option) state" where
  "mem_pod_delete ns n = State (\<lambda>w.
     if store_get pod_key (ns, n) (m_pods w) = None then (Some (StatusError NotFound), w)
     else (None, w\<lparr>m_pods := filter (\<lambda>p. pod_key p \<noteq> (ns, n)) (m_pods w)\<rparr>))"

definition mem_pod_update :: "Pod \<Rightarrow> (mem, error + Pod) state" where
  "mem_pod_update p = State (\<lambda>w.
     if store_get pod_key (pod_key p) (m_pods w) = None then (Inl (StatusError NotFound), w)
     else (Inr p, w\<lparr>m_pods := store_put pod_key p (m_pods w)\<rparr>))"

fun retry_n :: "nat \<Rightarrow> ('w, error + 'a) state \<Rightarrow> ('w, error + 'a) state" where
  "retry_n 0 f = f"
| "retry_n (Suc n) f =
     do {
       r \<leftarrow> f;
       case r of
         Inl e \<Rightarrow> if IsConflict e then retry_n n f else ret (Inl e)
       | Inr x \<Rightarrow> ret (Inr x)
     }"

definition mem_api :: "mem api" where
  "mem_api = \<lparr>
     subnetCache_Get = (\<lambda>ns n. reads (\<lambda>w. found (store_get sn_key (ns, n) (m_subnets w)))),
     subnetCache_List = (\<lambda>ns sel. reads (\<lambda>w. Inr (map Some
       (filter (\<lambda>s. store_get sn_key (sn_key s) (m_subnets w) = Some s \<and> (ns = [] \<or> sn_Namespace s = ns) \<and>
         has_labels sel (sn_meta s)) (m_subnets w))))),
     subnetClient_Update = mem_subnet_update (\<lambda>old s. s\<lparr>sn_Status := sn_Status old,
       sn_meta := (sn_meta s)\<lparr>DeletionTimestamp := DeletionTimestamp (sn_meta old)\<rparr>\<rparr>),
     subnetClient_UpdateStatus = mem_subnet_update (\<lambda>old s. old\<lparr>sn_Status := sn_Status s\<rparr>),
     ipCache_Get = (\<lambda>ns n. reads (\<lambda>w. found (store_get ip_key (ns, n) (m_ips w)))),
     ipCache_List = (\<lambda>ns sel. reads (\<lambda>w. Inr (map Some
       (filter (\<lambda>i. store_get ip_key (ip_key i) (m_ips w) = Some i \<and> (ns = [] \<or> ip_Namespace i = ns) \<and>
         has_labels sel (ip_meta i)) (m_ips w))))),
     ipClient_Create = mem_ip_create,
     ipClient_Update = mem_ip_update (\<lambda>old i. i\<lparr>ip_Status := ip_Status old\<rparr>),
     ipClient_UpdateStatus = mem_ip_update (\<lambda>old i. old\<lparr>ip_Status := ip_Status i\<rparr>),
     ipClient_Delete = mem_ip_delete,
     podCache_Get = (\<lambda>ns n. reads (\<lambda>w. found (store_get pod_key (ns, n) (m_pods w)))),
     podClient_Update = mem_pod_update,
     podClient_Delete = mem_pod_delete,
     namespaceCache_Get = (\<lambda>n. ret (Inl (StatusError NotFound))),
     workloadCache_Get = (\<lambda>t ns n. ret (Inl (StatusError NotFound))),
     workloadClient_Update = (\<lambda>x. ret (Inr x)),
     recorder_Event = (\<lambda>p t m x. ret ()),
     ipEnqueueAfter = (\<lambda>ns n d. ret ()),
     subnetEnqueueAfter = (\<lambda>ns n d. ret ()),
     podEnqueueAfter = (\<lambda>ns n d. ret ()),
     time_Now = reads m_now,
     time_Sleep = (\<lambda>d. State (\<lambda>w. ((), w\<lparr>m_now := m_now w + d\<rparr>))),
     acquire = (\<lambda>n. ret ()),
     release = (\<lambda>n. ret ()),
     IsIPAllocating = (\<lambda>n. ret False),
     retry_subnet = (\<lambda>b. retry_n 3),
     retry_ip = (\<lambda>b. retry_n 3),
     retry_unit = (\<lambda>b. retry_n 3),
     err_text = (\<lambda>e. ''error''),
     nil_UsedIP = (\<lambda>s. UsedIP (sn_Status s) = [])\<rparr>"

text \<open>The informer of the subnets catches up after each read.\<close>

definition lag_api :: "mem api" where
  "lag_api = mem_api\<lparr>subnetCache_Get := (\<lambda>ns n. State (\<lambda>w.
     (found (store_get sn_key (ns, n) (m_cache w)), w\<lparr>m_cache := m_subnets w\<rparr>)))\<rparr>"

subsection \<open>The laws hold\<close>

lemma retry_n_attempts: "run_state (retry_n n f) w = (r, w') \<Longrightarrow> attempts f w r w'"
proof (induction n arbitrary: w)
  case 0
  then show ?case by (simp add: attempts.last)
next
  case (Suc n)
  obtain x w1 where f: "run_state f w = (x, w1)" by fastforce
  show ?case
    using Suc f attempts.last [OF f] attempts.again [of f w _ w1]
    by (cases x) (auto split: if_splits)
qed

interpretation mem: kube mem_api mem_view
proof (unfold_locales, goal_cases)
  case (1 w ns n s)
  then show ?case using store_get_key by (fastforce simp: mem_view_def)
next
  case (2 w ns n i)
  then show ?case using store_get_key by (fastforce simp: mem_view_def)
next
  case (7 s w s' w')
  then obtain old where old: "store_get sn_key (sn_key s) (m_subnets w) = Some old"
      "ResourceVersion (sn_meta old) = ResourceVersion (sn_meta s)"
    and s': "s' = old\<lparr>sn_Status := sn_Status s, sn_meta := (sn_meta old)\<lparr>ResourceVersion := next_version w\<rparr>\<rparr>"
    and w': "w' = w\<lparr>m_subnets := store_put sn_key s' (m_subnets w), m_version := m_version w + 1\<rparr>"
    by (auto simp: mem_api_def mem_subnet_update_def Let_def split: option.splits if_splits)
  have key: "sn_key s' = sn_key s" using store_get_key [OF old(1)] by (simp add: s')
  show ?case
    using old store_get_put [of sn_key "sn_key s" "m_subnets w" s'] key
    by (auto simp: mem_view_def w' s' same_but_version_def)
next
  case (9 i w i' w')
  then obtain old where old: "store_get ip_key (ip_key i) (m_ips w) = Some old"
      "ResourceVersion (ip_meta old) = ResourceVersion (ip_meta i)"
    and i': "i' = old\<lparr>ip_Status := ip_Status i, ip_meta := (ip_meta old)\<lparr>ResourceVersion := next_version w\<rparr>\<rparr>"
    and w': "w' = w\<lparr>m_ips := store_put ip_key i' (m_ips w), m_version := m_version w + 1\<rparr>"
    by (auto simp: mem_api_def mem_ip_update_def Let_def split: option.splits if_splits)
  have key: "ip_key i' = ip_key i" using store_get_key [OF old(1)] by (simp add: i')
  show ?case
    using old store_get_put [of ip_key "ip_key i" "m_ips w" i'] key
    by (auto simp: mem_view_def w' i' same_but_version_def same_but_time_def)
next
  case (11 ns n w dr w')
  then show ?case
    using store_get_filter [of ip_key "(ns, n)" "m_ips w"]
    by (auto simp: mem_api_def mem_ip_delete_def mem_view_def split: if_splits)
next
  case (12 ns n w dr w')
  then show ?case by (auto simp: mem_api_def mem_pod_delete_def mem_view_def split: if_splits)
qed (auto simp: mem_api_def reads_def found_def mem_view_def mem_subnet_update_def mem_ip_update_def
    IsNotFound_def Let_def retry_n_attempts split: option.splits if_splits)

lemma store_get_mem: "store_get f k xs = Some x \<Longrightarrow> x \<in> set xs"
  by (induction xs) (auto simp: store_get_def split: if_splits)

lemma stored_objects:
  assumes "r = Inr (map Some (filter (\<lambda>x. store_get f (f x) xs = Some x \<and> Q (f x) x) xs))" and "r = Inr ys"
  shows "set ys = {Some x | x k. store_get f k xs = Some x \<and> Q k x}"
proof -
  have iff: "(x \<in> set xs \<and> store_get f (f x) xs = Some x \<and> Q (f x) x) \<longleftrightarrow> (\<exists>k. store_get f k xs = Some x \<and> Q k x)" for x
    by (metis store_get_mem store_get_key)
  have "set ys = Some ` {x. x \<in> set xs \<and> store_get f (f x) xs = Some x \<and> Q (f x) x}" using assms by auto
  then show ?thesis unfolding iff by blast
qed

interpretation memadm: kube_admin mem_api mem_view
proof (unfold_locales, goal_cases)
  case (1 ns sel w rl w')
  then have "w' = w" and "rl = Inr (map Some (filter (\<lambda>x. store_get sn_key (sn_key x) (m_subnets w) = Some x \<and>
      (ns = [] \<or> fst (sn_key x) = ns) \<and> has_labels sel (sn_meta x)) (m_subnets w)))"
    by (auto simp: mem_api_def reads_def)
  moreover have "c_subnets (mem_view w) = (\<lambda>k. store_get sn_key k (m_subnets w))" by (simp add: mem_view_def)
  ultimately show ?case
    using stored_objects [of rl sn_key "m_subnets w" "\<lambda>k x. (ns = [] \<or> fst k = ns) \<and> has_labels sel (sn_meta x)"] by simp
next
  case (2 ns sel w rl w')
  then have "w' = w" and "rl = Inr (map Some (filter (\<lambda>x. store_get ip_key (ip_key x) (m_ips w) = Some x \<and>
      (ns = [] \<or> fst (ip_key x) = ns) \<and> has_labels sel (ip_meta x)) (m_ips w)))"
    by (auto simp: mem_api_def reads_def)
  moreover have "c_ips (mem_view w) = (\<lambda>k. store_get ip_key k (m_ips w))" by (simp add: mem_view_def)
  ultimately show ?case
    using stored_objects [of rl ip_key "m_ips w" "\<lambda>k x. (ns = [] \<or> fst k = ns) \<and> has_labels sel (ip_meta x)"] by simp
next
  case (3 s w s' w')
  then obtain old where old: "store_get sn_key (sn_key s) (m_subnets w) = Some old"
      "ResourceVersion (sn_meta old) = ResourceVersion (sn_meta s)"
    and s': "s' = s\<lparr>sn_Status := sn_Status old, sn_meta := (sn_meta s)
      \<lparr>DeletionTimestamp := DeletionTimestamp (sn_meta old), ResourceVersion := next_version w\<rparr>\<rparr>"
    and w': "w' = w\<lparr>m_subnets := store_put sn_key s' (m_subnets w), m_version := m_version w + 1\<rparr>"
    by (auto simp: mem_api_def mem_subnet_update_def Let_def split: option.splits if_splits)
  have key: "sn_key s' = sn_key s" by (simp add: s')
  show ?case
    using old store_get_put [of sn_key "sn_key s" "m_subnets w" s'] key
    by (auto simp: mem_view_def w' s')
next
  case (4 s w e w')
  then show ?case
    by (auto simp: mem_api_def mem_subnet_update_def Let_def split: option.splits if_splits)
qed

lemma store_get_append:
  assumes "store_get f k xs = None" and "f x = k"
  shows "(\<lambda>k'. store_get f k' (xs @ [x])) = (\<lambda>k'. store_get f k' xs)(k \<mapsto> x)"
proof
  fix k'
  show "store_get f k' (xs @ [x]) = ((\<lambda>k'. store_get f k' xs)(k \<mapsto> x)) k'"
    using assms by (induction xs) (auto simp: store_get_def split: if_splits)
qed

interpretation mempod: kube_pods mem_api mem_view
proof (unfold_locales, goal_cases)
  case (2 i w i' w')
  then have none: "store_get ip_key (ip_key i) (m_ips w) = None"
    and i': "i' = i\<lparr>ip_meta := (ip_meta i)\<lparr>ResourceVersion := next_version w\<rparr>, ip_Status := no_status\<rparr>"
    and w': "w' = w\<lparr>m_ips := m_ips w @ [i'], m_version := m_version w + 1\<rparr>"
    by (auto simp: mem_api_def mem_ip_create_def Let_def split: if_splits)
  have "ip_key i' = ip_key i" by (simp add: i')
  from store_get_append [of ip_key, OF none this] none show ?case
    by (simp add: mem_view_def w') (simp add: i' no_status_def)
next
  case (5 i w i' w')
  then obtain old where old: "store_get ip_key (ip_key i) (m_ips w) = Some old"
      "ResourceVersion (ip_meta old) = ResourceVersion (ip_meta i)"
    and i': "i' = i\<lparr>ip_Status := ip_Status old, ip_meta := (ip_meta i)\<lparr>ResourceVersion := next_version w\<rparr>\<rparr>"
    and w': "w' = w\<lparr>m_ips := store_put ip_key i' (m_ips w), m_version := m_version w + 1\<rparr>"
    by (auto simp: mem_api_def mem_ip_update_def Let_def split: option.splits if_splits)
  have "ip_key i' = ip_key i" by (simp add: i')
  with old store_get_put [of ip_key "ip_key i" "m_ips w" i'] show ?case
    by (simp add: mem_view_def w') (simp add: i')
qed (auto simp: mem_api_def reads_def found_def mem_view_def mem_ip_create_def mem_ip_update_def mem_pod_update_def
    IsNotFound_def IsAlreadyExists_def Let_def split: option.splits if_splits)

lemma retry_n_once: "run_state f w = (Inr x, w') \<Longrightarrow> run_state (retry_n n f) w = (Inr x, w')"
  by (cases n) auto

interpretation memlive: kube_live mem_api mem_view
  by unfold_locales (auto simp: mem_api_def mem_view_def reads_def found_def mem_subnet_update_def mem_ip_update_def
      Let_def retry_n_once)

subsection \<open>Concrete runs\<close>

definition example_meta :: "string \<Rightarrow> string \<Rightarrow> ObjectMeta" where
  "example_meta ns name = \<lparr>Name = name, Namespace = ns, UID = ''u'', ResourceVersion = ''0'', Labels = [],
     Annotations = [], OwnerReferences = [], CreationTimestamp = 0, DeletionTimestamp = None\<rparr>"

definition example_ip :: "string \<Rightarrow> net_IP \<Rightarrow> string \<Rightarrow> FlatNetworkIP" where
  "example_ip name addr phase =
     \<lparr>ip_meta = example_meta ''default'' name,
      ip_Spec = \<lparr>Subnet = ''s'', Addrs = [], MACs = [], PodID = ''u''\<rparr>,
      ip_Status = \<lparr>ip_Phase = phase, ip_FailureMessage = [], AllocatedTimeStamp = 0, Addr = addr, MAC = []\<rparr>\<rparr>"

definition active_subnet :: "IPRange list \<Rightarrow> FlatNetworkSubnet" where
  "active_subnet used =
     (example_subnet ''s'' ''10.1.0.0/16'' [])\<lparr>sn_Status := \<lparr>sn_Phase = ''Active'', sn_FailureMessage = [],
        sn_Gateway = [], ReservedIP = [], UsedIP = used, UsedIPCount = int (length used), UsedMAC = []\<rparr>\<rparr>"

definition example_world :: "IPRange list \<Rightarrow> FlatNetworkIP list \<Rightarrow> mem" where
  "example_world used ips =
     \<lparr>m_subnets = [active_subnet used], m_ips = ips,
      m_pods = map (\<lambda>i. \<lparr>pod_meta = ip_meta i, pod_NodeName = ''n1''\<rparr>) ips, m_cache = [active_subnet used], m_version = 0, m_now = 7\<rparr>"

definition addr_of :: "mem \<Rightarrow> string \<Rightarrow> net_IP" where
  "addr_of w name = (case c_ips (mem_view w) (''default'', name) of
     None \<Rightarrow> [] | Some i \<Rightarrow> Addr (ip_Status i))"

end
