(* ===== verification/IPController.thy ===== *)
theory IPController
  imports MemCluster
begin

text \<open>
  The controller of the \<open>FlatNetworkIP\<close> resources: \<open>pkg/controller/flatnetworkip\<close>. A handler returns
  the resource and the error of the Go function, or it panics, or it does not return (the allocator
  may run forever). The closures that the handlers pass to \<open>RetryOnConflict\<close> are definitions of
  their own. The deferred unlock runs on every return and on a panic.
\<close>

abbreviation (input) flatNetworkIPInitPhase :: string where "flatNetworkIPInitPhase \<equiv> ''''"
abbreviation flatNetworkIPPendingPhase :: string where "flatNetworkIPPendingPhase \<equiv> ''Pending''"
abbreviation flatNetworkIPActivePhase :: string where "flatNetworkIPActivePhase \<equiv> ''Active''"
abbreviation flatNetworkIPFailedPhase :: string where "flatNetworkIPFailedPhase \<equiv> ''Failed''"

subsection \<open>Allocation of a hardware address: mac.go\<close>

text \<open>The loop of \<open>slices.BinarySearch\<close>: the first index of \<open>{i..j}\<close> whose element is not less.\<close>

function binary_search :: "string list \<Rightarrow> string \<Rightarrow> nat \<Rightarrow> nat \<Rightarrow> nat" where
  "binary_search xs t i j =
     (if i < j then
        let h = (i + j) div 2 in
        if xs ! h < t then binary_search xs t (h + 1) j else binary_search xs t i h
      else i)"
  by auto
termination by (relation "measure (\<lambda>(xs, t, i, j). j - i)") auto

declare binary_search.simps [simp del]

definition slices_BinarySearch :: "string list \<Rightarrow> string \<Rightarrow> bool" where
  "slices_BinarySearch xs t =
     (let i = binary_search xs t 0 (length xs) in i < length xs \<and> xs ! i = t)"

definition alreadyAllocatedMAC :: "FlatNetworkIP \<Rightarrow> bool" where
  "alreadyAllocatedMAC ip =
     (if MACs (ip_Spec ip) = [] then True
      else if MAC (ip_Status ip) = [] then MACs (ip_Spec ip) = []
      else list_ex (\<lambda>m. m = MAC (ip_Status ip)) (MACs (ip_Spec ip)))"

text \<open>Go's \<open>%v\<close> of a slice of strings.\<close>

definition show_list :: "string list \<Rightarrow> string" where
  "show_list xs = ''['' @ join_with '' '' xs @ '']''"

definition allocateMAC :: "FlatNetworkIP \<Rightarrow> FlatNetworkSubnet \<Rightarrow> error + string" where
  "allocateMAC ip subnet =
     (if MACs (ip_Spec ip) = [] then Inr []
      else if alreadyAllocatedMAC ip then Inr (MAC (ip_Status ip))
      else case find (\<lambda>m. \<not> slices_BinarySearch (UsedMAC (sn_Status subnet)) m) (MACs (ip_Spec ip)) of
        Some m \<Rightarrow> Inr m
      | None \<Rightarrow> Inl (Wrapf ''allocateMAC: no available MAC address from MACs %v: %w''
                       [show_list (MACs (ip_Spec ip))] (Sentinel ErrNoAvailableMac)))"

subsection \<open>Allocation of an address: ipcalc.go\<close>

definition alreadyAllocateIP :: "FlatNetworkIP \<Rightarrow> FlatNetworkSubnet \<Rightarrow> bool" where
  "alreadyAllocateIP ip subnet =
     (let addr = Addr (ip_Status ip) in
      if addr = [] then False
      else if Addrs (ip_Spec ip) = [] then
        (case ParseCIDR (CIDR (sn_Spec subnet)) of
           Inl e \<Rightarrow> False
         | Inr (_, network) \<Rightarrow> Contains network addr)
      else list_ex (\<lambda>a. To16 a \<noteq> [] \<and> IP_Equal (To16 a) addr) (Addrs (ip_Spec ip)))"

text \<open>The loop over the addresses that the user gives.\<close>

fun pick_addr :: "FlatNetworkSubnet \<Rightarrow> net_IP list \<Rightarrow> error + net_IP option" where
  "pick_addr subnet [] = Inr None"
| "pick_addr subnet (v # vs) =
     (let a = To16 v in
      if a = [] then Inl (Errorf ''allocateIP: invalid IP [%v] in addrs'' [IP_String v])
      else if Ranges (sn_Spec subnet) \<noteq> [] \<and> \<not> IPInRanges a (Ranges (sn_Spec subnet)) then
        pick_addr subnet vs
      else if \<not> IPInRanges a (UsedIP (sn_Status subnet)) then Inr (Some a)
      else pick_addr subnet vs)"

definition allocateIP :: "FlatNetworkIP \<Rightarrow> FlatNetworkSubnet \<Rightarrow> (error + net_IP) option" where
  "allocateIP ip subnet =
     (if alreadyAllocateIP ip subnet then Some (Inr (Addr (ip_Status ip)))
      else if Addrs (ip_Spec ip) = [] then
        GetAvailableIP (CIDR (sn_Spec subnet)) (Ranges (sn_Spec subnet)) (UsedIP (sn_Status subnet))
      else Some (case pick_addr subnet (Addrs (ip_Spec ip)) of
          Inl e \<Rightarrow> Inl e
        | Inr (Some a) \<Rightarrow> Inr a
        | Inr None \<Rightarrow> Inl (Wrapf ''allocateIP: no available IP address from addrs %v: %w''
                             [show_list (map IP_String (Addrs (ip_Spec ip)))] (Sentinel ErrNoAvailableIP))))"

subsection \<open>The handlers: flatnetworkip.go\<close>

definition eventFlatNetworkIPError :: "'w api \<Rightarrow> Pod \<Rightarrow> error \<Rightarrow> ('w, unit) state" where
  "eventFlatNetworkIPError api pod e =
     recorder_Event api pod ''Warning'' ''FlatNetworkIPError'' (err_text api e)"

text \<open>The status of the subnet after the address and the hardware address are taken.\<close>

definition claim_addr :: "net_IP \<Rightarrow> string \<Rightarrow> SubnetStatus \<Rightarrow> SubnetStatus" where
  "claim_addr allocatedIP allocatedMAC st =
     (let st = (if \<not> IPInRanges allocatedIP (UsedIP st)
                then st\<lparr>UsedIP := AddIPToRange allocatedIP (UsedIP st), UsedIPCount := UsedIPCount st + 1\<rparr>
                else st)
      in if allocatedMAC \<noteq> [] then st\<lparr>UsedMAC := sort (UsedMAC st @ [allocatedMAC])\<rparr> else st)"

definition claim_closure ::
    "'w api \<Rightarrow> string \<Rightarrow> net_IP \<Rightarrow> string \<Rightarrow> ('w, error + FlatNetworkSubnet) state" where
  "claim_closure api name allocatedIP allocatedMAC =
     do {
       r \<leftarrow> subnetCache_Get api SubnetNamespace name;
       case r of
         Inl e \<Rightarrow> ret (Inl e)
       | Inr result \<Rightarrow>
           subnetClient_UpdateStatus api
             (result\<lparr>sn_Status := claim_addr allocatedIP allocatedMAC (sn_Status result)\<rparr>)
     }"

text \<open>The status of the subnet after the fallback.\<close>

definition unclaim_addr :: "net_IP \<Rightarrow> string \<Rightarrow> SubnetStatus \<Rightarrow> SubnetStatus" where
  "unclaim_addr allocatedIP allocatedMAC st =
     (let st = (if IPInRanges allocatedIP (UsedIP st)
                then st\<lparr>UsedIP := RemoveIPFromRange allocatedIP (UsedIP st), UsedIPCount := UsedIPCount st - 1\<rparr>
                else st)
      in if allocatedMAC \<noteq> [] \<and> UsedMAC st \<noteq> []
         then st\<lparr>UsedMAC := filter (\<lambda>s. s \<noteq> allocatedMAC) (UsedMAC st)\<rparr> else st)"

definition pending_closure ::
    "'w api \<Rightarrow> FlatNetworkIP \<Rightarrow> net_IP \<Rightarrow> string \<Rightarrow> ('w, error + FlatNetworkIP) state" where
  "pending_closure api ip allocatedIP allocatedMAC =
     do {
       r \<leftarrow> ipCache_Get api (ip_Namespace ip) (ip_Name ip);
       case r of
         Inl e \<Rightarrow> ret (Inl e)
       | Inr result \<Rightarrow>
           do {
             now \<leftarrow> time_Now api;
             ipClient_UpdateStatus api (result\<lparr>ip_Status := (ip_Status result)
               \<lparr>Addr := allocatedIP, MAC := allocatedMAC, ip_Phase := flatNetworkIPPendingPhase,
                AllocatedTimeStamp := now\<rparr>\<rparr>)
           }
     }"

text \<open>\<open>onIPCreate\<close> after both addresses are chosen.\<close>

definition commit_allocation ::
    "'w api \<Rightarrow> FlatNetworkIP \<Rightarrow> Pod \<Rightarrow> FlatNetworkSubnet \<Rightarrow> net_IP \<Rightarrow> string \<Rightarrow>
     ('w, (FlatNetworkIP \<times> error option) outcome) state" where
  "commit_allocation api ip pod subnet allocatedIP allocatedMAC =
     do {
       r \<leftarrow> retry_subnet api DefaultBackoff
              (claim_closure api (Subnet (ip_Spec ip)) allocatedIP allocatedMAC);
       case r of
         Inl e \<Rightarrow>
           (let err = Wrapf ''failed to update subnet [%v] usedIP status: %w'' [sn_Name subnet] e in
            do {
              _ \<leftarrow> eventFlatNetworkIPError api pod err;
              ret (Returns (ip, Some err))
            })
       | Inr subnet \<Rightarrow>
           do {
             r \<leftarrow> retry_ip api DefaultBackoff (pending_closure api ip allocatedIP allocatedMAC);
             case r of
               Inr ip \<Rightarrow> ret (Returns (ip, None))
             | Inl _ \<Rightarrow>
                 do {
                   r \<leftarrow> subnetClient_UpdateStatus api
                          (subnet\<lparr>sn_Status := unclaim_addr allocatedIP allocatedMAC (sn_Status subnet)\<rparr>);
                   case r of
                     Inr _ \<Rightarrow> ret Panics
                   | Inl e \<Rightarrow>
                       do {
                         _ \<leftarrow> eventFlatNetworkIPError api pod e;
                         ret (Returns (ip, Some (Wrapf ''failed to update IP [%v/%v] addr status: %w''
                           [ip_Namespace ip, ip_Name ip] e)))
                       }
                 }
           }
     }"

text \<open>\<open>onIPCreate\<close> from the lock on.\<close>

definition onIPCreate_locked ::
    "'w api \<Rightarrow> FlatNetworkIP \<Rightarrow> Pod \<Rightarrow> ('w, (FlatNetworkIP \<times> error option) outcome) state" where
  "onIPCreate_locked api ip pod =
     do {
       r \<leftarrow> subnetCache_Get api SubnetNamespace (Subnet (ip_Spec ip));
       case r of
         Inl e \<Rightarrow>
           (let err = Wrapf ''onIPCreate: failed to get subnet [%v] of ip [%v/%v]: %w''
                        [Subnet (ip_Spec ip), ip_Namespace ip, ip_Name ip] e in
            do {
              _ \<leftarrow> eventFlatNetworkIPError api pod err;
              ret (Returns (ip, Some err))
            })
       | Inr subnet \<Rightarrow>
           if sn_Phase (sn_Status subnet) \<noteq> ''Active'' then
             do {
               _ \<leftarrow> ipEnqueueAfter api (ip_Namespace ip) (ip_Name ip) (5 * time_Second);
               ret (Returns (ip, None))
             }
           else
             (case allocateIP ip subnet of
                None \<Rightarrow> ret Hangs
              | Some (Inl e) \<Rightarrow>
                  do {
                    _ \<leftarrow> eventFlatNetworkIPError api pod e;
                    ret (Returns (ip, Some e))
                  }
              | Some (Inr allocatedIP) \<Rightarrow>
                  (case allocateMAC ip subnet of
                     Inl e \<Rightarrow>
                       do {
                         _ \<leftarrow> eventFlatNetworkIPError api pod e;
                         ret (Returns (ip, Some e))
                       }
                   | Inr allocatedMAC \<Rightarrow>
                       commit_allocation api ip pod subnet allocatedIP allocatedMAC))
     }"

text \<open>A section between \<open>IPAllocateLock\<close> and the deferred unlock.\<close>

definition with_lock :: "'w api \<Rightarrow> string \<Rightarrow> ('w, 'a outcome) state \<Rightarrow> ('w, 'a outcome) state" where
  "with_lock api subnet body =
     do {
       _ \<leftarrow> acquire api subnet;
       r \<leftarrow> body;
       case r of
         Hangs \<Rightarrow> ret Hangs
       | _ \<Rightarrow> do { _ \<leftarrow> release api subnet; ret r }
     }"

definition onIPCreate ::
    "'w api \<Rightarrow> FlatNetworkIP \<Rightarrow> ('w, (FlatNetworkIP \<times> error option) outcome) state" where
  "onIPCreate api ip =
     do {
       r \<leftarrow> podCache_Get api (ip_Namespace ip) (ip_Name ip);
       case r of
         Inl e \<Rightarrow>
           if IsNotFound e then
             do {
               d \<leftarrow> ipClient_Delete api (ip_Namespace ip) (ip_Name ip);
               ret (Returns (ip, d))
             }
           else ret (Returns (ip, Some (Wrapf ''onIPCreate: failed to get pod [%v/%v]: %w''
                  [ip_Namespace ip, ip_Name ip] e)))
       | Inr pod \<Rightarrow> with_lock api (Subnet (ip_Spec ip)) (onIPCreate_locked api ip pod)
     }"

definition onIPPending ::
    "'w api \<Rightarrow> FlatNetworkIP \<Rightarrow> ('w, (FlatNetworkIP \<times> error option) outcome) state" where
  "onIPPending api ip =
     do {
       now \<leftarrow> time_Now api;
       d \<leftarrow> (if AllocatedTimeStamp (ip_Status ip) + 5 * time_Minute < now
             then podClient_Delete api (ip_Namespace ip) (ip_Name ip)
             else ret None);
       case d of
         Some e \<Rightarrow> ret (Returns (ip, Some (Wrapf ''failed to delete pod [%v/%v]: %w''
                     [ip_Namespace ip, ip_Name ip] e)))
       | None \<Rightarrow>
           do {
             _ \<leftarrow> ipEnqueueAfter api (ip_Namespace ip) (ip_Name ip) (5 * time_Second);
             ret (Returns (ip, None))
           }
     }"

definition reinit_closure :: "'w api \<Rightarrow> FlatNetworkIP \<Rightarrow> ('w, error + FlatNetworkIP) state" where
  "reinit_closure api ip =
     do {
       r \<leftarrow> ipCache_Get api (ip_Namespace ip) (ip_Name ip);
       case r of
         Inl e \<Rightarrow> ret (Inl (Wrapf ''failed to get IP from cache: %w'' [] e))
       | Inr result \<Rightarrow>
           ipClient_UpdateStatus api
             (result\<lparr>ip_Status := (ip_Status result)\<lparr>ip_Phase := flatNetworkIPInitPhase\<rparr>\<rparr>)
     }"

definition onIPUpdate ::
    "'w api \<Rightarrow> FlatNetworkIP \<Rightarrow> ('w, (FlatNetworkIP \<times> error option) outcome) state" where
  "onIPUpdate api ip =
     (let delete = do {
            d \<leftarrow> ipClient_Delete api (ip_Namespace ip) (ip_Name ip);
            ret (Returns (ip, d))
          } in
      do {
        r \<leftarrow> subnetCache_Get api SubnetNamespace (Subnet (ip_Spec ip));
        case r of
          Inl e \<Rightarrow>
            if IsNotFound e then delete
            else ret (Returns (ip, Some (Wrapf ''onIPUpdate: failed to get subnet [%v] of ip [%v/%v]: %w''
                   [Subnet (ip_Spec ip), ip_Namespace ip, ip_Name ip] e)))
        | Inr subnet \<Rightarrow>
            do {
              r \<leftarrow> podCache_Get api (ip_Namespace ip) (ip_Name ip);
              case r of
                Inl e \<Rightarrow>
                  if IsNotFound e then delete
                  else ret (Returns (ip, Some (Wrapf ''onIPUpdate: failed to get pod [%v/%v] from cache: %w''
                         [ip_Namespace ip, ip_Name ip] e)))
              | Inr pod \<Rightarrow>
                  if UID (pod_meta pod) \<noteq> PodID (ip_Spec ip) then delete
                  else if alreadyAllocateIP ip subnet \<and> alreadyAllocatedMAC ip then
                    ret (Returns (ip, None))
                  else
                    do {
                      r \<leftarrow> retry_ip api DefaultBackoff (reinit_closure api ip);
                      case r of
                        Inl e \<Rightarrow> ret (Returns (ip, Some e))
                      | Inr ip \<Rightarrow> ret (Returns (ip, None))
                    }
            }
      })"

text \<open>A nil pointer is \<open>None\<close>.\<close>

definition handleIP ::
    "'w api \<Rightarrow> FlatNetworkIP option \<Rightarrow> ('w, (FlatNetworkIP option \<times> error option) outcome) state" where
  "handleIP api ip0 =
     (case ip0 of
        None \<Rightarrow> ret (Returns (None, None))
      | Some ip \<Rightarrow>
          if ip_Name ip = [] \<or> DeletionTimestamp (ip_meta ip) \<noteq> None then ret (Returns (Some ip, None))
          else
            do {
              r \<leftarrow> (if ip_Phase (ip_Status ip) = flatNetworkIPActivePhase then onIPUpdate api ip
                    else if ip_Phase (ip_Status ip) = flatNetworkIPPendingPhase then onIPPending api ip
                    else onIPCreate api ip);
              ret (map_outcome (\<lambda>(i, e). (Some i, e)) r)
            })"

definition failure_closure :: "'w api \<Rightarrow> FlatNetworkIP \<Rightarrow> string \<Rightarrow> ('w, error + unit) state" where
  "failure_closure api ip message =
     do {
       r \<leftarrow> ipCache_Get api (ip_Namespace ip) (ip_Name ip);
       case r of
         Inl e \<Rightarrow> ret (Inl e)
       | Inr ip \<Rightarrow>
           (let st = ip_Status ip;
                st = (if message \<noteq> [] then st\<lparr>ip_Phase := flatNetworkIPFailedPhase\<rparr> else st)
            in do {
              r \<leftarrow> ipClient_UpdateStatus api (ip\<lparr>ip_Status := st\<lparr>ip_FailureMessage := message\<rparr>\<rparr>);
              ret (map_sum id (\<lambda>_. ()) r)
            })
     }"

definition handleError ::
    "'w api \<Rightarrow> (FlatNetworkIP option \<Rightarrow> ('w, (FlatNetworkIP option \<times> error option) outcome) state) \<Rightarrow>
     FlatNetworkIP option \<Rightarrow> ('w, (FlatNetworkIP option \<times> error option) outcome) state" where
  "handleError api onChange ip0 =
     do {
       res \<leftarrow> onChange ip0;
       case res of
         Panics \<Rightarrow> ret Panics
       | Hangs \<Rightarrow> ret Hangs
       | Returns (ip1, err) \<Rightarrow>
           (let message = (case err of None \<Rightarrow> [] | Some e \<Rightarrow> err_text api e) in
            case ip1 of
              None \<Rightarrow> ret (Returns (None, err))
            | Some ip \<Rightarrow>
                if ip_Name ip = [] then ret (Returns (Some ip, err))
                else if ip_FailureMessage (ip_Status ip) = message then ret (Returns (Some ip, err))
                else
                  do {
                    r \<leftarrow> retry_unit api DefaultRetry (failure_closure api ip message);
                    case r of
                      Inl e \<Rightarrow> ret (Returns (Some ip, Some e))
                    | Inr _ \<Rightarrow> ret (Returns (Some ip, None))
                  })
     }"

subsection \<open>Removal: remove.go\<close>

abbreviation maxWaitForPodRemovePeriod :: nat where "maxWaitForPodRemovePeriod \<equiv> 60"

text \<open>
  The wait for the pod with \<open>n\<close> rounds left: \<open>Inl\<close> of an error, or whether the loop ended with
  \<open>break\<close>, before its counter reached the bound.
\<close>

fun wait_for_pod :: "'w api \<Rightarrow> FlatNetworkIP \<Rightarrow> nat \<Rightarrow> ('w, error + bool) state" where
  "wait_for_pod api ip 0 = ret (Inr False)"
| "wait_for_pod api ip (Suc n) =
     do {
       r \<leftarrow> podCache_Get api (ip_Namespace ip) (ip_Name ip);
       case r of
         Inl e \<Rightarrow>
           if IsNotFound e then ret (Inr True)
           else ret (Inl (Wrapf ''failed to get pod from cache: %w'' [] e))
       | Inr pod \<Rightarrow>
           if DeletionTimestamp (pod_meta pod) = None then ret (Inr True)
           else if UID (pod_meta pod) \<noteq> PodID (ip_Spec ip) then ret (Inr True)
           else do { _ \<leftarrow> time_Sleep api time_Second; wait_for_pod api ip n }
     }"

definition release_addr :: "FlatNetworkIP \<Rightarrow> SubnetStatus \<Rightarrow> SubnetStatus" where
  "release_addr ip st =
     (let addr = Addr (ip_Status ip); m = MAC (ip_Status ip);
          st = (if IPInRanges addr (UsedIP st)
                then st\<lparr>UsedIP := RemoveIPFromRange addr (UsedIP st), UsedIPCount := UsedIPCount st - 1\<rparr>
                else st)
      in if m \<noteq> [] then st\<lparr>UsedMAC := sort (filter (\<lambda>s. s \<noteq> m) (UsedMAC st))\<rparr> else st)"

definition release_closure :: "'w api \<Rightarrow> FlatNetworkIP \<Rightarrow> ('w, error + unit) state" where
  "release_closure api ip =
     do {
       r \<leftarrow> subnetCache_Get api SubnetNamespace (Subnet (ip_Spec ip));
       case r of
         Inl e \<Rightarrow>
           if IsNotFound e then ret (Inr ())
           else ret (Inl (Wrapf ''failed to get subnet from cache: %w'' [] e))
       | Inr result \<Rightarrow>
           do {
             r \<leftarrow> subnetClient_UpdateStatus api (result\<lparr>sn_Status := release_addr ip (sn_Status result)\<rparr>);
             ret (map_sum id (\<lambda>_. ()) r)
           }
     }"

definition handleIPRemove ::
    "'w api \<Rightarrow> FlatNetworkIP option \<Rightarrow> ('w, (FlatNetworkIP option \<times> error option) outcome) state" where
  "handleIPRemove api ip0 =
     (case ip0 of
        None \<Rightarrow> ret (Returns (None, None))
      | Some ip \<Rightarrow>
          if ip_Name ip = [] then ret (Returns (Some ip, None))
          else
            do {
              r \<leftarrow> wait_for_pod api ip maxWaitForPodRemovePeriod;
              case r of
                Inl e \<Rightarrow> ret (Returns (Some ip, Some e))
              | Inr False \<Rightarrow>
                  ret (Returns (Some ip, Some (Errorf
                    ''failed to wait for pod [%v/%v] remove after [%v] times retry''
                    [ip_Namespace ip, ip_Name ip, show_nat maxWaitForPodRemovePeriod])))
              | Inr True \<Rightarrow>
                  with_lock api (Subnet (ip_Spec ip))
                    (do {
                       _ \<leftarrow> retry_unit api DefaultBackoff (release_closure api ip);
                       ret (Returns (Some ip, None))
                     })
            })"


subsection \<open>Binary search\<close>

lemma binary_search_spec:
  assumes "sorted xs" and "i \<le> j" and "j \<le> length xs"
    and "\<forall>k < i. xs ! k < t" and "\<forall>k < length xs. j \<le> k \<longrightarrow> t \<le> xs ! k"
  shows "let m = binary_search xs t i j in
    m \<le> length xs \<and> (\<forall>k < m. xs ! k < t) \<and> (\<forall>k < length xs. m \<le> k \<longrightarrow> t \<le> xs ! k)"
  using assms
proof (induction xs t i j rule: binary_search.induct)
  case (1 xs t i j)
  let ?h = "(i + j) div 2"
  show ?case
  proof (cases "i < j")
    case False
    then have "binary_search xs t i j = i" by (subst binary_search.simps) simp
    then show ?thesis using "1.prems" False by simp
  next
    case True
    then have h: "i \<le> ?h" "?h < j" by simp_all
    show ?thesis
    proof (cases "xs ! ?h < t")
      case less: True
      have "xs ! k < t" if "k < ?h + 1" for k
        using that less sorted_nth_mono [OF "1.prems"(1), of k ?h] h "1.prems"(3)
        by (simp add: less_Suc_eq_le order.strict_trans1)
      then show ?thesis
        using "1.IH"(1) [OF True refl less] "1.prems" h less True
        by (simp add: binary_search.simps [of xs t i j] Let_def)
    next
      case ge: False
      have "t \<le> xs ! k" if "k < length xs" "?h \<le> k" for k
        using that ge sorted_nth_mono [OF "1.prems"(1), of ?h k] by (simp add: not_less)
      then show ?thesis
        using "1.IH"(2) [OF True refl ge] "1.prems" h ge True
        by (simp add: binary_search.simps [of xs t i j] Let_def)
    qed
  qed
qed

lemma slices_BinarySearch_iff: "sorted xs \<Longrightarrow> slices_BinarySearch xs t \<longleftrightarrow> t \<in> set xs"
proof -
  assume s: "sorted xs"
  let ?m = "binary_search xs t 0 (length xs)"
  have m: "\<forall>k < ?m. xs ! k < t" "\<forall>k < length xs. ?m \<le> k \<longrightarrow> t \<le> xs ! k"
    using binary_search_spec [OF s, of 0 "length xs" t] by (simp_all add: Let_def)
  have "?m < length xs \<and> xs ! ?m = t" if mem: "t \<in> set xs"
  proof -
    obtain k where k: "k < length xs" "xs ! k = t" using mem by (auto simp: in_set_conv_nth)
    then have "?m \<le> k" using m(1) by (metis linorder_not_less order.irrefl)
    then have "xs ! ?m \<le> t" "t \<le> xs ! ?m" "?m < length xs"
      using k s m(2) sorted_nth_mono [OF s, of ?m k] by auto
    then show ?thesis by simp
  qed
  moreover have "t \<in> set xs" if "?m < length xs" "xs ! ?m = t"
    using nth_mem [OF that(1)] that(2) by simp
  ultimately show ?thesis unfolding slices_BinarySearch_def Let_def by blast
qed

subsection \<open>What is allocated\<close>

lemma pick_addr_Some:
  "pick_addr s vs = Inr (Some a) \<Longrightarrow> a \<in> To16 ` set vs \<and> length a = 16 \<and>
     \<not> IPInRanges a (UsedIP (sn_Status s)) \<and> (Ranges (sn_Spec s) \<noteq> [] \<longrightarrow> IPInRanges a (Ranges (sn_Spec s)))"
proof (induction vs)
  case (Cons v vs)
  then show ?case using length_To16 [of v] by (auto simp: Let_def split: if_splits)
qed simp

lemma allocateIP_cases:
  assumes "allocateIP ip s = Some (Inr a)"
  obtains (already) "alreadyAllocateIP ip s" and "a = Addr (ip_Status ip)" and "a \<noteq> []"
  | (auto) "\<not> alreadyAllocateIP ip s" and "Addrs (ip_Spec ip) = []"
      and "GetAvailableIP (CIDR (sn_Spec s)) (Ranges (sn_Spec s)) (UsedIP (sn_Status s)) = Some (Inr a)"
  | (specific) "\<not> alreadyAllocateIP ip s" and "pick_addr s (Addrs (ip_Spec ip)) = Inr (Some a)"
  using assms
  by (auto simp: allocateIP_def alreadyAllocateIP_def Let_def split: if_splits sum.splits option.splits)

end
