(* ===== verification/IPAM.thy ===== *)
theory IPAM
  imports IPController
begin

text \<open>
  Safety of the allocation. The invariant \<open>ipam_inv\<close> of the cluster says that every allocated address
  is recorded as used in its subnet, is not the gateway, and belongs to one resource only. Under the
  laws of \<open>kube\<close> every run of the IP controller that returns keeps it, so that the resources reachable
  by any sequence of such runs have different addresses. The last part shows by concrete runs what
  happens without fresh caches and on the path where the controller panics.
\<close>

subsection \<open>The invariant of the allocation\<close>

text \<open>
  \<open>subnet_ok\<close>: the used addresses are canonical and hold the gateway. \<open>ip_ok\<close>: addresses are inner
  addresses of sixteen bytes. \<open>ipam_inv\<close>: the address of every resource is among the used addresses
  of its subnet and is not the gateway, and two resources of a subnet have different addresses.
\<close>

definition subnet_ok :: "FlatNetworkSubnet \<Rightarrow> bool" where
  "subnet_ok s \<longleftrightarrow> canon (UsedIP (sn_Status s)) \<and> plain_cidr (CIDR (sn_Spec s)) \<and>
     (sn_Gateway (sn_Status s) \<noteq> [] \<longrightarrow> inner_addr (sn_Gateway (sn_Status s)) \<and>
        IPInRanges (sn_Gateway (sn_Status s)) (UsedIP (sn_Status s)))"

definition ip_ok :: "FlatNetworkIP \<Rightarrow> bool" where
  "ip_ok i \<longleftrightarrow> list_all (\<lambda>v. To16 v \<noteq> [] \<longrightarrow> inner_addr (To16 v)) (Addrs (ip_Spec i)) \<and>
     (Addr (ip_Status i) \<noteq> [] \<longrightarrow> inner_addr (Addr (ip_Status i)))"

definition holds :: "FlatNetworkIP \<Rightarrow> string \<Rightarrow> net_IP \<Rightarrow> bool" where
  "holds i sn a \<longleftrightarrow> Subnet (ip_Spec i) = sn \<and> Addr (ip_Status i) = a \<and> a \<noteq> []"

definition ipam_inv :: "cluster \<Rightarrow> bool" where
  "ipam_inv c \<longleftrightarrow>
     (\<forall>k s. c_subnets c k = Some s \<longrightarrow> subnet_ok s) \<and>
     (\<forall>k i. c_ips c k = Some i \<longrightarrow> ip_ok i) \<and>
     (\<forall>k i sn a s. c_ips c k = Some i \<and> holds i sn a \<and> c_subnets c (SubnetNamespace, sn) = Some s \<longrightarrow>
        IPInRanges a (UsedIP (sn_Status s)) \<and> a \<noteq> sn_Gateway (sn_Status s)) \<and>
     (\<forall>k k' i i' sn a. c_ips c k = Some i \<and> c_ips c k' = Some i' \<and> holds i sn a \<and> holds i' sn a \<longrightarrow> k = k')"

lemma ipam_invD:
  assumes "ipam_inv c"
  shows "c_subnets c k = Some s \<Longrightarrow> subnet_ok s"
    and "c_ips c k = Some i \<Longrightarrow> ip_ok i"
    and "c_ips c k = Some i \<Longrightarrow> holds i sn a \<Longrightarrow> c_subnets c (SubnetNamespace, sn) = Some s \<Longrightarrow>
      IPInRanges a (UsedIP (sn_Status s)) \<and> a \<noteq> sn_Gateway (sn_Status s)"
    and "c_ips c k = Some i \<Longrightarrow> c_ips c k' = Some i' \<Longrightarrow> holds i sn a \<Longrightarrow> holds i' sn a \<Longrightarrow> k = k'"
  using assms unfolding ipam_inv_def by blast+

lemma ipam_invI:
  assumes "\<And>k s. c_subnets c k = Some s \<Longrightarrow> subnet_ok s"
    and "\<And>k i. c_ips c k = Some i \<Longrightarrow> ip_ok i"
    and "\<And>k i sn a s. c_ips c k = Some i \<Longrightarrow> holds i sn a \<Longrightarrow> c_subnets c (SubnetNamespace, sn) = Some s \<Longrightarrow>
      IPInRanges a (UsedIP (sn_Status s)) \<and> a \<noteq> sn_Gateway (sn_Status s)"
    and "\<And>k k' i i' sn a. c_ips c k = Some i \<Longrightarrow> c_ips c k' = Some i' \<Longrightarrow> holds i sn a \<Longrightarrow> holds i' sn a \<Longrightarrow> k = k'"
  shows "ipam_inv c"
  using assms unfolding ipam_inv_def by blast

text \<open>An address that the resource at key \<open>k\<close> may take from subnet \<open>sn\<close>.\<close>

definition takeable :: "cluster \<Rightarrow> key \<Rightarrow> string \<Rightarrow> net_IP \<Rightarrow> bool" where
  "takeable c k sn a \<longleftrightarrow> inner_addr a \<and>
     (\<forall>k' i'. c_ips c k' = Some i' \<and> holds i' sn a \<longrightarrow> k' = k) \<and>
     (\<forall>s. c_subnets c (SubnetNamespace, sn) = Some s \<longrightarrow> a \<noteq> sn_Gateway (sn_Status s))"

lemma allocateIP_takeable:
  assumes inv: "ipam_inv c" and ip: "c_ips c k = Some ip"
    and s: "c_subnets c (SubnetNamespace, Subnet (ip_Spec ip)) = Some s"
    and al: "allocateIP ip s = Some (Inr a)"
  shows "takeable c k (Subnet (ip_Spec ip)) a"
proof -
  have sok: "subnet_ok s" and iok: "ip_ok ip" using ipam_invD(1,2) [OF inv] s ip by blast+
  have used: "list_all range16 (UsedIP (sn_Status s))" using sok by (simp add: subnet_ok_def canon_range16)
  have new: "takeable c k (Subnet (ip_Spec ip)) a"
    if inner: "inner_addr a" and out: "\<not> IPInRanges a (UsedIP (sn_Status s))"
    using inner out ipam_invD(3) [OF inv _ _ s] sok s
    by (auto simp: takeable_def subnet_ok_def inner_addr_def)
  from al show ?thesis
  proof (cases rule: allocateIP_cases)
    case already
    then have "holds ip (Subnet (ip_Spec ip)) a" by (simp add: holds_def)
    then show ?thesis
      using ipam_invD(3,4) [OF inv ip] s iok already by (auto simp: takeable_def ip_ok_def)
  next
    case auto
    then obtain ip' n where "ParseCIDR (CIDR (sn_Spec s)) = Inr (ip', n)" "free_addr n (UsedIP (sn_Status s)) a"
      using GetAvailableIP_free by blast
    then show ?thesis using new free_addr_inner sok by (auto simp: subnet_ok_def free_addr_def)
  next
    case specific
    have "\<not> IPInRanges a (UsedIP (sn_Status s))" "length a = 16" "\<exists>v \<in> set (Addrs (ip_Spec ip)). a = To16 v"
      using pick_addr_Some [OF specific(2)] by auto
    then show ?thesis using new iok by (auto simp: ip_ok_def list_all_iff)
  qed
qed

subsection \<open>The allocator the controller implements\<close>

text \<open>
  The abstract allocator keeps which resource was granted which address of which subnet. A step
  belongs to the resource at key \<open>k\<close>: it changes nothing, grants the resource an address that no other
  resource has, in place of the one it had, or takes the address of the resource away.
\<close>

type_synonym grants = "key \<rightharpoonup> string \<times> net_IP"

inductive alloc_step :: "key \<Rightarrow> grants \<Rightarrow> grants \<Rightarrow> bool" for k where
  keep: "alloc_step k g g"
| grant: "(sn, a) \<notin> ran (g(k := None)) \<Longrightarrow> alloc_step k g (g(k \<mapsto> (sn, a)))"
| free: "alloc_step k g (g(k := None))"

definition one_holder :: "grants \<Rightarrow> bool" where
  "one_holder g \<longleftrightarrow> (\<forall>k k' x. g k = Some x \<and> g k' = Some x \<longrightarrow> k = k')"

lemma alloc_step_one_holder: "alloc_step k g g' \<Longrightarrow> one_holder g \<Longrightarrow> one_holder g'"
  by (induction rule: alloc_step.induct) (auto simp: one_holder_def ran_def split: if_splits)

text \<open>What a cluster has granted: the addresses of the resources it stores.\<close>

definition granted :: "FlatNetworkIP \<Rightarrow> (string \<times> net_IP) option" where
  "granted i = (if Addr (ip_Status i) = [] then None else Some (Subnet (ip_Spec i), Addr (ip_Status i)))"

definition grants_of :: "cluster \<Rightarrow> grants" where
  "grants_of c = (\<lambda>k. Option.bind (c_ips c k) granted)"

lemma granted_iff: "granted i = Some (sn, a) \<longleftrightarrow> holds i sn a"
  by (auto simp: granted_def holds_def)

lemma grants_of_simps [simp]:
  "grants_of (c\<lparr>c_subnets := x\<rparr>) = grants_of c"
  "grants_of (c\<lparr>c_ips := (c_ips c)(k \<mapsto> i)\<rparr>) = (grants_of c)(k := granted i)"
  "grants_of (c\<lparr>c_ips := (c_ips c)(k := None)\<rparr>) = (grants_of c)(k := None)"
  by (auto simp: grants_of_def)

lemma granted_meta [simp]: "granted (i\<lparr>ip_meta := m\<rparr>) = granted i"
  by (simp add: granted_def)

lemma granted_cong: "ip_Spec i' = ip_Spec i \<Longrightarrow> Addr (ip_Status i') = Addr (ip_Status i) \<Longrightarrow> granted i' = granted i"
  by (simp add: granted_def)

lemma grants_same: "c_ips c k = Some i \<Longrightarrow> granted i' = granted i \<Longrightarrow> (grants_of c)(k := granted i') = grants_of c"
  by (auto simp: grants_of_def)

lemma ran_grants: "(sn, a) \<in> ran ((grants_of c)(k := None)) \<longleftrightarrow> (\<exists>k' i. k' \<noteq> k \<and> c_ips c k' = Some i \<and> holds i sn a)"
  by (auto simp: ran_def grants_of_def bind_eq_Some_conv granted_iff)

lemma takeable_grant: "takeable c k sn a \<Longrightarrow> alloc_step k (grants_of c) ((grants_of c)(k \<mapsto> (sn, a)))"
  by (rule alloc_step.grant) (auto simp: ran_grants takeable_def)

text \<open>A change of the cluster that keeps the invariant and is a step of the allocator for the resource at \<open>k\<close>.\<close>

definition allowed :: "key \<Rightarrow> cluster \<Rightarrow> cluster \<Rightarrow> bool" where
  "allowed k c c' \<longleftrightarrow> ipam_inv c' \<and> alloc_step k (grants_of c) (grants_of c')"

lemma allowed_refl: "ipam_inv c \<Longrightarrow> allowed k c c"
  by (simp add: allowed_def alloc_step.keep)

subsection \<open>Steps on the cluster\<close>

lemma claim_addr_simps:
  "sn_Gateway (claim_addr a m st) = sn_Gateway st"
  "UsedIP (claim_addr a m st) = AddIPToRange a (UsedIP st)"
  by (simp_all add: claim_addr_def AddIPToRange_def)

lemma inv_claim:
  assumes inv: "ipam_inv c" and old: "c_subnets c k = Some s" and a: "inner_addr a"
    and new: "sn_Spec s' = sn_Spec s" "sn_Status s' = claim_addr a m (sn_Status s)"
  shows "ipam_inv (c\<lparr>c_subnets := (c_subnets c)(k \<mapsto> s')\<rparr>)"
proof -
  have cs: "canon (UsedIP (sn_Status s))" using ipam_invD(1) [OF inv old] by (simp add: subnet_ok_def)
  have mem: "IPInRanges b (UsedIP (sn_Status s'))" if "IPInRanges b (UsedIP (sn_Status s))" "inner_addr b" for b
    using that a cs rng.mem_add [OF a that(2) cs] by (simp add: new claim_addr_simps)
  have "subnet_ok s'"
    using ipam_invD(1) [OF inv old] mem rng.wf_add [OF a cs]
    by (auto simp: subnet_ok_def new claim_addr_simps)
  note sok = this
  have inner: "inner_addr b" if "c_ips c k' = Some i" "holds i sn b" for k' i sn b
    using ipam_invD(2) [OF inv that(1)] that(2) by (auto simp: ip_ok_def holds_def)
  show ?thesis
  proof (rule ipam_invI)
    fix k' i sn b t
    assume i: "c_ips (c\<lparr>c_subnets := (c_subnets c)(k \<mapsto> s')\<rparr>) k' = Some i" "holds i sn b"
      and t: "c_subnets (c\<lparr>c_subnets := (c_subnets c)(k \<mapsto> s')\<rparr>) (SubnetNamespace, sn) = Some t"
    have i': "c_ips c k' = Some i" using i(1) by simp
    show "IPInRanges b (UsedIP (sn_Status t)) \<and> b \<noteq> sn_Gateway (sn_Status t)"
    proof (cases "k = (SubnetNamespace, sn)")
      case True
      then have "t = s'" "c_subnets c (SubnetNamespace, sn) = Some s" using t old by simp_all
      then show ?thesis
        using ipam_invD(3) [OF inv i' i(2)] mem inner [OF i' i(2)] by (auto simp: new claim_addr_simps)
    next
      case False
      then show ?thesis using ipam_invD(3) [OF inv i' i(2)] t by simp
    qed
  qed (use sok ipam_invD [OF inv] in \<open>auto split: if_splits\<close>)
qed

lemma inv_pending:
  assumes inv: "ipam_inv c" and old: "c_ips c k = Some i" and take: "takeable c k (Subnet (ip_Spec i)) a"
    and used: "\<And>s. c_subnets c (SubnetNamespace, Subnet (ip_Spec i)) = Some s \<Longrightarrow> IPInRanges a (UsedIP (sn_Status s))"
    and new: "ip_Spec i' = ip_Spec i" "Addr (ip_Status i') = a"
  shows "ipam_inv (c\<lparr>c_ips := (c_ips c)(k \<mapsto> i')\<rparr>)"
proof -
  have a: "inner_addr a" "a \<noteq> []" using take by (auto simp: takeable_def inner_addr_def)
  have "ip_ok i'" using ipam_invD(2) [OF inv old] a by (simp add: ip_ok_def new)
  moreover have hi: "holds i' sn b \<longleftrightarrow> sn = Subnet (ip_Spec i) \<and> b = a" for sn b
    using a by (auto simp: holds_def new)
  ultimately have iok: "ip_ok i'" and hi: "\<And>sn b. holds i' sn b \<longleftrightarrow> sn = Subnet (ip_Spec i) \<and> b = a"
    by blast+
  have sub: "k' = k" if "c_ips c k' = Some j" "holds j (Subnet (ip_Spec i)) a" for k' j
    using take that unfolding takeable_def by blast
  have gw: "a \<noteq> sn_Gateway (sn_Status s)" if "c_subnets c (SubnetNamespace, Subnet (ip_Spec i)) = Some s" for s
    using take that by (simp add: takeable_def)
  show ?thesis
  proof (rule ipam_invI)
    fix k1 k2 i1 i2 sn b
    assume "c_ips (c\<lparr>c_ips := (c_ips c)(k \<mapsto> i')\<rparr>) k1 = Some i1"
      "c_ips (c\<lparr>c_ips := (c_ips c)(k \<mapsto> i')\<rparr>) k2 = Some i2" "holds i1 sn b" "holds i2 sn b"
    then show "k1 = k2"
      using hi sub ipam_invD(4) [OF inv] by (cases "k1 = k"; cases "k2 = k") auto
  qed (use iok hi gw used ipam_invD [OF inv] in \<open>auto split: if_splits\<close>)
qed


lemma inv_status:
  assumes inv: "ipam_inv c" and old: "c_ips c k = Some i"
    and new: "ip_Spec i' = ip_Spec i" "Addr (ip_Status i') = Addr (ip_Status i)"
  shows "ipam_inv (c\<lparr>c_ips := (c_ips c)(k \<mapsto> i')\<rparr>)"
proof -
  have hi: "holds i' sn a \<longleftrightarrow> holds i sn a" "ip_ok i' \<longleftrightarrow> ip_ok i" for sn a
    by (simp_all add: holds_def ip_ok_def new)
  show ?thesis
  proof (rule ipam_invI)
    fix k1 j sn a s
    assume "c_ips (c\<lparr>c_ips := (c_ips c)(k \<mapsto> i')\<rparr>) k1 = Some j" "holds j sn a"
      "c_subnets (c\<lparr>c_ips := (c_ips c)(k \<mapsto> i')\<rparr>) (SubnetNamespace, sn) = Some s"
    then have "\<exists>j'. c_ips c k1 = Some j' \<and> holds j' sn a" "c_subnets c (SubnetNamespace, sn) = Some s"
      using old hi by (auto split: if_splits)
    then show "IPInRanges a (UsedIP (sn_Status s)) \<and> a \<noteq> sn_Gateway (sn_Status s)"
      using ipam_invD(3) [OF inv] by blast
  qed (use old ipam_invD(1,2,4) [OF inv] in \<open>auto simp: hi split: if_splits\<close>)
qed

lemma inv_remove_ip:
  "ipam_inv c \<Longrightarrow> ipam_inv (c\<lparr>c_ips := (c_ips c)(k := None)\<rparr>)"
  using ipam_invD [of c] by (intro ipam_invI) (auto split: if_splits)

subsection \<open>The handlers keep the invariant\<close>

text \<open>What a run of the two closures does to the cluster.\<close>

definition claimed :: "string \<Rightarrow> net_IP \<Rightarrow> string \<Rightarrow> cluster \<Rightarrow> error + FlatNetworkSubnet \<Rightarrow> cluster \<Rightarrow> bool" where
  "claimed sn a m c r c' \<longleftrightarrow>
     (case r of
        Inl e \<Rightarrow> c' = c
      | Inr s' \<Rightarrow> \<exists>s. c_subnets c (SubnetNamespace, sn) = Some s \<and> sn_Spec s' = sn_Spec s \<and>
          sn_Status s' = claim_addr a m (sn_Status s) \<and> same_but_version (sn_meta s) (sn_meta s') \<and>
          c' = c\<lparr>c_subnets := (c_subnets c)((SubnetNamespace, sn) \<mapsto> s')\<rparr>)"

definition made_pending ::
    "FlatNetworkIP \<Rightarrow> net_IP \<Rightarrow> string \<Rightarrow> cluster \<Rightarrow> error + FlatNetworkIP \<Rightarrow> cluster \<Rightarrow> bool" where
  "made_pending ip a m c r c' \<longleftrightarrow>
     (case r of
        Inl e \<Rightarrow> c' = c
      | Inr i' \<Rightarrow> \<exists>i. c_ips c (ip_Namespace ip, ip_Name ip) = Some i \<and> ip_Spec i' = ip_Spec i \<and>
          Addr (ip_Status i') = a \<and> MAC (ip_Status i') = m \<and>
          ip_Phase (ip_Status i') = flatNetworkIPPendingPhase \<and>
          c' = c\<lparr>c_ips := (c_ips c)((ip_Namespace ip, ip_Name ip) \<mapsto> i')\<rparr>)"

definition addr_kept :: "FlatNetworkIP \<Rightarrow> cluster \<Rightarrow> error + 'x \<Rightarrow> cluster \<Rightarrow> bool" where
  "addr_kept ip c r c' \<longleftrightarrow>
     (case r of
        Inl e \<Rightarrow> c' = c
      | Inr _ \<Rightarrow> \<exists>i i'. c_ips c (ip_Namespace ip, ip_Name ip) = Some i \<and> ip_Spec i' = ip_Spec i \<and>
          Addr (ip_Status i') = Addr (ip_Status i) \<and>
          c' = c\<lparr>c_ips := (c_ips c)((ip_Namespace ip, ip_Name ip) \<mapsto> i')\<rparr>)"

definition released :: "FlatNetworkIP \<Rightarrow> cluster \<Rightarrow> error + unit \<Rightarrow> cluster \<Rightarrow> bool" where
  "released ip c r c' \<longleftrightarrow> c' = c \<and> (r = Inr () \<longrightarrow> c_subnets c (SubnetNamespace, Subnet (ip_Spec ip)) = None) \<or>
     r = Inr () \<and> (\<exists>s s'. c_subnets c (SubnetNamespace, Subnet (ip_Spec ip)) = Some s \<and>
       sn_Spec s' = sn_Spec s \<and> sn_Status s' = release_addr ip (sn_Status s) \<and>
       c' = c\<lparr>c_subnets := (c_subnets c)((SubnetNamespace, Subnet (ip_Spec ip)) \<mapsto> s')\<rparr>)"

lemma release_addr_simps:
  "sn_Gateway (release_addr ip st) = sn_Gateway st"
  "canon (UsedIP st) \<Longrightarrow> inner_addr (Addr (ip_Status ip)) \<Longrightarrow>
     UsedIP (release_addr ip st) = RemoveIPFromRange (Addr (ip_Status ip)) (UsedIP st)"
  "Addr (ip_Status ip) = [] \<Longrightarrow> UsedIP (release_addr ip st) = UsedIP st"
  by (auto simp: release_addr_def Let_def RemoveIPFromRange_def inner_addr_def IPInRanges_def To16_def)

text \<open>A release keeps every other address of the subnet, and the subnet well formed.\<close>

lemma release_keeps:
  assumes sok: "subnet_ok s" and st: "sn_Status s' = release_addr ip (sn_Status s)" and ok: "ip_ok ip"
    and b: "IPInRanges b (UsedIP (sn_Status s))" "b \<noteq> Addr (ip_Status ip) \<or> Addr (ip_Status ip) = []" "inner_addr b"
  shows "IPInRanges b (UsedIP (sn_Status s'))"
proof (cases "Addr (ip_Status ip) = []")
  case True
  then show ?thesis using b by (simp add: st release_addr_simps)
next
  case False
  then have a: "inner_addr (Addr (ip_Status ip))" using ok by (simp add: ip_ok_def)
  have cs: "canon (UsedIP (sn_Status s))" using sok by (simp add: subnet_ok_def)
  have "bval b \<noteq> bval (Addr (ip_Status ip))" using b a False by (simp add: inner_addr_def bval_inj)
  then show ?thesis using rng.mem_rem [OF a b(3) cs] b(1) by (simp add: st release_addr_simps cs a)
qed

lemma release_subnet_ok:
  assumes sok: "subnet_ok s" and st: "sn_Status s' = release_addr ip (sn_Status s)" "sn_Spec s' = sn_Spec s" and ok: "ip_ok ip"
    and gw: "Addr (ip_Status ip) \<noteq> [] \<Longrightarrow> Addr (ip_Status ip) \<noteq> sn_Gateway (sn_Status s)"
  shows "subnet_ok s'"
proof -
  have "canon (UsedIP (sn_Status s'))"
  proof (cases "Addr (ip_Status ip) = []")
    case True
    then show ?thesis using sok by (simp add: st release_addr_simps subnet_ok_def)
  next
    case False
    then have a: "inner_addr (Addr (ip_Status ip))" using ok by (simp add: ip_ok_def)
    then show ?thesis using sok rng.wf_rem [OF a] by (simp add: st release_addr_simps subnet_ok_def)
  qed
  then show ?thesis
    using sok release_keeps [OF sok st(1) ok, of "sn_Gateway (sn_Status s)"] gw
    by (simp add: subnet_ok_def st release_addr_simps) metis
qed

lemma inv_released:
  assumes inv: "ipam_inv c" and ip: "c_ips c (ip_Namespace ip, ip_Name ip) = Some ip"
    and rel: "released ip c r c'"
  shows "ipam_inv (c'\<lparr>c_ips := (c_ips c')((ip_Namespace ip, ip_Name ip) := None)\<rparr>)"
proof -
  let ?k = "(ip_Namespace ip, ip_Name ip)" and ?sn = "Subnet (ip_Spec ip)" and ?a = "Addr (ip_Status ip)"
  from rel consider "c' = c"
    | s s' where "c_subnets c (SubnetNamespace, ?sn) = Some s" "sn_Spec s' = sn_Spec s"
      "sn_Status s' = release_addr ip (sn_Status s)"
      "c' = c\<lparr>c_subnets := (c_subnets c)((SubnetNamespace, ?sn) \<mapsto> s')\<rparr>"
    by (auto simp: released_def)
  then show ?thesis
  proof cases
    case 1
    then show ?thesis using inv_remove_ip [OF inv] by simp
  next
    case (2 s s')
    have sok: "subnet_ok s" by (rule ipam_invD(1) [OF inv 2(1)])
    note ok = ipam_invD(2) [OF inv ip] and keep = release_keeps [OF sok 2(3) ipam_invD(2) [OF inv ip]]
    have gw: "?a \<noteq> [] \<Longrightarrow> ?a \<noteq> sn_Gateway (sn_Status s)"
      using ipam_invD(3) [OF inv ip _ 2(1)] by (simp add: holds_def)
    have sok': "subnet_ok s'" by (rule release_subnet_ok [OF sok 2(3,2) ok gw])
    show ?thesis
    proof (rule ipam_invI)
      let ?c = "c'\<lparr>c_ips := (c_ips c')(?k := None)\<rparr>"
      fix k i sn b t
      assume i: "c_ips ?c k = Some i" "holds i sn b" and t: "c_subnets ?c (SubnetNamespace, sn) = Some t"
      have i': "c_ips c k = Some i" "k \<noteq> ?k" using i(1) by (auto simp: 2 split: if_splits)
      have inner: "inner_addr b" using ipam_invD(2) [OF inv i'(1)] i(2) by (auto simp: ip_ok_def holds_def)
      show "IPInRanges b (UsedIP (sn_Status t)) \<and> b \<noteq> sn_Gateway (sn_Status t)"
      proof (cases "sn = ?sn")
        case True
        then have "t = s'" using t by (simp add: 2)
        moreover have "b \<noteq> ?a \<or> ?a = []"
          using ipam_invD(4) [OF inv i'(1) ip, of sn b] i(2) i'(2) True by (auto simp: holds_def)
        ultimately show ?thesis
          using ipam_invD(3) [OF inv i'(1) i(2)] 2(1) True keep inner by (simp add: 2 release_addr_simps)
      next
        case False
        then show ?thesis using ipam_invD(3) [OF inv i'(1) i(2)] t by (simp add: 2)
      qed
    qed (use sok' ipam_invD(1,2,4) [OF inv] in \<open>auto simp: 2 split: if_splits\<close>)
  qed
qed

lemma same_but_timeD:
  assumes "same_but_time st st'"
  shows "Addr st' = Addr st" "MAC st' = MAC st" "ip_Phase st' = ip_Phase st"
    "ip_FailureMessage st' = ip_FailureMessage st"
  using assms by (cases st; cases st'; simp add: same_but_time_def)+

context kube
begin

lemma run_quiet:
  "run_state (recorder_Event api p t m x) w = (u, w') \<Longrightarrow> view w' = view w"
  "run_state (ipEnqueueAfter api ns n d) w = (u, w') \<Longrightarrow> view w' = view w"
  "run_state (time_Now api) w = (v, w') \<Longrightarrow> view w' = view w"
  "run_state (time_Sleep api d) w = (u, w') \<Longrightarrow> view w' = view w"
  "run_state (acquire api n) w = (u, w') \<Longrightarrow> view w' = view w"
  "run_state (release api n) w = (u, w') \<Longrightarrow> view w' = view w"
  "run_state (eventFlatNetworkIPError api p e) w = (u, w') \<Longrightarrow> view w' = view w"
  using quiet(1) [of p t m x w] quiet(2) [of ns n d w] quiet(5) [of w] quiet(6) [of d w] quiet(7) [of n w]
    quiet(8) [of n w] quiet(1) [of p "''Warning''" "''FlatNetworkIPError''" "err_text api e" w]
  by (auto simp: eventFlatNetworkIPError_def)

lemma claim_run: "run_state (claim_closure api sn a m) w = (r, w') \<Longrightarrow> claimed sn a m (view w) r (view w')"
proof -
  assume run: "run_state (claim_closure api sn a m) w = (r, w')"
  obtain g w1 where get: "run_state (subnetCache_Get api SubnetNamespace sn) w = (g, w1)" by fastforce
  note v = subnet_Get [OF get]
  show ?thesis
  proof (cases g)
    case (Inl e)
    then show ?thesis using run get v by (auto simp: claim_closure_def claimed_def)
  next
    case (Inr s)
    let ?t = "s\<lparr>sn_Status := claim_addr a m (sn_Status s)\<rparr>"
    have s: "c_subnets (view w) (SubnetNamespace, sn) = Some s" "view w1 = view w" using v Inr by auto
    then have key: "sn_Namespace s = SubnetNamespace" "sn_Name s = sn" using keyed_subnet by blast+
    have upd: "run_state (subnetClient_UpdateStatus api ?t) w1 = (r, w')"
      using run get Inr by (simp add: claim_closure_def)
    show ?thesis
    proof (cases r)
      case err: (Inl e)
      then show ?thesis using upd subnet_UpdateStatus_error s by (auto simp: claimed_def)
    next
      case ok: (Inr s')
      then show ?thesis using subnet_UpdateStatus [of ?t w1 s' w'] upd s key by (auto simp: claimed_def)
    qed
  qed
qed

lemma pending_run: "run_state (pending_closure api ip a m) w = (r, w') \<Longrightarrow> made_pending ip a m (view w) r (view w')"
proof -
  assume run: "run_state (pending_closure api ip a m) w = (r, w')"
  obtain g w1 where get: "run_state (ipCache_Get api (ip_Namespace ip) (ip_Name ip)) w = (g, w1)" by fastforce
  note v = ip_Get [OF get]
  show ?thesis
  proof (cases g)
    case (Inl e)
    then show ?thesis using run get v by (auto simp: pending_closure_def made_pending_def)
  next
    case (Inr i)
    obtain now w2 where now: "run_state (time_Now api) w1 = (now, w2)" by fastforce
    let ?t = "i\<lparr>ip_Status := (ip_Status i)\<lparr>Addr := a, MAC := m, ip_Phase := flatNetworkIPPendingPhase,
      AllocatedTimeStamp := now\<rparr>\<rparr>"
    have i: "c_ips (view w) (ip_Namespace ip, ip_Name ip) = Some i" "view w2 = view w"
      using v Inr run_quiet(3) [OF now] by auto
    then have key: "ip_Namespace i = ip_Namespace ip" "ip_Name i = ip_Name ip" using keyed_ip by blast+
    have upd: "run_state (ipClient_UpdateStatus api ?t) w2 = (r, w')"
      using run get Inr now by (simp add: pending_closure_def)
    show ?thesis
    proof (cases r)
      case err: (Inl e)
      then show ?thesis using upd ip_UpdateStatus_error i by (auto simp: made_pending_def)
    next
      case ok: (Inr i')
      then obtain old where "c_ips (view w) (ip_Namespace ip, ip_Name ip) = Some old" "ip_Spec i' = ip_Spec old"
          "same_but_time (ip_Status ?t) (ip_Status i')"
          "view w' = (view w)\<lparr>c_ips := (c_ips (view w))((ip_Namespace ip, ip_Name ip) \<mapsto> i')\<rparr>"
        using ip_UpdateStatus [of ?t w2 i' w'] upd i key by auto
      then show ?thesis
        using ok same_but_timeD [of "ip_Status ?t" "ip_Status i'"] by (simp add: made_pending_def)
    qed
  qed
qed

lemma retry_claim:
  "run_state (retry_subnet api b (claim_closure api sn a m)) w = (r, w') \<Longrightarrow> claimed sn a m (view w) r (view w')"
  by (rule attempts_view [OF retry_subnet]) (auto simp: claimed_def dest: claim_run)

lemma retry_pending:
  "run_state (retry_ip api b (pending_closure api ip a m)) w = (r, w') \<Longrightarrow> made_pending ip a m (view w) r (view w')"
  by (rule attempts_view [OF retry_ip]) (auto simp: made_pending_def dest: pending_run)

text \<open>After a successful claim, the address can still be taken, and it is recorded.\<close>

lemma claimed_takeable:
  assumes inv: "ipam_inv c" and take: "takeable c k sn a" and cl: "claimed sn a m c (Inr s') c'"
  shows "ipam_inv c'" and "takeable c' k sn a" and "grants_of c' = grants_of c" and "c_ips c' = c_ips c"
    and "c_subnets c' (SubnetNamespace, sn) = Some t \<Longrightarrow> IPInRanges a (UsedIP (sn_Status t))"
proof -
  obtain s where s: "c_subnets c (SubnetNamespace, sn) = Some s" "sn_Spec s' = sn_Spec s"
      "sn_Status s' = claim_addr a m (sn_Status s)" "c' = c\<lparr>c_subnets := (c_subnets c)((SubnetNamespace, sn) \<mapsto> s')\<rparr>"
    using cl by (auto simp: claimed_def)
  have a: "inner_addr a" using take by (simp add: takeable_def)
  have "canon (UsedIP (sn_Status s))" using ipam_invD(1) [OF inv s(1)] by (simp add: subnet_ok_def)
  then have "IPInRanges a (UsedIP (sn_Status s'))" using rng.mem_add [OF a a] by (simp add: s(3) claim_addr_simps)
  then show "IPInRanges a (UsedIP (sn_Status t))" if "c_subnets c' (SubnetNamespace, sn) = Some t"
    using that by (simp add: s(4))
  show "ipam_inv c'" unfolding s(4) by (rule inv_claim [OF inv s(1) a s(2,3)])
  show "takeable c' k sn a" using take s unfolding takeable_def by (auto simp: claim_addr_simps)
qed (use cl in \<open>auto simp: claimed_def\<close>)

lemma pending_allowed:
  assumes "ipam_inv c" and ip: "c_ips c (ip_Namespace ip, ip_Name ip) = Some ip"
    and take: "takeable c (ip_Namespace ip, ip_Name ip) (Subnet (ip_Spec ip)) a"
    and "\<And>s. c_subnets c (SubnetNamespace, Subnet (ip_Spec ip)) = Some s \<Longrightarrow> IPInRanges a (UsedIP (sn_Status s))"
    and "made_pending ip a m c (Inr i') c'"
  shows "allowed (ip_Namespace ip, ip_Name ip) c c'"
proof -
  have i': "ip_Spec i' = ip_Spec ip" "Addr (ip_Status i') = a"
      "c' = c\<lparr>c_ips := (c_ips c)((ip_Namespace ip, ip_Name ip) \<mapsto> i')\<rparr>"
    using assms by (auto simp: made_pending_def)
  moreover have "granted i' = Some (Subnet (ip_Spec ip), a)"
    using i' take by (auto simp: granted_def takeable_def inner_addr_def)
  ultimately show ?thesis
    using inv_pending [OF assms(1-4) i'(1,2)] takeable_grant [OF take] by (simp add: allowed_def)
qed

lemma commit_allocation_allowed:
  assumes inv: "ipam_inv (view w)" and ip: "c_ips (view w) (ip_Namespace ip, ip_Name ip) = Some ip"
    and take: "takeable (view w) (ip_Namespace ip, ip_Name ip) (Subnet (ip_Spec ip)) a"
    and run: "run_state (commit_allocation api ip pod s a m) w = (Returns res, w')"
  shows "allowed (ip_Namespace ip, ip_Name ip) (view w) (view w')"
proof -
  let ?k = "(ip_Namespace ip, ip_Name ip)" and ?sn = "Subnet (ip_Spec ip)"
  obtain r1 w1 where r1: "run_state (retry_subnet api DefaultBackoff (claim_closure api ?sn a m)) w = (r1, w1)"
    by fastforce
  obtain r2 w2 where r2: "run_state (retry_ip api DefaultBackoff (pending_closure api ip a m)) w1 = (r2, w2)"
    by fastforce
  show ?thesis
  proof (cases r1)
    case (Inl e)
    then have "view w' = view w"
      using run r1 retry_claim [OF r1]
      by (auto simp: commit_allocation_def claimed_def Let_def dest!: run_quiet(7) split: prod.splits)
    then show ?thesis using inv by (simp add: allowed_refl)
  next
    case (Inr s')
    note cl = claimed_takeable [OF inv take, of m s' "view w1"] retry_claim [OF r1, unfolded Inr]
    show ?thesis
    proof (cases r2)
      case ok: (Inr i')
      then have "w2 = w'" using run r1 Inr r2 by (simp add: commit_allocation_def)
      moreover have "allowed ?k (view w1) (view w2)"
        using cl ip retry_pending [OF r2] ok by (intro pending_allowed) auto
      ultimately show ?thesis using cl by (simp add: allowed_def)
    next
      case err: (Inl e)
      have v2: "view w2 = view w1" using retry_pending [OF r2] err by (simp add: made_pending_def)
      obtain r3 w3 where r3: "run_state (subnetClient_UpdateStatus api
          (s'\<lparr>sn_Status := unclaim_addr a m (sn_Status s')\<rparr>)) w2 = (r3, w3)" by fastforce
      then obtain e3 where e3: "r3 = Inl e3"
        using run r1 Inr r2 err by (cases r3) (auto simp: commit_allocation_def)
      then have "view w3 = view w2" using r3 subnet_UpdateStatus_error by blast
      moreover have "view w' = view w3"
        using run r1 Inr r2 err r3 e3
        by (auto simp: commit_allocation_def dest!: run_quiet(7) split: prod.splits)
      ultimately show ?thesis using cl v2 by (simp add: allowed_def alloc_step.keep)
    qed
  qed
qed

lemma with_lock_run:
  assumes "run_state (with_lock api n body) w = (Returns r, w')"
  obtains w1 w2 where "view w1 = view w" and "run_state body w1 = (Returns r, w2)" and "view w' = view w2"
proof -
  obtain u w1 where a: "run_state (acquire api n) w = (u, w1)"
    by (cases "run_state (acquire api n) w")
  obtain x w2 where b: "run_state body w1 = (x, w2)" by fastforce
  have "x = Returns r \<and> view w' = view w2"
    using assms a b
    by (cases x) (auto simp: with_lock_def dest!: run_quiet(6) split: prod.splits)
  then show thesis using that run_quiet(5) [OF a] b by blast
qed

lemma Delete_allowed:
  assumes "ipam_inv (view w)" and "run_state (ipClient_Delete api ns n) w = (d, w')"
  shows "allowed (ns, n) (view w) (view w')"
  using ip_Delete [OF assms(2)] assms(1) inv_remove_ip [OF assms(1)] inv_status [OF assms(1)]
  by (auto simp: allowed_def grants_same intro: alloc_step.intros)

lemma onIPCreate_locked_allowed:
  assumes inv: "ipam_inv (view w)" and ip: "c_ips (view w) (ip_Namespace ip, ip_Name ip) = Some ip"
    and run: "run_state (onIPCreate_locked api ip pod) w = (Returns res, w')"
  shows "allowed (ip_Namespace ip, ip_Name ip) (view w) (view w')"
proof -
  obtain g w1 where get: "run_state (subnetCache_Get api SubnetNamespace (Subnet (ip_Spec ip))) w = (g, w1)"
    by fastforce
  have v: "view w1 = view w" and s: "\<And>s. g = Inr s \<Longrightarrow> c_subnets (view w) (SubnetNamespace, Subnet (ip_Spec ip)) = Some s"
    using subnet_Get [OF get] by auto
  show ?thesis
  proof (cases "\<exists>s a m. g = Inr s \<and> sn_Phase (sn_Status s) = ''Active'' \<and>
      allocateIP ip s = Some (Inr a) \<and> allocateMAC ip s = Inr m")
    case True
    then obtain sn a m where g: "g = Inr sn" "allocateIP ip sn = Some (Inr a)"
      and "run_state (commit_allocation api ip pod sn a m) w1 = (Returns res, w')"
      using run get by (auto simp: onIPCreate_locked_def)
    moreover have "takeable (view w) (ip_Namespace ip, ip_Name ip) (Subnet (ip_Spec ip)) a"
      using allocateIP_takeable [OF inv ip] s g by blast
    ultimately show ?thesis
      using commit_allocation_allowed [of w1 ip a pod sn m res w'] inv ip v by simp
  next
    case False
    then have "view w' = view w"
      using run get v
      by (auto simp: onIPCreate_locked_def Let_def dest!: run_quiet(7) run_quiet(2)
          split: sum.splits option.splits if_splits prod.splits)
    then show ?thesis using inv by (simp add: allowed_refl)
  qed
qed

lemma onIPCreate_allowed:
  assumes inv: "ipam_inv (view w)" and ip: "c_ips (view w) (ip_Namespace ip, ip_Name ip) = Some ip"
    and run: "run_state (onIPCreate api ip) w = (Returns res, w')"
  shows "allowed (ip_Namespace ip, ip_Name ip) (view w) (view w')"
proof -
  obtain g w1 where get: "run_state (podCache_Get api (ip_Namespace ip) (ip_Name ip)) w = (g, w1)" by fastforce
  then have v: "view w1 = view w" using pod_Get [OF get] by simp
  show ?thesis
  proof (cases g)
    case (Inl e)
    then show ?thesis
      using run get v inv Delete_allowed [of w1]
      by (auto simp: onIPCreate_def allowed_refl split: if_splits prod.splits)
  next
    case (Inr pod)
    then have "run_state (with_lock api (Subnet (ip_Spec ip)) (onIPCreate_locked api ip pod)) w1 = (Returns res, w')"
      using run get by (simp add: onIPCreate_def)
    then obtain w2 w3 where "view w2 = view w1" "view w' = view w3"
        "run_state (onIPCreate_locked api ip pod) w2 = (Returns res, w3)"
      by (elim with_lock_run)
    then show ?thesis
      using onIPCreate_locked_allowed [of w2 ip pod res w3] inv ip v by simp
  qed
qed

lemma onIPPending_allowed:
  assumes inv: "ipam_inv (view w)" and run: "run_state (onIPPending api ip) w = (res, w')"
  shows "allowed (ip_Namespace ip, ip_Name ip) (view w) (view w')"
proof -
  obtain now w1 where now: "run_state (time_Now api) w = (now, w1)" by fastforce
  obtain d w2 where d: "run_state (if AllocatedTimeStamp (ip_Status ip) + 5 * time_Minute < now
      then podClient_Delete api (ip_Namespace ip) (ip_Name ip) else ret None) w1 = (d, w2)" by fastforce
  have "c_subnets (view w2) = c_subnets (view w) \<and> c_ips (view w2) = c_ips (view w)"
    using d pod_Delete run_quiet(3) [OF now] by (auto split: if_splits)
  moreover have "view w' = view w2"
    using run now d
    by (auto simp: onIPPending_def dest!: run_quiet(2) split: option.splits prod.splits)
  ultimately show ?thesis using inv by (simp add: allowed_def ipam_inv_def grants_of_def alloc_step.keep)
qed

lemma status_run:
  assumes get: "run_state (ipCache_Get api (ip_Namespace ip) (ip_Name ip)) w = (Inr i, w1)"
    and upd: "run_state (ipClient_UpdateStatus api (i\<lparr>ip_Status := st\<rparr>)) w1 = (r, w')"
    and addr: "Addr st = Addr (ip_Status i)"
  shows "addr_kept ip (view w) r (view w')"
proof -
  have i: "c_ips (view w) (ip_Namespace ip, ip_Name ip) = Some i" "view w1 = view w"
    using ip_Get [OF get] by auto
  then have key: "ip_Namespace i = ip_Namespace ip" "ip_Name i = ip_Name ip" using keyed_ip by blast+
  show ?thesis
  proof (cases r)
    case (Inl e)
    then show ?thesis using upd ip_UpdateStatus_error i by (auto simp: addr_kept_def)
  next
    case (Inr i')
    then obtain old where "c_ips (view w) (ip_Namespace ip, ip_Name ip) = Some old" "ip_Spec i' = ip_Spec old"
        "same_but_time st (ip_Status i')"
        "view w' = (view w)\<lparr>c_ips := (c_ips (view w))((ip_Namespace ip, ip_Name ip) \<mapsto> i')\<rparr>"
      using ip_UpdateStatus [of "i\<lparr>ip_Status := st\<rparr>" w1 i' w'] upd i key by auto
    then show ?thesis using Inr addr i same_but_timeD(1) [of st "ip_Status i'"] by (auto simp: addr_kept_def)
  qed
qed

lemma reinit_run: "run_state (reinit_closure api ip) w = (r, w') \<Longrightarrow> addr_kept ip (view w) r (view w')"
proof -
  assume run: "run_state (reinit_closure api ip) w = (r, w')"
  obtain g w1 where get: "run_state (ipCache_Get api (ip_Namespace ip) (ip_Name ip)) w = (g, w1)" by fastforce
  show ?thesis
  proof (cases g)
    case (Inl e)
    then show ?thesis using run get ip_Get [OF get] by (auto simp: reinit_closure_def addr_kept_def)
  next
    case (Inr i)
    then show ?thesis
      using run get
      by (intro status_run [of ip w i w1 "(ip_Status i)\<lparr>ip_Phase := flatNetworkIPInitPhase\<rparr>"])
        (auto simp: reinit_closure_def)
  qed
qed

lemma addr_kept_inv: "ipam_inv c \<Longrightarrow> addr_kept ip c r c' \<Longrightarrow> ipam_inv c' \<and> grants_of c' = grants_of c"
  by (auto simp: addr_kept_def grants_same [OF _ granted_cong] intro: inv_status split: sum.splits)

lemma onIPUpdate_allowed:
  assumes inv: "ipam_inv (view w)" and run: "run_state (onIPUpdate api ip) w = (res, w')"
  shows "allowed (ip_Namespace ip, ip_Name ip) (view w) (view w')"
proof -
  obtain g w1 where get: "run_state (subnetCache_Get api SubnetNamespace (Subnet (ip_Spec ip))) w = (g, w1)"
    by fastforce
  obtain p w2 where pod: "run_state (podCache_Get api (ip_Namespace ip) (ip_Name ip)) w1 = (p, w2)"
    by fastforce
  have v: "view w1 = view w" "view w2 = view w" using subnet_Get [OF get] pod_Get [OF pod] by simp_all
  have retry: "allowed (ip_Namespace ip, ip_Name ip) (view w) (view w3)"
    if "run_state (retry_ip api DefaultBackoff (reinit_closure api ip)) w2 = (r, w3)" for r w3
  proof -
    have "addr_kept ip (view w2) r (view w3)"
      by (rule attempts_view [OF retry_ip [OF that], where R = "addr_kept ip" and view = view])
        (auto simp: addr_kept_def [of _ _ "Inl _"] dest: reinit_run)
    then show ?thesis using addr_kept_inv inv v by (auto simp: allowed_def alloc_step.keep)
  qed
  show ?thesis
  proof (cases g)
    case (Inl e)
    then show ?thesis
      using run get v(1) inv Delete_allowed [of w1]
      by (auto simp: onIPUpdate_def Let_def allowed_refl split: if_splits prod.splits)
  next
    case (Inr s)
    show ?thesis
    proof (cases p)
      case err: (Inl e)
      then show ?thesis
        using run get pod Inr v(2) inv Delete_allowed [of w2]
        by (auto simp: onIPUpdate_def Let_def allowed_refl split: if_splits prod.splits)
    next
      case ok: (Inr q)
      then show ?thesis
        using run get pod Inr v(2) inv Delete_allowed [of w2] retry
        by (auto simp: onIPUpdate_def Let_def allowed_refl split: if_splits prod.splits sum.splits)
    qed
  qed
qed


lemma failure_run: "run_state (failure_closure api ip msg) w = (r, w') \<Longrightarrow> addr_kept ip (view w) r (view w')"
proof -
  assume run: "run_state (failure_closure api ip msg) w = (r, w')"
  obtain g w1 where get: "run_state (ipCache_Get api (ip_Namespace ip) (ip_Name ip)) w = (g, w1)" by fastforce
  show ?thesis
  proof (cases g)
    case (Inl e)
    then show ?thesis using run get ip_Get [OF get] by (auto simp: failure_closure_def addr_kept_def)
  next
    case (Inr i)
    let ?st = "(if msg \<noteq> [] then (ip_Status i)\<lparr>ip_Phase := flatNetworkIPFailedPhase\<rparr> else ip_Status i)
      \<lparr>ip_FailureMessage := msg\<rparr>"
    obtain x w2 where upd: "run_state (ipClient_UpdateStatus api (i\<lparr>ip_Status := ?st\<rparr>)) w1 = (x, w2)" by fastforce
    then have "r = map_sum id (\<lambda>_. ()) x" "w' = w2"
      using run get Inr unfolding failure_closure_def Let_def by auto
    moreover have "addr_kept ip (view w) x (view w2)"
      using get Inr upd by (intro status_run [of ip w i w1 ?st x w2]) auto
    ultimately show ?thesis by (cases x) (auto simp: addr_kept_def)
  qed
qed

lemma handleIP_allowed:
  assumes "ipam_inv (view w)" and "c_ips (view w) (ip_Namespace ip, ip_Name ip) = Some ip"
    and "run_state (handleIP api (Some ip)) w = (Returns res, w')"
  shows "allowed (ip_Namespace ip, ip_Name ip) (view w) (view w')"
proof -
  let ?h = "if ip_Phase (ip_Status ip) = flatNetworkIPActivePhase then onIPUpdate api ip
    else if ip_Phase (ip_Status ip) = flatNetworkIPPendingPhase then onIPPending api ip else onIPCreate api ip"
  obtain x w1 where x: "run_state ?h w = (x, w1)" by fastforce
  show ?thesis
  proof (cases "ip_Name ip = [] \<or> DeletionTimestamp (ip_meta ip) \<noteq> None")
    case True
    then show ?thesis using assms by (auto simp: handleIP_def allowed_refl)
  next
    case False
    then have "w' = w1" "map_outcome (\<lambda>(i, e). (Some i, e)) x = Returns res"
      using assms(3) x by (auto simp: handleIP_def)
    then show ?thesis
      using x onIPUpdate_allowed [OF assms(1)] onIPPending_allowed [OF assms(1)] onIPCreate_allowed [OF assms(1,2)]
      by (cases x) (auto split: if_splits)
  qed
qed

lemma handleError_allowed:
  assumes inv: "ipam_inv (view w)" and ip: "c_ips (view w) (ip_Namespace ip, ip_Name ip) = Some ip"
    and run: "run_state (handleError api (handleIP api) (Some ip)) w = (Returns res, w')"
  shows "allowed (ip_Namespace ip, ip_Name ip) (view w) (view w')"
proof -
  obtain x w1 where x: "run_state (handleIP api (Some ip)) w = (x, w1)" by fastforce
  then obtain i err where r: "x = Returns (i, err)"
    using run by (cases x) (auto simp: handleError_def)
  have al: "allowed (ip_Namespace ip, ip_Name ip) (view w) (view w1)" using handleIP_allowed [OF inv ip] x r by blast
  have retry: "allowed (ip_Namespace ip, ip_Name ip) (view w) (view w2)"
    if "run_state (retry_unit api DefaultRetry (failure_closure api j msg)) w1 = (y, w2)" for j msg y w2
  proof -
    have "addr_kept j (view w1) y (view w2)"
      by (rule attempts_view [OF retry_unit [OF that], where R = "addr_kept j" and view = view])
        (auto simp: addr_kept_def [of _ _ "Inl _"] dest: failure_run)
    then show ?thesis using al addr_kept_inv by (auto simp: allowed_def)
  qed
  show ?thesis
    using run x r al retry
    by (auto simp: handleError_def Let_def split: option.splits if_splits prod.splits sum.splits)
qed

lemma wait_for_pod_view: "run_state (wait_for_pod api ip n) w = (r, w') \<Longrightarrow> view w' = view w"
proof (induction n arbitrary: w)
  case (Suc n)
  obtain p w1 where pod: "run_state (podCache_Get api (ip_Namespace ip) (ip_Name ip)) w = (p, w1)" by fastforce
  obtain u w2 where sl: "run_state (time_Sleep api time_Second) w1 = (u, w2)"
    by (cases "run_state (time_Sleep api time_Second) w1")
  show ?case
    using Suc pod pod_Get [OF pod] sl run_quiet(4) [OF sl]
    by (auto split: sum.splits if_splits)
qed simp

lemma release_run:
  "run_state (release_closure api ip) w = (r, w') \<Longrightarrow> released ip (view w) r (view w')"
proof -
  assume run: "run_state (release_closure api ip) w = (r, w')"
  let ?sn = "Subnet (ip_Spec ip)"
  obtain g w1 where get: "run_state (subnetCache_Get api SubnetNamespace ?sn) w = (g, w1)" by fastforce
  note v = subnet_Get [OF get]
  show ?thesis
  proof (cases g)
    case (Inl e)
    then show ?thesis
      using run get v subnet_NotFound [of SubnetNamespace ?sn w e w1]
      by (auto simp: release_closure_def released_def split: if_splits)
  next
    case (Inr s)
    let ?t = "s\<lparr>sn_Status := release_addr ip (sn_Status s)\<rparr>"
    have s: "c_subnets (view w) (SubnetNamespace, ?sn) = Some s" "view w1 = view w" using v Inr by auto
    then have key: "sn_Namespace s = SubnetNamespace" "sn_Name s = ?sn" using keyed_subnet by blast+
    obtain x w2 where upd: "run_state (subnetClient_UpdateStatus api ?t) w1 = (x, w2)" by fastforce
    then have r: "r = map_sum id (\<lambda>_. ()) x" "w' = w2" using run get Inr by (simp_all add: release_closure_def)
    show ?thesis
    proof (cases x)
      case err: (Inl e)
      then show ?thesis using r upd subnet_UpdateStatus_error s by (auto simp: released_def)
    next
      case ok: (Inr s')
      then show ?thesis using r subnet_UpdateStatus [of ?t w1 s' w2] upd s key by (auto simp: released_def)
    qed
  qed
qed

lemma retry_release:
  "run_state (retry_unit api b (release_closure api ip)) w = (r, w') \<Longrightarrow> released ip (view w) r (view w')"
proof (rule attempts_view [OF retry_unit, where R = "released ip" and view = view])
  show "c' = c" if "released ip c (Inl e) c'" for c e c' using that by (auto simp: released_def)
qed (auto dest: release_run)

lemma handleIPRemove_allowed:
  assumes inv: "ipam_inv (view w)" and ip: "c_ips (view w) (ip_Namespace ip, ip_Name ip) = Some ip"
    and run: "run_state (handleIPRemove api (Some ip)) w = (Returns res, w')"
  shows "allowed (ip_Namespace ip, ip_Name ip) (view w)
    ((view w')\<lparr>c_ips := (c_ips (view w'))((ip_Namespace ip, ip_Name ip) := None)\<rparr>)"
proof (cases "ip_Name ip = []")
  case True
  then show ?thesis using run inv inv_remove_ip by (auto simp: handleIPRemove_def allowed_def alloc_step.free)
next
  case False
  obtain x w1 where wt: "run_state (wait_for_pod api ip maxWaitForPodRemovePeriod) w = (x, w1)" by fastforce
  have v: "view w1 = view w" by (rule wait_for_pod_view [OF wt])
  show ?thesis
  proof (cases "x = Inr True")
    case True
    let ?body = "do { _ \<leftarrow> retry_unit api DefaultBackoff (release_closure api ip); ret (Returns (Some ip, None)) }"
    have "run_state (with_lock api (Subnet (ip_Spec ip)) ?body) w1 = (Returns res, w')"
      using run wt True False by (simp add: handleIPRemove_def)
    then obtain w2 w3 where "view w2 = view w1" "view w' = view w3" "run_state ?body w2 = (Returns res, w3)"
      by (elim with_lock_run)
    moreover from this obtain r where "run_state (retry_unit api DefaultBackoff (release_closure api ip)) w2 = (r, w3)"
      by (auto split: prod.splits)
    ultimately have "released ip (view w) r (view w')" using retry_release v by force
    moreover from this have "grants_of (view w') = grants_of (view w)" by (auto simp: released_def)
    ultimately show ?thesis using inv_released [OF inv ip] by (simp add: allowed_def alloc_step.free)
  next
    case other: False
    then have "w' = w1" using run wt False by (auto simp: handleIPRemove_def split: sum.splits bool.splits)
    then show ?thesis using inv v inv_remove_ip by (simp add: allowed_def alloc_step.free)
  qed
qed

end

end
