(* ===== verification/IPAMRuns.thy ===== *)
theory IPAMRuns
  imports IPAM "HOL-Library.Multiset"
begin

text \<open>
  Runs of the controller of the IP resources: the step relation of the change handler, the remove
  handler and the creation of resources, the invariant along it, the count of the used addresses,
  and what the handlers do on concrete clusters.
\<close>

subsection \<open>Runs of the controller\<close>

text \<open>
  A step: the change handler runs on a stored resource, the remove handler runs on one and the API
  server then drops the object, or a new resource without an address is created.
\<close>

inductive ipam_step :: "'w api \<Rightarrow> ('w \<Rightarrow> cluster) \<Rightarrow> 'w \<Rightarrow> 'w \<Rightarrow> bool" for api view where
  change: "c_ips (view w) (ip_Namespace ip, ip_Name ip) = Some ip \<Longrightarrow>
     run_state (handleError api (handleIP api) (Some ip)) w = (Returns r, w') \<Longrightarrow> ipam_step api view w w'"
| remove: "c_ips (view w) (ip_Namespace ip, ip_Name ip) = Some ip \<Longrightarrow>
     run_state (handleIPRemove api (Some ip)) w = (Returns r, w1) \<Longrightarrow>
     view w' = (view w1)\<lparr>c_ips := (c_ips (view w1))((ip_Namespace ip, ip_Name ip) := None)\<rparr> \<Longrightarrow>
     ipam_step api view w w'"
| create: "c_ips (view w) k = None \<Longrightarrow> Addr (ip_Status i) = [] \<Longrightarrow> ip_ok i \<Longrightarrow>
     view w' = (view w)\<lparr>c_ips := (c_ips (view w))(k \<mapsto> i)\<rparr> \<Longrightarrow> ipam_step api view w w'"

inductive_cases ipam_stepE: "ipam_step api view w w'"

lemma inv_new:
  assumes inv: "ipam_inv c" and i: "Addr (ip_Status i) = []" "ip_ok i"
  shows "ipam_inv (c\<lparr>c_ips := (c_ips c)(k \<mapsto> i)\<rparr>)"
proof -
  have "\<not> holds i sn a" for sn a using i(1) by (simp add: holds_def)
  then show ?thesis using ipam_invD [OF inv] i(2) by (intro ipam_invI) (auto split: if_splits)
qed

lemma new_allowed:
  assumes "ipam_inv c" and "c_ips c k = None" and "Addr (ip_Status i) = []" "ip_ok i"
  shows "allowed k c (c\<lparr>c_ips := (c_ips c)(k \<mapsto> i)\<rparr>)"
proof -
  have "(grants_of c)(k := None) = grants_of c" using assms(2) by (auto simp: grants_of_def)
  then show ?thesis using inv_new assms by (simp add: allowed_def granted_def alloc_step.keep)
qed

context kube
begin

lemma step_allowed: "ipam_step api view w w' \<Longrightarrow> ipam_inv (view w) \<Longrightarrow> \<exists>k. allowed k (view w) (view w')"
  by (induction rule: ipam_step.induct) (force dest: handleError_allowed handleIPRemove_allowed intro: new_allowed)+

lemma step_inv: "ipam_step api view w w' \<Longrightarrow> ipam_inv (view w) \<Longrightarrow> ipam_inv (view w')"
  using step_allowed by (auto simp: allowed_def)

lemma steps_inv: "(ipam_step api view)\<^sup>*\<^sup>* w w' \<Longrightarrow> ipam_inv (view w) \<Longrightarrow> ipam_inv (view w')"
  by (induction rule: rtranclp_induct) (auto intro: step_inv)

lemma commit_success:
  assumes "run_state (commit_allocation api ip pod s a m) w = (Returns (i', None), w')"
  shows "c_ips (view w') (ip_Namespace ip, ip_Name ip) = Some i' \<and> Addr (ip_Status i') = a \<and>
    MAC (ip_Status i') = m \<and> ip_Phase (ip_Status i') = flatNetworkIPPendingPhase \<and>
    (\<exists>t t'. c_subnets (view w) (SubnetNamespace, Subnet (ip_Spec ip)) = Some t \<and>
       c_subnets (view w') (SubnetNamespace, Subnet (ip_Spec ip)) = Some t' \<and>
       sn_Spec t' = sn_Spec t \<and> sn_Status t' = claim_addr a m (sn_Status t)) \<and>
    (\<exists>i. c_ips (view w) (ip_Namespace ip, ip_Name ip) = Some i \<and> ip_Spec i' = ip_Spec i) \<and>
    (\<forall>k. k \<noteq> (ip_Namespace ip, ip_Name ip) \<longrightarrow> c_ips (view w') k = c_ips (view w) k)"
proof -
  let ?k = "(ip_Namespace ip, ip_Name ip)" and ?sn = "Subnet (ip_Spec ip)"
  obtain r1 w1 where r1: "run_state (retry_subnet api DefaultBackoff (claim_closure api ?sn a m)) w = (r1, w1)"
    by fastforce
  then obtain t' where t': "r1 = Inr t'"
    using assms by (cases r1) (auto simp: commit_allocation_def Let_def split: prod.splits)
  obtain r2 w2 where r2: "run_state (retry_ip api DefaultBackoff (pending_closure api ip a m)) w1 = (r2, w2)"
    by fastforce
  have "r2 = Inr i' \<and> w' = w2"
    using assms r1 t' r2
    by (cases r2) (auto simp: commit_allocation_def split: prod.splits sum.splits)
  then show ?thesis
    using retry_claim [OF r1] retry_pending [OF r2] t' by (auto simp: claimed_def made_pending_def)
qed

lemma onIPCreate_success:
  assumes run: "run_state (onIPCreate api ip) w = (Returns (i', None), w')"
    and new: "ip_Phase (ip_Status i') = flatNetworkIPPendingPhase" "ip_Phase (ip_Status ip) \<noteq> flatNetworkIPPendingPhase"
  shows "\<exists>s s'. c_subnets (view w) (SubnetNamespace, Subnet (ip_Spec ip)) = Some s \<and>
    sn_Phase (sn_Status s) = ''Active'' \<and> allocateIP ip s = Some (Inr (Addr (ip_Status i'))) \<and>
    allocateMAC ip s = Inr (MAC (ip_Status i')) \<and>
    c_ips (view w') (ip_Namespace ip, ip_Name ip) = Some i' \<and>
    c_subnets (view w') (SubnetNamespace, Subnet (ip_Spec ip)) = Some s' \<and>
    sn_Spec s' = sn_Spec s \<and> sn_Status s' = claim_addr (Addr (ip_Status i')) (MAC (ip_Status i')) (sn_Status s) \<and>
    (\<forall>k. k \<noteq> (ip_Namespace ip, ip_Name ip) \<longrightarrow> c_ips (view w') k = c_ips (view w) k)"
proof -
  obtain g w1 where get: "run_state (podCache_Get api (ip_Namespace ip) (ip_Name ip)) w = (g, w1)" by fastforce
  then obtain pod where pod: "g = Inr pod"
    using run new by (cases g) (auto simp: onIPCreate_def split: if_splits prod.splits)
  then have "run_state (with_lock api (Subnet (ip_Spec ip)) (onIPCreate_locked api ip pod)) w1 = (Returns (i', None), w')"
    using run get by (simp add: onIPCreate_def)
  then obtain w2 w3 where v: "view w2 = view w1" "view w' = view w3"
      and run2: "run_state (onIPCreate_locked api ip pod) w2 = (Returns (i', None), w3)"
    by (elim with_lock_run)
  have v1: "view w1 = view w" using pod_Get [OF get] by simp
  obtain h w4 where sub: "run_state (subnetCache_Get api SubnetNamespace (Subnet (ip_Spec ip))) w2 = (h, w4)"
    by fastforce
  obtain s a m where s: "h = Inr s" "sn_Phase (sn_Status s) = ''Active''" "allocateIP ip s = Some (Inr a)"
      "allocateMAC ip s = Inr m" "run_state (commit_allocation api ip pod s a m) w4 = (Returns (i', None), w3)"
    using run2 sub new
    by (auto simp: onIPCreate_locked_def Let_def split: sum.splits option.splits if_splits prod.splits)
  have "view w4 = view w" "c_subnets (view w) (SubnetNamespace, Subnet (ip_Spec ip)) = Some s"
    using subnet_Get [OF sub] s(1) v v1 by auto
  then show ?thesis using commit_success [OF s(5)] s v by auto
qed

end

subsection \<open>Counting the used addresses\<close>

lemma finite_ranges_set [simp]: "finite (ranges_set rs)"
  by (simp add: ranges_set_def range_set_def)

lemma claim_count:
  assumes "inner_addr a" and "canon (UsedIP st)"
  shows "UsedIPCount (claim_addr a m st) - int (card (ranges_set (UsedIP (claim_addr a m st)))) =
    UsedIPCount st - int (card (ranges_set (UsedIP st)))"
proof -
  have mem: "IPInRanges a (UsedIP st) \<longleftrightarrow> bval a \<in> ranges_set (UsedIP st)" by (rule rng.mem_iff [OF assms])
  have "UsedIPCount (claim_addr a m st) = UsedIPCount st + (if IPInRanges a (UsedIP st) then 0 else 1)"
    by (simp add: claim_addr_def)
  then show ?thesis
    using rng.addrs_add [OF assms] mem by (simp add: claim_addr_simps card_insert_if)
qed

lemma release_count:
  assumes a: "inner_addr (Addr (ip_Status ip))" and st: "canon (UsedIP st)"
  shows "UsedIPCount (release_addr ip st) - int (card (ranges_set (UsedIP (release_addr ip st)))) =
    UsedIPCount st - int (card (ranges_set (UsedIP st)))"
proof -
  let ?a = "Addr (ip_Status ip)"
  have mem: "IPInRanges ?a (UsedIP st) \<longleftrightarrow> bval ?a \<in> ranges_set (UsedIP st)" by (rule rng.mem_iff [OF a st])
  have "UsedIPCount (release_addr ip st) = UsedIPCount st - (if IPInRanges ?a (UsedIP st) then 1 else 0)"
    by (simp add: release_addr_def Let_def)
  moreover have "int (card (ranges_set (UsedIP (release_addr ip st)))) =
      int (card (ranges_set (UsedIP st))) - (if IPInRanges ?a (UsedIP st) then 1 else 0)"
    unfolding release_addr_simps(2) [OF st a] rng.addrs_rem [OF a st] mem
    using card_Suc_Diff1 [OF finite_ranges_set, of "bval ?a" "UsedIP st"] by auto
  ultimately show ?thesis by simp
qed

lemma release_claim:
  assumes "inner_addr a" and "canon (UsedIP st)" and "\<not> IPInRanges a (UsedIP st)" and "Addr (ip_Status ip) = a"
  shows "UsedIP (release_addr ip (claim_addr a m st)) = UsedIP st"
proof -
  have "canon (UsedIP (claim_addr a m st))" using rng.wf_add [OF assms(1,2)] by (simp add: claim_addr_simps)
  then show ?thesis
    using rng.rem_add [OF assms(1,2,3)] assms(1,4) by (simp add: release_addr_simps(2) claim_addr_simps)
qed

subsection \<open>Properties\<close>

definition example_start :: mem where
  "example_start = example_world [example_range ''10.1.0.1'' ''10.1.0.1'']
     [example_ip ''a'' [] '''', example_ip ''b'' (ParseIP ''10.1.0.1'') ''Pending'']"

lemma example_inv: "ipam_inv (mem_view example_start)"
proof -
  have ip: "ParseIP ''10.1.0.1'' = [0, 0, 0, 0, 0, 0, 0, 0, 0, 0, 255, 255, 10, 1, 0, 1]" by code_simp
  have plain: "plain_cidr ''10.1.0.0/16''" by code_simp
  have inner: "inner_addr (ParseIP ''10.1.0.1'')" by code_simp
  have mem: "IPInRanges (ParseIP ''10.1.0.1'') [example_range ''10.1.0.1'' ''10.1.0.1'']" by code_simp
  have "canon [example_range ''10.1.0.1'' ''10.1.0.1'']" 
    by (simp add: canon_def range16_def ip example_range_def)
  then have s: "subnet_ok (active_subnet [example_range ''10.1.0.1'' ''10.1.0.1''])"
    using plain by (simp add: subnet_ok_def active_subnet_def example_subnet_def)
  let ?w = "mem_view (example_world [example_range ''10.1.0.1'' ''10.1.0.1'']
    [example_ip ''a'' [] '''', example_ip ''b'' (ParseIP ''10.1.0.1'') ''Pending''])"
  have ips: "c_ips ?w k = (if k = (''default'', ''a'') then Some (example_ip ''a'' [] '''')
      else if k = (''default'', ''b'') then Some (example_ip ''b'' (ParseIP ''10.1.0.1'') ''Pending'') else None)" for k
    by (auto simp: mem_view_def example_world_def store_get_def example_ip_def example_meta_def)
  have subnets: "c_subnets ?w k = (if k = (SubnetNamespace, ''s'')
      then Some (active_subnet [example_range ''10.1.0.1'' ''10.1.0.1'']) else None)" for k
    by (auto simp: mem_view_def example_world_def store_get_def active_subnet_def example_subnet_def)
  have h: "\<not> holds (example_ip ''a'' [] p) sn x"
    "holds (example_ip ''b'' x p) sn y \<longleftrightarrow> sn = ''s'' \<and> y = x \<and> x \<noteq> []" for sn x y p
    by (auto simp: holds_def example_ip_def)
  have ok: "ip_ok (example_ip n x p) \<longleftrightarrow> x = [] \<or> inner_addr x" for n x p
    by (auto simp: ip_ok_def example_ip_def)
  have st: "UsedIP (sn_Status (active_subnet u)) = u" "sn_Gateway (sn_Status (active_subnet u)) = []" for u
    by (simp_all add: active_subnet_def)
  show ?thesis
    unfolding example_start_def ipam_inv_def ips subnets using s mem inner by (auto simp: h ok st split: if_splits)
qed

lemma example_step:
  "ipam_step mem_api mem_view example_start
     (snd (run_state (handleError mem_api (handleIP mem_api) (Some (example_ip ''a'' [] ''''))) example_start))"
proof -
  let ?out = "run_state (handleError mem_api (handleIP mem_api) (Some (example_ip ''a'' [] ''''))) example_start"
  have "case fst ?out of Returns r \<Rightarrow> True | _ \<Rightarrow> False" by code_simp
  then obtain r where r: "?out = (Returns r, snd ?out)" by (cases "fst ?out") (auto simp: prod_eq_iff)
  have "c_ips (mem_view example_start) (ip_Namespace (example_ip ''a'' [] ''''), ip_Name (example_ip ''a'' [] '''')) =
      Some (example_ip ''a'' [] '''')"
    by (simp add: example_start_def mem_view_def example_world_def store_get_def example_ip_def example_meta_def)
  then show ?thesis using r by (rule ipam_step.change)
qed

text \<open>
  C1. Two FlatNetworkIP resources of one subnet never have the same address: not after any sequence
  of creations, of runs of the change handler and of runs of the remove handler that return, from a state in the invariant, as long
  as the informer caches are fresh and the API server checks resource versions. A run that panics is not such a step: the panic of the
  fallback frees an address that its resource keeps (\<open>fallback_panics_and_frees\<close>).
\<close>

theorem ipam_unique_addresses:
  assumes "kube api view" and "ipam_inv (view w0)" and "(ipam_step api view)\<^sup>*\<^sup>* w0 w"
    and "c_ips (view w) k = Some i" and "c_ips (view w) k' = Some i'"
    and "Subnet (ip_Spec i) = Subnet (ip_Spec i')" and "Addr (ip_Status i) = Addr (ip_Status i')"
    and "Addr (ip_Status i) \<noteq> []"
  shows "k = k'"
proof -
  have "ipam_inv (view w)" using kube.steps_inv [OF assms(1,3,2)] .
  moreover have "holds i (Subnet (ip_Spec i)) (Addr (ip_Status i))"
    "holds i' (Subnet (ip_Spec i)) (Addr (ip_Status i))"
    using assms by (simp_all add: holds_def)
  ultimately show ?thesis using ipam_invD(4) assms(4,5) by blast
qed

theorem ipam_unique_addresses_witness:
  "let w = snd (run_state (handleError mem_api (handleIP mem_api) (Some (example_ip ''a'' [] ''''))) example_start)
   in addr_of w ''a'' = ParseIP ''10.1.0.2'' \<and> addr_of w ''b'' \<noteq> addr_of w ''a''"
proof -
  define w where "w = snd (run_state (handleError mem_api (handleIP mem_api) (Some (example_ip ''a'' [] ''''))) example_start)"
  have a: "addr_of w ''a'' = ParseIP ''10.1.0.2''" unfolding w_def by code_simp
  have ne: "ParseIP ''10.1.0.2'' \<noteq> []" by code_simp
  have "case c_ips (mem_view w) (''default'', ''a'') of None \<Rightarrow> False | Some i \<Rightarrow> Subnet (ip_Spec i) = ''s''"
    "case c_ips (mem_view w) (''default'', ''b'') of None \<Rightarrow> False | Some i \<Rightarrow> Subnet (ip_Spec i) = ''s''"
    unfolding w_def by code_simp+
  then obtain i j where ij: "c_ips (mem_view w) (''default'', ''a'') = Some i"
      "c_ips (mem_view w) (''default'', ''b'') = Some j" "Subnet (ip_Spec i) = ''s''" "Subnet (ip_Spec j) = ''s''"
    by (auto split: option.splits)
  have "(ipam_step mem_api mem_view)\<^sup>*\<^sup>* example_start w" using example_step unfolding w_def by blast
  from ipam_unique_addresses [where api = mem_api and view = mem_view, OF mem.kube_axioms example_inv this ij(1,2)]
  have "addr_of w ''b'' \<noteq> addr_of w ''a''" using ij a ne by (auto simp: addr_of_def)
  then show ?thesis using a by (simp add: Let_def w_def)
qed

text \<open>
  C2. The IP controller refines the abstract allocator. Every step of the controller, that is a run of
  the change handler or of the remove handler that returns, or the creation of a resource, with fresh caches, keeps the
  invariant and is a step of the allocator on the addresses that the stored resources have: for one
  resource, the step keeps its address, gives it an address that no other resource of the subnet
  has, or takes its address away; the addresses of all other resources stay.
\<close>

theorem ip_controller_refines_allocator:
  assumes "kube api view" and "ipam_inv (view w)" and "ipam_step api view w w'"
  shows "ipam_inv (view w') \<and> (\<exists>k. alloc_step k (grants_of (view w)) (grants_of (view w')))"
  using kube.step_allowed [OF assms(1,3,2)] by (auto simp: allowed_def)

theorem ip_controller_refines_allocator_witness:
  "\<exists>k. alloc_step k (grants_of (mem_view example_start)) (grants_of (mem_view
     (snd (run_state (handleError mem_api (handleIP mem_api) (Some (example_ip ''a'' [] ''''))) example_start))))"
  using ip_controller_refines_allocator [where api = mem_api and view = mem_view, OF mem.kube_axioms example_inv example_step]
  by blast

lemma find_not_None_mem: "find P xs = None \<longleftrightarrow> (\<forall>x \<in> set xs. \<not> P x)"
  by (induction xs) auto

text \<open>What the subnet keeps of a claim: the address and the hardware address, and nothing else changes.\<close>

lemma claim_addr_records:
  assumes "inner_addr a" and "canon (UsedIP st)"
  shows "IPInRanges a (UsedIP (claim_addr a m st)) \<and> canon (UsedIP (claim_addr a m st)) \<and>
    ranges_set (UsedIP (claim_addr a m st)) = insert (bval a) (ranges_set (UsedIP st)) \<and>
    UsedIPCount (claim_addr a m st) = UsedIPCount st + (if IPInRanges a (UsedIP st) then 0 else 1) \<and>
    mset (UsedMAC (claim_addr a m st)) = (if m = [] then mset (UsedMAC st) else add_mset m (mset (UsedMAC st))) \<and>
    (claim_addr a m st)\<lparr>UsedIP := UsedIP st, UsedIPCount := UsedIPCount st, UsedMAC := UsedMAC st\<rparr> = st"
proof -
  have c: "canon (AddIPToRange a (UsedIP st))" "ranges_set (AddIPToRange a (UsedIP st)) = insert (bval a) (ranges_set (UsedIP st))"
    using rng.wf_add [OF assms] rng.addrs_add [OF assms] by simp_all
  then have "IPInRanges a (AddIPToRange a (UsedIP st))" using rng.mem_iff [OF assms(1) c(1)] by simp
  moreover have "UsedIPCount (claim_addr a m st) = UsedIPCount st + (if IPInRanges a (UsedIP st) then 0 else 1)"
    "mset (UsedMAC (claim_addr a m st)) = (if m = [] then mset (UsedMAC st) else add_mset m (mset (UsedMAC st)))"
    "(claim_addr a m st)\<lparr>UsedIP := UsedIP st, UsedIPCount := UsedIPCount st, UsedMAC := UsedMAC st\<rparr> = st"
    by (simp_all add: claim_addr_def Let_def)
  ultimately show ?thesis using c by (simp add: claim_addr_simps)
qed

text \<open>
  C17. When the create handler returns a resource in the phase Pending, the address and the hardware
  address it carries are the ones \<open>allocateIP\<close> and \<open>allocateMAC\<close> chose for the stored subnet, which was
  active; the API server stores the resource, and no other one changes. It stores the subnet with the address among the used ones and no
  other address added, with the count one higher unless the address was among them before, and with the hardware address, if there is one,
  once more among the used hardware addresses; the specification and the rest of the status of the subnet stay.
\<close>

theorem onIPCreate_records:
  assumes "kube api view" and "run_state (onIPCreate api ip) w = (Returns (i', None), w')"
    and "ip_Phase (ip_Status i') = flatNetworkIPPendingPhase"
    and "ip_Phase (ip_Status ip) \<noteq> flatNetworkIPPendingPhase"
    and "ipam_inv (view w)" and "c_ips (view w) (ip_Namespace ip, ip_Name ip) = Some ip"
    and "Addr (ip_Status i') = a" and "MAC (ip_Status i') = m"
  shows "\<exists>s s'. c_subnets (view w) (SubnetNamespace, Subnet (ip_Spec ip)) = Some s \<and>
    sn_Phase (sn_Status s) = ''Active'' \<and> allocateIP ip s = Some (Inr a) \<and> allocateMAC ip s = Inr m \<and>
    c_ips (view w') (ip_Namespace ip, ip_Name ip) = Some i' \<and>
    (\<forall>k. k \<noteq> (ip_Namespace ip, ip_Name ip) \<longrightarrow> c_ips (view w') k = c_ips (view w) k) \<and>
    c_subnets (view w') (SubnetNamespace, Subnet (ip_Spec ip)) = Some s' \<and> sn_Spec s' = sn_Spec s \<and>
    IPInRanges a (UsedIP (sn_Status s')) \<and> canon (UsedIP (sn_Status s')) \<and>
    ranges_set (UsedIP (sn_Status s')) = insert (bval a) (ranges_set (UsedIP (sn_Status s))) \<and>
    UsedIPCount (sn_Status s') = UsedIPCount (sn_Status s) + (if IPInRanges a (UsedIP (sn_Status s)) then 0 else 1) \<and>
    mset (UsedMAC (sn_Status s')) = (if m = [] then mset (UsedMAC (sn_Status s)) else add_mset m (mset (UsedMAC (sn_Status s)))) \<and>
    (sn_Status s')\<lparr>UsedIP := UsedIP (sn_Status s), UsedIPCount := UsedIPCount (sn_Status s), UsedMAC := UsedMAC (sn_Status s)\<rparr> = sn_Status s"
proof -
  obtain s s' where s: "c_subnets (view w) (SubnetNamespace, Subnet (ip_Spec ip)) = Some s" "sn_Phase (sn_Status s) = ''Active''"
      "allocateIP ip s = Some (Inr a)" "allocateMAC ip s = Inr m" "c_ips (view w') (ip_Namespace ip, ip_Name ip) = Some i'"
      "\<forall>k. k \<noteq> (ip_Namespace ip, ip_Name ip) \<longrightarrow> c_ips (view w') k = c_ips (view w) k"
      "c_subnets (view w') (SubnetNamespace, Subnet (ip_Spec ip)) = Some s'" "sn_Spec s' = sn_Spec s"
    and st: "sn_Status s' = claim_addr a m (sn_Status s)"
    using kube.onIPCreate_success [OF assms(1-4)] assms(7,8) by blast
  have "inner_addr a" using allocateIP_takeable [OF assms(5,6) s(1,3)] by (simp add: takeable_def)
  moreover have "canon (UsedIP (sn_Status s))" using ipam_invD(1) [OF assms(5) s(1)] by (simp add: subnet_ok_def)
  ultimately show ?thesis using claim_addr_records [of a "sn_Status s" m] s unfolding st [symmetric] by blast
qed

text \<open>A resource that asks for a hardware address.\<close>

definition example_request_ip :: FlatNetworkIP where
  "example_request_ip = (example_ip ''a'' [] '''')\<lparr>ip_Spec := \<lparr>Subnet = ''s'', Addrs = [], MACs = [''0a:00:00:00:00:01''], PodID = ''u''\<rparr>\<rparr>"

lemma example_request_inv: "ipam_inv (mem_view (example_world [] [example_request_ip]))"
proof -
  have "plain_cidr ''10.1.0.0/16''" by code_simp
  then have "subnet_ok (active_subnet [])" by (simp add: subnet_ok_def active_subnet_def example_subnet_def)
  moreover have "ip_ok example_request_ip" "\<not> holds example_request_ip sn a" for sn a
    by (simp_all add: ip_ok_def holds_def example_request_ip_def example_ip_def)
  ultimately show ?thesis
    by (auto simp: ipam_inv_def mem_view_def example_world_def store_get_def split: if_splits)
qed

theorem onIPCreate_records_witness:
  "\<exists>s i' w'. run_state (onIPCreate mem_api example_request_ip) (example_world [] [example_request_ip]) = (Returns (i', None), w') \<and>
    c_subnets (mem_view w') (SubnetNamespace, ''s'') = Some s \<and> Addr (ip_Status i') = ParseIP ''10.1.0.1'' \<and>
    IPInRanges (ParseIP ''10.1.0.1'') (UsedIP (sn_Status s)) \<and> mset (UsedMAC (sn_Status s)) = {#''0a:00:00:00:00:01''#}"
proof -
  define ip where "ip = example_request_ip"
  define out where "out = run_state (onIPCreate mem_api ip) (example_world [] [ip])"
  have "case fst out of Returns (i, None) \<Rightarrow> ip_Phase (ip_Status i) = flatNetworkIPPendingPhase \<and>
      Addr (ip_Status i) = ParseIP ''10.1.0.1'' \<and> MAC (ip_Status i) = ''0a:00:00:00:00:01'' | _ \<Rightarrow> False"
    unfolding out_def ip_def by code_simp
  then obtain i' where i': "run_state (onIPCreate mem_api ip) (example_world [] [ip]) = (Returns (i', None), snd out)"
      "ip_Phase (ip_Status i') = flatNetworkIPPendingPhase" "Addr (ip_Status i') = ParseIP ''10.1.0.1''"
      "MAC (ip_Status i') = ''0a:00:00:00:00:01''"
    by (cases "fst out") (auto simp: prod_eq_iff split: option.splits simp flip: out_def)
  have ph: "ip_Phase (ip_Status ip) \<noteq> flatNetworkIPPendingPhase"
    and sub: "c_subnets (mem_view (example_world [] [ip])) (SubnetNamespace, Subnet (ip_Spec ip)) = Some (active_subnet [])"
    and st: "c_ips (mem_view (example_world [] [ip])) (ip_Namespace ip, ip_Name ip) = Some ip" and sn: "Subnet (ip_Spec ip) = ''s''"
    and mac: "UsedMAC (sn_Status (active_subnet [])) = []"
    by (simp_all add: ip_def example_request_ip_def example_ip_def mem_view_def example_world_def store_get_def active_subnet_def
        example_subnet_def)
  show ?thesis
    using onIPCreate_records [where api = mem_api and view = mem_view, OF mem.kube_axioms i'(1,2) ph example_request_inv [folded ip_def] st i'(3,4)]
      sub i' sn mac
    unfolding ip_def by auto
qed

text \<open>
  The remove handler gives the address of the removed resource back and nothing else: with the
  removed resource out of the store, every other resource still has its address recorded as used,
  the gateway too, and no address is recorded twice.
\<close>

theorem handleIPRemove_keeps_others:
  assumes "kube api view" and "ipam_inv (view w)"
    and "c_ips (view w) (ip_Namespace ip, ip_Name ip) = Some ip"
    and "run_state (handleIPRemove api (Some ip)) w = (Returns res, w')"
  shows "ipam_inv ((view w')\<lparr>c_ips := (c_ips (view w'))((ip_Namespace ip, ip_Name ip) := None)\<rparr>)"
  using kube.handleIPRemove_allowed [OF assms] by (simp add: allowed_def)

theorem handleIPRemove_keeps_others_witness:
  "let i = example_ip ''b'' (ParseIP ''10.1.0.1'') ''Pending'';
       w = snd (run_state (handleIPRemove mem_api (Some i))
         (example_world [example_range ''10.1.0.1'' ''10.1.0.1''] [example_ip ''a'' [] '''', i]))
   in ipam_inv ((mem_view w)\<lparr>c_ips := (c_ips (mem_view w))((''default'', ''b'') := None)\<rparr>)"
proof -
  define i where "i = example_ip ''b'' (ParseIP ''10.1.0.1'') ''Pending''"
  define start where "start = example_world [example_range ''10.1.0.1'' ''10.1.0.1''] [example_ip ''a'' [] '''', i]"
  define out where "out = run_state (handleIPRemove mem_api (Some i)) start"
  have "case fst out of Returns r \<Rightarrow> True | _ \<Rightarrow> False" unfolding out_def start_def i_def by code_simp
  then obtain r where r: "run_state (handleIPRemove mem_api (Some i)) start = (Returns r, snd out)"
    by (cases "fst out") (auto simp: prod_eq_iff simp flip: out_def)
  have st: "c_ips (mem_view start) (ip_Namespace i, ip_Name i) = Some i"
    by (simp add: start_def mem_view_def example_world_def store_get_def i_def example_ip_def example_meta_def)
  have inv: "ipam_inv (mem_view start)" using example_inv unfolding example_start_def start_def i_def .
  have key: "ip_Namespace i = ''default''" "ip_Name i = ''b''" by (simp_all add: i_def example_ip_def example_meta_def)
  show ?thesis
    using handleIPRemove_keeps_others [where api = mem_api and view = mem_view, OF mem.kube_axioms inv st r]
    unfolding key unfolding Let_def out_def start_def i_def .
qed

text \<open>
  \<open>UsedIPCount\<close> follows the number of used addresses: taking an address and giving one back
  change both alike, so the difference between the counter and the number of addresses stays.
\<close>

theorem UsedIPCount_tracks:
  assumes "inner_addr a" and "canon (UsedIP st)" and "Addr (ip_Status ip) = a"
  shows "UsedIPCount (claim_addr a m st) - int (card (ranges_set (UsedIP (claim_addr a m st)))) =
      UsedIPCount st - int (card (ranges_set (UsedIP st))) \<and>
    UsedIPCount (release_addr ip st) - int (card (ranges_set (UsedIP (release_addr ip st)))) =
      UsedIPCount st - int (card (ranges_set (UsedIP st)))"
  using claim_count [OF assms(1,2)] release_count [of ip st] assms by simp

theorem UsedIPCount_tracks_witness:
  "let st = sn_Status (active_subnet [])
   in UsedIPCount (claim_addr (ParseIP ''10.1.0.1'') [] st) =
      int (card (ranges_set (UsedIP (claim_addr (ParseIP ''10.1.0.1'') [] st))))"
proof -
  have "inner_addr (ParseIP ''10.1.0.1'')" by code_simp
  then show ?thesis
    using UsedIPCount_tracks [of "ParseIP ''10.1.0.1''" "sn_Status (active_subnet [])" "example_ip ''a'' (ParseIP ''10.1.0.1'') ''''" "[]"]
    by (simp add: active_subnet_def example_ip_def)
qed

text \<open>
  C32. \<open>allocateMAC\<close> on a sorted list of used hardware addresses: a hardware address it returns is
  empty when the user asked for none, is the one the resource already has, or is one of the requested
  and not used; it reports \<open>ErrNoAvailableMac\<close> exactly when all requested ones are used. The list of
  used hardware addresses stays sorted, so that the next binary search is right.
\<close>

theorem allocateMAC_spec:
  assumes "sorted (UsedMAC (sn_Status s))"
  shows "(case allocateMAC ip s of
      Inr m \<Rightarrow> (MACs (ip_Spec ip) = [] \<and> m = []) \<or>
        (m \<in> set (MACs (ip_Spec ip)) \<and> (m = MAC (ip_Status ip) \<or> m \<notin> set (UsedMAC (sn_Status s))))
    | Inl e \<Rightarrow> errors_Is e ErrNoAvailableMac \<and> MACs (ip_Spec ip) \<noteq> [] \<and>
        set (MACs (ip_Spec ip)) \<subseteq> set (UsedMAC (sn_Status s))) \<and>
    sorted (UsedMAC (claim_addr a m (sn_Status s))) \<and> sorted (UsedMAC (release_addr ip (sn_Status s)))"
proof -
  have pick: "m \<in> set (MACs (ip_Spec ip)) \<and> m \<notin> set (UsedMAC (sn_Status s))"
    if "find (\<lambda>m. \<not> slices_BinarySearch (UsedMAC (sn_Status s)) m) (MACs (ip_Spec ip)) = Some m" for m
    using find_SomeD [OF that] slices_BinarySearch_iff [OF assms] by simp
  have none: "set (MACs (ip_Spec ip)) \<subseteq> set (UsedMAC (sn_Status s))"
    if "find (\<lambda>m. \<not> slices_BinarySearch (UsedMAC (sn_Status s)) m) (MACs (ip_Spec ip)) = None"
    using that slices_BinarySearch_iff [OF assms] by (auto simp: find_not_None_mem)
  have own: "MAC (ip_Status ip) \<in> set (MACs (ip_Spec ip))" if "alreadyAllocatedMAC ip" "MACs (ip_Spec ip) \<noteq> []"
    using that by (auto simp: alreadyAllocatedMAC_def list_ex_iff split: if_splits)
  have "sorted (UsedMAC (claim_addr a m (sn_Status s)))" "sorted (UsedMAC (release_addr ip (sn_Status s)))"
    using assms by (simp_all add: claim_addr_def release_addr_def Let_def)
  moreover have "case allocateMAC ip s of
      Inr m \<Rightarrow> (MACs (ip_Spec ip) = [] \<and> m = []) \<or>
        (m \<in> set (MACs (ip_Spec ip)) \<and> (m = MAC (ip_Status ip) \<or> m \<notin> set (UsedMAC (sn_Status s))))
    | Inl e \<Rightarrow> errors_Is e ErrNoAvailableMac \<and> MACs (ip_Spec ip) \<noteq> [] \<and>
        set (MACs (ip_Spec ip)) \<subseteq> set (UsedMAC (sn_Status s))"
    using pick none own by (auto simp: allocateMAC_def errors_Is_def split: option.splits)
  ultimately show ?thesis by blast
qed

theorem allocateMAC_spec_witness:
  "\<exists>m. allocateMAC ((example_ip ''a'' [] '''')\<lparr>ip_Spec := \<lparr>Subnet = ''s'', Addrs = [], MACs = [''m1'', ''m2''], PodID = []\<rparr>\<rparr>)
      ((active_subnet [])\<lparr>sn_Status := (sn_Status (active_subnet []))\<lparr>UsedMAC := [''m1'']\<rparr>\<rparr>) = Inr m \<and>
    m \<notin> {''m1''}"
proof -
  define ip where "ip = (example_ip ''a'' [] '''')\<lparr>ip_Spec := \<lparr>Subnet = ''s'', Addrs = [], MACs = [''m1'', ''m2''], PodID = []\<rparr>\<rparr>"
  define s where "s = (active_subnet [])\<lparr>sn_Status := (sn_Status (active_subnet []))\<lparr>UsedMAC := [''m1'']\<rparr>\<rparr>"
  have run: "allocateMAC ip s = Inr ''m2''" unfolding ip_def s_def by code_simp
  have "sorted (UsedMAC (sn_Status s))" by (simp add: s_def)
  from allocateMAC_spec [OF this, of ip] run have "''m2'' \<notin> set (UsedMAC (sn_Status s))"
    by (simp add: ip_def example_ip_def)
  then show ?thesis using run unfolding ip_def s_def by auto
qed

text \<open>An API server that refuses every update of the status of an IP resource.\<close>

definition refusing_api :: "mem api" where
  "refusing_api = mem_api\<lparr>ipClient_UpdateStatus := (\<lambda>i. ret (Inl (StatusError OtherReason)))\<rparr>"

text \<open>
  The fallback of the create handler: when the status of the resource cannot be updated and the
  fallback succeeds, the handler panics (it reports the nil error of the successful update), and when
  the resource already had its address, that address is free again in the subnet while the resource
  keeps it.
\<close>

theorem fallback_panics_and_frees:
  "let a = ParseIP ''10.1.0.1'';
       w = example_world [\<lparr>From = a, To = a\<rparr>] [example_ip ''a'' a ''Failed''];
       out = run_state (onIPCreate refusing_api (example_ip ''a'' a ''Failed'')) w
   in (case fst out of Panics \<Rightarrow> True | _ \<Rightarrow> False) \<and>
      addr_of (snd out) ''a'' = a \<and>
      list_all (\<lambda>s. \<not> IPInRanges a (UsedIP (sn_Status s))) (m_subnets (snd out))"
  by code_simp

end
