(* ===== verification/SubnetController.thy ===== *)
theory SubnetController
  imports IPController
begin

text \<open>
  The controller of the \<open>FlatNetworkSubnet\<close> resources: \<open>pkg/controller/flatnetworksubnet\<close>. The
  handlers follow the conventions of the IP controller. A label selector made from a set is the set.
\<close>

abbreviation (input) subnetPendingPhase :: string where "subnetPendingPhase \<equiv> ''''"
abbreviation subnetActivePhase :: string where "subnetActivePhase \<equiv> ''Active''"
abbreviation subnetFailedPhase :: string where "subnetFailedPhase \<equiv> ''Failed''"

abbreviation labelMaster :: string where "labelMaster \<equiv> ''master''"
abbreviation labelVlan :: string where "labelVlan \<equiv> ''vlan''"
abbreviation labelMode :: string where "labelMode \<equiv> ''mode''"
abbreviation labelFlatMode :: string where "labelFlatMode \<equiv> ''flatMode''"

subsection \<open>Labels and network of a subnet\<close>

definition set_labels :: "FlatNetworkSubnet \<Rightarrow> FlatNetworkSubnet" where
  "set_labels result =
     (let spec = sn_Spec result;
          ls = Labels (sn_meta result);
          ls = AList.update labelMaster (Master spec) ls;
          ls = AList.update labelVlan (show_int (VLAN spec)) ls;
          ls = AList.update labelMode (Mode spec) ls;
          ls = AList.update labelFlatMode (FlatMode spec) ls
      in result\<lparr>sn_meta := (sn_meta result)\<lparr>Labels := ls\<rparr>\<rparr>)"

text \<open>The selector of the subnets with the same master and VLAN.\<close>

definition iface_set :: "FlatNetworkSubnet \<Rightarrow> strmap" where
  "iface_set subnet = [(labelMaster, Master (sn_Spec subnet)), (labelVlan, show_int (VLAN (sn_Spec subnet)))]"

definition normalize_CIDR :: "FlatNetworkSubnet \<Rightarrow> error + FlatNetworkSubnet" where
  "normalize_CIDR result =
     (case ParseCIDR (CIDR (sn_Spec result)) of
        Inl e \<Rightarrow> Inl (Wrapf ''failed to parse CIDR %q: %w'' [CIDR (sn_Spec result)] e)
      | Inr (_, network) \<Rightarrow> Inr (result\<lparr>sn_Spec := (sn_Spec result)\<lparr>CIDR := IPNet_String network\<rparr>\<rparr>))"

subsection \<open>Creation\<close>

definition label_closure :: "'w api \<Rightarrow> FlatNetworkSubnet \<Rightarrow> ('w, error + FlatNetworkSubnet) state" where
  "label_closure api subnet =
     do {
       r \<leftarrow> subnetCache_Get api (sn_Namespace subnet) (sn_Name subnet);
       case r of
         Inl e \<Rightarrow> ret (Inl e)
       | Inr result \<Rightarrow>
           (case normalize_CIDR (set_labels result) of
              Inl e \<Rightarrow> ret (Inl e)
            | Inr result \<Rightarrow> subnetClient_Update api result)
     }"

text \<open>The status of a subnet that becomes active.\<close>

definition activate :: "SubnetSpec \<Rightarrow> SubnetStatus \<Rightarrow> SubnetStatus" where
  "activate spec st = st\<lparr>sn_Phase := subnetActivePhase,
     UsedIP := AddIPToRange (Gateway spec) (UsedIP st), sn_Gateway := Gateway spec\<rparr>"

definition list_error :: "FlatNetworkSubnet \<Rightarrow> error \<Rightarrow> error" where
  "list_error subnet e = Wrapf ''failed to list subnet from cache by selector %q: %w''
     [json_object [(labelMaster, json_string (Master (sn_Spec subnet))),
        (labelVlan, json_string (show_int (VLAN (sn_Spec subnet))))]] e"

text \<open>The checks that both handlers make against the subnets of the same interface, in this order.\<close>

definition check_peers :: "FlatNetworkSubnet \<Rightarrow> FlatNetworkSubnet option list \<Rightarrow> error option" where
  "check_peers subnet subnets =
     (case CheckSubnetFlatMode subnet subnets of
        Some e \<Rightarrow> Some e
      | None \<Rightarrow>
          (case CheckSubnetConflict subnet subnets of
             Some e \<Rightarrow> Some e
           | None \<Rightarrow>
               if sn_Namespace subnet \<noteq> SubnetNamespace
               then Some (Errorf ''invalid subnet namespace %q'' [sn_Namespace subnet]) else None))"

definition onSubnetCreate ::
    "'w api \<Rightarrow> FlatNetworkSubnet \<Rightarrow> ('w, (FlatNetworkSubnet \<times> error option) outcome) state" where
  "onSubnetCreate api subnet =
     (case ValidateSubnet subnet of
        Some e \<Rightarrow> ret (Returns (subnet, Some e))
      | None \<Rightarrow>
          do {
            r \<leftarrow> subnetCache_List api (sn_Namespace subnet) (iface_set subnet);
            case r of
              Inl e \<Rightarrow> ret (Returns (subnet, Some (list_error subnet e)))
            | Inr subnets \<Rightarrow>
                (case check_peers subnet subnets of
                   Some e \<Rightarrow> ret (Returns (subnet, Some e))
                 | None \<Rightarrow>
                     do {
                       r \<leftarrow> retry_subnet api DefaultRetry (label_closure api subnet);
                       case r of
                         Inl e \<Rightarrow> ret (Returns (subnet,
                           Some (Wrapf ''failed to update label and gateway of subnet: %w'' [] e)))
                       | Inr result \<Rightarrow>
                           (let subnet = result\<lparr>sn_Status := activate (sn_Spec result) (sn_Status result)\<rparr> in
                            do {
                              r \<leftarrow> subnetClient_UpdateStatus api subnet;
                              case r of
                                Inl e \<Rightarrow> ret (Returns (subnet,
                                  Some (Wrapf ''failed to update status of subnet: %w'' [] e)))
                              | Inr subnetUpdate \<Rightarrow> ret (Returns (subnetUpdate, None))
                            })
                     })
          })"

subsection \<open>Duplicated addresses\<close>

text \<open>The loop of \<open>filterDuplicatedIP\<close>; \<open>seen\<close> is the map \<open>set\<close> from addresses to resource names.\<close>

fun filter_duplicated :: "strmap \<Rightarrow> FlatNetworkIP option list \<Rightarrow> FlatNetworkIP list" where
  "filter_duplicated seen [] = []"
| "filter_duplicated seen (None # ips) = filter_duplicated seen ips"
| "filter_duplicated seen (Some ip # ips) =
     (if To16 (Addr (ip_Status ip)) = [] \<or> DeletionTimestamp (ip_meta ip) \<noteq> None
      then filter_duplicated seen ips
      else
        let a = IP_String (Addr (ip_Status ip)) in
        if mget seen a = [] then filter_duplicated (AList.update a (ip_Name ip) seen) ips
        else ip # filter_duplicated seen ips)"

definition filterDuplicatedIP :: "FlatNetworkIP option list \<Rightarrow> FlatNetworkIP list" where
  "filterDuplicatedIP ips = (if ips = [] then [] else filter_duplicated [] ips)"

text \<open>A nil resource in the list is dereferenced: a panic.\<close>

fun cleanupDuplicatedIPs :: "'w api \<Rightarrow> FlatNetworkIP option list \<Rightarrow> ('w, (error option) outcome) state" where
  "cleanupDuplicatedIPs api [] = ret (Returns None)"
| "cleanupDuplicatedIPs api (None # ips) = ret Panics"
| "cleanupDuplicatedIPs api (Some ip # ips) =
     (if To16 (Addr (ip_Status ip)) = [] \<or> DeletionTimestamp (ip_meta ip) \<noteq> None
      then cleanupDuplicatedIPs api ips
      else
        do {
          d \<leftarrow> podClient_Delete api (ip_Namespace ip) (ip_Name ip);
          case d of
            Some e \<Rightarrow>
              if \<not> IsNotFound e then
                ret (Returns (Some (Wrapf ''failed to delete pod [%v/%v]: %w'' [ip_Namespace ip, ip_Name ip] e)))
              else cleanupDuplicatedIPs api ips
          | None \<Rightarrow> cleanupDuplicatedIPs api ips
        })"

subsection \<open>Update\<close>

definition relabel_closure :: "'w api \<Rightarrow> FlatNetworkSubnet \<Rightarrow> ('w, error + FlatNetworkSubnet) state" where
  "relabel_closure api subnet =
     do {
       r \<leftarrow> subnetCache_Get api (sn_Namespace subnet) (sn_Name subnet);
       case r of
         Inl e \<Rightarrow> ret (Inl e)
       | Inr result \<Rightarrow>
           (case normalize_CIDR (set_labels result) of
              Inl e \<Rightarrow> ret (Inl e)
            | Inr result \<Rightarrow>
                do {
                  r \<leftarrow> subnetClient_Update api result;
                  case r of
                    Inl e \<Rightarrow> ret (Inl e)
                  | Inr result \<Rightarrow>
                      if meq (Labels (sn_meta result)) (Labels (sn_meta subnet)) \<and>
                         CIDR (sn_Spec result) = CIDR (sn_Spec subnet)
                      then ret (Inr subnet)
                      else subnetClient_Update api result
                })
     }"

text \<open>The loop that counts the used addresses, and the gateway after it.\<close>

fun count_used :: "FlatNetworkIP option list \<Rightarrow> int \<times> IPRange list \<Rightarrow> int \<times> IPRange list" where
  "count_used [] acc = acc"
| "count_used (None # ips) acc = count_used ips acc"
| "count_used (Some ip # ips) (n, used) =
     (if DeletionTimestamp (ip_meta ip) \<noteq> None \<or> Addr (ip_Status ip) = [] then count_used ips (n, used)
      else count_used ips (n + 1, AddIPToRange (Addr (ip_Status ip)) used))"

definition recount :: "FlatNetworkSubnet \<Rightarrow> FlatNetworkIP option list \<Rightarrow> int \<times> IPRange list" where
  "recount subnet ips =
     (let (usedIPCount, usedIP) = count_used ips (0, []) in
      if Gateway (sn_Spec subnet) \<noteq> [] then (usedIPCount + 1, AddIPToRange (Gateway (sn_Spec subnet)) usedIP)
      else (usedIPCount, usedIP))"

text \<open>
  \<open>reflect.DeepEqual\<close> of the counted addresses, a slice that is never nil, and the slice of a cached subnet, which may be.
\<close>

definition DeepEqual_UsedIP :: "'w api \<Rightarrow> IPRange list \<Rightarrow> FlatNetworkSubnet \<Rightarrow> bool" where
  "DeepEqual_UsedIP api usedIP result \<longleftrightarrow>
     usedIP = UsedIP (sn_Status result) \<and> (UsedIP (sn_Status result) = [] \<longrightarrow> \<not> nil_UsedIP api result)"

definition recount_closure ::
    "'w api \<Rightarrow> FlatNetworkSubnet \<Rightarrow> int \<Rightarrow> IPRange list \<Rightarrow> ('w, error + FlatNetworkSubnet) state" where
  "recount_closure api subnet usedIPCount usedIP =
     do {
       r \<leftarrow> subnetCache_Get api (sn_Namespace subnet) (sn_Name subnet);
       case r of
         Inl e \<Rightarrow> ret (Inl e)
       | Inr result \<Rightarrow>
           (let st = sn_Status result;
                skipUpdate = (UsedIPCount st = usedIPCount \<and> DeepEqual_UsedIP api usedIP result);
                skipUpdate = (if IP_String (Gateway (sn_Spec result)) = IP_String (sn_Gateway st)
                              then True else skipUpdate)
            in if skipUpdate then ret (Inr result)
               else subnetClient_UpdateStatus api (result\<lparr>sn_Status := st\<lparr>UsedIPCount := usedIPCount,
                      UsedIP := usedIP, sn_Gateway := Gateway (sn_Spec result)\<rparr>\<rparr>))
     }"

text \<open>\<open>onSubnetUpdate\<close> with the allocation lock held.\<close>

definition self_check ::
    "'w api \<Rightarrow> FlatNetworkSubnet \<Rightarrow> ('w, (FlatNetworkSubnet \<times> error option) outcome) state" where
  "self_check api subnet =
     do {
       r \<leftarrow> ipCache_List api [] [(''subnet'', sn_Name subnet)];
       case r of
         Inl e \<Rightarrow> ret (Returns (subnet, Some (Wrapf ''failed to list IP from cache: %w'' [] e)))
       | Inr ips \<Rightarrow>
           if filterDuplicatedIP ips \<noteq> [] then
             do {
               r \<leftarrow> cleanupDuplicatedIPs api ips;
               ret (map_outcome (\<lambda>e. (subnet, e)) r)
             }
           else
             (let (usedIPCount, usedIP) = recount subnet ips in
              do {
                r \<leftarrow> retry_subnet api DefaultRetry (recount_closure api subnet usedIPCount usedIP);
                case r of
                  Inl e \<Rightarrow> ret (Returns (subnet, Some (Wrapf ''failed to update subnet usedIP: %w'' [] e)))
                | Inr subnet \<Rightarrow> ret (Returns (subnet, None))
              })
     }"

definition onSubnetUpdate ::
    "'w api \<Rightarrow> FlatNetworkSubnet \<Rightarrow> ('w, (FlatNetworkSubnet \<times> error option) outcome) state" where
  "onSubnetUpdate api subnet =
     do {
       r \<leftarrow> subnetCache_List api (sn_Namespace subnet) (iface_set subnet);
       case r of
         Inl e \<Rightarrow> ret (Returns (subnet, Some (list_error subnet e)))
       | Inr subnets \<Rightarrow>
           (case check_peers subnet subnets of
              Some e \<Rightarrow> ret (Returns (subnet, Some e))
            | None \<Rightarrow>
                do {
                  r \<leftarrow> retry_subnet api DefaultRetry (relabel_closure api subnet);
                  out \<leftarrow> (case r of
                      Inl e \<Rightarrow> ret (Returns (subnet,
                        Some (Wrapf ''failed to update label and gateway of subnet: %w'' [] e)))
                    | Inr subnet \<Rightarrow>
                        do {
                          allocating \<leftarrow> IsIPAllocating api (sn_Name subnet);
                          if allocating then ret (Returns (subnet, None))
                          else with_lock api (sn_Name subnet) (self_check api subnet)
                        });
                  _ \<leftarrow> subnetEnqueueAfter api (sn_Namespace subnet) (sn_Name subnet) (10 * time_Minute);
                  ret out
                })
     }"

subsection \<open>Dispatch, failure and removal\<close>

definition handleSubnet ::
    "'w api \<Rightarrow> FlatNetworkSubnet option \<Rightarrow> ('w, (FlatNetworkSubnet option \<times> error option) outcome) state" where
  "handleSubnet api subnet0 =
     (case subnet0 of
        None \<Rightarrow> ret (Returns (None, None))
      | Some subnet \<Rightarrow>
          if sn_Name subnet = [] \<or> DeletionTimestamp (sn_meta subnet) \<noteq> None
          then ret (Returns (Some subnet, None))
          else
            do {
              r \<leftarrow> (if sn_Phase (sn_Status subnet) = subnetActivePhase then onSubnetUpdate api subnet
                    else onSubnetCreate api subnet);
              ret (map_outcome (\<lambda>(s, e). (Some s, e)) r)
            })"

definition subnet_failure_closure :: "'w api \<Rightarrow> FlatNetworkSubnet \<Rightarrow> string \<Rightarrow> ('w, error + unit) state" where
  "subnet_failure_closure api subnet message =
     do {
       r \<leftarrow> subnetCache_Get api (sn_Namespace subnet) (sn_Name subnet);
       case r of
         Inl e \<Rightarrow> ret (Inl e)
       | Inr subnet \<Rightarrow>
           (let st = sn_Status subnet;
                st = (if message \<noteq> [] then st\<lparr>sn_Phase := subnetFailedPhase\<rparr> else st)
            in do {
              r \<leftarrow> subnetClient_UpdateStatus api (subnet\<lparr>sn_Status := st\<lparr>sn_FailureMessage := message\<rparr>\<rparr>);
              ret (map_sum id (\<lambda>_. ()) r)
            })
     }"

definition subnet_handleError ::
    "'w api \<Rightarrow> (FlatNetworkSubnet option \<Rightarrow> ('w, (FlatNetworkSubnet option \<times> error option) outcome) state) \<Rightarrow>
     FlatNetworkSubnet option \<Rightarrow> ('w, (FlatNetworkSubnet option \<times> error option) outcome) state" where
  "subnet_handleError api onChange subnet0 =
     do {
       res \<leftarrow> onChange subnet0;
       case res of
         Panics \<Rightarrow> ret Panics
       | Hangs \<Rightarrow> ret Hangs
       | Returns (None, err) \<Rightarrow> ret (Returns (None, err))
       | Returns (Some subnet, err) \<Rightarrow>
           (let message = (case err of None \<Rightarrow> [] | Some e \<Rightarrow> err_text api e) in
            if DeletionTimestamp (sn_meta subnet) \<noteq> None then ret (Returns (Some subnet, err))
            else if sn_Name subnet = [] then ret (Returns (Some subnet, err))
            else if sn_FailureMessage (sn_Status subnet) = message then ret (Returns (Some subnet, err))
            else
              do {
                r \<leftarrow> retry_unit api DefaultRetry (subnet_failure_closure api subnet message);
                ret (Returns (Some subnet, case r of Inl e \<Rightarrow> Some e | Inr _ \<Rightarrow> None))
              })
     }"

text \<open>The loop that reads the names of the addresses in use, for the log, dereferences every resource.\<close>

definition handleSubnetRemove ::
    "'w api \<Rightarrow> FlatNetworkSubnet option \<Rightarrow> ('w, (FlatNetworkSubnet option \<times> error option) outcome) state" where
  "handleSubnetRemove api subnet0 =
     (case subnet0 of
        None \<Rightarrow> ret (Returns (None, None))
      | Some subnet \<Rightarrow>
          if sn_Name subnet = [] then ret (Returns (Some subnet, None))
          else
            do {
              r \<leftarrow> ipCache_List api [] [(''subnet'', sn_Name subnet)];
              case r of
                Inl e \<Rightarrow> ret (Returns (Some subnet, Some (Wrapf
                  ''handleSubnetRemove: failed to list IP by subnet [%v] from cache: %w'' [sn_Name subnet] e)))
              | Inr ips \<Rightarrow>
                  if None \<in> set ips then ret Panics
                  else
                    (let subnet = subnet\<lparr>sn_Status := (sn_Status subnet)\<lparr>sn_Phase := subnetPendingPhase\<rparr>\<rparr> in
                     do {
                       r \<leftarrow> subnetClient_UpdateStatus api subnet;
                       case r of
                         Inl e \<Rightarrow> ret (Returns (Some subnet, Some e))
                       | Inr subnetUpdate \<Rightarrow> ret (Returns (Some subnetUpdate, None))
                     })
            })"

end
