(* ===== verification/SubnetRuns.thy ===== *)
theory SubnetRuns
  imports SubnetController
begin

text \<open>
  What the subnet controller guarantees under the laws of \<open>kube_admin\<close>: an activated subnet passed
  every check and reserves its gateway, an error is recorded in the status, the recount of the used
  addresses is exact; and where the self-check does not do what it is meant to.
\<close>

subsection \<open>The closures on the cluster\<close>

definition labelled :: "key \<Rightarrow> cluster \<Rightarrow> error + FlatNetworkSubnet \<Rightarrow> cluster \<Rightarrow> bool" where
  "labelled k c r c' \<longleftrightarrow>
     (case r of
        Inl e \<Rightarrow> c' = c
      | Inr s' \<Rightarrow> \<exists>old ip n. c_subnets c k = Some old \<and> ParseCIDR (CIDR (sn_Spec old)) = Inr (ip, n) \<and>
          sn_Spec s' = (sn_Spec old)\<lparr>CIDR := IPNet_String n\<rparr> \<and> sn_Status s' = sn_Status old \<and>
          Labels (sn_meta s') = Labels (sn_meta (set_labels old)) \<and>
          (sn_Namespace s', sn_Name s') = k \<and> c' = c\<lparr>c_subnets := (c_subnets c)(k \<mapsto> s')\<rparr>)"

definition failure_noted :: "key \<Rightarrow> string \<Rightarrow> cluster \<Rightarrow> error + unit \<Rightarrow> cluster \<Rightarrow> bool" where
  "failure_noted k msg c r c' \<longleftrightarrow>
     (case r of
        Inl e \<Rightarrow> c' = c
      | Inr _ \<Rightarrow> \<exists>old s'. c_subnets c k = Some old \<and> c' = c\<lparr>c_subnets := (c_subnets c)(k \<mapsto> s')\<rparr> \<and>
          sn_Spec s' = sn_Spec old \<and> sn_FailureMessage (sn_Status s') = msg \<and>
          sn_Phase (sn_Status s') = (if msg \<noteq> [] then subnetFailedPhase else sn_Phase (sn_Status old)) \<and>
          UsedIP (sn_Status s') = UsedIP (sn_Status old))"

text \<open>The stored subnet has the given status and gateway.\<close>

definition has_status :: "key \<Rightarrow> SubnetStatus \<Rightarrow> net_IP \<Rightarrow> cluster \<Rightarrow> bool" where
  "has_status k st gw c \<longleftrightarrow>
     (\<exists>s. c_subnets c k = Some s \<and> sn_Status s = st \<and> Gateway (sn_Spec s) = gw)"

lemma set_labels_simps [simp]:
  "sn_Spec (set_labels s) = sn_Spec s" "sn_Status (set_labels s) = sn_Status s"
  "sn_Name (set_labels s) = sn_Name s" "sn_Namespace (set_labels s) = sn_Namespace s"
  by (simp_all add: set_labels_def Let_def)

lemma normalize_CIDR_Inr:
  "normalize_CIDR s = Inr s' \<longleftrightarrow> (\<exists>ip n. ParseCIDR (CIDR (sn_Spec s)) = Inr (ip, n) \<and>
     s' = s\<lparr>sn_Spec := (sn_Spec s)\<lparr>CIDR := IPNet_String n\<rparr>\<rparr>)"
  by (auto simp: normalize_CIDR_def split: sum.splits)

context kube_admin
begin

lemma label_run:
  assumes run: "run_state (label_closure api s) w = (r, w')"
  shows "labelled (sn_Namespace s, sn_Name s) (view w) r (view w')"
proof -
  obtain g w1 where get: "run_state (subnetCache_Get api (sn_Namespace s) (sn_Name s)) w = (g, w1)" by fastforce
  have v1: "view w1 = view w" using subnet_Get [OF get] by simp
  show ?thesis
  proof (cases g)
    case (Inl e)
    then show ?thesis using run get v1 by (auto simp: label_closure_def labelled_def)
  next
    case (Inr old)
    then have old: "c_subnets (view w) (sn_Namespace s, sn_Name s) = Some old" using subnet_Get [OF get] by simp
    then have key: "sn_Namespace old = sn_Namespace s" "sn_Name old = sn_Name s" using keyed_subnet by blast+
    show ?thesis
    proof (cases "normalize_CIDR (set_labels old)")
      case err: (Inl e)
      have "r = Inl e" "view w' = view w" using run get v1 Inr by (simp_all add: label_closure_def err)
      then show ?thesis by (simp add: labelled_def)
    next
      case new: (Inr s1)
      then obtain ip n where n: "ParseCIDR (CIDR (sn_Spec old)) = Inr (ip, n)"
          "s1 = (set_labels old)\<lparr>sn_Spec := (sn_Spec old)\<lparr>CIDR := IPNet_String n\<rparr>\<rparr>"
        by (auto simp: normalize_CIDR_Inr)
      have upd: "run_state (subnetClient_Update api s1) w1 = (r, w')"
        using run get Inr new by (simp add: label_closure_def)
      show ?thesis
      proof (cases r)
        case (Inl e)
        then show ?thesis using subnet_Update_error upd v1 by (auto simp: labelled_def)
      next
        case (Inr s')
        have "sn_Namespace s1 = sn_Namespace s" "sn_Name s1 = sn_Name s" using key by (simp_all add: n(2))
        then have u: "c_subnets (view w') (sn_Namespace s, sn_Name s) = Some s'" "sn_Spec s' = sn_Spec s1"
            "sn_Status s' = sn_Status old" "Labels (sn_meta s') = Labels (sn_meta s1)"
            "view w' = (view w)\<lparr>c_subnets := (c_subnets (view w))((sn_Namespace s, sn_Name s) \<mapsto> s')\<rparr>"
          using subnet_Update [of s1 w1 s' w'] upd Inr v1 old by auto
        then show ?thesis
          using Inr old n keyed_subnet [OF u(1)] by (auto simp: labelled_def)
      qed
    qed
  qed
qed

lemma retry_label:
  assumes "run_state (retry_subnet api b (label_closure api s)) w = (r, w')"
  shows "labelled (sn_Namespace s, sn_Name s) (view w) r (view w')"
  using retry_subnet [OF assms]
  by (rule attempts_view [where R = "labelled (sn_Namespace s, sn_Name s)"])
    (erule label_run, simp add: labelled_def)

text \<open>A subnet that \<open>onSubnetCreate\<close> returns without an error.\<close>

lemma onSubnetCreate_success:
  assumes run: "run_state (onSubnetCreate api s) w = (Returns (s', None), w')"
  shows "ValidateSubnet s = None \<and> sn_Namespace s = SubnetNamespace \<and>
    (\<exists>peers. CheckSubnetFlatMode s peers = None \<and> CheckSubnetConflict s peers = None \<and>
       set peers = {Some p | p k. c_subnets (view w) k = Some p \<and> (sn_Namespace s = [] \<or> fst k = sn_Namespace s) \<and>
         has_labels (iface_set s) (sn_meta p)}) \<and>
    (\<exists>old ip n. c_subnets (view w) (sn_Namespace s, sn_Name s) = Some old \<and>
       ParseCIDR (CIDR (sn_Spec old)) = Inr (ip, n) \<and> sn_Spec s' = (sn_Spec old)\<lparr>CIDR := IPNet_String n\<rparr> \<and>
       Labels (sn_meta s') = Labels (sn_meta (set_labels old)) \<and>
       sn_Status s' = activate (sn_Spec old) (sn_Status old)) \<and>
    c_subnets (view w') (sn_Namespace s, sn_Name s) = Some s'"
proof -
  have valid: "ValidateSubnet s = None" using run by (auto simp: onSubnetCreate_def split: option.splits)
  obtain l w1 where list: "run_state (subnetCache_List api (sn_Namespace s) (iface_set s)) w = (l, w1)" by fastforce
  obtain peers where peers: "l = Inr peers" "check_peers s peers = None"
    using run valid list
    by (cases l) (auto simp: onSubnetCreate_def split: option.splits)
  obtain r w2 where lab: "run_state (retry_subnet api DefaultRetry (label_closure api s)) w1 = (r, w2)" by fastforce
  obtain s1 where s1: "r = Inr s1"
    using run valid list peers lab by (cases r) (auto simp: onSubnetCreate_def)
  let ?new = "s1\<lparr>sn_Status := activate (sn_Spec s1) (sn_Status s1)\<rparr>"
  have upd: "run_state (subnetClient_UpdateStatus api ?new) w2 = (Inr s', w')"
    using run valid list peers lab s1
    by (auto simp: onSubnetCreate_def Let_def split: prod.splits sum.splits)
  have v1: "view w1 = view w" and ps: "set peers = {Some p | p k. c_subnets (view w) k = Some p \<and>
      (sn_Namespace s = [] \<or> fst k = sn_Namespace s) \<and> has_labels (iface_set s) (sn_meta p)}"
    using subnet_List [OF list] peers(1) by auto
  obtain old ip n where old: "c_subnets (view w) (sn_Namespace s, sn_Name s) = Some old"
      "ParseCIDR (CIDR (sn_Spec old)) = Inr (ip, n)" "sn_Spec s1 = (sn_Spec old)\<lparr>CIDR := IPNet_String n\<rparr>"
      "sn_Status s1 = sn_Status old" "Labels (sn_meta s1) = Labels (sn_meta (set_labels old))"
      "sn_Namespace s1 = sn_Namespace s" "sn_Name s1 = sn_Name s"
      "view w2 = (view w)\<lparr>c_subnets := (c_subnets (view w))((sn_Namespace s, sn_Name s) \<mapsto> s1)\<rparr>"
    using retry_label [OF lab] s1 v1 by (auto simp: labelled_def)
  obtain meta_eq: "same_but_version (sn_meta s1) (sn_meta s')" and spec: "sn_Spec s' = sn_Spec s1"
    and st: "sn_Status s' = activate (sn_Spec s1) (sn_Status s1)"
    and stored: "c_subnets (view w') (sn_Namespace s, sn_Name s) = Some s'"
    using subnet_UpdateStatus [OF upd] old(6-8) by auto
  have "Labels (sn_meta s') = Labels (sn_meta s1)"
    using arg_cong [OF meta_eq [unfolded same_but_version_def], of Labels] by simp
  moreover have "sn_Namespace s = SubnetNamespace \<and> CheckSubnetFlatMode s peers = None \<and> CheckSubnetConflict s peers = None"
    using peers(2) by (auto simp: check_peers_def split: option.splits if_splits)
  ultimately show ?thesis
    using valid ps stored old(1-5) spec st by (auto simp: activate_def)
qed

subsection \<open>Failures\<close>

lemma subnet_failure_run:
  assumes run: "run_state (subnet_failure_closure api s msg) w = (r, w')"
  shows "failure_noted (sn_Namespace s, sn_Name s) msg (view w) r (view w')"
proof -
  obtain g w1 where get: "run_state (subnetCache_Get api (sn_Namespace s) (sn_Name s)) w = (g, w1)" by fastforce
  have v1: "view w1 = view w" using subnet_Get [OF get] by simp
  show ?thesis
  proof (cases g)
    case (Inl e)
    then show ?thesis using run get v1 by (auto simp: subnet_failure_closure_def failure_noted_def)
  next
    case (Inr old)
    then have old: "c_subnets (view w) (sn_Namespace s, sn_Name s) = Some old" using subnet_Get [OF get] by simp
    then have key: "sn_Namespace old = sn_Namespace s" "sn_Name old = sn_Name s" using keyed_subnet by blast+
    define st where "st = (if msg \<noteq> [] then (sn_Status old)\<lparr>sn_Phase := subnetFailedPhase\<rparr> else sn_Status old)"
    obtain u w2 where u: "run_state (subnetClient_UpdateStatus api (old\<lparr>sn_Status := st\<lparr>sn_FailureMessage := msg\<rparr>\<rparr>)) w1 = (u, w2)"
      by fastforce
    then have rw: "r = map_sum id (\<lambda>_. ()) u" "w' = w2"
      using run get Inr by (simp_all add: subnet_failure_closure_def Let_def st_def)
    show ?thesis
    proof (cases u)
      case (Inl e)
      then show ?thesis using subnet_UpdateStatus_error [OF u [unfolded Inl]] v1 rw by (simp add: failure_noted_def)
    next
      case (Inr s')
      then show ?thesis
        using subnet_UpdateStatus [OF u [unfolded Inr]] v1 rw old key
        by (auto simp: failure_noted_def st_def)
    qed
  qed
qed

lemma retry_failure:
  assumes "run_state (retry_unit api b (subnet_failure_closure api s msg)) w = (r, w')"
  shows "failure_noted (sn_Namespace s, sn_Name s) msg (view w) r (view w')"
  using retry_unit [OF assms]
  by (rule attempts_view [where R = "failure_noted (sn_Namespace s, sn_Name s) msg"])
    (erule subnet_failure_run, simp add: failure_noted_def)

lemma subnet_handleError_invalid:
  assumes run: "run_state (subnet_handleError api (handleSubnet api) (Some s)) w = (Returns (Some t, None), w')"
    and bad: "ValidateSubnet s = Some e" and phase: "sn_Phase (sn_Status s) \<noteq> subnetActivePhase"
    and live: "sn_Name s \<noteq> []" "DeletionTimestamp (sn_meta s) = None" and msg: "err_text api e \<noteq> []"
  shows "\<exists>s'. c_subnets (view w') (sn_Namespace s, sn_Name s) = Some s' \<and>
    sn_Phase (sn_Status s') = subnetFailedPhase \<and> sn_FailureMessage (sn_Status s') = err_text api e"
proof -
  have create: "run_state (handleSubnet api (Some s)) w = (Returns (Some s, Some e), w)"
    using bad phase live by (simp add: handleSubnet_def onSubnetCreate_def)
  have differs: "sn_FailureMessage (sn_Status s) \<noteq> err_text api e"
    using run create live by (auto simp: subnet_handleError_def Let_def)
  obtain r w1 where r: "run_state (retry_unit api DefaultRetry (subnet_failure_closure api s (err_text api e))) w = (r, w1)"
    by fastforce
  then have "r = Inr () \<and> w' = w1"
    using run create live differs by (auto simp: subnet_handleError_def Let_def split: sum.splits)
  then show ?thesis using retry_failure [OF r] msg by (auto simp: failure_noted_def)
qed

subsection \<open>The self-check\<close>

lemma relabel_status:
  assumes run: "run_state (relabel_closure api s) w = (r, w')" and pre: "has_status (sn_Namespace s, sn_Name s) st gw (view w)"
  shows "has_status (sn_Namespace s, sn_Name s) st gw (view w')"
proof -
  have upd: "has_status (sn_Namespace s, sn_Name s) st gw (view w2)"
    if "run_state (subnetClient_Update api t) w1 = (u, w2)" "has_status (sn_Namespace s, sn_Name s) st gw (view w1)"
      "Gateway (sn_Spec t) = gw" for t w1 u w2
  proof (cases u)
    case (Inl e)
    then show ?thesis using subnet_Update_error that by metis
  next
    case (Inr t')
    then show ?thesis
      using subnet_Update [OF that(1) [unfolded Inr]] that(2,3) by (auto simp: has_status_def)
  qed
  obtain g w1 where get: "run_state (subnetCache_Get api (sn_Namespace s) (sn_Name s)) w = (g, w1)" by fastforce
  have s1: "has_status (sn_Namespace s, sn_Name s) st gw (view w1)"
    using subnet_Get [OF get] pre by simp
  have gw: "Gateway (sn_Spec t) = gw" if "g = Inr old" "normalize_CIDR (set_labels old) = Inr t" for old t
    using subnet_Get [OF get] pre that by (auto simp: has_status_def normalize_CIDR_Inr)
  show ?thesis
  proof (cases "\<exists>old t. g = Inr old \<and> normalize_CIDR (set_labels old) = Inr t")
    case False
    then show ?thesis
      using run get s1 by (cases g) (auto simp: relabel_closure_def split: sum.splits)
  next
    case True
    then obtain old t where t: "g = Inr old" "normalize_CIDR (set_labels old) = Inr t" by blast
    obtain u w2 where u: "run_state (subnetClient_Update api t) w1 = (u, w2)" by fastforce
    have s2: "has_status (sn_Namespace s, sn_Name s) st gw (view w2)" using upd [OF u s1 gw [OF t]] .
    show ?thesis
    proof (cases u)
      case (Inl e)
      then show ?thesis using run get t u s2 by (simp add: relabel_closure_def)
    next
      case (Inr t')
      then have "Gateway (sn_Spec t') = gw" using subnet_Update [OF u [unfolded Inr]] gw [OF t] by auto
      then show ?thesis
        using run get t u s2 Inr upd by (auto simp: relabel_closure_def split: if_splits)
    qed
  qed
qed

lemma recount_status:
  assumes run: "run_state (recount_closure api s n used) w = (r, w')" and pre: "has_status (sn_Namespace s, sn_Name s) st gw (view w)"
    and eq: "IP_String gw = IP_String (sn_Gateway st)"
  shows "has_status (sn_Namespace s, sn_Name s) st gw (view w')"
proof -
  obtain g w1 where get: "run_state (subnetCache_Get api (sn_Namespace s) (sn_Name s)) w = (g, w1)" by fastforce
  then show ?thesis
    using subnet_Get [OF get] pre run eq 
    by (cases g) (auto simp: recount_closure_def has_status_def Let_def split: if_splits)
qed

lemma cleanup_status:
  "run_state (cleanupDuplicatedIPs api ips) w = (r, w') \<Longrightarrow> has_status k st gw (view w) \<Longrightarrow>
    has_status k st gw (view w')"
proof (induction ips arbitrary: w)
  case (Cons x ips)
  show ?case
  proof (cases x)
    case (Some ip)
    obtain d w1 where d: "run_state (podClient_Delete api (ip_Namespace ip) (ip_Name ip)) w = (d, w1)" by fastforce
    have "has_status k st gw (view w1)" using pod_Delete [OF d] Cons.prems(2) by (simp add: has_status_def)
    then show ?thesis using Cons Some d by (auto split: if_splits option.splits)
  qed (use Cons.prems in simp)
qed simp

lemma self_check_status:
  assumes run: "run_state (self_check api s) w = (r, w')" and pre: "has_status (sn_Namespace s, sn_Name s) st gw (view w)"
    and eq: "IP_String gw = IP_String (sn_Gateway st)"
  shows "has_status (sn_Namespace s, sn_Name s) st gw (view w')"
proof -
  obtain l w1 where l: "run_state (ipCache_List api [] [(''subnet'', sn_Name s)]) w = (l, w1)" by fastforce
  have s1: "has_status (sn_Namespace s, sn_Name s) st gw (view w1)" using ip_List [OF l] pre by simp
  have retry: "has_status (sn_Namespace s, sn_Name s) st gw (view w2)"
    if "run_state (retry_subnet api b (recount_closure api s n used)) w1 = (u, w2)" for b n used u w2
    using retry_subnet [OF that] s1
    by (rule attempts_preserve) (rule recount_status [OF _ _ eq])
  show ?thesis
    using run l s1 retry cleanup_status [of _ w1 _ w']
    by (auto simp: self_check_def split: sum.splits if_splits prod.splits)
qed

lemma relabel_key:
  assumes run: "run_state (relabel_closure api s) w = (Inr s', w')"
  shows "sn_Namespace s' = sn_Namespace s \<and> sn_Name s' = sn_Name s"
proof -
  obtain g w1 where get: "run_state (subnetCache_Get api (sn_Namespace s) (sn_Name s)) w = (g, w1)" by fastforce
  obtain old t where t: "g = Inr old" "normalize_CIDR (set_labels old) = Inr t"
    using run get by (cases g) (auto simp: relabel_closure_def split: sum.splits)
  have kt: "sn_Namespace t = sn_Namespace s" "sn_Name t = sn_Name s"
    using t keyed_subnet subnet_Get [OF get] by (auto simp: normalize_CIDR_Inr)
  have upd: "sn_Namespace u = sn_Namespace v \<and> sn_Name u = sn_Name v"
    if "run_state (subnetClient_Update api v) w2 = (Inr u, w3)" for u v w2 w3
    using subnet_Update [OF that] keyed_subnet [of w3 "sn_Namespace v" "sn_Name v" u] by auto
  show ?thesis
    using run get t kt
    by (auto simp: relabel_closure_def split: sum.splits if_splits prod.splits dest!: upd)
qed

lemma with_lock_preserve:
  assumes run: "run_state (with_lock api n body) w = (r, w')" and pre: "P (view w)"
    and body: "\<And>w r w1. run_state body w = (r, w1) \<Longrightarrow> P (view w) \<Longrightarrow> P (view w1)"
  shows "P (view w')"
proof -
  obtain u w1 where a: "run_state (acquire api n) w = (u, w1)" by (cases "run_state (acquire api n) w")
  obtain x w2 where b: "run_state body w1 = (x, w2)" by fastforce
  obtain v w3 where c: "run_state (release api n) w2 = (v, w3)" by (cases "run_state (release api n) w2")
  have "view w1 = view w" "view w3 = view w2" using quiet(7) [of n w] quiet(8) [of n w2] a c by simp_all
  moreover have "w' = w2 \<or> w' = w3" using run a b c by (cases x) (auto simp: with_lock_def)
  ultimately show ?thesis using body [OF b] pre by auto
qed

lemma onSubnetUpdate_status:
  assumes run: "run_state (onSubnetUpdate api s) w = (r, w')" and pre: "has_status (sn_Namespace s, sn_Name s) st gw (view w)"
    and eq: "IP_String gw = IP_String (sn_Gateway st)"
  shows "has_status (sn_Namespace s, sn_Name s) st gw (view w')"
proof -
  let ?k = "(sn_Namespace s, sn_Name s)"
  obtain l w1 where l: "run_state (subnetCache_List api (sn_Namespace s) (iface_set s)) w = (l, w1)" by fastforce
  have s1: "has_status ?k st gw (view w1)" using subnet_List [OF l] pre by simp
  obtain u w2 where u: "run_state (retry_subnet api DefaultRetry (relabel_closure api s)) w1 = (u, w2)" by fastforce
  have s2: "has_status ?k st gw (view w2)"
    using retry_subnet [OF u] s1 by (rule attempts_preserve) (rule relabel_status)
  have lock: "has_status ?k st gw (view w4)"
    if "u = Inr t" "run_state (IsIPAllocating api (sn_Name t)) w2 = (al, w3)"
      "run_state (with_lock api (sn_Name t) (self_check api t)) w3 = (o', w4)" for t al w3 o' w4
  proof (rule with_lock_preserve [OF that(3)])
    show "has_status ?k st gw (view w3)" using s2 quiet(9) [of "sn_Name t" w2] that(2) by simp
    have "sn_Namespace t = sn_Namespace s" "sn_Name t = sn_Name s"
      using attempts_last [OF retry_subnet [OF u]] relabel_key that(1) by blast+
    then show "has_status ?k st gw (view w6)"
      if "run_state (self_check api t) w5 = (x, w6)" "has_status ?k st gw (view w5)" for w5 x w6
      using self_check_status [OF that(1), of st gw] that(2) eq by simp
  qed
  have al: "view w3 = view w2" if "run_state (IsIPAllocating api n) w2 = (al, w3)" for n al w3
    using quiet(9) [of n w2] that by simp
  have enq: "view w6 = view w5" if "run_state (subnetEnqueueAfter api ns n d) w5 = (x, w6)" for ns n d w5 x w6
    using quiet(3) [of ns n d w5] that by simp
  show ?thesis
    using run l s1 u s2 lock
    by (auto simp: onSubnetUpdate_def split: sum.splits option.splits if_splits prod.splits dest!: enq dest: al)
qed

end

subsection \<open>The recount\<close>

text \<open>The addresses that the recount takes into account, in the order of the list.\<close>

fun live_addrs :: "FlatNetworkIP option list \<Rightarrow> net_IP list" where
  "live_addrs [] = []"
| "live_addrs (None # ips) = live_addrs ips"
| "live_addrs (Some ip # ips) =
     (if DeletionTimestamp (ip_meta ip) \<noteq> None \<or> Addr (ip_Status ip) = [] then live_addrs ips
      else Addr (ip_Status ip) # live_addrs ips)"

lemma count_used_eq:
  "count_used ips (n, used) = (n + int (length (live_addrs ips)), fold AddIPToRange (live_addrs ips) used)"
  by (induction ips arbitrary: n used rule: live_addrs.induct) auto

lemma filter_duplicated_distinct:
  assumes "filter_duplicated seen ips = []" and "list_all inner_addr (live_addrs ips)"
    and "\<forall>i. Some i \<in> set ips \<longrightarrow> ip_Name i \<noteq> []"
  shows "distinct (live_addrs ips) \<and> (\<forall>a \<in> set (live_addrs ips). mget seen (IP_String a) = [])"
  using assms
proof (induction seen ips rule: filter_duplicated.induct)
  case (3 seen ip ips)
  let ?a = "Addr (ip_Status ip)"
  show ?case
  proof (cases "DeletionTimestamp (ip_meta ip) \<noteq> None \<or> ?a = []")
    case True
    then have "To16 ?a = [] \<or> DeletionTimestamp (ip_meta ip) \<noteq> None" by (auto simp: To16_def)
    then show ?thesis using "3.IH"(1) "3.prems" True by simp
  next
    case False
    then have inner: "inner_addr ?a" using "3.prems"(2) by simp
    then have valid: "\<not> (To16 ?a = [] \<or> DeletionTimestamp (ip_meta ip) \<noteq> None)"
      using False by (auto simp: To16_def inner_addr_def)
    then have new: "mget seen (IP_String ?a) = []"
      and rest: "filter_duplicated (AList.update (IP_String ?a) (ip_Name ip) seen) ips = []"
      using "3.prems"(1) by (auto simp: Let_def split: if_splits)
    have "distinct (live_addrs ips) \<and>
        (\<forall>a \<in> set (live_addrs ips). mget (AList.update (IP_String ?a) (ip_Name ip) seen) (IP_String a) = [])"
      using "3.IH"(2) [OF valid refl new rest] "3.prems" False by simp
    moreover have "ip_Name ip \<noteq> []" using "3.prems"(3) by simp
    ultimately show ?thesis using False new by (auto split: if_splits)
  qed
qed auto

lemma recount_addrs:
  assumes "list_all inner_addr (live_addrs ips)" and "Gateway (sn_Spec s) = [] \<or> inner_addr (Gateway (sn_Spec s))"
  shows "canon (snd (recount s ips))"
    and "ranges_set (snd (recount s ips)) = bval ` (set (live_addrs ips) \<union> ({Gateway (sn_Spec s)} - {[]}))"
  using rng.fold_add [OF assms(1), of "[]"] assms(2) rng.wf_add rng.addrs_add
  by (auto simp: recount_def count_used_eq Let_def)

lemma card_bval: "list_all inner_addr as \<Longrightarrow> distinct as \<Longrightarrow> card (bval ` set as) = length as"
  by (subst card_image) (auto simp: inj_on_def list_all_iff inner_addr_def bval_inj distinct_card)

subsection \<open>Properties\<close>

text \<open>What the activation of a subnet does to its labels and to its used addresses.\<close>

lemma set_labels_map_of:
  "map_of (Labels (sn_meta (set_labels s))) = (map_of (Labels (sn_meta s)))(labelMaster \<mapsto> Master (sn_Spec s),
     labelVlan \<mapsto> show_int (VLAN (sn_Spec s)), labelMode \<mapsto> Mode (sn_Spec s), labelFlatMode \<mapsto> FlatMode (sn_Spec s))"
  by (simp add: set_labels_def Let_def AList.update_conv')

lemma activate_UsedIP:
  assumes "inner_addr (Gateway spec)" and "canon (UsedIP st)"
  shows "canon (UsedIP (activate spec st)) \<and> IPInRanges (Gateway spec) (UsedIP (activate spec st)) \<and>
    ranges_set (UsedIP (activate spec st)) = insert (bval (Gateway spec)) (ranges_set (UsedIP st))"
  using rng.wf_add [OF assms] rng.addrs_add [OF assms] rng.mem_iff [OF assms(1) rng.wf_add [OF assms]]
  by (simp add: activate_def)

text \<open>
  C8. A subnet becomes active only after every check: when \<open>onSubnetCreate\<close> returns without an error,
  the subnet is valid, lies in the namespace of the subnets and conflicts with none of the stored
  subnets that have the labels of its interface as far as the conflict check looks. The API server stores it
  with its CIDR in normal form and the rest of its specification as it was, with the four labels of its master, VLAN, mode and
  flat mode beside its other labels, with the phase Active, and with its gateway in the status and among the used addresses: a gateway
  that is given is added to the used addresses and nothing else is, without one they stay. The rest of the status stays.
\<close>

theorem onSubnetCreate_activates:
  assumes "kube_admin api view" and "run_state (onSubnetCreate api s) w = (Returns (s', None), w')"
  shows "ValidateSubnet s = None \<and> sn_Namespace s = SubnetNamespace \<and>
    (\<exists>peers. CheckSubnetFlatMode s peers = None \<and> CheckSubnetConflict s peers = None \<and>
       set peers = {Some p | p k. c_subnets (view w) k = Some p \<and> (sn_Namespace s = [] \<or> fst k = sn_Namespace s) \<and>
         has_labels (iface_set s) (sn_meta p)}) \<and>
    c_subnets (view w') (sn_Namespace s, sn_Name s) = Some s' \<and>
    (\<exists>old ip n. c_subnets (view w) (sn_Namespace s, sn_Name s) = Some old \<and>
       ParseCIDR (CIDR (sn_Spec old)) = Inr (ip, n) \<and> sn_Spec s' = (sn_Spec old)\<lparr>CIDR := IPNet_String n\<rparr> \<and>
       map_of (Labels (sn_meta s')) = (map_of (Labels (sn_meta old)))(''master'' \<mapsto> Master (sn_Spec old),
         ''vlan'' \<mapsto> show_int (VLAN (sn_Spec old)), ''mode'' \<mapsto> Mode (sn_Spec old), ''flatMode'' \<mapsto> FlatMode (sn_Spec old)) \<and>
       sn_Phase (sn_Status s') = ''Active'' \<and> sn_Gateway (sn_Status s') = Gateway (sn_Spec old) \<and>
       (Gateway (sn_Spec old) = [] \<longrightarrow> UsedIP (sn_Status s') = UsedIP (sn_Status old)) \<and>
       (inner_addr (Gateway (sn_Spec old)) \<and> canon (UsedIP (sn_Status old)) \<longrightarrow>
          canon (UsedIP (sn_Status s')) \<and> IPInRanges (Gateway (sn_Spec old)) (UsedIP (sn_Status s')) \<and>
          ranges_set (UsedIP (sn_Status s')) = insert (bval (Gateway (sn_Spec old))) (ranges_set (UsedIP (sn_Status old)))) \<and>
       (sn_Status s')\<lparr>sn_Phase := sn_Phase (sn_Status old), sn_Gateway := sn_Gateway (sn_Status old), UsedIP := UsedIP (sn_Status old)\<rparr> =
         sn_Status old)"
proof -
  note run = kube_admin.onSubnetCreate_success [OF assms]
  then obtain old ip n where old: "c_subnets (view w) (sn_Namespace s, sn_Name s) = Some old"
      "ParseCIDR (CIDR (sn_Spec old)) = Inr (ip, n)" "sn_Spec s' = (sn_Spec old)\<lparr>CIDR := IPNet_String n\<rparr>"
      "Labels (sn_meta s') = Labels (sn_meta (set_labels old))" and st: "sn_Status s' = activate (sn_Spec old) (sn_Status old)"
    by blast
  have "map_of (Labels (sn_meta s')) = (map_of (Labels (sn_meta old)))(''master'' \<mapsto> Master (sn_Spec old),
      ''vlan'' \<mapsto> show_int (VLAN (sn_Spec old)), ''mode'' \<mapsto> Mode (sn_Spec old), ''flatMode'' \<mapsto> FlatMode (sn_Spec old))"
    unfolding old(4) by (rule set_labels_map_of)
  moreover have "sn_Phase (sn_Status s') = ''Active''" "sn_Gateway (sn_Status s') = Gateway (sn_Spec old)"
    "Gateway (sn_Spec old) = [] \<longrightarrow> UsedIP (sn_Status s') = UsedIP (sn_Status old)"
    "(sn_Status s')\<lparr>sn_Phase := sn_Phase (sn_Status old), sn_Gateway := sn_Gateway (sn_Status old), UsedIP := UsedIP (sn_Status old)\<rparr> =
       sn_Status old"
    by (simp_all add: st activate_def AddIPToRange_def)
  moreover note activate_UsedIP [of "sn_Spec old" "sn_Status old", folded st]
  ultimately show ?thesis using run old(1-3) by blast
qed

definition new_subnet :: "string \<Rightarrow> FlatNetworkSubnet" where
  "new_subnet cidr = (example_subnet ''s'' cidr [])\<lparr>sn_Spec := (sn_Spec (example_subnet ''s'' cidr []))
     \<lparr>Mode := ''bridge'', Gateway := ParseIP ''10.1.0.1''\<rparr>\<rparr>"

definition subnet_world :: "FlatNetworkSubnet \<Rightarrow> FlatNetworkIP list \<Rightarrow> mem" where
  "subnet_world s ips = \<lparr>m_subnets = [s], m_ips = ips, m_pods = map (\<lambda>i. \<lparr>pod_meta = ip_meta i, pod_NodeName = ''n1''\<rparr>) ips,
     m_cache = [], m_version = 0, m_now = 7\<rparr>"

theorem onSubnetCreate_activates_witness:
  "\<exists>s'. run_state (onSubnetCreate mem_api (new_subnet ''10.1.2.3/16'')) (subnet_world (new_subnet ''10.1.2.3/16'') []) =
      (Returns (s', None), snd (run_state (onSubnetCreate mem_api (new_subnet ''10.1.2.3/16'')) (subnet_world (new_subnet ''10.1.2.3/16'') []))) \<and>
    sn_Phase (sn_Status s') = ''Active'' \<and> CIDR (sn_Spec s') = ''10.1.0.0/16'' \<and> map_of (Labels (sn_meta s')) ''mode'' = Some ''bridge'' \<and>
    IPInRanges (ParseIP ''10.1.0.1'') (UsedIP (sn_Status s')) \<and> ValidateSubnet (new_subnet ''10.1.2.3/16'') = None"
proof -
  define s where "s = new_subnet ''10.1.2.3/16''"
  define out where "out = run_state (onSubnetCreate mem_api s) (subnet_world s [])"
  have "case fst out of Returns (s', None) \<Rightarrow> CIDR (sn_Spec s') = ''10.1.0.0/16'' | _ \<Rightarrow> False"
    unfolding out_def s_def by code_simp
  then obtain s' where s': "run_state (onSubnetCreate mem_api s) (subnet_world s []) = (Returns (s', None), snd out)"
      "CIDR (sn_Spec s') = ''10.1.0.0/16''"
    by (cases "fst out") (auto simp: prod_eq_iff split: option.splits simp flip: out_def)
  have st: "c_subnets (mem_view (subnet_world s [])) (sn_Namespace s, sn_Name s) = Some s"
    by (simp add: mem_view_def subnet_world_def store_get_def)
  have s: "Gateway (sn_Spec s) = ParseIP ''10.1.0.1''" "UsedIP (sn_Status s) = []" "Mode (sn_Spec s) = ''bridge''"
    by (simp_all add: s_def new_subnet_def example_subnet_def)
  have "inner_addr (ParseIP ''10.1.0.1'')" by code_simp
  then show ?thesis
    using onSubnetCreate_activates [where api = mem_api and view = mem_view, OF memadm.kube_admin_axioms s'(1)] s' st s
    unfolding s_def [symmetric] out_def by auto
qed

text \<open>
  An invalid subnet is marked: when the change handler runs on a subnet that is not active and that
  \<open>ValidateSubnet\<close> refuses, and it returns without an error, then the API server stores the subnet with
  the phase Failed and the text of the refusal.
\<close>

theorem invalid_subnet_is_marked:
  assumes "kube_admin api view"
    and "run_state (subnet_handleError api (handleSubnet api) (Some s)) w = (Returns (Some t, None), w')"
    and "ValidateSubnet s = Some e" and "sn_Phase (sn_Status s) \<noteq> subnetActivePhase"
    and "sn_Name s \<noteq> []" and "DeletionTimestamp (sn_meta s) = None" and "err_text api e \<noteq> []"
  shows "\<exists>s'. c_subnets (view w') (sn_Namespace s, sn_Name s) = Some s' \<and>
    sn_Phase (sn_Status s') = subnetFailedPhase \<and> sn_FailureMessage (sn_Status s') = err_text api e"
  by (rule kube_admin.subnet_handleError_invalid [OF assms])

theorem invalid_subnet_is_marked_witness:
  "\<exists>s' w'. run_state (subnet_handleError mem_api (handleSubnet mem_api) (Some (new_subnet ''10.2.0.0/16'')))
      (subnet_world (new_subnet ''10.2.0.0/16'') []) = (Returns (Some (new_subnet ''10.2.0.0/16''), None), w') \<and>
    c_subnets (mem_view w') (SubnetNamespace, ''s'') = Some s' \<and> sn_Phase (sn_Status s') = subnetFailedPhase"
proof -
  define s where "s = new_subnet ''10.2.0.0/16''"
  define out where "out = run_state (subnet_handleError mem_api (handleSubnet mem_api) (Some s)) (subnet_world s [])"
  have "case fst out of Returns (Some s', None) \<Rightarrow> s' = s | _ \<Rightarrow> False" unfolding out_def s_def by code_simp
  then have "fst out = Returns (Some s, None)" by (auto split: outcome.splits option.splits)
  then have run: "run_state (subnet_handleError mem_api (handleSubnet mem_api) (Some s)) (subnet_world s []) =
      (Returns (Some s, None), snd out)"
    unfolding out_def by (metis prod.collapse)
  have "case ValidateSubnet s of Some e \<Rightarrow> True | None \<Rightarrow> False" unfolding s_def by code_simp
  then obtain e where e: "ValidateSubnet s = Some e" by (auto split: option.splits)
  have s: "sn_Phase (sn_Status s) \<noteq> subnetActivePhase" "sn_Name s \<noteq> []" "DeletionTimestamp (sn_meta s) = None"
    "sn_Namespace s = SubnetNamespace" "sn_Name s = ''s''"
    by (simp_all add: s_def new_subnet_def example_subnet_def)
  have "err_text mem_api e \<noteq> []" by (simp add: mem_api_def)
  from invalid_subnet_is_marked [where api = mem_api and view = mem_view, OF memadm.kube_admin_axioms run e s(1-3) this]
  show ?thesis using run s unfolding s_def [symmetric] by auto
qed

text \<open>
  C24. The recount of the used addresses is exact: the list it builds is canonical and holds the address
  of every resource that has one and is not being deleted, the gateway, and nothing else. When no two
  resources have the same address and none has the gateway's, the count is the number of addresses.
\<close>

theorem recount_exact:
  assumes "list_all inner_addr (live_addrs ips)" and "Gateway (sn_Spec s) = [] \<or> inner_addr (Gateway (sn_Spec s))"
  shows "canon (snd (recount s ips)) \<and>
    (\<forall>a. inner_addr a \<longrightarrow> IPInRanges a (snd (recount s ips)) = (a \<in> set (live_addrs ips) \<or> a = Gateway (sn_Spec s))) \<and>
    (filterDuplicatedIP ips = [] \<and> (\<forall>i. Some i \<in> set ips \<longrightarrow> ip_Name i \<noteq> []) \<and>
       Gateway (sn_Spec s) \<notin> set (live_addrs ips) \<longrightarrow>
     fst (recount s ips) = int (card (ranges_set (snd (recount s ips)))))"
proof (intro conjI allI impI)
  let ?gw = "Gateway (sn_Spec s)" and ?as = "live_addrs ips"
  note set = recount_addrs [OF assms]
  show "canon (snd (recount s ips))" by (rule set(1))
  show "IPInRanges a (snd (recount s ips)) = (a \<in> set ?as \<or> a = ?gw)" if a: "inner_addr a" for a
    using rng.mem_iff [OF a set(1)] assms a
    by (auto simp: set(2) list_all_iff inner_addr_def bval_inj)
  assume ok: "filterDuplicatedIP ips = [] \<and> (\<forall>i. Some i \<in> set ips \<longrightarrow> ip_Name i \<noteq> []) \<and> ?gw \<notin> set ?as"
  then have "filter_duplicated [] ips = []" by (simp add: filterDuplicatedIP_def split: if_splits)
  then have dist: "distinct ?as" using filter_duplicated_distinct [of "[]" ips] assms(1) ok by simp
  define as where "as = (if ?gw = [] then ?as else ?gw # ?as)"
  have as: "list_all inner_addr as" "distinct as" "set as = set ?as \<union> ({?gw} - {[]})"
    using assms dist ok by (auto simp: as_def list_all_iff inner_addr_def)
  have "fst (recount s ips) = int (length as)" by (auto simp: recount_def count_used_eq as_def)
  then show "fst (recount s ips) = int (card (ranges_set (snd (recount s ips))))"
    using card_bval [OF as(1,2)] by (simp add: set(2) as(3))
qed

theorem recount_exact_witness:
  "let ips = [Some (example_ip ''a'' (ParseIP ''10.1.0.2'') ''Active''), Some (example_ip ''b'' (ParseIP ''10.1.0.4'') ''Active'')];
       r = recount (new_subnet ''10.1.0.0/16'') ips
   in canon (snd r) \<and> IPInRanges (ParseIP ''10.1.0.4'') (snd r) \<and> fst r = int (card (ranges_set (snd r)))"
proof -
  define ips where "ips = [Some (example_ip ''a'' (ParseIP ''10.1.0.2'') ''Active''), Some (example_ip ''b'' (ParseIP ''10.1.0.4'') ''Active'')]"
  have live: "list_all inner_addr (live_addrs ips)" unfolding ips_def by code_simp
  have gw: "Gateway (sn_Spec (new_subnet ''10.1.0.0/16'')) = [] \<or> inner_addr (Gateway (sn_Spec (new_subnet ''10.1.0.0/16'')))"
    by code_simp
  have "filterDuplicatedIP ips = []" "inner_addr (ParseIP ''10.1.0.4'')"
    "Gateway (sn_Spec (new_subnet ''10.1.0.0/16'')) \<notin> set (live_addrs ips)" "ParseIP ''10.1.0.4'' \<in> set (live_addrs ips)"
    unfolding ips_def by code_simp+
  moreover have "\<forall>i. Some i \<in> set ips \<longrightarrow> ip_Name i \<noteq> []" by (auto simp: ips_def example_ip_def example_meta_def)
  ultimately show ?thesis
    using recount_exact [OF live gw] unfolding ips_def [symmetric] Let_def by blast
qed

text \<open>
  The self-check never repairs the used addresses of a subnet whose gateway is unchanged: when the
  gateway of the specification prints like the one of the status, the update handler leaves the
  stored status as it is, whatever the resources of the subnet use.
\<close>

theorem onSubnetUpdate_no_repair:
  assumes "kube_admin api view" and "run_state (onSubnetUpdate api s) w = (r, w')"
    and "c_subnets (view w) (sn_Namespace s, sn_Name s) = Some t"
    and "IP_String (Gateway (sn_Spec t)) = IP_String (sn_Gateway (sn_Status t))"
  shows "\<exists>t'. c_subnets (view w') (sn_Namespace s, sn_Name s) = Some t' \<and> sn_Status t' = sn_Status t"
  using kube_admin.onSubnetUpdate_status [OF assms(1,2), of "sn_Status t" "Gateway (sn_Spec t)"] assms(3,4)
  by (auto simp: has_status_def)

definition labelled_ip :: "string \<Rightarrow> net_IP \<Rightarrow> FlatNetworkIP" where
  "labelled_ip name a = (example_ip name a ''Active'')\<lparr>ip_meta := (example_meta ''default'' name)\<lparr>Labels := [(''subnet'', ''s'')]\<rparr>\<rparr>"

definition bridge_subnet :: FlatNetworkSubnet where
  "bridge_subnet = (active_subnet [])\<lparr>sn_Spec := (sn_Spec (active_subnet []))\<lparr>Mode := ''bridge''\<rparr>\<rparr>"

theorem onSubnetUpdate_no_repair_witness:
  "\<exists>t. c_subnets (mem_view (snd (run_state (onSubnetUpdate mem_api bridge_subnet)
       (subnet_world bridge_subnet [labelled_ip ''a'' (ParseIP ''10.1.0.2'')])))) (SubnetNamespace, ''s'') = Some t \<and>
     UsedIP (sn_Status t) = [] \<and>
     recount bridge_subnet [Some (labelled_ip ''a'' (ParseIP ''10.1.0.2''))] = (1, [example_range ''10.1.0.2'' ''10.1.0.2''])"
proof -
  define w where "w = subnet_world bridge_subnet [labelled_ip ''a'' (ParseIP ''10.1.0.2'')]"
  have key: "sn_Namespace bridge_subnet = SubnetNamespace" "sn_Name bridge_subnet = ''s''"
    by (simp_all add: bridge_subnet_def active_subnet_def example_subnet_def)
  have st: "c_subnets (mem_view w) (sn_Namespace bridge_subnet, sn_Name bridge_subnet) = Some bridge_subnet"
    by (simp add: w_def mem_view_def subnet_world_def store_get_def)
  have gw: "IP_String (Gateway (sn_Spec bridge_subnet)) = IP_String (sn_Gateway (sn_Status bridge_subnet))" by code_simp
  obtain r w' where run: "run_state (onSubnetUpdate mem_api bridge_subnet) w = (r, w')" by fastforce
  have rc: "recount bridge_subnet [Some (labelled_ip ''a'' (ParseIP ''10.1.0.2''))] = (1, [example_range ''10.1.0.2'' ''10.1.0.2''])"
    by code_simp
  show ?thesis
    using onSubnetUpdate_no_repair [where api = mem_api and view = mem_view, OF memadm.kube_admin_axioms run st gw] run rc key
    unfolding w_def [symmetric] by (auto simp: bridge_subnet_def active_subnet_def)
qed

text \<open>
  The clean-up of duplicated addresses deletes the pods of all resources of the subnet, not only
  the ones that \<open>filterDuplicatedIP\<close> found: the pods \<open>a\<close> and \<open>b\<close> share an address, and the pod \<open>c\<close>, which
  has an address of its own, is deleted with them.
\<close>

theorem cleanup_deletes_every_pod:
  "let ips = [labelled_ip ''a'' (ParseIP ''10.1.0.2''), labelled_ip ''b'' (ParseIP ''10.1.0.2''), labelled_ip ''c'' (ParseIP ''10.1.0.3'')];
       w = snd (run_state (onSubnetUpdate mem_api bridge_subnet) (subnet_world bridge_subnet ips))
   in map ip_Name (filterDuplicatedIP (map Some ips)) = [''b''] \<and> m_pods w = []"
  unfolding Let_def by (intro conjI) code_simp+

end
