(* ===== verification/AllocLock.thy ===== *)
theory AllocLock
  imports Prelude
begin

text \<open>
  The allocation lock of \<open>pkg/controller/wrangler/utils.go\<close>: a mutex and a flag for each subnet in a
  shared map, behind one global mutex. Any number of goroutines interleave statement by statement. A
  goroutine calls \<open>IPAllocateLock\<close>, works in the critical section and calls the returned function; its
  program counter names the statement it is about to run. \<open>sync.Mutex\<close> is its owner, if it has one.
  The mutex of \<open>IsIPAllocating\<close> only orders its readers, so that the read is one step.
\<close>

subsection \<open>State\<close>

type_synonym goroutine = nat

record ipAllocatingMutex =
  m_owner :: "goroutine option"
  isLocked :: bool

datatype pc =
    Idle
  | AtGlobalLock string
  | AtLoadOrStore string
  | AtSetFlag string
  | AtMutexLock string
  | AtGlobalUnlock string
  | Critical string
  | AtClearFlag string

record lock_state =
  ipAllocateLockMutex :: "goroutine option"
  ipAllocateMap :: "string \<Rightarrow> ipAllocatingMutex option"
  counter :: "goroutine \<Rightarrow> pc"

definition lock_init :: lock_state where
  "lock_init = \<lparr>ipAllocateLockMutex = None, ipAllocateMap = Map.empty, counter = (\<lambda>t. Idle)\<rparr>"

subsection \<open>Statements\<close>

text \<open>The fields of the mutex that the map has for a subnet.\<close>

definition set_mutex :: "string \<Rightarrow> (ipAllocatingMutex \<Rightarrow> ipAllocatingMutex) \<Rightarrow> lock_state \<Rightarrow> lock_state" where
  "set_mutex s f st = st\<lparr>ipAllocateMap := (ipAllocateMap st)(s := map_option f (ipAllocateMap st s))\<rparr>"

definition goto :: "goroutine \<Rightarrow> pc \<Rightarrow> lock_state \<Rightarrow> lock_state" where
  "goto t p st = st\<lparr>counter := (counter st)(t := p)\<rparr>"

text \<open>\<open>sync.Map.LoadOrStore\<close> with a new mutex.\<close>

definition load_or_store :: "string \<Rightarrow> lock_state \<Rightarrow> lock_state" where
  "load_or_store s st =
     (case ipAllocateMap st s of
        None \<Rightarrow> st\<lparr>ipAllocateMap := (ipAllocateMap st)(s \<mapsto> \<lparr>m_owner = None, isLocked = False\<rparr>)\<rparr>
      | Some _ \<Rightarrow> st)"

text \<open>The next statement of a goroutine inside the lock functions; \<open>None\<close> when it is idle or blocked.\<close>

definition advance :: "goroutine \<Rightarrow> lock_state \<Rightarrow> lock_state option" where
  "advance t st =
     (case counter st t of
        Idle \<Rightarrow> None
      | AtGlobalLock s \<Rightarrow>
          if ipAllocateLockMutex st = None
          then Some (goto t (AtLoadOrStore s) (st\<lparr>ipAllocateLockMutex := Some t\<rparr>)) else None
      | AtLoadOrStore s \<Rightarrow> Some (goto t (AtSetFlag s) (load_or_store s st))
      | AtSetFlag s \<Rightarrow> Some (goto t (AtMutexLock s) (set_mutex s (\<lambda>m. m\<lparr>isLocked := True\<rparr>) st))
      | AtMutexLock s \<Rightarrow>
          (case ipAllocateMap st s of
             Some m \<Rightarrow>
               if m_owner m = None
               then Some (goto t (AtGlobalUnlock s) (set_mutex s (\<lambda>m. m\<lparr>m_owner := Some t\<rparr>) st)) else None
           | None \<Rightarrow> None)
      | AtGlobalUnlock s \<Rightarrow> Some (goto t (Critical s) (st\<lparr>ipAllocateLockMutex := None\<rparr>))
      | Critical s \<Rightarrow> Some (goto t (AtClearFlag s) (set_mutex s (\<lambda>m. m\<lparr>m_owner := None\<rparr>) st))
      | AtClearFlag s \<Rightarrow> Some (goto t Idle (set_mutex s (\<lambda>m. m\<lparr>isLocked := False\<rparr>) st)))"

definition IPAllocateLock :: "goroutine \<Rightarrow> string \<Rightarrow> lock_state \<Rightarrow> lock_state option" where
  "IPAllocateLock t s st = (if counter st t = Idle then Some (goto t (AtGlobalLock s) st) else None)"

definition subnet_allocating :: "string \<Rightarrow> lock_state \<Rightarrow> bool" where
  "subnet_allocating s st = (case ipAllocateMap st s of None \<Rightarrow> False | Some m \<Rightarrow> isLocked m)"

inductive lock_step :: "lock_state \<Rightarrow> lock_state \<Rightarrow> bool" where
  call: "IPAllocateLock t s st = Some st' \<Longrightarrow> lock_step st st'"
| advance: "advance t st = Some st' \<Longrightarrow> lock_step st st'"

abbreviation lock_reachable :: "lock_state \<Rightarrow> bool" where
  "lock_reachable st \<equiv> lock_step\<^sup>*\<^sup>* lock_init st"

text \<open>A schedule: each entry starts a call, or lets a goroutine go on.\<close>

fun run_schedule :: "(goroutine \<times> string option) list \<Rightarrow> lock_state \<Rightarrow> lock_state option" where
  "run_schedule [] st = Some st"
| "run_schedule ((t, s) # es) st =
     (case (case s of Some s \<Rightarrow> IPAllocateLock t s st | None \<Rightarrow> advance t st) of
        None \<Rightarrow> None
      | Some st' \<Rightarrow> run_schedule es st')"

subsection \<open>Invariant\<close>

fun holds_mutex :: "pc \<Rightarrow> string \<Rightarrow> bool" where
  "holds_mutex (AtGlobalUnlock s) s' = (s = s')"
| "holds_mutex (Critical s) s' = (s = s')"
| "holds_mutex _ s' = False"

fun holds_global :: "pc \<Rightarrow> bool" where
  "holds_global (AtLoadOrStore s) = True"
| "holds_global (AtSetFlag s) = True"
| "holds_global (AtMutexLock s) = True"
| "holds_global (AtGlobalUnlock s) = True"
| "holds_global _ = False"

fun knows_mutex :: "pc \<Rightarrow> string option" where
  "knows_mutex (AtSetFlag s) = Some s"
| "knows_mutex (AtMutexLock s) = Some s"
| "knows_mutex (AtGlobalUnlock s) = Some s"
| "knows_mutex (Critical s) = Some s"
| "knows_mutex (AtClearFlag s) = Some s"
| "knows_mutex _ = None"

definition owner :: "lock_state \<Rightarrow> string \<Rightarrow> goroutine option" where
  "owner st s = (case ipAllocateMap st s of None \<Rightarrow> None | Some m \<Rightarrow> m_owner m)"

definition lock_inv :: "lock_state \<Rightarrow> bool" where
  "lock_inv st \<longleftrightarrow>
     (\<forall>t. holds_global (counter st t) \<longleftrightarrow> ipAllocateLockMutex st = Some t) \<and>
     (\<forall>t s. holds_mutex (counter st t) s \<longleftrightarrow> owner st s = Some t) \<and>
     (\<forall>t s. knows_mutex (counter st t) = Some s \<longrightarrow> ipAllocateMap st s \<noteq> None)"

lemma lock_invD:
  assumes "lock_inv st"
  shows "holds_global (counter st t) \<longleftrightarrow> ipAllocateLockMutex st = Some t"
    and "holds_mutex (counter st t) s \<longleftrightarrow> owner st s = Some t"
    and "knows_mutex (counter st t) = Some s \<Longrightarrow> ipAllocateMap st s \<noteq> None"
  using assms by (simp_all add: lock_inv_def)

lemma lock_inv_init: "lock_inv lock_init"
  by (simp add: lock_inv_def lock_init_def owner_def)

lemmas statement_defs = goto_def set_mutex_def load_or_store_def owner_def

text \<open>A statement that changes neither an owner nor the global mutex.\<close>

lemma lock_inv_move:
  assumes inv: "lock_inv st" and "counter st' = (counter st)(t := p)"
    and "ipAllocateLockMutex st' = ipAllocateLockMutex st" and "owner st' = owner st"
    and "\<And>s. ipAllocateMap st s \<noteq> None \<Longrightarrow> ipAllocateMap st' s \<noteq> None"
    and "holds_global p = holds_global (counter st t)" and "holds_mutex p = holds_mutex (counter st t)"
    and "\<And>s. knows_mutex p = Some s \<Longrightarrow> ipAllocateMap st' s \<noteq> None"
  shows "lock_inv st'"
  unfolding lock_inv_def assms(2-4) using lock_invD [OF inv] assms(5-) by simp

text \<open>Releasing the mutex of a subnet.\<close>

lemma unlock_inv:
  assumes inv: "lock_inv st" and Critical: "counter st t = Critical s"
    and st': "st' = goto t (AtClearFlag s) (set_mutex s (\<lambda>m. m\<lparr>m_owner := None\<rparr>) st)"
  shows "lock_inv st'"
proof -
  have own: "owner st' s' = (if s' = s then None else owner st s')" for s'
    by (simp add: st' goto_def set_mutex_def owner_def split: option.splits)
  have mine: "owner st s' = Some t \<longleftrightarrow> s = s'" for s' using lock_invD(2) [OF inv, of t s'] Critical by simp
  have glob: "ipAllocateLockMutex st \<noteq> Some t" using lock_invD(1) [OF inv, of t] Critical by simp
  have cnt: "counter st' t' = (if t' = t then AtClearFlag s else counter st t')"
    "ipAllocateLockMutex st' = ipAllocateLockMutex st"
    "ipAllocateMap st' s' \<noteq> None \<longleftrightarrow> ipAllocateMap st s' \<noteq> None" for t' s'
    by (simp_all add: st' goto_def set_mutex_def)
  have other: "holds_mutex (counter st t') s' \<longleftrightarrow> s' \<noteq> s \<and> owner st s' = Some t'" if "t' \<noteq> t" for t' s'
    using lock_invD(2) [OF inv, of t' s'] mine [of s] that by auto
  show ?thesis
    unfolding lock_inv_def own cnt
    using lock_invD(1,3) [OF inv] lock_invD(3) [OF inv, of t s] Critical mine glob other by auto
qed

lemma advance_inv:
  assumes inv: "lock_inv st" and step: "advance t st = Some st'"
  shows "lock_inv st'"
proof (cases "counter st t")
  case (AtGlobalLock s)
  then have "ipAllocateLockMutex st = None" "st' = goto t (AtLoadOrStore s) (st\<lparr>ipAllocateLockMutex := Some t\<rparr>)"
    using step by (auto simp: advance_def split: if_splits)
  then show ?thesis
    using lock_invD [OF inv] lock_invD(1,2) [OF inv, of t] AtGlobalLock
    by (auto simp: lock_inv_def statement_defs)
next
  case (AtMutexLock s)
  then obtain m where m: "ipAllocateMap st s = Some m" "m_owner m = None"
      "st' = goto t (AtGlobalUnlock s) (set_mutex s (\<lambda>m. m\<lparr>m_owner := Some t\<rparr>) st)"
    using step by (auto simp: advance_def split: if_splits option.splits)
  then have "owner st s = None" by (simp add: owner_def)
  then show ?thesis
    using lock_invD [OF inv] lock_invD(1,2) [OF inv, of t] AtMutexLock m
    by (auto simp: lock_inv_def statement_defs)
next
  case (Critical s)
  then have "st' = goto t (AtClearFlag s) (set_mutex s (\<lambda>m. m\<lparr>m_owner := None\<rparr>) st)"
    using step by (simp add: advance_def)
  then show ?thesis by (rule unlock_inv [OF inv Critical])
next
  case (AtGlobalUnlock s)
  then have "st' = goto t (Critical s) (st\<lparr>ipAllocateLockMutex := None\<rparr>)" "ipAllocateLockMutex st = Some t"
    using step lock_invD(1) [OF inv, of t] by (simp_all add: advance_def)
  then show ?thesis
    using lock_invD [OF inv] lock_invD(1,2) [OF inv, of t] AtGlobalUnlock
    by (auto simp: lock_inv_def statement_defs split: option.splits)
next
  case (AtLoadOrStore s)
  then have "st' = goto t (AtSetFlag s) (load_or_store s st)" using step by (simp add: advance_def)
  then show ?thesis
    using AtLoadOrStore
    by (intro lock_inv_move [OF inv, of st' t "AtSetFlag s"]) (auto simp: statement_defs fun_eq_iff split: option.splits)
next
  case (AtSetFlag s)
  then have "st' = goto t (AtMutexLock s) (set_mutex s (\<lambda>m. m\<lparr>isLocked := True\<rparr>) st)"
    using step by (simp add: advance_def)
  then show ?thesis
    using AtSetFlag lock_invD(3) [OF inv, of t]
    by (intro lock_inv_move [OF inv, of st' t "AtMutexLock s"]) (auto simp: statement_defs fun_eq_iff split: option.splits)
next
  case (AtClearFlag s)
  then have "st' = goto t Idle (set_mutex s (\<lambda>m. m\<lparr>isLocked := False\<rparr>) st)"
    using step by (simp add: advance_def)
  then show ?thesis
    using AtClearFlag
    by (intro lock_inv_move [OF inv, of st' t Idle]) (auto simp: statement_defs fun_eq_iff split: option.splits)
qed (use step in \<open>simp add: advance_def\<close>)

lemma call_inv:
  assumes inv: "lock_inv st" and step: "IPAllocateLock t s st = Some st'"
  shows "lock_inv st'"
proof -
  have st': "counter st t = Idle" "st' = goto t (AtGlobalLock s) st"
    using step by (auto simp: IPAllocateLock_def split: if_splits)
  then have "ipAllocateLockMutex st \<noteq> Some t" "owner st s' \<noteq> Some t" for s'
    using lock_invD(1,2) [OF inv, of t] by simp_all
  then show ?thesis using lock_invD [OF inv] by (auto simp: lock_inv_def goto_def owner_def st')
qed

lemma lock_reachable_inv: "lock_reachable st \<Longrightarrow> lock_inv st"
  by (induction rule: rtranclp_induct)
    (auto simp: lock_inv_init elim!: lock_step.cases intro: advance_inv call_inv)

lemma run_schedule_reachable:
  "run_schedule es st = Some st' \<Longrightarrow> lock_step\<^sup>*\<^sup>* st st'"
proof (induction es arbitrary: st)
  case (Cons e es)
  obtain t s where e: "e = (t, s)" by fastforce
  obtain st1 where st1: "(case s of Some s \<Rightarrow> IPAllocateLock t s st | None \<Rightarrow> advance t st) = Some st1"
      "run_schedule es st1 = Some st'"
    using Cons.prems e by (auto split: option.splits)
  then have "lock_step st st1" by (auto intro: lock_step.intros split: option.splits)
  then show ?case using Cons.IH [OF st1(2)] by (rule converse_rtranclp_into_rtranclp)
qed simp

subsection \<open>Properties\<close>

text \<open>
  C7. Mutual exclusion: in every reachable state of every interleaving at most one goroutine is in
  the critical section of a subnet, and it owns the mutex of the subnet.
\<close>

theorem lock_mutual_exclusion:
  assumes "lock_reachable st" and "counter st t = Critical s" and "counter st t' = Critical s"
  shows "t = t' \<and> owner st s = Some t"
  using lock_invD(2) [OF lock_reachable_inv [OF assms(1)], of t s]
    lock_invD(2) [OF lock_reachable_inv [OF assms(1)], of t' s] assms(2,3) by simp

text \<open>Two goroutines that work on the same subnet, the second one behind the first.\<close>

definition handover :: "(goroutine \<times> string option) list" where
  "handover = [(1, Some ''a''), (1, None), (1, None), (1, None), (1, None), (1, None),
     (2, Some ''a''), (2, None), (2, None), (2, None)]"

theorem lock_mutual_exclusion_witness:
  "\<exists>st. run_schedule (handover @ [(1, None), (2, None), (2, None)]) lock_init = Some st \<and>
     counter st 2 = Critical ''a'' \<and> counter st 1 \<noteq> Critical ''a''"
proof -
  have "case run_schedule (handover @ [(1, None), (2, None), (2, None)]) lock_init of
      None \<Rightarrow> False | Some st \<Rightarrow> counter st 2 = Critical ''a''" by code_simp
  then obtain st where st: "run_schedule (handover @ [(1, None), (2, None), (2, None)]) lock_init = Some st"
      "counter st 2 = Critical ''a''" by (auto split: option.splits)
  have "counter st 1 \<noteq> Critical ''a''"
    using lock_mutual_exclusion [OF run_schedule_reachable [OF st(1)] st(2), of 1] by auto
  then show ?thesis using st by blast
qed

text \<open>
  C22. The lock does not deadlock: in every reachable state in which some goroutine is inside the lock
  functions, one of them can go on. The chain of waiting is short: a goroutine before the global mutex
  waits for the one that has it, which waits at most for one that is in the critical section.
\<close>

theorem lock_progress:
  assumes "lock_reachable st" and "counter st t \<noteq> Idle"
  shows "\<exists>t' st'. counter st t' \<noteq> Idle \<and> advance t' st = Some st'"
proof -
  have inv: "lock_inv st" by (rule lock_reachable_inv [OF assms(1)])
  have mutex: "\<exists>t' st'. counter st t' \<noteq> Idle \<and> advance t' st = Some st'" if "counter st u = AtMutexLock s" for u s
  proof (cases "owner st s")
    case None
    then have "\<exists>st'. advance u st = Some st'"
      using that lock_invD(3) [OF inv, of u s] by (auto simp: advance_def owner_def split: option.splits)
    then show ?thesis using that by (metis pc.distinct(7))
  next
    case (Some u')
    then have "holds_mutex (counter st u') s" using lock_invD(2) [OF inv] by simp
    then show ?thesis by (cases "counter st u'") (auto simp: advance_def intro!: exI [of _ u'])
  qed
  have global: "\<exists>t' st'. counter st t' \<noteq> Idle \<and> advance t' st = Some st'" if "counter st t = AtGlobalLock s" for s
  proof (cases "ipAllocateLockMutex st")
    case None
    then show ?thesis using that by (auto simp: advance_def intro!: exI [of _ t])
  next
    case (Some u)
    then have "holds_global (counter st u)" using lock_invD(1) [OF inv] by simp
    then show ?thesis using mutex [of u] by (cases "counter st u") (auto simp: advance_def intro!: exI [of _ u])
  qed
  show ?thesis
    using assms(2) mutex [of t] global
    by (cases "counter st t") (auto simp: advance_def intro!: exI [of _ t])
qed

theorem lock_progress_witness:
  "\<exists>st. run_schedule handover lock_init = Some st \<and> advance 2 st = None \<and>
     (\<exists>t' st'. counter st t' \<noteq> Idle \<and> advance t' st = Some st')"
proof -
  have "case run_schedule handover lock_init of None \<Rightarrow> False
      | Some st \<Rightarrow> counter st 2 \<noteq> Idle \<and> (case advance 2 st of None \<Rightarrow> True | Some _ \<Rightarrow> False)" by code_simp
  then obtain st where st: "run_schedule handover lock_init = Some st" "counter st 2 \<noteq> Idle" "advance 2 st = None"
    by (auto split: option.splits)
  then show ?thesis using lock_progress [OF run_schedule_reachable [OF st(1)] st(2)] by blast
qed

text \<open>
  The flag that \<open>IsIPAllocating\<close> reads is not reliable: the first goroutine unlocks the mutex, the
  second one takes it, and then the first one clears the flag; the second goroutine is in the critical
  section and the subnet counts as not allocating.
\<close>

theorem isLocked_cleared_while_held:
  "\<exists>st. run_schedule (handover @ [(1, None), (2, None), (2, None), (1, None)]) lock_init = Some st \<and>
     lock_reachable st \<and> counter st 2 = Critical ''a'' \<and> \<not> subnet_allocating ''a'' st"
proof -
  have "case run_schedule (handover @ [(1, None), (2, None), (2, None), (1, None)]) lock_init of
      None \<Rightarrow> False | Some st \<Rightarrow> counter st 2 = Critical ''a'' \<and> \<not> subnet_allocating ''a'' st" by code_simp
  then show ?thesis using run_schedule_reachable by (auto split: option.splits)
qed

text \<open>
  A goroutine that waits for the mutex of one subnet keeps the global mutex, so that a third one
  cannot lock another subnet that nobody uses until the first subnet is free.
\<close>

theorem waiting_blocks_other_subnets:
  "\<exists>st. run_schedule (handover @ [(3, Some ''b'')]) lock_init = Some st \<and> owner st ''b'' = None \<and>
     counter st 3 = AtGlobalLock ''b'' \<and> advance 3 st = None \<and> advance 2 st = None"
proof -
  have "case run_schedule (handover @ [(3, Some ''b'')]) lock_init of None \<Rightarrow> False
      | Some st \<Rightarrow> owner st ''b'' = None \<and> counter st 3 = AtGlobalLock ''b'' \<and>
          (case advance 3 st of None \<Rightarrow> True | Some _ \<Rightarrow> False) \<and> (case advance 2 st of None \<Rightarrow> True | Some _ \<Rightarrow> False)"
    by code_simp
  then show ?thesis by (auto split: option.splits)
qed

end
