(* ===== verification/PodController.thy ===== *)
theory PodController
  imports MemCluster
begin

text \<open>
  The controller of the pods: \<open>pkg/controller/pod\<close>, and \<open>IsPodEnabledFlatNetwork\<close> of \<open>pkg/utils\<close>. It
  keeps one \<open>FlatNetworkIP\<close> resource for each pod that asks for a flat network and labels the pod
  with the address it got. A nil pointer is \<open>None\<close>. \<open>equality.Semantic.DeepEqual\<close> does not tell nil from
  empty, like the lists and maps here.
\<close>

definition IsPodEnabledFlatNetwork :: "Pod option \<Rightarrow> bool" where
  "IsPodEnabledFlatNetwork pod0 =
     (case pod0 of
        None \<Rightarrow> False
      | Some pod \<Rightarrow>
          if Annotations (pod_meta pod) = [] then False
          else if mget (Annotations (pod_meta pod)) AnnotationIP = [] \<or>
                  mget (Annotations (pod_meta pod)) AnnotationSubnet = [] then False
          else True)"

subsection \<open>The expected resource: utils.go\<close>

definition empty_meta :: ObjectMeta where
  "empty_meta = \<lparr>Name = [], Namespace = [], UID = [], ResourceVersion = [], Labels = [], Annotations = [],
     OwnerReferences = [], CreationTimestamp = 0, DeletionTimestamp = None\<rparr>"

text \<open>The addresses of the annotation, with the type of the allocation.\<close>

definition annotated_addrs :: "string \<Rightarrow> error + net_IP list \<times> string" where
  "annotated_addrs annotationIP =
     (if annotationIP = AllocateModeAuto then Inr ([], annotationIP)
      else case CheckPodAnnotationIPs annotationIP of
        Inl e \<Rightarrow> Inl (Wrapf ''newFlatNetworkIP: invalid annotation [%v: %v]: %w'' [AnnotationIP, annotationIP] e)
      | Inr ipAddrs \<Rightarrow> Inr (ipAddrs, AllocateModeSpecific))"

definition newFlatNetworkIP :: "'w api \<Rightarrow> Pod \<Rightarrow> ('w, error + FlatNetworkIP) state" where
  "newFlatNetworkIP api pod =
     (let annotationIP = mget (Annotations (pod_meta pod)) AnnotationIP;
          annotationMAC = mget (Annotations (pod_meta pod)) AnnotationMac;
          annotationSubnet = mget (Annotations (pod_meta pod)) AnnotationSubnet in
      case annotated_addrs annotationIP of
        Inl e \<Rightarrow> ret (Inl e)
      | Inr (ipAddrs, flatNetworkIPType) \<Rightarrow>
          (case CheckPodAnnotationMACs annotationMAC of
             Inl e \<Rightarrow> ret (Inl (Wrapf ''newFlatNetworkIP: invalid annotation [%v: %v]: %w''
                            [AnnotationMac, annotationMAC] e))
           | Inr macAddrs \<Rightarrow>
               do {
                 r \<leftarrow> subnetCache_Get api SubnetNamespace annotationSubnet;
                 case r of
                   Inl e \<Rightarrow> ret (Inl (Wrapf ''newFlatNetworkIP: failed to get subnet [%v]: %w'' [annotationSubnet] e))
                 | Inr subnet \<Rightarrow>
                     ret (Inr \<lparr>
                       ip_meta = empty_meta\<lparr>Name := Name (pod_meta pod), Namespace := Namespace (pod_meta pod),
                         Annotations := (if mget (Annotations (sn_meta subnet)) AnnotationsIPv6to4 \<noteq> []
                                         then [(AnnotationsIPv6to4, ''true'')] else []),
                         Labels := [(''subnet'', sn_Name subnet), (LabelFlatNetworkIPType, flatNetworkIPType)],
                         OwnerReferences := [\<lparr>ref_APIVersion = ''v1'', ref_Kind = ''Pod'', ref_Name = Name (pod_meta pod),
                           ref_UID = UID (pod_meta pod), ref_Controller = Some True\<rparr>]\<rparr>,
                       ip_Spec = \<lparr>Subnet = sn_Name subnet, Addrs = ipAddrs, MACs = macAddrs, PodID = UID (pod_meta pod)\<rparr>,
                       ip_Status = no_status\<rparr>)
               }))"

definition flatNetworkIPUpdated :: "FlatNetworkIP option \<Rightarrow> FlatNetworkIP option \<Rightarrow> bool" where
  "flatNetworkIPUpdated a0 b0 =
     (case (a0, b0) of
        (Some a, Some b) \<Rightarrow>
          if ip_Name a \<noteq> ip_Name b \<or> ip_Namespace a \<noteq> ip_Namespace b then False
          else if OwnerReferences (ip_meta a) \<noteq> OwnerReferences (ip_meta b) then False
          else if \<not> meq (Labels (ip_meta a)) (Labels (ip_meta b)) then False
          else if \<not> meq (Annotations (ip_meta a)) (Annotations (ip_meta b)) then False
          else if ip_Spec a \<noteq> ip_Spec b then False
          else True
      | _ \<Rightarrow> False)"

definition pod_eventFlatNetworkIPError :: "'w api \<Rightarrow> Pod \<Rightarrow> error \<Rightarrow> ('w, unit) state" where
  "pod_eventFlatNetworkIPError api pod e =
     recorder_Event api pod ''Warning'' ''FlatNetworkIPError'' (err_text api e)"

subsection \<open>Owners: workload.go\<close>

definition getAppsV1Object :: "'w api \<Rightarrow> string \<Rightarrow> string \<Rightarrow> string \<Rightarrow> ('w, error + ObjectMeta) state" where
  "getAppsV1Object api kind namespace name =
     (let k = strings_ToLower kind in
      if k = ''daemonset'' then workloadCache_Get api DaemonSet namespace name
      else if k = ''deployment'' then workloadCache_Get api Deployment namespace name
      else if k = ''replicaset'' then workloadCache_Get api ReplicaSet namespace name
      else if k = ''statefulset'' then workloadCache_Get api StatefulSet namespace name
      else ret (Inl (Errorf ''getAppName: unrecognized kind: %v'' [kind])))"

text \<open>Both branches of the loop return, so that only the first owner counts.\<close>

definition findOwnerWorkload :: "'w api \<Rightarrow> Pod \<Rightarrow> ('w, error + string \<times> string \<times> string) state" where
  "findOwnerWorkload api pod =
     (case OwnerReferences (pod_meta pod) of
        [] \<Rightarrow> ret (Inl (Errorf ''%s owner workload not found'' [Name (pod_meta pod)]))
      | ref # _ \<Rightarrow>
          if ref_Kind ref = ''ReplicaSet'' then
            do {
              r \<leftarrow> workloadCache_Get api ReplicaSet (Namespace (pod_meta pod)) (ref_Name ref);
              case r of
                Inl e \<Rightarrow> ret (Inl e)
              | Inr rs \<Rightarrow>
                  (case OwnerReferences rs of
                     [] \<Rightarrow> ret (Inl (Errorf ''pod owner is empty'' []))
                   | d # _ \<Rightarrow>
                       if ref_Kind d \<noteq> ''Deployment'' then
                         ret (Inl (Errorf ''pod owner is invalid kind: %s'' [ref_Kind d]))
                       else
                         do {
                           r \<leftarrow> getAppsV1Object api ''Deployment'' (Namespace (pod_meta pod)) (ref_Name d);
                           ret (map_sum id (\<lambda>ob. (Name ob, ref_Name d, UID ob)) r)
                         })
            }
          else
            do {
              r \<leftarrow> getAppsV1Object api (ref_Kind ref) (Namespace (pod_meta pod)) (ref_Name ref);
              ret (map_sum id (\<lambda>ob. (Name ob, ref_Kind ref, UID ob)) r)
            })"

definition setIfStatefulSetOwnerRef :: "'w api \<Rightarrow> FlatNetworkIP \<Rightarrow> Pod \<Rightarrow> ('w, FlatNetworkIP) state" where
  "setIfStatefulSetOwnerRef api flatNetworkIP pod =
     do {
       r \<leftarrow> findOwnerWorkload api pod;
       case r of
         Inl e \<Rightarrow> ret flatNetworkIP
       | Inr (ownerName, ownerKind, ownerUID) \<Rightarrow>
           if ownerKind = ''StatefulSet'' then
             ret (flatNetworkIP\<lparr>ip_meta := (ip_meta flatNetworkIP)\<lparr>OwnerReferences :=
               [\<lparr>ref_APIVersion = ''v1'', ref_Kind = ''StatefulSet'', ref_Name = ownerName, ref_UID = ownerUID,
                 ref_Controller = Some True\<rparr>]\<rparr>\<rparr>)
           else ret flatNetworkIP
     }"

text \<open>The selector label that the loops over the owners of the pod and of its job find, if any.\<close>

fun job_selector :: "'w api \<Rightarrow> string \<Rightarrow> OwnerReference list \<Rightarrow> ('w, string option) state" where
  "job_selector api namespace [] = ret None"
| "job_selector api namespace (podOwner # owners) =
     (if ref_Kind podOwner = ''Job'' then
        do {
          r \<leftarrow> workloadCache_Get api Job namespace (ref_Name podOwner);
          case r of
            Inl e \<Rightarrow> ret None
          | Inr j \<Rightarrow>
              if OwnerReferences j = [] then ret (Some (''job-'' @ namespace @ ''-'' @ Name j))
              else
                (case find (\<lambda>jobOwner. ref_Kind jobOwner = ''CronJob'') (OwnerReferences j) of
                   Some jobOwner \<Rightarrow> ret (Some (''cronjob-'' @ namespace @ ''-'' @ ref_Name jobOwner))
                 | None \<Rightarrow> job_selector api namespace owners)
        }
      else job_selector api namespace owners)"

definition setWorkloadAndProjectLabel :: "'w api \<Rightarrow> FlatNetworkIP \<Rightarrow> Pod \<Rightarrow> ('w, FlatNetworkIP) state" where
  "setWorkloadAndProjectLabel api flatNetworkIP pod =
     do {
       r \<leftarrow> namespaceCache_Get api (Namespace (pod_meta pod));
       case r of
         Inl e \<Rightarrow> ret flatNetworkIP
       | Inr ns \<Rightarrow>
           (let ls = Labels (ip_meta flatNetworkIP);
                ls = AList.update LabelProjectID (mget (Labels ns) LabelProjectID) ls;
                ls = AList.update LabelWorkloadSelector (mget (Labels (pod_meta pod)) LabelWorkloadSelector) ls in
            do {
              sel \<leftarrow> (if mget ls LabelWorkloadSelector = []
                      then job_selector api (Namespace (pod_meta pod)) (OwnerReferences (pod_meta pod))
                      else ret None);
              ret (flatNetworkIP\<lparr>ip_meta := (ip_meta flatNetworkIP)\<lparr>Labels :=
                (case sel of None \<Rightarrow> ls | Some v \<Rightarrow> AList.update LabelWorkloadSelector v ls)\<rparr>\<rparr>)
            })
     }"

subsection \<open>The handler: pod.go\<close>

definition update_ip_closure :: "'w api \<Rightarrow> Pod \<Rightarrow> FlatNetworkIP \<Rightarrow> ('w, error + FlatNetworkIP) state" where
  "update_ip_closure api pod expectedIP =
     do {
       r \<leftarrow> ipCache_Get api (Namespace (pod_meta pod)) (Name (pod_meta pod));
       case r of
         Inl e \<Rightarrow> ret (Inl e)
       | Inr existFlatNetworkIP \<Rightarrow>
           ipClient_Update api (existFlatNetworkIP\<lparr>
             ip_meta := (ip_meta existFlatNetworkIP)\<lparr>OwnerReferences := OwnerReferences (ip_meta expectedIP),
               Labels := Labels (ip_meta expectedIP), Annotations := Annotations (ip_meta expectedIP)\<rparr>,
             ip_Spec := ip_Spec expectedIP\<rparr>)
     }"

definition create_ip :: "'w api \<Rightarrow> FlatNetworkIP \<Rightarrow> ('w, error + FlatNetworkIP) state" where
  "create_ip api expectedIP =
     do {
       r \<leftarrow> ipClient_Create api expectedIP;
       case r of
         Inl e \<Rightarrow> if IsAlreadyExists e then ret (Inr expectedIP) else ret (Inl e)
       | Inr createdFlatNetworkIP \<Rightarrow> ret (Inr createdFlatNetworkIP)
     }"

text \<open>With an error the caller does not look at the resource. After an update the code goes on to the creation.\<close>

definition ensureFlatNetworkIP :: "'w api \<Rightarrow> Pod \<Rightarrow> ('w, error + FlatNetworkIP) state" where
  "ensureFlatNetworkIP api pod =
     do {
       r \<leftarrow> ipCache_Get api (Namespace (pod_meta pod)) (Name (pod_meta pod));
       case (case r of Inl e \<Rightarrow> if \<not> IsNotFound e then Inl e else Inr None | Inr i \<Rightarrow> Inr (Some i)) of
         Inl e \<Rightarrow> ret (Inl e)
       | Inr existFlatNetworkIP \<Rightarrow>
           do {
             r \<leftarrow> newFlatNetworkIP api pod;
             case r of
               Inl e \<Rightarrow> ret (Inl e)
             | Inr expectedIP \<Rightarrow>
                 do {
                   expectedIP \<leftarrow> setIfStatefulSetOwnerRef api expectedIP pod;
                   expectedIP \<leftarrow> setWorkloadAndProjectLabel api expectedIP pod;
                   (case existFlatNetworkIP of
                      Some i \<Rightarrow>
                        if flatNetworkIPUpdated existFlatNetworkIP (Some expectedIP) then ret (Inr i)
                        else
                          do {
                            r \<leftarrow> retry_ip api DefaultBackoff (update_ip_closure api pod expectedIP);
                            case r of
                              Inl e \<Rightarrow> ret (Inl e)
                            | Inr _ \<Rightarrow> create_ip api expectedIP
                          }
                    | None \<Rightarrow> create_ip api expectedIP)
                 }
           }
     }"

definition pod_labels :: "Pod \<Rightarrow> FlatNetworkIP \<Rightarrow> FlatNetworkSubnet \<Rightarrow> strmap" where
  "pod_labels pod ip subnet =
     (let annotationIP = mget (Annotations (pod_meta pod)) AnnotationIP;
          annotationSubnet = mget (Annotations (pod_meta pod)) AnnotationSubnet;
          annotationMac = mget (Annotations (pod_meta pod)) AnnotationMac in
      [(LabelSubnet, annotationSubnet),
       (LabelSelectedIP, if Addr (ip_Status ip) \<noteq> []
          then replace_char (CHR '':'') ''.'' (IP_String (Addr (ip_Status ip))) else []),
       (LabelSelectedMac, if MAC (ip_Status ip) \<noteq> [] \<and> annotationMac \<noteq> []
          then replace_char (CHR '':'') [] (MAC (ip_Status ip)) else []),
       (LabelFlatNetworkIPType, if annotationIP = AllocateModeAuto then AllocateModeAuto else AllocateModeSpecific),
       (LabelFlatMode, FlatMode (sn_Spec subnet))])"

definition label_pod_closure :: "'w api \<Rightarrow> Pod \<Rightarrow> strmap \<Rightarrow> ('w, error + unit) state" where
  "label_pod_closure api pod labels =
     do {
       r \<leftarrow> podCache_Get api (Namespace (pod_meta pod)) (Name (pod_meta pod));
       case r of
         Inl e \<Rightarrow> ret (Inl e)
       | Inr pod \<Rightarrow>
           do {
             r \<leftarrow> podClient_Update api (pod\<lparr>pod_meta := (pod_meta pod)\<lparr>Labels :=
                    fold (\<lambda>(k, v). AList.update k v) labels (Labels (pod_meta pod))\<rparr>\<rparr>);
             ret (map_sum id (\<lambda>_. ()) r)
           }
     }"

definition updatePodLabel :: "'w api \<Rightarrow> Pod \<Rightarrow> FlatNetworkIP \<Rightarrow> ('w, error option) state" where
  "updatePodLabel api pod ip =
     (let annotationSubnet = mget (Annotations (pod_meta pod)) AnnotationSubnet in
      do {
        r \<leftarrow> subnetCache_Get api SubnetNamespace annotationSubnet;
        case r of
          Inl e \<Rightarrow> ret (Some (Wrapf ''failed to get subnet %q from cache: %w'' [annotationSubnet] e))
        | Inr subnet \<Rightarrow>
            (let labels = pod_labels pod ip subnet in
             if list_all (\<lambda>(k, v). mget (Labels (pod_meta pod)) k = v) labels then ret None
             else
               do {
                 r \<leftarrow> retry_unit api DefaultBackoff (label_pod_closure api pod labels);
                 ret (case r of Inl e \<Rightarrow> Some e | Inr _ \<Rightarrow> None)
               })
      })"

definition pod_sync :: "'w api \<Rightarrow> Pod option \<Rightarrow> ('w, Pod option \<times> error option) state" where
  "pod_sync api pod0 =
     (case pod0 of
        None \<Rightarrow> ret (None, None)
      | Some pod \<Rightarrow>
          if \<not> IsPodEnabledFlatNetwork pod0 then ret (pod0, None)
          else if DeletionTimestamp (pod_meta pod) \<noteq> None then
            do {
              d \<leftarrow> ipClient_Delete api (Namespace (pod_meta pod)) (Name (pod_meta pod));
              case d of
                Some e \<Rightarrow> if IsNotFound e then ret (pod0, None) else ret (pod0, Some e)
              | None \<Rightarrow> ret (pod0, None)
            }
          else
            do {
              r \<leftarrow> ensureFlatNetworkIP api pod;
              case r of
                Inl e \<Rightarrow>
                  do {
                    _ \<leftarrow> pod_eventFlatNetworkIPError api pod e;
                    ret (pod0, Some (Wrapf ''ensureFlatNetworkIP: %w'' [] e))
                  }
              | Inr flatnetworkIP \<Rightarrow>
                  if ip_Phase (ip_Status flatnetworkIP) \<noteq> ''Active'' then
                    do {
                      _ \<leftarrow> podEnqueueAfter api (Namespace (pod_meta pod)) (Name (pod_meta pod)) (5 * time_Second);
                      ret (pod0, None)
                    }
                  else
                    do {
                      r \<leftarrow> updatePodLabel api pod flatnetworkIP;
                      case r of
                        Some e \<Rightarrow>
                          do {
                            _ \<leftarrow> pod_eventFlatNetworkIPError api pod e;
                            ret (pod0, Some e)
                          }
                      | None \<Rightarrow> ret (pod0, None)
                    }
            })"

definition pod_handleError ::
    "(Pod option \<Rightarrow> ('w, Pod option \<times> error option) state) \<Rightarrow> Pod option \<Rightarrow> ('w, Pod option \<times> error option) state" where
  "pod_handleError sync pod =
     do {
       (podSynced, err) \<leftarrow> sync pod;
       case err of
         Some e \<Rightarrow> ret (pod, Some e)
       | None \<Rightarrow> ret (podSynced, None)
     }"

subsection \<open>What a run leaves behind\<close>

text \<open>The specification that the annotations of a pod ask for, when they are valid.\<close>

definition wanted_spec :: "Pod \<Rightarrow> IPSpec option" where
  "wanted_spec pod =
     (case (annotated_addrs (mget (Annotations (pod_meta pod)) AnnotationIP),
            CheckPodAnnotationMACs (mget (Annotations (pod_meta pod)) AnnotationMac)) of
        (Inr (as, _), Inr ms) \<Rightarrow> Some \<lparr>Subnet = mget (Annotations (pod_meta pod)) AnnotationSubnet,
          Addrs = as, MACs = ms, PodID = UID (pod_meta pod)\<rparr>
      | _ \<Rightarrow> None)"

text \<open>The resource is made for the pod, with the specification it wants.\<close>

definition made_for :: "Pod \<Rightarrow> FlatNetworkIP \<Rightarrow> bool" where
  "made_for pod i \<longleftrightarrow> wanted_spec pod = Some (ip_Spec i) \<and>
     ip_Namespace i = Namespace (pod_meta pod) \<and> ip_Name i = Name (pod_meta pod)"

text \<open>The stored resource of the pod has the specification the pod wants.\<close>

definition ensured :: "Pod \<Rightarrow> cluster \<Rightarrow> bool" where
  "ensured pod c \<longleftrightarrow>
     (\<exists>i. c_ips c (Namespace (pod_meta pod), Name (pod_meta pod)) = Some i \<and> wanted_spec pod = Some (ip_Spec i))"

context kube_pods
begin

lemma workload_Get_view: "run_state (workloadCache_Get api t ns n) w = (r, w') \<Longrightarrow> view w' = view w"
  using workload_Get [of t ns n w] by simp

lemma apps_view: "run_state (getAppsV1Object api k ns n) w = (r, w') \<Longrightarrow> view w' = view w"
  by (auto simp: getAppsV1Object_def Let_def dest: workload_Get_view split: if_splits)

lemma findOwner_view: "run_state (findOwnerWorkload api pod) w = (r, w') \<Longrightarrow> view w' = view w"
  by (auto simp: findOwnerWorkload_def dest!: workload_Get_view apps_view
      split: list.splits if_splits sum.splits prod.splits)

lemma statefulSet_run:
  "run_state (setIfStatefulSetOwnerRef api i pod) w = (i', w') \<Longrightarrow> made_for pod i \<Longrightarrow> made_for pod i' \<and> view w' = view w"
  by (auto simp: setIfStatefulSetOwnerRef_def made_for_def dest!: findOwner_view
      split: sum.splits prod.splits if_splits)

lemma job_selector_view: "run_state (job_selector api ns os) w = (r, w') \<Longrightarrow> view w' = view w"
  by (induction os arbitrary: w)
    (auto dest!: workload_Get_view split: if_splits sum.splits option.splits prod.splits)

lemma workloadLabel_run:
  assumes run: "run_state (setWorkloadAndProjectLabel api i pod) w = (i', w')" and i: "made_for pod i"
  shows "made_for pod i' \<and> view w' = view w"
proof -
  obtain g w1 where g: "run_state (namespaceCache_Get api (Namespace (pod_meta pod))) w = (g, w1)" by fastforce
  have "view w1 = view w" using namespace_Get [of "Namespace (pod_meta pod)" w] g by simp
  then show ?thesis
    using run g i
    by (cases g) (auto simp: setWorkloadAndProjectLabel_def Let_def made_for_def dest!: job_selector_view
        split: if_splits prod.splits)
qed

lemma newFlatNetworkIP_run:
  assumes run: "run_state (newFlatNetworkIP api pod) w = (r, w')"
  shows "view w' = view w \<and> (\<forall>i. r = Inr i \<longrightarrow> made_for pod i)"
proof -
  let ?a = "annotated_addrs (mget (Annotations (pod_meta pod)) AnnotationIP)"
  let ?m = "CheckPodAnnotationMACs (mget (Annotations (pod_meta pod)) AnnotationMac)"
  let ?sn = "mget (Annotations (pod_meta pod)) AnnotationSubnet"
  obtain g w1 where g: "run_state (subnetCache_Get api SubnetNamespace ?sn) w = (g, w1)" by fastforce
  have get: "view w1 = view w \<and> (\<forall>s. g = Inr s \<longrightarrow> sn_Name s = ?sn)" using subnet_Get [OF g] keyed_subnet by blast
  show ?thesis
  proof (cases "\<exists>as ty ms. ?a = Inr (as, ty) \<and> ?m = Inr ms")
    case False
    then show ?thesis using run by (auto simp: newFlatNetworkIP_def Let_def split: sum.splits)
  next
    case True
    then obtain as ty ms where "?a = Inr (as, ty)" "?m = Inr ms" by blast
    then show ?thesis
      using run g get
      by (cases g) (auto simp: newFlatNetworkIP_def Let_def made_for_def wanted_spec_def empty_meta_def)
  qed
qed

lemma update_ip_run:
  assumes run: "run_state (update_ip_closure api pod e) w = (r, w')"
  shows "case r of Inl _ \<Rightarrow> view w' = view w
    | Inr i \<Rightarrow> c_ips (view w') (Namespace (pod_meta pod), Name (pod_meta pod)) = Some i \<and> ip_Spec i = ip_Spec e"
proof -
  obtain g w1 where g: "run_state (ipCache_Get api (Namespace (pod_meta pod)) (Name (pod_meta pod))) w = (g, w1)" by fastforce
  have get: "view w1 = view w \<and> (\<forall>i. g = Inr i \<longrightarrow> ip_Namespace i = Namespace (pod_meta pod) \<and> ip_Name i = Name (pod_meta pod))"
    using ip_Get [OF g] keyed_ip by blast
  show ?thesis
  proof (cases g)
    case (Inl x)
    then show ?thesis using run g get by (auto simp: update_ip_closure_def)
  next
    case (Inr old)
    define new where "new = old\<lparr>ip_meta := (ip_meta old)\<lparr>OwnerReferences := OwnerReferences (ip_meta e),
      Labels := Labels (ip_meta e), Annotations := Annotations (ip_meta e)\<rparr>, ip_Spec := ip_Spec e\<rparr>"
    have "run_state (ipClient_Update api new) w1 = (r, w')" using run g Inr by (simp add: update_ip_closure_def new_def)
    moreover have "ip_Namespace new = Namespace (pod_meta pod)" "ip_Name new = Name (pod_meta pod)" "ip_Spec new = ip_Spec e"
      using get Inr by (simp_all add: new_def)
    ultimately show ?thesis
      using ip_Update [of new w1 _ w'] ip_Update_error [of new w1 _ w'] get by (cases r) auto
  qed
qed

lemma create_ip_run:
  assumes run: "run_state (create_ip api e) w = (Inr i, w')" and e: "made_for pod e"
    and old: "\<And>j. c_ips (view w) (Namespace (pod_meta pod), Name (pod_meta pod)) = Some j \<Longrightarrow> ip_Spec j = ip_Spec e"
  shows "ensured pod (view w')"
proof -
  obtain r w1 where r: "run_state (ipClient_Create api e) w = (r, w1)" by fastforce
  then have w': "w' = w1" using run by (auto simp: create_ip_def split: sum.splits if_splits)
  show ?thesis
  proof (cases r)
    case (Inl x)
    then have "IsAlreadyExists x" using run r by (auto simp: create_ip_def split: if_splits)
    then show ?thesis
      using ip_AlreadyExists [OF r [unfolded Inl]] ip_Create_error [OF r [unfolded Inl]] old e w'
      by (auto simp: ensured_def made_for_def)
  next
    case (Inr j)
    then show ?thesis using ip_Create [OF r [unfolded Inr]] e w' by (auto simp: ensured_def made_for_def)
  qed
qed

lemma ensureFlatNetworkIP_run:
  assumes run: "run_state (ensureFlatNetworkIP api pod) w = (Inr i, w')"
  shows "ensured pod (view w')"
proof -
  let ?k = "(Namespace (pod_meta pod), Name (pod_meta pod))"
  obtain g w1 where g: "run_state (ipCache_Get api (Namespace (pod_meta pod)) (Name (pod_meta pod))) w = (g, w1)" by fastforce
  obtain n w2 where n: "run_state (newFlatNetworkIP api pod) w1 = (n, w2)" by fastforce
  have found: "\<And>e. g = Inl e \<Longrightarrow> IsNotFound e"
    using run g by (auto simp: ensureFlatNetworkIP_def split: if_splits)
  have store: "c_ips (view w) ?k = (case g of Inl e \<Rightarrow> None | Inr i \<Rightarrow> Some i)"
    using ip_Get [OF g] found ip_NotFound [of "fst ?k" "snd ?k" w _ w1] g by (cases g) auto
  obtain e0 where e0: "n = Inr e0"
    using run g n found by (cases n) (auto simp: ensureFlatNetworkIP_def split: sum.splits)
  obtain e1 w3 where e1: "run_state (setIfStatefulSetOwnerRef api e0 pod) w2 = (e1, w3)" by fastforce
  obtain e w4 where e: "run_state (setWorkloadAndProjectLabel api e1 pod) w3 = (e, w4)" by fastforce
  have made: "made_for pod e" and v: "view w4 = view w"
    using newFlatNetworkIP_run [OF n] e0 statefulSet_run [OF e1] workloadLabel_run [OF e] ip_Get [OF g] by auto
  consider (same) j where "g = Inr j" "flatNetworkIPUpdated (Some j) (Some e)" "w' = w4"
    | (update) r w5 where "run_state (retry_ip api DefaultBackoff (update_ip_closure api pod e)) w4 = (Inr r, w5)"
        "run_state (create_ip api e) w5 = (Inr i, w')"
    | (create) "c_ips (view w) ?k = None" "run_state (create_ip api e) w4 = (Inr i, w')"
    using run g n e0 e1 e store
    by (cases g) (auto simp: ensureFlatNetworkIP_def found split: if_splits prod.splits sum.splits)
  then show ?thesis
  proof cases
    case same
    then show ?thesis using made store v by (auto simp: ensured_def made_for_def flatNetworkIPUpdated_def split: if_splits)
  next
    case update
    obtain w6 where "run_state (update_ip_closure api pod e) w6 = (Inr r, w5)"
      using attempts_last [OF retry_ip [OF update(1)]] by blast
    from update_ip_run [OF this] show ?thesis by (intro create_ip_run [OF update(2) made]) auto
  next
    case create
    then show ?thesis using v by (intro create_ip_run [OF create(2) made]) auto
  qed
qed

lemma label_pod_run:
  assumes run: "run_state (label_pod_closure api pod ls) w = (r, w')" and pre: "ensured p (view w)"
  shows "ensured p (view w')"
proof -
  obtain g w1 where g: "run_state (podCache_Get api (Namespace (pod_meta pod)) (Name (pod_meta pod))) w = (g, w1)" by fastforce
  have v: "ensured p (view w1)" using pod_Get [OF g] pre by simp
  show ?thesis
  proof (cases g)
    case (Inl e)
    then show ?thesis using run g v by (simp add: label_pod_closure_def)
  next
    case (Inr q)
    define new where "new = q\<lparr>pod_meta := (pod_meta q)\<lparr>Labels := fold (\<lambda>(k, v). AList.update k v) ls (Labels (pod_meta q))\<rparr>\<rparr>"
    obtain u w2 where u: "run_state (podClient_Update api new) w1 = (u, w2)" by fastforce
    then have "w' = w2" using run g Inr by (simp add: label_pod_closure_def new_def)
    then show ?thesis using pod_Update [OF u] v by (simp add: ensured_def)
  qed
qed

lemma updatePodLabel_run:
  assumes run: "run_state (updatePodLabel api pod ip) w = (r, w')" and pre: "ensured p (view w)"
  shows "ensured p (view w')"
proof -
  let ?sn = "mget (Annotations (pod_meta pod)) AnnotationSubnet"
  obtain g w1 where g: "run_state (subnetCache_Get api SubnetNamespace ?sn) w = (g, w1)" by fastforce
  have v: "ensured p (view w1)" using subnet_Get [OF g] pre by simp
  have retry: "ensured p (view w2)" if "run_state (retry_unit api b (label_pod_closure api pod ls)) w1 = (u, w2)" for b ls u w2
    using retry_unit [OF that] v by (rule attempts_preserve) (rule label_pod_run)
  show ?thesis
    using run g v retry
    by (cases g) (auto simp: updatePodLabel_def Let_def split: if_splits prod.splits)
qed

lemma pod_sync_run:
  assumes run: "run_state (pod_sync api (Some pod)) w = ((p, None), w')"
    and pod: "IsPodEnabledFlatNetwork (Some pod)" "DeletionTimestamp (pod_meta pod) = None"
  shows "ensured pod (view w')"
proof -
  obtain e w1 where e: "run_state (ensureFlatNetworkIP api pod) w = (e, w1)" by fastforce
  obtain i where i: "e = Inr i" using run pod e by (cases e) (auto simp: pod_sync_def split: prod.splits)
  have v1: "ensured pod (view w1)" using ensureFlatNetworkIP_run [OF e [unfolded i]] .
  show ?thesis
  proof (cases "ip_Phase (ip_Status i) = ''Active''")
    case False
    then show ?thesis
      using run pod e i v1 quiet(4) [of "Namespace (pod_meta pod)" "Name (pod_meta pod)" "5 * time_Second" w1]
      by (auto simp: pod_sync_def split: prod.splits)
  next
    case True
    obtain r w2 where r: "run_state (updatePodLabel api pod i) w1 = (r, w2)" by fastforce
    then have "w' = w2" using run pod e i True by (cases r) (auto simp: pod_sync_def split: prod.splits)
    then show ?thesis using updatePodLabel_run [OF r v1] by simp
  qed
qed

end

subsection \<open>Labels\<close>

lemma mget_fold_update:
  "distinct (map fst ls) \<Longrightarrow> mget (fold (\<lambda>(k, v). AList.update k v) ls m) k =
     (case map_of ls k of None \<Rightarrow> mget m k | Some v \<Rightarrow> v)"
proof (induction ls arbitrary: m)
  case (Cons x ls)
  obtain a b where x: "x = (a, b)" by fastforce
  have "map_of ls a = None" using Cons.prems x by (auto simp: map_of_eq_None_iff)
  then show ?case using Cons x by (auto split: option.splits)
qed simp

lemma pod_labels_distinct: "distinct (map fst (pod_labels pod ip s))"
  by (simp add: pod_labels_def Let_def)

lemma replace_char_free: "c \<notin> set r \<Longrightarrow> c \<notin> set (replace_char c r s)"
  by (auto simp: replace_char_def)

subsection \<open>Properties\<close>

text \<open>
  C10. Every pod that asks for a flat network gets its resource: when the handler returns without an error for
  such a pod that is not being deleted, the API server stores a \<open>FlatNetworkIP\<close> of the pod's
  namespace and name whose specification is the one the annotations ask for: subnet, addresses,
  hardware addresses and the UID of the pod; whether it was there already, was updated or was created.
\<close>

theorem pod_sync_ensures_ip:
  assumes "kube_pods api view" and "run_state (pod_sync api (Some pod)) w = ((p, None), w')"
    and "IsPodEnabledFlatNetwork (Some pod)" and "DeletionTimestamp (pod_meta pod) = None"
  shows "\<exists>i. c_ips (view w') (Namespace (pod_meta pod), Name (pod_meta pod)) = Some i \<and>
    wanted_spec pod = Some (ip_Spec i)"
  using kube_pods.pod_sync_run [OF assms] by (simp add: ensured_def)

definition flat_pod :: "strmap \<Rightarrow> Pod" where
  "flat_pod ls = \<lparr>pod_meta = (example_meta ''default'' ''p'')\<lparr>Labels := ls,
     Annotations := [(AnnotationIP, ''10.1.0.7''), (AnnotationSubnet, ''s''), (AnnotationMac, ''0A-0B'')]\<rparr>, pod_NodeName = ''n1''\<rparr>"

definition auto_pod :: Pod where
  "auto_pod = (flat_pod [])\<lparr>pod_meta := (pod_meta (flat_pod []))\<lparr>Annotations := [(AnnotationIP, ''auto''), (AnnotationSubnet, ''s'')]\<rparr>\<rparr>"

theorem pod_sync_ensures_ip_witness:
  "\<exists>w' i. run_state (pod_sync mem_api (Some auto_pod)) (example_world [] []) = ((Some auto_pod, None), w') \<and>
     c_ips (mem_view w') (''default'', ''p'') = Some i \<and> Subnet (ip_Spec i) = ''s'' \<and> PodID (ip_Spec i) = ''u''"
proof -
  define out where "out = run_state (pod_sync mem_api (Some auto_pod)) (example_world [] [])"
  have "case fst out of (Some p, None) \<Rightarrow> p = auto_pod | _ \<Rightarrow> False" unfolding out_def by code_simp
  then have "fst out = (Some auto_pod, None)" by (auto split: prod.splits option.splits)
  then have run: "run_state (pod_sync mem_api (Some auto_pod)) (example_world [] []) = ((Some auto_pod, None), snd out)"
    unfolding out_def by (metis prod.collapse)
  have en: "IsPodEnabledFlatNetwork (Some auto_pod)" by code_simp
  have pod: "DeletionTimestamp (pod_meta auto_pod) = None" "Namespace (pod_meta auto_pod) = ''default''"
    "Name (pod_meta auto_pod) = ''p''"
    by (simp_all add: auto_pod_def flat_pod_def example_meta_def)
  have spec: "case wanted_spec auto_pod of Some sp \<Rightarrow> Subnet sp = ''s'' \<and> PodID sp = ''u'' | None \<Rightarrow> False" by code_simp
  show ?thesis
    using pod_sync_ensures_ip [where api = mem_api and view = mem_view, OF mempod.kube_pods_axioms run en pod(1)]
      run spec by (auto simp: pod)
qed

text \<open>
  The labels of a pod settle: on a pod that has the labels the handler sets, it makes no further
  update, and the labels for the address and the hardware address have no colon, which Kubernetes
  does not allow in a label.
\<close>

theorem updatePodLabel_settles:
  assumes "run_state (subnetCache_Get api SubnetNamespace (mget (Annotations (pod_meta pod)) AnnotationSubnet)) w = (Inr s, w')"
    and "labelled = pod\<lparr>pod_meta := (pod_meta pod)\<lparr>Labels :=
      fold (\<lambda>(k, v). AList.update k v) (pod_labels pod ip s) (Labels (pod_meta pod))\<rparr>\<rparr>"
  shows "run_state (updatePodLabel api labelled ip) w = (None, w') \<and>
    CHR '':'' \<notin> set (mget (Labels (pod_meta labelled)) LabelSelectedIP) \<and>
    CHR '':'' \<notin> set (mget (Labels (pod_meta labelled)) LabelSelectedMac)"
proof -
  have same: "pod_labels labelled ip s = pod_labels pod ip s" by (simp add: assms(2) pod_labels_def)
  have get: "mget (Labels (pod_meta labelled)) k =
      (case map_of (pod_labels pod ip s) k of None \<Rightarrow> mget (Labels (pod_meta pod)) k | Some v \<Rightarrow> v)" for k
    by (simp add: assms(2) mget_fold_update [OF pod_labels_distinct])
  have "list_all (\<lambda>(k, v). mget (Labels (pod_meta labelled)) k = v) (pod_labels labelled ip s)"
    unfolding same by (auto simp: list_all_iff get map_of_is_SomeI [OF pod_labels_distinct])
  moreover have "Annotations (pod_meta labelled) = Annotations (pod_meta pod)" by (simp add: assms(2))
  ultimately have "run_state (updatePodLabel api labelled ip) w = (None, w')"
    using assms(1) by (simp add: updatePodLabel_def Let_def)
  moreover have "CHR '':'' \<notin> set (mget (Labels (pod_meta labelled)) LabelSelectedIP)"
    "CHR '':'' \<notin> set (mget (Labels (pod_meta labelled)) LabelSelectedMac)"
    unfolding get by (simp_all add: pod_labels_def Let_def replace_char_free)
  ultimately show ?thesis by blast
qed

theorem updatePodLabel_settles_witness:
  "let s = active_subnet []; i = example_ip ''p'' (ParseIP ''10.1.0.7'') ''Active'';
       pod = auto_pod\<lparr>pod_meta := (pod_meta auto_pod)\<lparr>Labels := fold (\<lambda>(k, v). AList.update k v) (pod_labels auto_pod i s) []\<rparr>\<rparr>
   in mget (Labels (pod_meta pod)) LabelSelectedIP = ''10.1.0.7'' \<and>
      run_state (updatePodLabel mem_api pod i) (example_world [] [i]) = (None, example_world [] [i])"
proof -
  define s where "s = active_subnet []"
  define i where "i = example_ip ''p'' (ParseIP ''10.1.0.7'') ''Active''"
  define pod where "pod = auto_pod\<lparr>pod_meta := (pod_meta auto_pod)\<lparr>Labels :=
    fold (\<lambda>(k, v). AList.update k v) (pod_labels auto_pod i s) []\<rparr>\<rparr>"
  have sn: "mget (Annotations (pod_meta auto_pod)) AnnotationSubnet = ''s''" by code_simp
  have get: "run_state (subnetCache_Get mem_api SubnetNamespace (mget (Annotations (pod_meta auto_pod)) AnnotationSubnet))
      (example_world [] [i]) = (Inr s, example_world [] [i])"
    unfolding sn by (simp add: mem_api_def reads_def found_def store_get_def example_world_def s_def active_subnet_def example_subnet_def)
  have "Labels (pod_meta auto_pod) = []" by (simp add: auto_pod_def flat_pod_def)
  then have eq: "pod = auto_pod\<lparr>pod_meta := (pod_meta auto_pod)\<lparr>Labels :=
      fold (\<lambda>(k, v). AList.update k v) (pod_labels auto_pod i s) (Labels (pod_meta auto_pod))\<rparr>\<rparr>"
    by (simp add: pod_def)
  have "mget (Labels (pod_meta pod)) LabelSelectedIP = ''10.1.0.7''" unfolding pod_def i_def s_def by code_simp
  then show ?thesis
    using updatePodLabel_settles [OF get eq]
    unfolding Let_def unfolding s_def [symmetric] i_def [symmetric] unfolding pod_def [symmetric] by blast
qed

text \<open>
  After an update of the specification the code goes on to the creation, which fails with
  AlreadyExists, and works with the expected resource, which has no status: although the stored
  resource is active, the pod is queued again and its labels are not refreshed in this run.
\<close>

lemma update_falls_through_to_create:
  "let i = example_ip ''p'' (ParseIP ''10.1.0.1'') ''Active'';
       out = run_state (ensureFlatNetworkIP mem_api auto_pod) (example_world [] [i])
   in (case fst out of Inr j \<Rightarrow> ip_Phase (ip_Status j) = [] | Inl _ \<Rightarrow> False) \<and>
      map (\<lambda>j. ip_Phase (ip_Status j)) (m_ips (snd out)) = [''Active'']"
  by code_simp

end
