(* ===== verification/WorkloadController.thy ===== *)
theory WorkloadController
  imports MemCluster
begin

text \<open>
  The controller of the workloads: \<open>pkg/controller/workload\<close>. It labels deployments, daemon sets,
  stateful sets, cron jobs and jobs that use a flat network, and records the addresses that a workload
  asks for as reserved in the status of the subnet, under a key that names the workload. The
  handlers are methods of a package variable, which is nil before \<open>Register\<close>: the first argument of
  \<open>syncWorkload\<close>. The API server never sends an empty map of labels, so that no labels are the nil map.
\<close>

subsection \<open>Templates: utils.go\<close>

text \<open>The types that \<open>DeepCopy\<close> knows; a copy of an immutable value is the value.\<close>

definition DeepCopy :: "Workload \<Rightarrow> Workload option" where
  "DeepCopy w = (if w_type w = OtherObject then None else Some w)"

definition no_meta :: ObjectMeta where
  "no_meta = \<lparr>Name = [], Namespace = [], UID = [], ResourceVersion = [], Labels = [], Annotations = [],
     OwnerReferences = [], CreationTimestamp = 0, DeletionTimestamp = None\<rparr>"

definition GetTemplateObjectMeta :: "Workload \<Rightarrow> ObjectMeta" where
  "GetTemplateObjectMeta w =
     (case w_type w of
        Deployment \<Rightarrow> w_template w
      | DaemonSet \<Rightarrow> w_template w
      | StatefulSet \<Rightarrow> w_template w
      | CronJob \<Rightarrow> w_jobTemplate w
      | Job \<Rightarrow> w_template w
      | _ \<Rightarrow> no_meta)"

subsection \<open>Labels\<close>

definition getTemplateFlatNetworkLabel :: "'w api \<Rightarrow> Workload \<Rightarrow> ('w, error + bool \<times> strmap) state" where
  "getTemplateFlatNetworkLabel api w =
     (let a = Annotations (GetTemplateObjectMeta w);
          ipType = (if mget a AnnotationIP = AllocateModeAuto then AllocateModeAuto
                    else if mget a AnnotationIP = [] then []
                    else AllocateModeSpecific);
          subnetName = mget a AnnotationSubnet;
          isFlatNetworkEnabled = (ipType \<noteq> [] \<and> subnetName \<noteq> []);
          labels = [(LabelFlatNetworkIPType, ipType), (LabelSubnet, subnetName)] in
      if \<not> isFlatNetworkEnabled then ret (Inr (isFlatNetworkEnabled, labels))
      else
        do {
          r \<leftarrow> subnetCache_Get api SubnetNamespace subnetName;
          case r of
            Inl e \<Rightarrow> ret (Inl (Wrapf ''failed to get subnet %q from cache: %w'' [subnetName] e))
          | Inr subnet \<Rightarrow>
              ret (Inr (isFlatNetworkEnabled, labels @ [(LabelFlatMode, FlatMode (sn_Spec subnet))]))
        })"

text \<open>
  The labels are written into the map that \<open>GetLabels\<close> returns. When the object has none, the new map is
  not set on the object, and the update sends the object as it is.
\<close>

definition updateWorkloadLabel :: "'w api \<Rightarrow> Workload \<Rightarrow> strmap \<Rightarrow> ('w, error + Workload) state" where
  "updateWorkloadLabel api w0 labels =
     (if labels = [] then ret (Inr w0)
      else case DeepCopy w0 of
        None \<Rightarrow> ret (Inr w0)
      | Some w \<Rightarrow>
          (let wl = Labels (w_meta w);
               needUpdate = list_ex (\<lambda>(k, v). mget wl k \<noteq> v) labels;
               w' = (if wl = [] then w
                     else w\<lparr>w_meta := (w_meta w)\<lparr>Labels := fold (\<lambda>(k, v). AList.update k v) labels wl\<rparr>\<rparr>) in
           if \<not> needUpdate then ret (Inr w)
           else if w_type w \<in> {Deployment, DaemonSet, StatefulSet, CronJob, Job} then workloadClient_Update api w'
           else ret (Inr w')))"

subsection \<open>Reserved addresses\<close>

definition unreserve_closure :: "'w api \<Rightarrow> Workload \<Rightarrow> string \<Rightarrow> ('w, error + unit) state" where
  "unreserve_closure api w subnetName =
     do {
       r \<leftarrow> subnetCache_Get api SubnetNamespace subnetName;
       case r of
         Inl e \<Rightarrow> ret (Inl (Wrapf ''failed to get subnet %v from cache: %w'' [subnetName] e))
       | Inr subnet \<Rightarrow>
           (let key = GetWorkloadReservdIPKey (w_type w) (w_meta w);
                reservedIP = ReservedIP (sn_Status subnet) in
            if key = [] then ret (Inr ())
            else if reservedIP = [] then ret (Inr ())
            else
              (let reservedIP = AList.delete key reservedIP in
               if meq (ReservedIP (sn_Status subnet)) reservedIP then ret (Inr ())
               else
                 do {
                   r \<leftarrow> subnetClient_UpdateStatus api
                          (subnet\<lparr>sn_Status := (sn_Status subnet)\<lparr>ReservedIP := reservedIP\<rparr>\<rparr>);
                   ret (map_sum id (\<lambda>_. ()) r)
                 }))
     }"

definition removeWorkloadReservedIP :: "'w api \<Rightarrow> Workload \<Rightarrow> ('w, error option) state" where
  "removeWorkloadReservedIP api w =
     (let a = Annotations (GetTemplateObjectMeta w);
          subnetName = mget a AnnotationSubnet in
      case CheckPodAnnotationIPs (mget a AnnotationIP) of
        Inl e \<Rightarrow> ret (Some e)
      | Inr ips \<Rightarrow>
          if ips = [] \<or> subnetName = [] then ret None
          else
            do {
              r \<leftarrow> retry_unit api DefaultBackoff (unreserve_closure api w subnetName);
              ret (case r of Inl e \<Rightarrow> Some e | Inr _ \<Rightarrow> None)
            })"

definition reserve_closure :: "'w api \<Rightarrow> Workload \<Rightarrow> string \<Rightarrow> net_IP list \<Rightarrow> ('w, error + unit) state" where
  "reserve_closure api w subnetName ips =
     do {
       r \<leftarrow> subnetCache_Get api SubnetNamespace subnetName;
       case r of
         Inl e \<Rightarrow> ret (Inl (Wrapf ''failed to get subnet %v from cache: %w'' [subnetName] e))
       | Inr subnet \<Rightarrow>
           (let key = GetWorkloadReservdIPKey (w_type w) (w_meta w) in
            if key = [] then ret (Inr ())
            else
              (let ipRange = fold AddIPToRange ips [];
                   reservedIP = AList.update key ipRange (ReservedIP (sn_Status subnet)) in
               if meq (ReservedIP (sn_Status subnet)) reservedIP then ret (Inr ())
               else
                 do {
                   r \<leftarrow> subnetClient_UpdateStatus api
                          (subnet\<lparr>sn_Status := (sn_Status subnet)\<lparr>ReservedIP := reservedIP\<rparr>\<rparr>);
                   ret (map_sum id (\<lambda>_. ()) r)
                 }))
     }"

definition syncWorkloadReservedIP :: "'w api \<Rightarrow> Workload \<Rightarrow> ('w, error option) state" where
  "syncWorkloadReservedIP api w =
     (let a = Annotations (GetTemplateObjectMeta w);
          subnetName = mget a AnnotationSubnet in
      case CheckPodAnnotationIPs (mget a AnnotationIP) of
        Inl e \<Rightarrow> ret (Some e)
      | Inr ips \<Rightarrow>
          if ips = [] \<or> subnetName = [] then ret None
          else
            do {
              r \<leftarrow> retry_unit api DefaultBackoff (reserve_closure api w subnetName ips);
              ret (case r of Inl e \<Rightarrow> Some e | Inr _ \<Rightarrow> None)
            })"

subsection \<open>The handler\<close>

text \<open>The log of the first error asks a nil workload for its name: a panic.\<close>

definition syncWorkload ::
    "'w api option \<Rightarrow> Workload option \<Rightarrow> ('w, (Workload option \<times> error option) outcome) state" where
  "syncWorkload workloadHandler w0 =
     (case (workloadHandler, w0) of
        (None, None) \<Rightarrow> ret Panics
      | (None, Some w) \<Rightarrow>
          ret (Returns (w0, Some (Errorf ''failed to sync workload: handler not initialized'' [])))
      | (Some api, None) \<Rightarrow> ret (Returns (None, None))
      | (Some api, Some w) \<Rightarrow>
          if Name (w_meta w) = [] then ret (Returns (w0, None))
          else if DeletionTimestamp (w_meta w) \<noteq> None then
            do {
              e \<leftarrow> removeWorkloadReservedIP api w;
              ret (Returns (w0, e))
            }
          else
            do {
              r \<leftarrow> getTemplateFlatNetworkLabel api w;
              case r of
                Inl e \<Rightarrow> ret (Returns (w0, Some (Wrapf ''getTemplateFlatNetworkLabel: %w'' [] e)))
              | Inr (isFlatNetworkEnabled, labels) \<Rightarrow>
                  if \<not> isFlatNetworkEnabled then ret (Returns (w0, None))
                  else
                    do {
                      r \<leftarrow> updateWorkloadLabel api w labels;
                      case r of
                        Inl e \<Rightarrow> ret (Returns (w0, Some e))
                      | Inr upd \<Rightarrow>
                          do {
                            e \<leftarrow> syncWorkloadReservedIP api w;
                            case e of
                              Some e \<Rightarrow> ret (Returns (w0, Some (Wrapf ''failed to update subnet reservedIP: %w'' [] e)))
                            | None \<Rightarrow> ret (Returns (Some upd, None))
                          }
                    }
            })"

subsection \<open>What is reserved\<close>

text \<open>\<open>reserves c sn key r\<close>: the stored subnet has the ranges \<open>r\<close>, or none, under the key.\<close>

definition reserves :: "cluster \<Rightarrow> string \<Rightarrow> string \<Rightarrow> IPRange list option \<Rightarrow> bool" where
  "reserves c sn key r \<longleftrightarrow>
     (\<exists>s. c_subnets c (SubnetNamespace, sn) = Some s \<and> map_of (ReservedIP (sn_Status s)) key = r)"

text \<open>The closures change the entry of one key to \<open>r\<close> and nothing else of the status.\<close>

definition only_key :: "string \<Rightarrow> string \<Rightarrow> IPRange list option \<Rightarrow> cluster \<Rightarrow> error + unit \<Rightarrow> cluster \<Rightarrow> bool" where
  "only_key sn key r c res c' \<longleftrightarrow>
     (case res of
        Inl e \<Rightarrow> c' = c
      | Inr _ \<Rightarrow> reserves c' sn key r \<and>
          (\<forall>k x. k \<noteq> key \<longrightarrow> reserves c' sn k x = reserves c sn k x) \<and>
          (\<forall>s s'. c_subnets c (SubnetNamespace, sn) = Some s \<and> c_subnets c' (SubnetNamespace, sn) = Some s' \<longrightarrow>
             UsedIP (sn_Status s') = UsedIP (sn_Status s)))"

context kube
begin

lemma update_reserved:
  assumes get: "c_subnets (view w) (SubnetNamespace, sn) = Some s"
    and run: "run_state (subnetClient_UpdateStatus api (s\<lparr>sn_Status := (sn_Status s)\<lparr>ReservedIP := m\<rparr>\<rparr>)) w = (u, w')"
    and m: "map_of m key = r" "\<And>k. k \<noteq> key \<Longrightarrow> map_of m k = map_of (ReservedIP (sn_Status s)) k"
  shows "only_key sn key r (view w) (map_sum id (\<lambda>_. ()) u) (view w')"
proof (cases u)
  case (Inl e)
  then show ?thesis using subnet_UpdateStatus_error [OF run [unfolded Inl]] by (simp add: only_key_def)
next
  case (Inr s')
  have key: "sn_Namespace s = SubnetNamespace" "sn_Name s = sn" using keyed_subnet [OF get] by simp_all
  show ?thesis
    using subnet_UpdateStatus [OF run [unfolded Inr]] get m key
    by (auto simp: only_key_def reserves_def Inr)
qed

lemma reserve_run:
  assumes run: "run_state (reserve_closure api w sn ips) st = (r, st')"
    and key: "GetWorkloadReservdIPKey (w_type w) (w_meta w) = key" "key \<noteq> []"
  shows "only_key sn key (Some (fold AddIPToRange ips [])) (view st) r (view st')"
proof -
  obtain g w1 where g: "run_state (subnetCache_Get api SubnetNamespace sn) st = (g, w1)" by fastforce
  have v: "view w1 = view st" using subnet_Get [OF g] by simp
  show ?thesis
  proof (cases g)
    case (Inl e)
    then show ?thesis using run g v by (auto simp: reserve_closure_def only_key_def)
  next
    case (Inr s)
    then have s: "c_subnets (view w1) (SubnetNamespace, sn) = Some s" using subnet_Get [OF g] by simp
    define m where "m = AList.update key (fold AddIPToRange ips []) (ReservedIP (sn_Status s))"
    have mm: "map_of m key = Some (fold AddIPToRange ips [])"
      "\<And>k. k \<noteq> key \<Longrightarrow> map_of m k = map_of (ReservedIP (sn_Status s)) k"
      by (simp_all add: m_def AList.update_conv')
    show ?thesis
    proof (cases "meq (ReservedIP (sn_Status s)) m")
      case True
      then have "r = Inr () \<and> st' = w1"
        using run g Inr key by (simp add: reserve_closure_def m_def Let_def)
      moreover have "map_of (ReservedIP (sn_Status s)) key = Some (fold AddIPToRange ips [])"
        using True mm by (simp add: meq_iff)
      ultimately show ?thesis using s v by (auto simp: only_key_def reserves_def)
    next
      case False
      obtain u w2 where u: "run_state (subnetClient_UpdateStatus api
          (s\<lparr>sn_Status := (sn_Status s)\<lparr>ReservedIP := m\<rparr>\<rparr>)) w1 = (u, w2)" by fastforce
      then have "r = map_sum id (\<lambda>_. ()) u \<and> st' = w2"
        using run g Inr key False by (simp add: reserve_closure_def m_def Let_def)
      then show ?thesis using update_reserved [OF s u mm] v by simp
    qed
  qed
qed

lemma unreserve_run:
  assumes run: "run_state (unreserve_closure api w sn) st = (r, st')"
    and key: "GetWorkloadReservdIPKey (w_type w) (w_meta w) = key" "key \<noteq> []"
  shows "only_key sn key None (view st) r (view st')"
proof -
  obtain g w1 where g: "run_state (subnetCache_Get api SubnetNamespace sn) st = (g, w1)" by fastforce
  have v: "view w1 = view st" using subnet_Get [OF g] by simp
  show ?thesis
  proof (cases g)
    case (Inl e)
    then show ?thesis using run g v by (auto simp: unreserve_closure_def only_key_def)
  next
    case (Inr s)
    then have s: "c_subnets (view w1) (SubnetNamespace, sn) = Some s" using subnet_Get [OF g] by simp
    define m where "m = AList.delete key (ReservedIP (sn_Status s))"
    have mm: "map_of m key = None" "\<And>k. k \<noteq> key \<Longrightarrow> map_of m k = map_of (ReservedIP (sn_Status s)) k"
      by (simp_all add: m_def AList.delete_conv')
    show ?thesis
    proof (cases "ReservedIP (sn_Status s) = [] \<or> meq (ReservedIP (sn_Status s)) m")
      case True
      then have "r = Inr () \<and> st' = w1"
        using run g Inr key by (auto simp: unreserve_closure_def m_def Let_def split: if_splits)
      moreover have "map_of (ReservedIP (sn_Status s)) key = None" using True mm by (auto simp: meq_iff)
      ultimately show ?thesis using s v by (auto simp: only_key_def reserves_def)
    next
      case False
      obtain u w2 where u: "run_state (subnetClient_UpdateStatus api
          (s\<lparr>sn_Status := (sn_Status s)\<lparr>ReservedIP := m\<rparr>\<rparr>)) w1 = (u, w2)" by fastforce
      then have "r = map_sum id (\<lambda>_. ()) u \<and> st' = w2"
        using run g Inr key False by (simp add: unreserve_closure_def m_def Let_def)
      then show ?thesis using update_reserved [OF s u mm] v by simp
    qed
  qed
qed

lemma retry_only_key:
  assumes "run_state (retry_unit api b f) st = (r, st')"
    and "\<And>st r st'. run_state f st = (r, st') \<Longrightarrow> only_key sn key x (view st) r (view st')"
  shows "only_key sn key x (view st) r (view st')"
  using retry_unit [OF assms(1)]
  by (rule attempts_view [where R = "only_key sn key x"]) (erule assms(2), simp add: only_key_def)

lemma sync_reserved_run:
  assumes run: "run_state (syncWorkloadReservedIP api w) st = (None, st')"
    and ips: "CheckPodAnnotationIPs (mget (Annotations (GetTemplateObjectMeta w)) AnnotationIP) = Inr ips" "ips \<noteq> []"
    and sn: "mget (Annotations (GetTemplateObjectMeta w)) AnnotationSubnet = sn" "sn \<noteq> []"
    and key: "GetWorkloadReservdIPKey (w_type w) (w_meta w) = key" "key \<noteq> []"
  shows "only_key sn key (Some (fold AddIPToRange ips [])) (view st) (Inr ()) (view st')"
proof -
  obtain r w1 where r: "run_state (retry_unit api DefaultBackoff (reserve_closure api w sn ips)) st = (r, w1)" by fastforce
  then have "r = Inr () \<and> st' = w1"
    using run ips sn by (auto simp: syncWorkloadReservedIP_def Let_def split: sum.splits)
  then show ?thesis using retry_only_key [OF r reserve_run [OF _ key]] by simp
qed

lemma remove_reserved_run:
  assumes run: "run_state (removeWorkloadReservedIP api w) st = (None, st')"
    and ips: "CheckPodAnnotationIPs (mget (Annotations (GetTemplateObjectMeta w)) AnnotationIP) = Inr ips" "ips \<noteq> []"
    and sn: "mget (Annotations (GetTemplateObjectMeta w)) AnnotationSubnet = sn" "sn \<noteq> []"
    and key: "GetWorkloadReservdIPKey (w_type w) (w_meta w) = key" "key \<noteq> []"
  shows "only_key sn key None (view st) (Inr ()) (view st')"
proof -
  obtain r w1 where r: "run_state (retry_unit api DefaultBackoff (unreserve_closure api w sn)) st = (r, w1)" by fastforce
  then have "r = Inr () \<and> st' = w1"
    using run ips sn by (auto simp: removeWorkloadReservedIP_def Let_def split: sum.splits)
  then show ?thesis using retry_only_key [OF r unreserve_run [OF _ key]] by simp
qed

end

subsection \<open>Properties\<close>

text \<open>
  C28. Reserving and giving back: after \<open>syncWorkloadReservedIP\<close> the stored subnet has, under the key of the
  workload, the ranges of the addresses that the workload asks for; after \<open>removeWorkloadReservedIP\<close> it
  has no entry for the workload. The entries of all other workloads are the same throughout.
\<close>

theorem reserve_then_release:
  assumes "kube api view"
    and "CheckPodAnnotationIPs (mget (Annotations (GetTemplateObjectMeta w)) AnnotationIP) = Inr ips" and "ips \<noteq> []"
    and "mget (Annotations (GetTemplateObjectMeta w)) AnnotationSubnet = sn" and "sn \<noteq> []"
    and "GetWorkloadReservdIPKey (w_type w) (w_meta w) = key" and "key \<noteq> []"
    and "run_state (syncWorkloadReservedIP api w) st = (None, st1)"
    and "run_state (removeWorkloadReservedIP api w) st1 = (None, st2)"
  shows "reserves (view st1) sn key (Some (fold AddIPToRange ips [])) \<and> reserves (view st2) sn key None \<and>
    (\<forall>k x. k \<noteq> key \<longrightarrow> reserves (view st1) sn k x = reserves (view st) sn k x \<and>
       reserves (view st2) sn k x = reserves (view st) sn k x)"
  using kube.sync_reserved_run [OF assms(1,8,2-7)] kube.remove_reserved_run [OF assms(1,9,2-7)]
  by (simp add: only_key_def)

definition example_workload :: "string \<Rightarrow> Workload" where
  "example_workload ips = \<lparr>w_type = Deployment, w_meta = example_meta ''default'' ''d'',
     w_template = no_meta\<lparr>Annotations := [(AnnotationIP, ips), (AnnotationSubnet, ''s'')]\<rparr>, w_jobTemplate = no_meta\<rparr>"

theorem reserve_then_release_witness:
  "\<exists>st1 st2. run_state (syncWorkloadReservedIP mem_api (example_workload ''10.1.0.5-10.1.0.6'')) (example_world [] []) = (None, st1) \<and>
     run_state (removeWorkloadReservedIP mem_api (example_workload ''10.1.0.5-10.1.0.6'')) st1 = (None, st2) \<and>
     reserves (mem_view st1) ''s'' ''Deployment/default/d'' (Some [example_range ''10.1.0.5'' ''10.1.0.6'']) \<and>
     reserves (mem_view st2) ''s'' ''Deployment/default/d'' None"
proof -
  define w where "w = example_workload ''10.1.0.5-10.1.0.6''"
  define o1 where "o1 = run_state (syncWorkloadReservedIP mem_api w) (example_world [] [])"
  define o2 where "o2 = run_state (removeWorkloadReservedIP mem_api w) (snd o1)"
  have ips: "CheckPodAnnotationIPs (mget (Annotations (GetTemplateObjectMeta w)) AnnotationIP) =
      Inr [ParseIP ''10.1.0.5'', ParseIP ''10.1.0.6'']"
    and sn: "mget (Annotations (GetTemplateObjectMeta w)) AnnotationSubnet = ''s''"
    and key: "GetWorkloadReservdIPKey (w_type w) (w_meta w) = ''Deployment/default/d''"
    and rs: "fold AddIPToRange [ParseIP ''10.1.0.5'', ParseIP ''10.1.0.6''] [] = [example_range ''10.1.0.5'' ''10.1.0.6'']"
    unfolding w_def by code_simp+
  have "fst o1 = None" unfolding o1_def w_def by code_simp
  then have r1: "run_state (syncWorkloadReservedIP mem_api w) (example_world [] []) = (None, snd o1)"
    unfolding o1_def by (metis prod.collapse)
  have "fst o2 = None" unfolding o2_def o1_def w_def by code_simp
  then have r2: "run_state (removeWorkloadReservedIP mem_api w) (snd o1) = (None, snd o2)"
    unfolding o2_def by (metis prod.collapse)
  have ne: "[ParseIP ''10.1.0.5'', ParseIP ''10.1.0.6''] \<noteq> []" "''s'' \<noteq> []" "''Deployment/default/d'' \<noteq> []" by simp_all
  show ?thesis
    using reserve_then_release [where api = mem_api and view = mem_view, OF mem.kube_axioms ips ne(1) sn ne(2) key ne(3) r1 r2]
      r1 r2 unfolding rs w_def by blast
qed

text \<open>
  The labels of an object without labels are never set: the map that the handler fills is not put
  into the object, and the update sends the object unchanged.
\<close>

lemma updateWorkloadLabel_no_labels:
  assumes "Labels (w_meta w) = []" and "w_type w = Deployment" and "mget labels k \<noteq> []"
  shows "updateWorkloadLabel api w labels = workloadClient_Update api w"
proof -
  have "(k, mget labels k) \<in> set labels" using assms(3) map_of_SomeD by (fastforce simp: mget_def split: option.splits)
  then have "list_ex (\<lambda>(k, v). mget [] k \<noteq> v) labels" using assms(3) by (auto simp: list_ex_iff)
  moreover have "labels \<noteq> []" using assms(3) by auto
  ultimately show ?thesis using assms(1,2) by (simp add: updateWorkloadLabel_def DeepCopy_def)
qed

end
