(* ===== verification/Webhook.thy ===== *)
theory Webhook
  imports IPController "HOL-Library.Multiset"
begin

text \<open>
  The admission webhook: \<open>pkg/admission/webhook\<close>. It only reads, so that what it uses of the cluster
  and of the decoders is a record of functions, the argument \<open>h\<close> of every definition: the clients,
  with lists that come in pages, \<open>json.Unmarshal\<close> of the objects, and the decoder of the review. A list with a continue
  token reads the snapshot that the token names. The five workload fields of \<open>WorkloadReview\<close>, of which
  the kind of the request fills one, are one field.
\<close>

record AdmissionRequest =
  req_UID :: string
  req_Kind :: string
  req_Object :: string

record AdmissionResponse =
  resp_UID :: string
  resp_Allowed :: bool
  resp_Message :: string

record AdmissionReview =
  ar_Kind :: string
  ar_Request :: "AdmissionRequest option"
  ar_Response :: "AdmissionResponse option"

record hooks =
  subnetClient_List :: "string \<Rightarrow> string \<Rightarrow> error + FlatNetworkSubnet list \<times> string"
  ipClient_List :: "string \<Rightarrow> string \<Rightarrow> string \<Rightarrow> error + FlatNetworkIP list \<times> string"
  subnetClient_Get :: "string \<Rightarrow> string \<Rightarrow> error + FlatNetworkSubnet"
  workloadClient_Get :: "object_type \<Rightarrow> string \<Rightarrow> string \<Rightarrow> error + ObjectMeta"
  unmarshal_subnet :: "string \<Rightarrow> error + FlatNetworkSubnet"
  unmarshal_workload :: "object_type \<Rightarrow> string \<Rightarrow> error + Workload"
  decode_review :: "string \<Rightarrow> error + AdmissionReview"
  error_string :: "error \<Rightarrow> string"

abbreviation NetworkAttachmentAnnot :: string where "NetworkAttachmentAnnot \<equiv> ''k8s.v1.cni.cncf.io/networks''"

subsection \<open>Lists in pages\<close>

text \<open>Both list loops: they end with the page that has no continue token.\<close>

partial_function (option) list_pages ::
    "(string \<Rightarrow> error + 'a list \<times> string) \<Rightarrow> string \<Rightarrow> (error + 'a list) option" where
  "list_pages page c =
     (case page c of
        Inl e \<Rightarrow> Some (Inl e)
      | Inr (items, next) \<Rightarrow>
          if next = [] then Some (Inr items)
          else Option.bind (list_pages page next) (\<lambda>r. Some (map_sum id (\<lambda>rest. items @ rest) r)))"

declare list_pages.simps [code]

subsection \<open>Subnets: subnet.go\<close>

definition subnet_selector :: "FlatNetworkSubnet \<Rightarrow> string" where
  "subnet_selector subnet = ''master='' @ Master (sn_Spec subnet) @ '',vlan='' @ show_int (VLAN (sn_Spec subnet))"

definition validateFlatNetworkSubnet :: "hooks \<Rightarrow> AdmissionRequest \<Rightarrow> (bool \<times> error option) outcome" where
  "validateFlatNetworkSubnet h req =
     (case unmarshal_subnet h (req_Object req) of
        Inl e \<Rightarrow> Returns (False, Some e)
      | Inr subnet \<Rightarrow>
          if sn_Name subnet = [] \<or> DeletionTimestamp (sn_meta subnet) \<noteq> None then Returns (True, None)
          else
            (case list_pages (subnetClient_List h (subnet_selector subnet)) [] of
               None \<Rightarrow> Hangs
             | Some (Inl e) \<Rightarrow> Returns (False, Some (Wrapf ''failed to list subnet by selector %q: %w''
                                [subnet_selector subnet] e))
             | Some (Inr subnets) \<Rightarrow>
                 (case ValidateSubnet subnet of
                    Some e \<Rightarrow> Returns (False, Some e)
                  | None \<Rightarrow>
                      (case CheckSubnetFlatMode subnet (map Some subnets) of
                         Some e \<Rightarrow> Returns (False, Some e)
                       | None \<Rightarrow>
                           (case CheckSubnetConflict subnet (map Some subnets) of
                              Some e \<Rightarrow> Returns (False, Some e)
                            | None \<Rightarrow> Returns (True, None))))))"

subsection \<open>Workloads: workload.go\<close>

definition workload_type :: "string \<Rightarrow> object_type option" where
  "workload_type kind =
     (if kind = ''Deployment'' then Some Deployment
      else if kind = ''DaemonSet'' then Some DaemonSet
      else if kind = ''StatefulSet'' then Some StatefulSet
      else if kind = ''CronJob'' then Some CronJob
      else if kind = ''Job'' then Some Job
      else None)"

record WorkloadReview =
  wr_Kind :: string
  wr_Workload :: Workload

definition PodTemplateAnnotations :: "WorkloadReview \<Rightarrow> string \<Rightarrow> string" where
  "PodTemplateAnnotations r key =
     (case workload_type (wr_Kind r) of
        None \<Rightarrow> []
      | Some _ \<Rightarrow> mget (Annotations (w_template (wr_Workload r))) key)"

definition deserializeWorkloadReview :: "hooks \<Rightarrow> AdmissionRequest \<Rightarrow> error + WorkloadReview" where
  "deserializeWorkloadReview h req =
     (case workload_type (req_Kind req) of
        None \<Rightarrow> Inl (Errorf ''unsupported workload kind %q'' [req_Kind req])
      | Some t \<Rightarrow>
          (case unmarshal_workload h t (req_Object req) of
             Inl e \<Rightarrow> Inl (Wrapf ''error deserialize workload admission request'' [] e)
           | Inr w \<Rightarrow> Inr \<lparr>wr_Kind = req_Kind req, wr_Workload = w\<rparr>))"

text \<open>The loop of \<open>checkIPDuplicate\<close>; \<open>seen\<close> holds the keys of the map \<open>set\<close>.\<close>

fun ip_duplicate :: "string list \<Rightarrow> net_IP list \<Rightarrow> error option" where
  "ip_duplicate seen [] = None"
| "ip_duplicate seen (v # vs) =
     (if IP_String v \<in> set seen then Some (Errorf ''ip [%v] is duplicate in list'' [IP_String v])
      else ip_duplicate (IP_String v # seen) vs)"

definition checkIPDuplicate :: "net_IP list \<Rightarrow> error option" where
  "checkIPDuplicate ips = ip_duplicate [] ips"

fun ips_in_network :: "FlatNetworkSubnet \<Rightarrow> IPNet \<Rightarrow> net_IP list \<Rightarrow> error option" where
  "ips_in_network subnet network [] = None"
| "ips_in_network subnet network (ip # ips) =
     (if IP_Equal ip (Gateway (sn_Spec subnet)) then
        Some (Errorf ''ip [%v] is the gateway of subnet %v'' [IP_String ip, sn_Name subnet])
      else if \<not> IPInNetwork ip (Some network) then
        Some (Errorf ''ip [%v] is not in subnet CIDR %v'' [IP_String ip, sn_Name subnet])
      else if \<not> IsAvailableIP ip (Some network) then
        Some (Errorf ''ip [%v] is not available in subnet CIDR %v'' [IP_String ip, sn_Name subnet])
      else ips_in_network subnet network ips)"

definition checkIPsInSubnet :: "net_IP list \<Rightarrow> FlatNetworkSubnet \<Rightarrow> error option" where
  "checkIPsInSubnet ips subnet =
     (if ips = [] then None
      else case ParseCIDR (CIDR (sn_Spec subnet)) of
        Inl e \<Rightarrow> Some (Wrapf ''failed to parse CIDR [%v]: %w'' [CIDR (sn_Spec subnet)] e)
      | Inr (_, network) \<Rightarrow> ips_in_network subnet network ips)"

definition validateAnnotationIP :: "WorkloadReview \<Rightarrow> FlatNetworkSubnet \<Rightarrow> error option" where
  "validateAnnotationIP workload subnet =
     (case CheckPodAnnotationIPs (PodTemplateAnnotations workload AnnotationIP) of
        Inl e \<Rightarrow> Some e
      | Inr ips \<Rightarrow>
          if ips = [] then None
          else case checkIPDuplicate ips of
            Some e \<Rightarrow> Some e
          | None \<Rightarrow> checkIPsInSubnet ips subnet)"

fun mac_duplicate :: "string list \<Rightarrow> string list \<Rightarrow> error option" where
  "mac_duplicate seen [] = None"
| "mac_duplicate seen (m # ms) =
     (if m \<in> set seen then Some (Errorf ''mac %v is duplicated'' [m]) else mac_duplicate (m # seen) ms)"

definition checkMacDuplicate :: "string list \<Rightarrow> error option" where
  "checkMacDuplicate macs = mac_duplicate [] macs"

definition validateAnnotationMac :: "WorkloadReview \<Rightarrow> error option" where
  "validateAnnotationMac workload =
     (case CheckPodAnnotationIPs (PodTemplateAnnotations workload AnnotationIP) of
        Inl e \<Rightarrow> Some e
      | Inr ips \<Rightarrow>
          (case CheckPodAnnotationMACs (PodTemplateAnnotations workload AnnotationMac) of
             Inl e \<Rightarrow> Some e
           | Inr macs \<Rightarrow>
               if macs = [] then None
               else if ips \<noteq> [] \<and> length macs \<noteq> length ips then
                 Some (Errorf (''pod annotation defines %v MAC addresses but have %v IPs defined, '' @
                   ''the number of MACs and IPs are not same'') [show_nat (length macs), show_nat (length ips)])
               else checkMacDuplicate macs))"

text \<open>
  The first pair of an address and a reserving workload in conflict. Go visits the map in any order;
  which of several conflicts is reported depends on it, whether there is one does not.
\<close>

definition reserved_conflict :: "string \<Rightarrow> (string \<times> IPRange list) list \<Rightarrow> net_IP \<Rightarrow> error option" where
  "reserved_conflict key reserved ip =
     (case find (\<lambda>(k, ipRange). k \<noteq> key \<and> IPInRanges ip ipRange) reserved of
        None \<Rightarrow> None
      | Some (k, _) \<Rightarrow> Some (Errorf ''IP [%v] already reserved by workload [%v]'' [IP_String ip, k]))"

fun first_error :: "('a \<Rightarrow> error option) \<Rightarrow> 'a list \<Rightarrow> error option" where
  "first_error f [] = None"
| "first_error f (x # xs) = (case f x of Some e \<Rightarrow> Some e | None \<Rightarrow> first_error f xs)"

definition validateIPsInReserved :: "WorkloadReview \<Rightarrow> FlatNetworkSubnet \<Rightarrow> error option" where
  "validateIPsInReserved workload subnet =
     (case CheckPodAnnotationIPs (PodTemplateAnnotations workload AnnotationIP) of
        Inl e \<Rightarrow> Some e
      | Inr ips \<Rightarrow>
          if ips = [] then None
          else if wr_Kind workload = ''Job'' \<and> OwnerReferences (w_meta (wr_Workload workload)) \<noteq> [] then None
          else if ReservedIP (sn_Status subnet) = [] then None
          else
            (let key = (case workload_type (wr_Kind workload) of
                          None \<Rightarrow> GetWorkloadReservdIPKey OtherObject (w_meta (wr_Workload workload))
                        | Some t \<Rightarrow> GetWorkloadReservdIPKey t (w_meta (wr_Workload workload))) in
             first_error (reserved_conflict key (ReservedIP (sn_Status subnet))) ips))"

definition workload_selector :: "WorkloadReview \<Rightarrow> string" where
  "workload_selector workload =
     (let m = w_meta (wr_Workload workload);
          name = strings_ToLower (wr_Kind workload) @ ''-'' @ Namespace m @ ''-'' @ Name m in
      if wr_Kind workload \<in> {''Deployment'', ''DaemonSet'', ''StatefulSet''} then
        LabelWorkloadSelector @ ''=apps.'' @ name
      else if wr_Kind workload \<in> {''CronJob'', ''Job''} then LabelWorkloadSelector @ ''='' @ name
      else [])"

definition getWorkloadPodFlatNetworkIPs :: "hooks \<Rightarrow> WorkloadReview \<Rightarrow> (error + FlatNetworkIP list) option" where
  "getWorkloadPodFlatNetworkIPs h workload =
     map_option (map_sum (\<lambda>e. Wrapf ''failed to list FlatNetworkIPs by %q: %w'' [workload_selector workload] e) id)
       (list_pages (ipClient_List h (Namespace (w_meta (wr_Workload workload))) (workload_selector workload)) [])"

definition other_used :: "IPRange list \<Rightarrow> FlatNetworkIP list \<Rightarrow> IPRange list" where
  "other_used usedIP flatnetworkIPs =
     fold (\<lambda>ip used. if Addr (ip_Status ip) = [] then used else RemoveIPFromRange (Addr (ip_Status ip)) used)
       flatnetworkIPs usedIP"

definition validateIPsInUsed ::
    "WorkloadReview \<Rightarrow> FlatNetworkSubnet \<Rightarrow> FlatNetworkIP list \<Rightarrow> error option" where
  "validateIPsInUsed workload subnet flatnetworkIPs =
     (case CheckPodAnnotationIPs (PodTemplateAnnotations workload AnnotationIP) of
        Inl e \<Rightarrow> Some e
      | Inr ips \<Rightarrow>
          first_error (\<lambda>ip. if IPInRanges ip (other_used (UsedIP (sn_Status subnet)) flatnetworkIPs)
            then Some (Errorf ''IP %q already uesd by other pods'' [IP_String ip]) else None) ips)"

text \<open>The hardware addresses that the own pods do not use; each found one is cut out at its index.\<close>

definition remove_mac :: "string \<Rightarrow> string list \<Rightarrow> string list" where
  "remove_mac m used =
     (if slices_BinarySearch used m
      then let index = binary_search used m 0 (length used) in take index used @ drop (index + 1) used
      else used)"

definition other_macs :: "string list \<Rightarrow> FlatNetworkIP list \<Rightarrow> string list" where
  "other_macs usedMAC flatnetworkIPs =
     fold (\<lambda>ip used. if MAC (ip_Status ip) = [] then used else remove_mac (MAC (ip_Status ip)) used)
       flatnetworkIPs (sort usedMAC)"

definition validateMACsInUsed ::
    "WorkloadReview \<Rightarrow> FlatNetworkSubnet \<Rightarrow> FlatNetworkIP list \<Rightarrow> error option" where
  "validateMACsInUsed workload subnet flatnetworkIPs =
     (case CheckPodAnnotationMACs (PodTemplateAnnotations workload AnnotationMac) of
        Inl e \<Rightarrow> Some e
      | Inr macs \<Rightarrow>
          first_error (\<lambda>m. if slices_BinarySearch (other_macs (UsedMAC (sn_Status subnet)) flatnetworkIPs) m
            then Some (Errorf ''MAC %q already used by other pods'' [m]) else None) macs)"

definition isUpdatingWorkloadSubnetLabel :: "hooks \<Rightarrow> WorkloadReview \<Rightarrow> bool" where
  "isUpdatingWorkloadSubnetLabel h workload =
     (let m = w_meta (wr_Workload workload) in
      case workload_type (wr_Kind workload) of
        None \<Rightarrow> False
      | Some t \<Rightarrow>
          (case workloadClient_Get h t (Namespace m) (Name m) of
             Inl e \<Rightarrow> False
           | Inr old \<Rightarrow>
               mget (Labels old) LabelFlatNetworkIPType \<noteq> mget (Labels m) LabelFlatNetworkIPType \<or>
               mget (Labels old) LabelSubnet \<noteq> mget (Labels m) LabelSubnet))"

text \<open>The checks of \<open>validateWorkload\<close> on the stored subnet, in order.\<close>

definition check_workload ::
    "hooks \<Rightarrow> WorkloadReview \<Rightarrow> FlatNetworkSubnet \<Rightarrow> (bool \<times> error option) outcome" where
  "check_workload h workload subnet =
     (case validateAnnotationIP workload subnet of
        Some e \<Rightarrow> Returns (False, Some (Wrapf ''validate annotation IP failed: %w'' [] e))
      | None \<Rightarrow>
          (case validateAnnotationMac workload of
             Some e \<Rightarrow> Returns (False, Some (Wrapf ''validate annotation mac failed: %w'' [] e))
           | None \<Rightarrow>
               (case validateIPsInReserved workload subnet of
                  Some e \<Rightarrow> Returns (False, Some (Wrapf ''validate IP reserved failed: %w'' [] e))
                | None \<Rightarrow>
                    (case getWorkloadPodFlatNetworkIPs h workload of
                       None \<Rightarrow> Hangs
                     | Some (Inl e) \<Rightarrow> Returns (False, Some e)
                     | Some (Inr flatNetworkIPs) \<Rightarrow>
                         (case validateIPsInUsed workload subnet flatNetworkIPs of
                            Some e \<Rightarrow> Returns (False, Some (Wrapf ''validate IP used failed: %w'' [] e))
                          | None \<Rightarrow>
                              (case validateMACsInUsed workload subnet flatNetworkIPs of
                                 Some e \<Rightarrow> Returns (False, Some (Wrapf ''validate MAC used failed: %w'' [] e))
                               | None \<Rightarrow> Returns (True, None)))))))"

definition validateWorkload :: "hooks \<Rightarrow> AdmissionRequest \<Rightarrow> (bool \<times> error option) outcome" where
  "validateWorkload h req =
     (case deserializeWorkloadReview h req of
        Inl e \<Rightarrow> Returns (False, Some (Wrapf ''deserializeWorkloadReview: %w'' [] e))
      | Inr workload \<Rightarrow>
          if Name (w_meta (wr_Workload workload)) = [] \<or> DeletionTimestamp (w_meta (wr_Workload workload)) \<noteq> None
          then Returns (True, None)
          else if PodTemplateAnnotations workload NetworkAttachmentAnnot = [] \<and>
                  PodTemplateAnnotations workload ''v1.multus-cni.io/default-network'' = []
          then Returns (True, None)
          else
            (let subnetName = PodTemplateAnnotations workload AnnotationSubnet in
             if subnetName = [] then Returns (True, None)
             else if isUpdatingWorkloadSubnetLabel h workload then Returns (True, None)
             else
               (case subnetClient_Get h SubnetNamespace subnetName of
                  Inl e \<Rightarrow> Returns (False, Some (Wrapf ''failed to get subnet %v: %w'' [subnetName] e))
                | Inr subnet \<Rightarrow> check_workload h workload subnet)))"

subsection \<open>Reviews: webhook.go\<close>

text \<open>A review without a request is dereferenced: a panic.\<close>

definition validateAdmissionReview :: "hooks \<Rightarrow> AdmissionReview \<Rightarrow> (bool \<times> error option) outcome" where
  "validateAdmissionReview h ar =
     (case ar_Request ar of
        None \<Rightarrow> Panics
      | Some req \<Rightarrow>
          if req_Kind req = ''FlatNetworkSubnet'' then validateFlatNetworkSubnet h req
          else if workload_type (req_Kind req) \<noteq> None then validateWorkload h req
          else Returns (True, None))"

definition prepareAdmissionReviewResponse :: "bool \<Rightarrow> string \<Rightarrow> AdmissionReview \<Rightarrow> error + AdmissionReview" where
  "prepareAdmissionReviewResponse allowed message ar =
     (case ar_Request ar of
        Some req \<Rightarrow> Inr (ar\<lparr>ar_Response := Some \<lparr>resp_UID = req_UID req, resp_Allowed = allowed, resp_Message = message\<rparr>\<rparr>)
      | None \<Rightarrow> Inl (Errorf ''received empty AdmissionReview request'' []))"

datatype http_reply = HttpError string nat | WriteReview AdmissionReview

definition deserializeAdmissionReview :: "hooks \<Rightarrow> string \<Rightarrow> error + AdmissionReview" where
  "deserializeAdmissionReview h body =
     (case decode_review h body of
        Inl e \<Rightarrow> Inl e
      | Inr ar \<Rightarrow> if ar_Kind ar \<noteq> ''AdmissionReview''
                  then Inl (Errorf ''received object is not an AdmissionReview'' []) else Inr ar)"

definition readAdmissionReview :: "hooks \<Rightarrow> string \<Rightarrow> string \<Rightarrow> (error \<times> nat) + AdmissionReview" where
  "readAdmissionReview h contentType body =
     (if body = [] then Inl (Errorf ''Error reading HTTP request: empty body'' [], 400)
      else if contentType \<noteq> ''application/json'' then
        Inl (Errorf (''Invalid Content-Type='' @ [CHR 0x27] @ ''%s'' @ [CHR 0x27] @ '', expected '' @
               [CHR 0x27] @ ''application/json'' @ [CHR 0x27]) [contentType], 415)
      else case deserializeAdmissionReview h body of
        Inl e \<Rightarrow> Inl (Wrapf ''error deserializing AdmissionReview'' [] e, 400)
      | Inr ar \<Rightarrow> Inr ar)"

definition handleValidationError :: "hooks \<Rightarrow> AdmissionReview \<Rightarrow> error \<Rightarrow> http_reply" where
  "handleValidationError h ar orgErr =
     (case prepareAdmissionReviewResponse False (error_string h orgErr) ar of
        Inl e \<Rightarrow> HttpError (error_string h (Wrapf ''failed to prepare AdmissionResponse: %w'' [] e)) 400
      | Inr ar \<Rightarrow> WriteReview ar)"

definition ValidateHandler :: "hooks \<Rightarrow> string \<Rightarrow> string \<Rightarrow> http_reply outcome" where
  "ValidateHandler h contentType body =
     (case readAdmissionReview h contentType body of
        Inl (e, httpStatus) \<Rightarrow> Returns (HttpError (error_string h e) httpStatus)
      | Inr ar \<Rightarrow>
          (case validateAdmissionReview h ar of
             Panics \<Rightarrow> Panics
           | Hangs \<Rightarrow> Hangs
           | Returns (allowed, Some e) \<Rightarrow> Returns (handleValidationError h ar e)
           | Returns (allowed, None) \<Rightarrow>
               (case prepareAdmissionReviewResponse allowed [] ar of
                  Inl e \<Rightarrow> Returns (HttpError (error_string h e) 400)
                | Inr ar \<Rightarrow> Returns (WriteReview ar))))"

subsection \<open>The lists\<close>

text \<open>\<open>pages page c ps\<close>: from the token \<open>c\<close> the server sends the pages \<open>ps\<close>, the last one without a token.\<close>

fun pages :: "(string \<Rightarrow> error + 'a list \<times> string) \<Rightarrow> string \<Rightarrow> 'a list list \<Rightarrow> bool" where
  "pages page c [] = False"
| "pages page c (p # ps) =
     (case page c of
        Inl e \<Rightarrow> False
      | Inr (items, next) \<Rightarrow> items = p \<and> (if next = [] then ps = [] else pages page next ps))"

lemma list_pages_concat: "pages page c ps \<Longrightarrow> list_pages page c = Some (Inr (concat ps))"
proof (induction page c ps rule: pages.induct)
  case (2 page c p ps)
  obtain items n where n: "page c = Inr (items, n)" using "2.prems" by (auto split: sum.splits)
  show ?case
  proof (cases "n = []")
    case True
    then show ?thesis using "2.prems" n by (simp add: list_pages.simps [of page c])
  next
    case False
    then have "list_pages page n = Some (Inr (concat ps))" using "2.prems" "2.IH" [OF n refl False] n by simp
    then show ?thesis using "2.prems" n False by (simp add: list_pages.simps [of page c])
  qed
qed simp

lemma first_error_None: "first_error f xs = None \<longleftrightarrow> (\<forall>x \<in> set xs. f x = None)"
  by (induction xs) (auto split: option.splits)

lemma ip_duplicate_None:
  "ip_duplicate seen ips = None \<longleftrightarrow> distinct (map IP_String ips) \<and> set (map IP_String ips) \<inter> set seen = {}"
  by (induction ips arbitrary: seen) auto

lemma mac_duplicate_None: "mac_duplicate seen ms = None \<longleftrightarrow> distinct ms \<and> set ms \<inter> set seen = {}"
  by (induction ms arbitrary: seen) auto

lemma ips_in_network_None:
  "ips_in_network s n ips = None \<longleftrightarrow> (\<forall>ip \<in> set ips. \<not> IP_Equal ip (Gateway (sn_Spec s)) \<and>
     IPInNetwork ip (Some n) \<and> IsAvailableIP ip (Some n))"
  by (induction ips) auto

lemma reserved_conflict_None:
  "reserved_conflict key m ip = None \<longleftrightarrow> (\<forall>(k, r) \<in> set m. k \<noteq> key \<longrightarrow> \<not> IPInRanges ip r)"
proof -
  have "reserved_conflict key m ip = None \<longleftrightarrow> find (\<lambda>(k, r). k \<noteq> key \<and> IPInRanges ip r) m = None"
    by (auto simp: reserved_conflict_def split: option.splits)
  then show ?thesis by (auto simp: find_None_iff)
qed

subsection \<open>Addresses and hardware addresses of other pods\<close>

definition own_addrs :: "FlatNetworkIP list \<Rightarrow> net_IP list" where
  "own_addrs ips = filter (\<lambda>a. a \<noteq> []) (map (\<lambda>i. Addr (ip_Status i)) ips)"

definition own_macs :: "FlatNetworkIP list \<Rightarrow> string list" where
  "own_macs ips = filter (\<lambda>m. m \<noteq> []) (map (\<lambda>i. MAC (ip_Status i)) ips)"

lemma other_used_exact:
  assumes "canon used" and "list_all inner_addr (own_addrs ips)" and "inner_addr a"
  shows "canon (other_used used ips) \<and>
    (IPInRanges a (other_used used ips) \<longleftrightarrow> IPInRanges a used \<and> a \<notin> set (own_addrs ips))"
  using assms(1,2) unfolding other_used_def
proof (induction ips arbitrary: used)
  case (Cons i ips)
  show ?case
  proof (cases "Addr (ip_Status i) = []")
    case True
    then show ?thesis using Cons by (simp add: own_addrs_def)
  next
    case False
    then have i: "inner_addr (Addr (ip_Status i))" and rest: "list_all inner_addr (own_addrs ips)"
      using Cons.prems(2) by (simp_all add: own_addrs_def)
    have "bval a = bval (Addr (ip_Status i)) \<longleftrightarrow> a = Addr (ip_Status i)"
      using i assms(3) by (simp add: inner_addr_def bval_inj)
    then show ?thesis
      using Cons.IH [OF rng.wf_rem [OF i Cons.prems(1)] rest] rng.mem_rem [OF i assms(3) Cons.prems(1)] False
      by (auto simp: own_addrs_def)
  qed
qed (simp add: own_addrs_def)

lemma remove_mac_mset:
  assumes "sorted used"
  shows "sorted (remove_mac m used) \<and> mset (remove_mac m used) = mset used - {#m#}"
proof (cases "slices_BinarySearch used m")
  case False
  then show ?thesis using assms slices_BinarySearch_iff [OF assms] by (simp add: remove_mac_def)
next
  case True
  define k where "k = binary_search used m 0 (length used)"
  have k: "k < length used" "used ! k = m" using True by (simp_all add: slices_BinarySearch_def k_def Let_def)
  then have split: "used = take k used @ m # drop (k + 1) used" using id_take_nth_drop by force
  have r: "remove_mac m used = take k used @ drop (k + 1) used" using True by (simp add: remove_mac_def k_def Let_def)
  have "sorted (take k used @ m # drop (k + 1) used)" using assms split by simp
  then have "sorted (remove_mac m used)" unfolding r by (auto simp: sorted_append)
  moreover have "mset used = add_mset m (mset (remove_mac m used))"
    unfolding r by (subst split) simp
  ultimately show ?thesis by simp
qed

lemma remove_macs:
  assumes "sorted used"
  shows "sorted (fold (\<lambda>ip used. if MAC (ip_Status ip) = [] then used else remove_mac (MAC (ip_Status ip)) used) ips used) \<and>
    mset (fold (\<lambda>ip used. if MAC (ip_Status ip) = [] then used else remove_mac (MAC (ip_Status ip)) used) ips used) =
      mset used - mset (own_macs ips)"
  using assms
proof (induction ips arbitrary: used)
  case (Cons i ips)
  show ?case
  proof (cases "MAC (ip_Status i) = []")
    case True
    then show ?thesis using Cons by (simp add: own_macs_def)
  next
    case False
    then show ?thesis
      using Cons.IH [of "remove_mac (MAC (ip_Status i)) used"] remove_mac_mset [OF Cons.prems, of "MAC (ip_Status i)"]
      by (simp add: own_macs_def)
  qed
qed (simp add: own_macs_def)

lemma other_macs_mset: "sorted (other_macs used ips) \<and> mset (other_macs used ips) = mset used - mset (own_macs ips)"
  using remove_macs [of "sort used" ips] by (simp add: other_macs_def)

text \<open>What each check guarantees.\<close>

lemma annotation_guards:
  assumes "validateAnnotationIP wl s = None" and "CheckPodAnnotationIPs (PodTemplateAnnotations wl AnnotationIP) = Inr ips"
  shows "distinct ips \<and> (\<forall>ip \<in> set ips. \<not> IP_Equal ip (Gateway (sn_Spec s)) \<and>
    (\<exists>cidr_ip n. ParseCIDR (CIDR (sn_Spec s)) = Inr (cidr_ip, n) \<and> IsAvailableIP ip (Some n)))"
proof -
  have "distinct (map IP_String ips)" "ips \<noteq> [] \<longrightarrow> checkIPsInSubnet ips s = None"
    using assms by (auto simp: validateAnnotationIP_def checkIPDuplicate_def ip_duplicate_None split: option.splits if_splits)
  then show ?thesis
    by (auto simp: distinct_map checkIPsInSubnet_def ips_in_network_None split: sum.splits)
qed

lemma mac_guards:
  assumes "validateAnnotationMac wl = None" and "CheckPodAnnotationIPs (PodTemplateAnnotations wl AnnotationIP) = Inr ips"
    and "CheckPodAnnotationMACs (PodTemplateAnnotations wl AnnotationMac) = Inr macs"
  shows "distinct macs \<and> (ips \<noteq> [] \<and> macs \<noteq> [] \<longrightarrow> length macs = length ips)"
  using assms by (auto simp: validateAnnotationMac_def checkMacDuplicate_def mac_duplicate_None split: if_splits)

lemma reserved_guards:
  assumes "validateIPsInReserved wl s = None" and "CheckPodAnnotationIPs (PodTemplateAnnotations wl AnnotationIP) = Inr ips"
    and "workload_type (wr_Kind wl) = Some t"
  shows "\<forall>ip \<in> set ips. wr_Kind wl = ''Job'' \<and> OwnerReferences (w_meta (wr_Workload wl)) \<noteq> [] \<or>
    (\<forall>(k, r) \<in> set (ReservedIP (sn_Status s)). k \<noteq> GetWorkloadReservdIPKey t (w_meta (wr_Workload wl)) \<longrightarrow> \<not> IPInRanges ip r)"
  using assms
  by (cases "ips = []"; cases "ReservedIP (sn_Status s) = []"; cases "wr_Kind wl = ''Job'' \<and> OwnerReferences (w_meta (wr_Workload wl)) \<noteq> []")
    (auto simp: validateIPsInReserved_def first_error_None reserved_conflict_None Let_def)

lemma used_guards:
  assumes "validateIPsInUsed wl s own = None" and "CheckPodAnnotationIPs (PodTemplateAnnotations wl AnnotationIP) = Inr ips"
  shows "\<forall>ip \<in> set ips. inner_addr ip \<and> canon (UsedIP (sn_Status s)) \<and> list_all inner_addr (own_addrs own) \<and>
    IPInRanges ip (UsedIP (sn_Status s)) \<longrightarrow> ip \<in> set (own_addrs own)"
  using assms other_used_exact by (fastforce simp: validateIPsInUsed_def first_error_None split: if_splits)

lemma mac_used_guards:
  assumes "validateMACsInUsed wl s own = None" and "CheckPodAnnotationMACs (PodTemplateAnnotations wl AnnotationMac) = Inr macs"
  shows "\<forall>m \<in> set macs. count_list (UsedMAC (sn_Status s)) m \<le> count_list (own_macs own) m"
proof
  fix m assume "m \<in> set macs"
  then have "m \<notin> set (other_macs (UsedMAC (sn_Status s)) own)"
    using assms slices_BinarySearch_iff other_macs_mset
    by (auto simp: validateMACsInUsed_def first_error_None split: if_splits)
  then have "count (mset (other_macs (UsedMAC (sn_Status s)) own)) m = 0" by (simp add: count_mset_0_iff)
  then show "count_list (UsedMAC (sn_Status s)) m \<le> count_list (own_macs own) m" by (simp add: other_macs_mset count_mset)
qed

subsection \<open>Properties\<close>

text \<open>
  C9. What the webhook lets pass. A workload that it allows is one that it does not look into: it has no name, is being deleted, uses no attached
  network, names no subnet, or changes its flat-network labels. Or else the subnet it names and the resources of its pods could be read, and
  the addresses and the hardware addresses it asks for are well formed, as many of the one as of the other when both are given, and pairwise
  different. Each address lies inside the network of the subnet without its lowest and highest address and is not its gateway; it is not
  reserved by another workload, unless the workload is a job with an owner; and if it is in use, then by a pod of the workload itself. No
  hardware address is used more often than by the pods of the workload itself.
\<close>

theorem validateWorkload_guards:
  assumes "validateWorkload h req = Returns (True, None)" and "deserializeWorkloadReview h req = Inr wl"
  shows "Name (w_meta (wr_Workload wl)) = [] \<or> DeletionTimestamp (w_meta (wr_Workload wl)) \<noteq> None \<or>
    PodTemplateAnnotations wl NetworkAttachmentAnnot = [] \<and> PodTemplateAnnotations wl ''v1.multus-cni.io/default-network'' = [] \<or>
    PodTemplateAnnotations wl AnnotationSubnet = [] \<or> isUpdatingWorkloadSubnetLabel h wl \<or>
    (\<exists>t s own ips macs. workload_type (wr_Kind wl) = Some t \<and>
       subnetClient_Get h SubnetNamespace (PodTemplateAnnotations wl AnnotationSubnet) = Inr s \<and>
       getWorkloadPodFlatNetworkIPs h wl = Some (Inr own) \<and>
       CheckPodAnnotationIPs (PodTemplateAnnotations wl AnnotationIP) = Inr ips \<and>
       CheckPodAnnotationMACs (PodTemplateAnnotations wl AnnotationMac) = Inr macs \<and>
       distinct ips \<and> distinct macs \<and> (ips \<noteq> [] \<and> macs \<noteq> [] \<longrightarrow> length macs = length ips) \<and>
       (\<forall>ip \<in> set ips. \<not> IP_Equal ip (Gateway (sn_Spec s)) \<and>
          (\<exists>cidr_ip n. ParseCIDR (CIDR (sn_Spec s)) = Inr (cidr_ip, n) \<and> IsAvailableIP ip (Some n)) \<and>
          (wr_Kind wl = ''Job'' \<and> OwnerReferences (w_meta (wr_Workload wl)) \<noteq> [] \<or>
           (\<forall>(k, r) \<in> set (ReservedIP (sn_Status s)). k \<noteq> GetWorkloadReservdIPKey t (w_meta (wr_Workload wl)) \<longrightarrow> \<not> IPInRanges ip r)) \<and>
          (inner_addr ip \<and> canon (UsedIP (sn_Status s)) \<and> list_all inner_addr (own_addrs own) \<and> IPInRanges ip (UsedIP (sn_Status s)) \<longrightarrow>
             ip \<in> set (own_addrs own))) \<and>
       (\<forall>m \<in> set macs. count_list (UsedMAC (sn_Status s)) m \<le> count_list (own_macs own) m))"
proof (rule ccontr)
  assume no: "\<not> ?thesis"
  obtain t where t: "workload_type (wr_Kind wl) = Some t"
    using assms(2) by (auto simp: deserializeWorkloadReview_def split: option.splits sum.splits)
  obtain s where s: "subnetClient_Get h SubnetNamespace (PodTemplateAnnotations wl AnnotationSubnet) = Inr s" "check_workload h wl s = Returns (True, None)"
    using assms no by (auto simp: validateWorkload_def Let_def split: sum.splits)
  then obtain own where own: "getWorkloadPodFlatNetworkIPs h wl = Some (Inr own)" and v: "validateAnnotationIP wl s = None"
      "validateAnnotationMac wl = None" "validateIPsInReserved wl s = None" "validateIPsInUsed wl s own = None" "validateMACsInUsed wl s own = None"
    by (auto simp: check_workload_def split: option.splits sum.splits)
  obtain ips macs where ips: "CheckPodAnnotationIPs (PodTemplateAnnotations wl AnnotationIP) = Inr ips"
      and macs: "CheckPodAnnotationMACs (PodTemplateAnnotations wl AnnotationMac) = Inr macs"
    using v(2) by (auto simp: validateAnnotationMac_def split: sum.splits)
  note guards = annotation_guards [OF v(1) ips] mac_guards [OF v(2) ips macs] reserved_guards [OF v(3) ips t] used_guards [OF v(4) ips]
    mac_used_guards [OF v(5) macs]
  have all: "\<forall>ip \<in> set ips. \<not> IP_Equal ip (Gateway (sn_Spec s)) \<and>
      (\<exists>cidr_ip n. ParseCIDR (CIDR (sn_Spec s)) = Inr (cidr_ip, n) \<and> IsAvailableIP ip (Some n)) \<and>
      (wr_Kind wl = ''Job'' \<and> OwnerReferences (w_meta (wr_Workload wl)) \<noteq> [] \<or>
       (\<forall>(k, r) \<in> set (ReservedIP (sn_Status s)). k \<noteq> GetWorkloadReservdIPKey t (w_meta (wr_Workload wl)) \<longrightarrow> \<not> IPInRanges ip r)) \<and>
      (inner_addr ip \<and> canon (UsedIP (sn_Status s)) \<and> list_all inner_addr (own_addrs own) \<and> IPInRanges ip (UsedIP (sn_Status s)) \<longrightarrow>
         ip \<in> set (own_addrs own))"
    using guards(1,3,4) by simp
  show False
    by (rule no [THEN notE], intro disjI2 exI [of _ t] exI [of _ s] exI [of _ own] exI [of _ ips] exI [of _ macs] conjI)
      (rule t s(1) own ips macs guards(1) [THEN conjunct1] guards(2) [THEN conjunct1] guards(2) [THEN conjunct2] all guards(5))+
qed

definition example_hooks :: hooks where
  "example_hooks = \<lparr>
     subnetClient_List = (\<lambda>sel c. Inr ([], [])),
     ipClient_List = (\<lambda>ns sel c. if c = [] then Inr ([example_ip ''p'' (ParseIP ''10.1.0.5'') ''Active''], ''more'') else Inr ([], [])),
     subnetClient_Get = (\<lambda>ns n. Inr (active_subnet [example_range ''10.1.0.5'' ''10.1.0.5''])),
     workloadClient_Get = (\<lambda>t ns n. Inl (StatusError NotFound)),
     unmarshal_subnet = (\<lambda>raw. Inl (StatusError OtherReason)),
     unmarshal_workload = (\<lambda>t raw. Inr \<lparr>w_type = t, w_meta = example_meta ''default'' ''d'',
       w_template = (example_meta [] [])\<lparr>Annotations := [(NetworkAttachmentAnnot, ''rancher-flat-network''),
         (AnnotationIP, ''10.1.0.5-10.1.0.6''), (AnnotationSubnet, ''s'')]\<rparr>, w_jobTemplate = example_meta [] []\<rparr>),
     decode_review = (\<lambda>body. Inl (StatusError OtherReason)),
     error_string = (\<lambda>e. ''error'')\<rparr>"

definition example_request :: AdmissionRequest where
  "example_request = \<lparr>req_UID = ''1'', req_Kind = ''Deployment'', req_Object = []\<rparr>"

definition example_review :: WorkloadReview where
  "example_review = \<lparr>wr_Kind = ''Deployment'', wr_Workload =
     (case unmarshal_workload example_hooks Deployment [] of Inr w \<Rightarrow> w | Inl _ \<Rightarrow> undefined)\<rparr>"

lemma example_review_simps:
  "deserializeWorkloadReview example_hooks example_request = Inr example_review"
  "Name (w_meta (wr_Workload example_review)) \<noteq> []" "DeletionTimestamp (w_meta (wr_Workload example_review)) = None"
  "PodTemplateAnnotations example_review NetworkAttachmentAnnot \<noteq> []"
  "PodTemplateAnnotations example_review AnnotationSubnet = ''s''"
  "\<not> isUpdatingWorkloadSubnetLabel example_hooks example_review"
  "workload_type (wr_Kind example_review) = Some Deployment" "OwnerReferences (w_meta (wr_Workload example_review)) = []"
  by (simp_all add: deserializeWorkloadReview_def example_request_def example_review_def workload_type_def
      PodTemplateAnnotations_def isUpdatingWorkloadSubnetLabel_def example_hooks_def example_meta_def mget_def)

theorem validateWorkload_guards_witness:
  "validateWorkload example_hooks example_request = Returns (True, None) \<and>
   (\<exists>cidr_ip n. ParseCIDR ''10.1.0.0/16'' = Inr (cidr_ip, n) \<and> IsAvailableIP (ParseIP ''10.1.0.6'') (Some n)) \<and>
   \<not> IPInRanges (ParseIP ''10.1.0.6'') [example_range ''10.1.0.5'' ''10.1.0.5'']"
proof -
  let ?s = "active_subnet [example_range ''10.1.0.5'' ''10.1.0.5'']" and ?own = "[example_ip ''p'' (ParseIP ''10.1.0.5'') ''Active'']"
  have run: "validateWorkload example_hooks example_request = Returns (True, None)" by code_simp
  have get: "subnetClient_Get example_hooks SubnetNamespace ''s'' = Inr ?s" by (simp add: example_hooks_def)
  have own: "getWorkloadPodFlatNetworkIPs example_hooks example_review = Some (Inr ?own)" by code_simp
  have oa: "list_all inner_addr (own_addrs ?own)" by code_simp
  have ips: "CheckPodAnnotationIPs (PodTemplateAnnotations example_review AnnotationIP) = Inr [ParseIP ''10.1.0.5'', ParseIP ''10.1.0.6'']"
    and inner: "list_all inner_addr [ParseIP ''10.1.0.5'', ParseIP ''10.1.0.6'']"
    and macs: "CheckPodAnnotationMACs (PodTemplateAnnotations example_review AnnotationMac) = Inr []"
    by code_simp+
  have cidr: "CIDR (sn_Spec ?s) = ''10.1.0.0/16''" "UsedIP (sn_Status ?s) = [example_range ''10.1.0.5'' ''10.1.0.5'']"
    by (simp_all add: active_subnet_def example_subnet_def)
  have ip: "ParseIP ''10.1.0.5'' = [0, 0, 0, 0, 0, 0, 0, 0, 0, 0, 255, 255, 10, 1, 0, 5]" by code_simp
  have can: "canon (UsedIP (sn_Status ?s))" unfolding cidr by (simp add: canon_def range16_def ip example_range_def)
  have neq: "ParseIP ''10.1.0.6'' \<notin> set (own_addrs ?own)" by code_simp
  obtain t s' own' ips' where eqs: "subnetClient_Get example_hooks SubnetNamespace (PodTemplateAnnotations example_review AnnotationSubnet) = Inr s'"
      "getWorkloadPodFlatNetworkIPs example_hooks example_review = Some (Inr own')"
      "CheckPodAnnotationIPs (PodTemplateAnnotations example_review AnnotationIP) = Inr ips'"
    and g: "\<forall>ip \<in> set ips'. \<not> IP_Equal ip (Gateway (sn_Spec s')) \<and>
      (\<exists>cidr_ip n. ParseCIDR (CIDR (sn_Spec s')) = Inr (cidr_ip, n) \<and> IsAvailableIP ip (Some n)) \<and>
      (wr_Kind example_review = ''Job'' \<and> OwnerReferences (w_meta (wr_Workload example_review)) \<noteq> [] \<or>
       (\<forall>(k, r) \<in> set (ReservedIP (sn_Status s')). k \<noteq> GetWorkloadReservdIPKey t (w_meta (wr_Workload example_review)) \<longrightarrow> \<not> IPInRanges ip r)) \<and>
      (inner_addr ip \<and> canon (UsedIP (sn_Status s')) \<and> list_all inner_addr (own_addrs own') \<and> IPInRanges ip (UsedIP (sn_Status s')) \<longrightarrow>
         ip \<in> set (own_addrs own'))"
    using validateWorkload_guards [OF run example_review_simps(1)] example_review_simps(2-6)
    by (elim disjE conjE exE) (simp; fail | rule that; assumption)+
  have "s' = ?s" "own' = ?own" "ips' = [ParseIP ''10.1.0.5'', ParseIP ''10.1.0.6'']"
    using eqs get own ips unfolding example_review_simps(5) by simp_all
  then have "(\<exists>cidr_ip n. ParseCIDR (CIDR (sn_Spec ?s)) = Inr (cidr_ip, n) \<and> IsAvailableIP (ParseIP ''10.1.0.6'') (Some n))"
    "inner_addr (ParseIP ''10.1.0.6'') \<and> canon (UsedIP (sn_Status ?s)) \<and> list_all inner_addr (own_addrs ?own) \<and>
      IPInRanges (ParseIP ''10.1.0.6'') (UsedIP (sn_Status ?s)) \<longrightarrow> ParseIP ''10.1.0.6'' \<in> set (own_addrs ?own)"
    using g by (metis list.set_intros)+
  then show ?thesis using run inner can oa neq unfolding cidr by auto
qed

text \<open>
  The list of the resources of a workload is complete: when the server answers with a chain of pages that
  ends, the loop ends with all the items, in order; a page that names itself as the next one keeps the
  loop going forever.
\<close>

theorem list_pages_complete:
  "(pages (ipClient_List h (Namespace (w_meta (wr_Workload wl))) (workload_selector wl)) [] ps \<longrightarrow>
      getWorkloadPodFlatNetworkIPs h wl = Some (Inr (concat ps))) \<and>
   (page c = Inr (items, c) \<and> c \<noteq> [] \<longrightarrow> list_pages page c = None)"
proof (intro conjI impI)
  assume "pages (ipClient_List h (Namespace (w_meta (wr_Workload wl))) (workload_selector wl)) [] ps"
  then show "getWorkloadPodFlatNetworkIPs h wl = Some (Inr (concat ps))"
    by (simp add: getWorkloadPodFlatNetworkIPs_def list_pages_concat)
next
  assume loop: "page c = Inr (items, c) \<and> c \<noteq> []"
  have "False" if "list_pages page c = Some y" for y
  proof (rule list_pages.raw_induct [OF _ that, where P = "\<lambda>p d y. p = page \<and> d = c \<longrightarrow> False", THEN mp])
    show "page = page \<and> c = c" by simp
    fix f p d y
    assume IH: "\<And>p d y. f p d = Some y \<Longrightarrow> p = page \<and> d = c \<longrightarrow> False"
      and body: "(case p d of Inl e \<Rightarrow> Some (Inl e) | Inr (items, next) \<Rightarrow>
          if next = [] then Some (Inr items)
          else f p next \<bind> (\<lambda>r. Some (map_sum id (\<lambda>rest. items @ rest) r))) = Some y"
    show "p = page \<and> d = c \<longrightarrow> False"
      using body IH [of page c] loop by (auto simp: bind_eq_Some_conv)
  qed
  then show "list_pages page c = None" by (cases "list_pages page c") auto
qed

theorem list_pages_complete_witness:
  "getWorkloadPodFlatNetworkIPs example_hooks example_review = Some (Inr [example_ip ''p'' (ParseIP ''10.1.0.5'') ''Active''])"
proof -
  have "pages (ipClient_List example_hooks (Namespace (w_meta (wr_Workload example_review))) (workload_selector example_review)) []
      [[example_ip ''p'' (ParseIP ''10.1.0.5'') ''Active''], []]"
    by (simp add: example_hooks_def)
  from list_pages_complete [THEN conjunct1, THEN mp, OF this] show ?thesis by simp
qed

text \<open>
  A review without a request makes the handler panic, before the check for it in
  \<open>prepareAdmissionReviewResponse\<close>.
\<close>

lemma empty_review_panics:
  assumes "decode_review h body = Inr ar" and "ar_Kind ar = ''AdmissionReview''" and "ar_Request ar = None" and "body \<noteq> []"
  shows "ValidateHandler h ''application/json'' body = Panics"
  using assms
  by (simp add: ValidateHandler_def readAdmissionReview_def deserializeAdmissionReview_def validateAdmissionReview_def)

end
