(* ===== verification/ServiceController.thy ===== *)
theory ServiceController
  imports PodController
begin

text \<open>
  The controller of the services: \<open>pkg/controller/service\<close>, and the recognition of flat-network services
  in \<open>pkg/utils\<close>. For each service that selects pods of a flat network it keeps a headless companion
  service, whose name has a suffix. The record \<open>Service\<close> has the fields that the code reads or sets.
  Port numbers are 32 bits wide. A cache lists no nil pods. \<open>IntValue\<close>, the number of a target port, is a method of an
  apimachinery type: a field of \<open>svc_api\<close>, with the operations on the cluster.
\<close>

datatype IntOrString = IntVal "32 word" | StrVal string

record ServicePort =
  sp_Name :: string
  sp_Protocol :: string
  sp_Port :: "32 word"
  sp_TargetPort :: IntOrString
  sp_NodePort :: "32 word"

record Service =
  svc_meta :: ObjectMeta
  svc_Ports :: "ServicePort list"
  svc_Selector :: strmap
  svc_ClusterIP :: string
  svc_ClusterIPs :: "string list"
  svc_Type :: string

abbreviation svc_Name :: "Service \<Rightarrow> string" where "svc_Name s \<equiv> Name (svc_meta s)"
abbreviation svc_Namespace :: "Service \<Rightarrow> string" where "svc_Namespace s \<equiv> Namespace (svc_meta s)"

record 'w svc_api =
  serviceCache_Get :: "string \<Rightarrow> string \<Rightarrow> ('w, error + Service) state"
  podCache_List :: "string \<Rightarrow> strmap \<Rightarrow> ('w, error + Pod list) state"
  serviceClient_Create :: "Service \<Rightarrow> ('w, error + Service) state"
  serviceClient_Update :: "Service \<Rightarrow> ('w, error + Service) state"
  serviceClient_Delete :: "string \<Rightarrow> string \<Rightarrow> ('w, error option) state"
  serviceEnqueueAfter :: "string \<Rightarrow> string \<Rightarrow> int \<Rightarrow> ('w, unit) state"
  svc_Now :: "('w, int) state"
  retry_service :: "backoff \<Rightarrow> ('w, error + Service) state \<Rightarrow> ('w, error + Service) state"
  IntValue :: "IntOrString \<Rightarrow> int"

text \<open>Go's \<open>%v\<close> of a map of strings: the keys are sorted.\<close>

definition show_strmap :: "strmap \<Rightarrow> string" where
  "show_strmap m = ''map['' @ join_with '' '' (map (\<lambda>k. k @ '':'' @ mget m k) (sort (remdups (map fst m)))) @ '']''"

subsection \<open>Flat-network services: utils.go\<close>

abbreviation FlatNetworkServiceNameSuffix :: string where "FlatNetworkServiceNameSuffix \<equiv> ''-flat-network''"
abbreviation NetAttatchDefName :: string where "NetAttatchDefName \<equiv> ''rancher-flat-network''"
abbreviation V1NetAttachDefName :: string where "V1NetAttachDefName \<equiv> ''static-macvlan-cni-attach''"
abbreviation clusterIPNone :: string where "clusterIPNone \<equiv> ''None''"
abbreviation networks_annotation :: string where "networks_annotation \<equiv> ''k8s.v1.cni.cncf.io/networks''"

definition IsMacvlanV1Service :: "Service \<Rightarrow> bool" where
  "IsMacvlanV1Service svc =
     (if \<not> suffix ''-macvlan'' (svc_Name svc) then False
      else if svc_Type svc \<noteq> ''ClusterIP'' then False
      else if (case svc_ClusterIPs svc of c # _ \<Rightarrow> c \<noteq> clusterIPNone | [] \<Rightarrow> svc_ClusterIP svc \<noteq> clusterIPNone) then False
      else if Annotations (svc_meta svc) = [] then False
      else if mget (Annotations (svc_meta svc)) networks_annotation \<noteq> V1NetAttachDefName then False
      else True)"

definition IsFlatNetworkService :: "Service \<Rightarrow> bool" where
  "IsFlatNetworkService svc =
     (if \<not> suffix FlatNetworkServiceNameSuffix (svc_Name svc) then False
      else if svc_Type svc \<noteq> ''ClusterIP'' then False
      else if (case svc_ClusterIPs svc of c # _ \<Rightarrow> c \<noteq> clusterIPNone | [] \<Rightarrow> svc_ClusterIP svc \<noteq> clusterIPNone) then False
      else if Annotations (svc_meta svc) = [] then False
      else if mget (Annotations (svc_meta svc)) networks_annotation \<noteq> NetAttatchDefName then False
      else True)"

subsection \<open>The companion service: service/utils.go\<close>

definition isIngressService :: "Service option \<Rightarrow> bool" where
  "isIngressService svc0 =
     (case svc0 of
        None \<Rightarrow> False
      | Some svc \<Rightarrow>
          if svc_Name svc = [] then False
          else if \<not> prefix ''ingress-'' (svc_Name svc) then False
          else list_ex (\<lambda>r. strings_ToLower (ref_Kind r) = ''ingress'') (OwnerReferences (svc_meta svc)))"

definition flat_port :: "'w svc_api \<Rightarrow> Service \<Rightarrow> ServicePort \<Rightarrow> ServicePort" where
  "flat_port api svc v =
     (let port = v\<lparr>sp_NodePort := 0\<rparr> in
      if svc_ClusterIP svc = clusterIPNone
      then port\<lparr>sp_Port := sp_Port port + 1,
             sp_TargetPort := IntVal (word_of_int (IntValue api (sp_TargetPort port) + 1))\<rparr>
      else port)"

definition newFlatNetworkService :: "'w svc_api \<Rightarrow> Service \<Rightarrow> Service" where
  "newFlatNetworkService api svc = \<lparr>
     svc_meta = empty_meta\<lparr>Name := svc_Name svc @ FlatNetworkServiceNameSuffix, Namespace := svc_Namespace svc,
       OwnerReferences := OwnerReferences (svc_meta svc) @
         [\<lparr>ref_APIVersion = ''v1'', ref_Kind = ''Service'', ref_Name = svc_Name svc, ref_UID = UID (svc_meta svc),
           ref_Controller = None\<rparr>],
       Annotations := [(networks_annotation, NetAttatchDefName)]\<rparr>,
     svc_Ports = map (flat_port api svc) (svc_Ports svc),
     svc_Selector = svc_Selector svc,
     svc_ClusterIP = clusterIPNone,
     svc_ClusterIPs = [''None''],
     svc_Type = ''ClusterIP''\<rparr>"

definition flatNetworkServiceUpdated :: "Service option \<Rightarrow> Service option \<Rightarrow> bool" where
  "flatNetworkServiceUpdated a0 b0 =
     (case (a0, b0) of
        (Some a, Some b) \<Rightarrow>
          if svc_Name a \<noteq> svc_Name b \<or> svc_Namespace a \<noteq> svc_Namespace b then False
          else if OwnerReferences (svc_meta a) \<noteq> OwnerReferences (svc_meta b) then False
          else if \<not> meq (Annotations (svc_meta a)) (Annotations (svc_meta b)) then False
          else if svc_Ports a \<noteq> svc_Ports b then False
          else if \<not> meq (svc_Selector a) (svc_Selector b) then False
          else if svc_ClusterIP a \<noteq> svc_ClusterIP b then False
          else if svc_ClusterIPs a \<noteq> svc_ClusterIPs b then False
          else if svc_Type a \<noteq> svc_Type b then False
          else True
      | _ \<Rightarrow> False)"

abbreviation defaultFlatNetworkServiceEnqueue :: int where "defaultFlatNetworkServiceEnqueue \<equiv> 100 * 1000000"
abbreviation defaultRequeueTime :: int where "defaultRequeueTime \<equiv> 5 * time_Minute"

definition service_disabled :: "Pod \<Rightarrow> bool" where
  "service_disabled pod = (mget (Annotations (pod_meta pod)) AnnotationFlatNetworkService = ''disabled'')"

definition isWorkloadDisabledFlatNetwork :: "'w svc_api \<Rightarrow> Service \<Rightarrow> ('w, error + bool) state" where
  "isWorkloadDisabledFlatNetwork api svc =
     (if svc_Selector svc = [] then ret (Inr True)
      else
        do {
          r \<leftarrow> podCache_List api (svc_Namespace svc) (svc_Selector svc);
          case r of
            Inl e \<Rightarrow> ret (Inl (Wrapf ''failed to list pod by selector [%v] on service [%v/%v]: %w''
                       [show_strmap (svc_Selector svc), svc_Namespace svc, svc_Name svc] e))
          | Inr pods \<Rightarrow>
              if pods = [] then
                do {
                  now \<leftarrow> svc_Now api;
                  _ \<leftarrow> (if now - CreationTimestamp (svc_meta svc) < 10 * time_Second
                        then serviceEnqueueAfter api (svc_Namespace svc) (svc_Name svc) defaultFlatNetworkServiceEnqueue
                        else ret ());
                  ret (Inr True)
                }
              else if list_ex service_disabled pods then ret (Inr True)
              else ret (Inr (\<not> list_ex (\<lambda>pod. IsPodEnabledFlatNetwork (Some pod)) pods))
        })"

subsection \<open>Existing companions: flatnetwork_service.go\<close>

definition shouldDeleteFlatNetworkService :: "'w svc_api \<Rightarrow> Service \<Rightarrow> Pod list \<Rightarrow> ('w, error + bool) state" where
  "shouldDeleteFlatNetworkService api svc pods =
     (if svc_Selector svc = [] then ret (Inr True)
      else
        (let originalServiceName = strings_TrimSuffix (svc_Name svc) FlatNetworkServiceNameSuffix in
         do {
           r \<leftarrow> serviceCache_Get api (svc_Namespace svc) originalServiceName;
           case r of
             Inl e \<Rightarrow>
               if IsNotFound e then ret (Inr False)
               else ret (Inl (Wrapf ''failed to get service [%v/%v] from cache: %w''
                      [svc_Namespace svc, originalServiceName] e))
           | Inr _ \<Rightarrow>
               if pods = [] then ret (Inr False)
               else ret (Inr (list_ex service_disabled pods))
         }))"

definition handleFlatNetworkService :: "'w svc_api \<Rightarrow> Service \<Rightarrow> ('w, Service option \<times> error option) state" where
  "handleFlatNetworkService api svc =
     do {
       r \<leftarrow> podCache_List api (svc_Namespace svc) (svc_Selector svc);
       case r of
         Inl e \<Rightarrow> ret (Some svc, Some (Wrapf ''failed to list pod by selector [%v] on service [%v/%v]: %w''
                    [show_strmap (svc_Selector svc), svc_Namespace svc, svc_Name svc] e))
       | Inr pods \<Rightarrow>
           do {
             r \<leftarrow> shouldDeleteFlatNetworkService api svc pods;
             case r of
               Inl e \<Rightarrow> ret (None, Some e)
             | Inr True \<Rightarrow>
                 do {
                   d \<leftarrow> serviceClient_Delete api (svc_Namespace svc) (svc_Name svc);
                   ret (Some svc, d)
                 }
             | Inr False \<Rightarrow>
                 do {
                   _ \<leftarrow> serviceEnqueueAfter api (svc_Namespace svc) (svc_Name svc) defaultRequeueTime;
                   ret (Some svc, None)
                 }
           }
     }"

subsection \<open>The handler: service.go\<close>

text \<open>The specification, the annotations and the owners of the stored service become the expected ones.\<close>

definition apply_expected :: "Service \<Rightarrow> Service \<Rightarrow> Service" where
  "apply_expected expectedService result =
     expectedService\<lparr>svc_meta := (svc_meta result)\<lparr>Annotations := Annotations (svc_meta expectedService),
       OwnerReferences := OwnerReferences (svc_meta expectedService)\<rparr>\<rparr>"

definition update_service_closure :: "'w svc_api \<Rightarrow> Service \<Rightarrow> ('w, error + Service) state" where
  "update_service_closure api expectedService =
     do {
       r \<leftarrow> serviceCache_Get api (svc_Namespace expectedService) (svc_Name expectedService);
       case r of
         Inl e \<Rightarrow> ret (Inl e)
       | Inr result \<Rightarrow> serviceClient_Update api (apply_expected expectedService result)
     }"

text \<open>After a successful update the captured variable \<open>svc\<close> is the updated service.\<close>

definition handleDefaultService :: "'w svc_api \<Rightarrow> Service \<Rightarrow> ('w, Service option \<times> error option) state" where
  "handleDefaultService api svc =
     do {
       r \<leftarrow> isWorkloadDisabledFlatNetwork api svc;
       case r of
         Inl e \<Rightarrow> ret (Some svc, Some e)
       | Inr True \<Rightarrow> ret (Some svc, None)
       | Inr False \<Rightarrow>
           (let expectedService = newFlatNetworkService api svc in
            do {
              r \<leftarrow> serviceCache_Get api (svc_Namespace expectedService) (svc_Name expectedService);
              case r of
                Inl e \<Rightarrow>
                  if IsNotFound e then
                    do {
                      r \<leftarrow> serviceClient_Create api expectedService;
                      case r of
                        Inl e \<Rightarrow> if IsAlreadyExists e then ret (Some svc, None) else ret (Some svc, Some e)
                      | Inr _ \<Rightarrow> ret (Some svc, None)
                    }
                  else ret (Some svc, Some e)
              | Inr existService \<Rightarrow>
                  if flatNetworkServiceUpdated (Some existService) (Some expectedService) then
                    do {
                      _ \<leftarrow> serviceEnqueueAfter api (svc_Namespace svc) (svc_Name svc) defaultRequeueTime;
                      ret (Some svc, None)
                    }
                  else
                    do {
                      r \<leftarrow> retry_service api DefaultRetry (update_service_closure api expectedService);
                      case r of
                        Inl e \<Rightarrow> ret (Some svc, Some e)
                      | Inr svc \<Rightarrow>
                          do {
                            _ \<leftarrow> serviceEnqueueAfter api (svc_Namespace svc) (svc_Name svc) defaultRequeueTime;
                            ret (None, None)
                          }
                    }
            })
     }"

definition syncService :: "'w svc_api \<Rightarrow> Service option \<Rightarrow> ('w, Service option \<times> error option) state" where
  "syncService api svc0 =
     (case svc0 of
        None \<Rightarrow> ret (None, None)
      | Some svc \<Rightarrow>
          if svc_Name svc = [] \<or> DeletionTimestamp (svc_meta svc) \<noteq> None then ret (svc0, None)
          else if isIngressService svc0 then ret (svc0, None)
          else if IsFlatNetworkService svc then handleFlatNetworkService api svc
          else if IsMacvlanV1Service svc then ret (svc0, None)
          else handleDefaultService api svc)"

subsection \<open>Properties\<close>

lemma companion_suffix:
  "suffix FlatNetworkServiceNameSuffix (n @ FlatNetworkServiceNameSuffix)"
  "strings_TrimSuffix (n @ FlatNetworkServiceNameSuffix) FlatNetworkServiceNameSuffix = n"
  by (simp_all add: strings_TrimSuffix_def suffix_def)

text \<open>
  C31. The companion of a service is what the handlers take for one: it is recognised as a flat-network
  service and not as one of the first version, cutting its suffix gives the name of the service back, so that
  the handler of the companion looks for the right service, and it is handled as a companion, without a
  companion of its own, unless it counts as an ingress service. A stored companion that has been updated
  counts as updated, so that the next run makes no further update.
\<close>

theorem companion_recognised:
  assumes "c = newFlatNetworkService api svc"
  shows "IsFlatNetworkService c \<and> \<not> IsMacvlanV1Service c \<and>
    strings_TrimSuffix (svc_Name c) FlatNetworkServiceNameSuffix = svc_Name svc \<and>
    (\<not> isIngressService (Some c) \<longrightarrow> syncService api (Some c) = handleFlatNetworkService api c) \<and>
    (\<forall>stored. svc_Name stored = svc_Name c \<and> svc_Namespace stored = svc_Namespace c \<longrightarrow>
       flatNetworkServiceUpdated (Some (apply_expected c stored)) (Some c))"
proof -
  have name: "svc_Name c = svc_Name svc @ FlatNetworkServiceNameSuffix" and del: "DeletionTimestamp (svc_meta c) = None"
    by (simp_all add: assms newFlatNetworkService_def empty_meta_def)
  have flat: "IsFlatNetworkService c"
    unfolding IsFlatNetworkService_def name
    by (simp add: companion_suffix(1)) (simp add: assms newFlatNetworkService_def mget_def)
  have "\<not> suffix ''-macvlan'' (svc_Name c)" unfolding name by (auto simp: suffix_def append_eq_append_conv2 Cons_eq_append_conv append_eq_Cons_conv)
  then have "\<not> IsMacvlanV1Service c" by (simp add: IsMacvlanV1Service_def)
  moreover have "flatNetworkServiceUpdated (Some (apply_expected c stored)) (Some c)"
    if "svc_Name stored = svc_Name c" "svc_Namespace stored = svc_Namespace c" for stored
    using that by (simp add: flatNetworkServiceUpdated_def apply_expected_def meq_def)
  moreover have "syncService api (Some c) = handleFlatNetworkService api c" if "\<not> isIngressService (Some c)"
    using that flat del by (simp add: syncService_def name)
  ultimately show ?thesis using flat companion_suffix(2) name by auto
qed

definition example_service :: Service where
  "example_service = \<lparr>svc_meta = example_meta ''default'' ''web'',
     svc_Ports = [\<lparr>sp_Name = ''http'', sp_Protocol = ''TCP'', sp_Port = 80, sp_TargetPort = StrVal ''http'', sp_NodePort = 30080\<rparr>],
     svc_Selector = [(''app'', ''web'')], svc_ClusterIP = ''None'', svc_ClusterIPs = [''None''], svc_Type = ''ClusterIP''\<rparr>"

text \<open>Nothing is stored, and a named target port has the number zero.\<close>

definition empty_svc_api :: "unit svc_api" where
  "empty_svc_api = \<lparr>serviceCache_Get = (\<lambda>ns n. ret (Inl (StatusError NotFound))), podCache_List = (\<lambda>ns sel. ret (Inr [])),
     serviceClient_Create = (\<lambda>s. ret (Inr s)), serviceClient_Update = (\<lambda>s. ret (Inr s)),
     serviceClient_Delete = (\<lambda>ns n. ret None), serviceEnqueueAfter = (\<lambda>ns n d. ret ()), svc_Now = ret 0,
     retry_service = (\<lambda>b f. f), IntValue = (\<lambda>v. case v of IntVal i \<Rightarrow> sint i | StrVal s \<Rightarrow> 0)\<rparr>"

theorem companion_recognised_witness:
  "let c = newFlatNetworkService empty_svc_api example_service
   in IsFlatNetworkService c \<and> syncService empty_svc_api (Some c) = handleFlatNetworkService empty_svc_api c \<and>
      flatNetworkServiceUpdated (Some (apply_expected c c)) (Some c)"
proof -
  define c where "c = newFlatNetworkService empty_svc_api example_service"
  have "\<not> isIngressService (Some c)" unfolding c_def by code_simp
  then show ?thesis using companion_recognised [OF c_def] unfolding c_def [symmetric] Let_def by blast
qed

text \<open>
  For a headless service the number of each target port grows by one; a named target port has the
  number zero, so that the companion sends to port 1.
\<close>

lemma named_target_port_lost:
  "IntValue api (StrVal name) = 0 \<Longrightarrow> svc_ClusterIP svc = clusterIPNone \<Longrightarrow> sp_TargetPort v = StrVal name \<Longrightarrow>
    sp_TargetPort (flat_port api svc v) = IntVal 1"
  by (simp add: flat_port_def)

end
