(* ===== verification/Endpoints.thy ===== *)
theory Endpoints
  imports ServiceController
begin

text \<open>
  The endpoints of a flat-network service: \<open>pkg/common/endpoints.go\<close>. The addresses come from the
  network status that multus writes into an annotation of each pod. What the file uses of other
  packages is a record \<open>env\<close>: \<open>json.Unmarshal\<close> of the selections and of the network status, which are types of other
  packages, \<open>endpointslice.FindPort\<close>, and \<open>endpoints.RepackSubsets\<close>. The list of pods has no nil entries, and neither
  have the selections.
\<close>

record ObjectReference =
  or_Kind :: string
  or_Namespace :: string
  or_Name :: string
  or_UID :: string
  or_ResourceVersion :: string

record EndpointAddress =
  ea_IP :: string
  ea_Hostname :: string
  ea_NodeName :: "string option"
  ea_TargetRef :: "ObjectReference option"

record EndpointPort =
  port_Name :: string
  port_Port :: "32 word"
  port_Protocol :: string
  port_AppProtocol :: "string option"

record EndpointSubset =
  ss_Addresses :: "EndpointAddress list"
  ss_Ports :: "EndpointPort list"

text \<open>The types of \<open>discovery/v1\<close>.\<close>

record Endpoint =
  ep_Addresses :: "string list"
  ep_Ready :: "bool option"
  ep_Hostname :: "string option"
  ep_TargetRef :: "ObjectReference option"
  ep_NodeName :: "string option"

record SlicePort =
  slice_Name :: "string option"
  slice_Protocol :: "string option"
  slice_Port :: "32 word option"
  slice_AppProtocol :: "string option"

record EndpointReource =
  er_Subsets :: "EndpointSubset list"
  er_Endpoints :: "Endpoint list"
  er_EndpointPorts :: "SlicePort list"

record NetworkSelectionElement =
  sel_Namespace :: string
  sel_Name :: string
  sel_InterfaceRequest :: string

record NetworkStatus =
  ns_Name :: string
  ns_IPs :: "string list"

record env =
  unmarshal_selections :: "string \<Rightarrow> error + NetworkSelectionElement list"
  unmarshal_status :: "string \<Rightarrow> error + NetworkStatus list"
  FindPort :: "Pod \<Rightarrow> ServicePort \<Rightarrow> error + int"
  RepackSubsets :: "EndpointSubset list \<Rightarrow> EndpointSubset list"

abbreviation NetworkStatusAnnot :: string where "NetworkStatusAnnot \<equiv> ''k8s.v1.cni.cncf.io/network-status''"
abbreviation ErrPodNetworkStatusNotUpdated :: error where
  "ErrPodNetworkStatusNotUpdated \<equiv> Errorf ''pod network status not updated by multus'' []"

subsection \<open>Address family\<close>

datatype AddressType = NoAddressType | AddressTypeIPv4 | AddressTypeIPv6

text \<open>The inner loop on the addresses of an endpoint, then the loop on the endpoints.\<close>

fun scan_addresses :: "AddressType \<Rightarrow> string list \<Rightarrow> error + AddressType" where
  "scan_addresses t [] = Inr t"
| "scan_addresses t (a # as) =
     (let addr = ParseIP a in
      if addr = [] then scan_addresses t as
      else if To16 addr = [] then scan_addresses t as
      else if To4 addr \<noteq> [] then
        if t = AddressTypeIPv6 then Inl (Errorf ''both IPv4 and IPv6 address types found in endpoint'' [])
        else scan_addresses AddressTypeIPv4 as
      else
        if t = AddressTypeIPv4 then Inl (Errorf ''both IPv4 and IPv6 address types found in endpoint'' [])
        else scan_addresses AddressTypeIPv6 as)"

fun scan_endpoints :: "AddressType \<Rightarrow> Endpoint list \<Rightarrow> error + AddressType" where
  "scan_endpoints t [] = Inr t"
| "scan_endpoints t (e # es) =
     (case scan_addresses t (ep_Addresses e) of
        Inl err \<Rightarrow> Inl err
      | Inr t \<Rightarrow> scan_endpoints t es)"

definition GetEndpointSliceAddressType :: "EndpointReource \<Rightarrow> error + AddressType" where
  "GetEndpointSliceAddressType r =
     (case scan_endpoints NoAddressType (er_Endpoints r) of
        Inl e \<Rightarrow> Inl e
      | Inr t \<Rightarrow> if t = NoAddressType then Inr AddressTypeIPv4 else Inr t)"

subsection \<open>Network selections\<close>

definition is_alnum :: "char \<Rightarrow> bool" where
  "is_alnum c = (let n = (of_char c :: nat) in (97 \<le> n \<and> n \<le> 122) \<or> (48 \<le> n \<and> n \<le> 57))"

text \<open>The regular expression \<open>validNameRegex\<close>.\<close>

definition valid_name :: "string \<Rightarrow> bool" where
  "valid_name s = (s \<noteq> [] \<and> is_alnum (hd s) \<and> is_alnum (last s) \<and> list_all (\<lambda>c. is_alnum c \<or> c = CHR ''-'') s)"

definition parsePodNetworkSelectionElement :: "string \<Rightarrow> string \<Rightarrow> error + NetworkSelectionElement" where
  "parsePodNetworkSelectionElement selection defaultNamespace =
     (case (case strings_Split selection (CHR ''/'') of
              [n] \<Rightarrow> Some (defaultNamespace, n)
            | [ns, n] \<Rightarrow> Some (ns, n)
            | _ \<Rightarrow> None) of
        None \<Rightarrow> Inl (Errorf (''invalid network selection element - more than one '' @ [CHR 0x27] @ ''/'' @ [CHR 0x27] @
                  '' rune in: '' @ [CHR 0x27] @ ''%s'' @ [CHR 0x27]) [selection])
      | Some (namespace, name) \<Rightarrow>
          (case (case strings_Split name (CHR ''@'') of
                   [n] \<Rightarrow> Some (n, [])
                 | [n, i] \<Rightarrow> Some (n, i)
                 | _ \<Rightarrow> None) of
             None \<Rightarrow> Inl (Errorf (''invalid network selection element - more than one '' @ [CHR 0x27] @ ''@'' @ [CHR 0x27] @
                       '' rune in: '' @ [CHR 0x27] @ ''%s'' @ [CHR 0x27]) [selection])
           | Some (name, netInterface) \<Rightarrow>
               (case find (\<lambda>unit. \<not> valid_name unit \<and> unit \<noteq> []) [namespace, name, netInterface] of
                  Some unit \<Rightarrow> Inl (Errorf (''at least one of the network selection units is invalid: error found at '' @
                                 [CHR 0x27] @ ''%s'' @ [CHR 0x27]) [unit])
                | None \<Rightarrow> Inr \<lparr>sel_Namespace = namespace, sel_Name = name, sel_InterfaceRequest = netInterface\<rparr>)))"

fun parse_selections :: "string \<Rightarrow> string list \<Rightarrow> error + NetworkSelectionElement list" where
  "parse_selections defaultNamespace [] = Inr []"
| "parse_selections defaultNamespace (s # ss) =
     (case parsePodNetworkSelectionElement (strings_TrimSpace s) defaultNamespace of
        Inl e \<Rightarrow> Inl (Wrapf ''failed to parse network selection: %w'' [] e)
      | Inr x \<Rightarrow>
          (case parse_selections defaultNamespace ss of
             Inl e \<Rightarrow> Inl e
           | Inr xs \<Rightarrow> Inr (x # xs)))"

definition parseServiceNetworkSelections :: "env \<Rightarrow> string \<Rightarrow> string \<Rightarrow> error + NetworkSelectionElement list" where
  "parseServiceNetworkSelections env podNetwork defaultNamespace =
     (if podNetwork = [] then Inl (Errorf ''empty string passed as network selection elements list'' [])
      else
        (case (case unmarshal_selections env podNetwork of
                 Inr xs \<Rightarrow> Inr xs
               | Inl _ \<Rightarrow> parse_selections defaultNamespace (strings_Split podNetwork (CHR '',''))) of
           Inl e \<Rightarrow> Inl e
         | Inr networkSelections \<Rightarrow>
             Inr (map (\<lambda>x. if sel_Namespace x = [] then x\<lparr>sel_Namespace := defaultNamespace\<rparr> else x) networkSelections)))"

text \<open>\<open>strings.SplitN\<close> with the limit two: one part, or the two parts around the first separator.\<close>

definition split_first :: "string \<Rightarrow> char \<Rightarrow> string \<times> string option" where
  "split_first s c =
     (case dropWhile (\<lambda>x. x \<noteq> c) s of
        [] \<Rightarrow> (s, None)
      | _ # rest \<Rightarrow> (takeWhile (\<lambda>x. x \<noteq> c) s, Some rest))"

definition isInNetworkSelectionElementsArray :: "string \<Rightarrow> string \<Rightarrow> NetworkSelectionElement list \<Rightarrow> bool" where
  "isInNetworkSelectionElementsArray statusName namespace networks =
     (let (netName, netNamespace) =
        (case split_first statusName (CHR ''/'') of
           (a, None) \<Rightarrow> (a, namespace)
         | (a, Some b) \<Rightarrow> (b, a))
      in list_ex (\<lambda>x. netName = sel_Name x \<and> netNamespace = sel_Namespace x) networks)"

subsection \<open>Endpoints of the pods\<close>

definition pod_address :: "Pod \<Rightarrow> string \<Rightarrow> EndpointAddress" where
  "pod_address pod ip = \<lparr>ea_IP = ip, ea_Hostname = [], ea_NodeName = Some (pod_NodeName pod),
     ea_TargetRef = Some \<lparr>or_Kind = ''Pod'', or_Namespace = Namespace (pod_meta pod), or_Name = Name (pod_meta pod),
       or_UID = UID (pod_meta pod), or_ResourceVersion = ResourceVersion (pod_meta pod)\<rparr>\<rparr>"

text \<open>The ports of the service that the pod has; a port that is not found is left out.\<close>

fun pod_ports :: "env \<Rightarrow> Pod \<Rightarrow> ServicePort list \<Rightarrow> EndpointPort list" where
  "pod_ports env pod [] = []"
| "pod_ports env pod (p # ps) =
     (case FindPort env pod p of
        Inl _ \<Rightarrow> pod_ports env pod ps
      | Inr portNumber \<Rightarrow>
          \<lparr>port_Name = sp_Name p, port_Port = word_of_int portNumber, port_Protocol = sp_Protocol p,
            port_AppProtocol = None\<rparr> # pod_ports env pod ps)"

definition getPodEndpointSubset ::
    "env \<Rightarrow> Service \<Rightarrow> NetworkSelectionElement list \<Rightarrow> Pod \<Rightarrow> error + EndpointSubset" where
  "getPodEndpointSubset env svc svcNetworks pod =
     (let status = mget (Annotations (pod_meta pod)) NetworkStatusAnnot in
      if status = [] then Inl ErrPodNetworkStatusNotUpdated
      else case unmarshal_status env status of
        Inl e \<Rightarrow> Inl (Wrapf ''failed to parse pod network status json %q: %w'' [status] e)
      | Inr networksStatus \<Rightarrow>
          Inr \<lparr>ss_Addresses = concat (map (\<lambda>st.
                 if \<not> isInNetworkSelectionElementsArray (ns_Name st) (Namespace (pod_meta pod)) svcNetworks then []
                 else map (pod_address pod) (ns_IPs st)) networksStatus),
               ss_Ports = pod_ports env pod (svc_Ports svc)\<rparr>)"

definition addressToEndpoint :: "EndpointAddress \<Rightarrow> Endpoint" where
  "addressToEndpoint address = \<lparr>ep_Addresses = [ea_IP address], ep_Ready = Some True,
     ep_Hostname = (if ea_Hostname address \<noteq> [] then Some (ea_Hostname address) else None),
     ep_TargetRef = ea_TargetRef address, ep_NodeName = ea_NodeName address\<rparr>"

definition epPortsToEpsPorts :: "EndpointPort list \<Rightarrow> SlicePort list" where
  "epPortsToEpsPorts epPorts = map (\<lambda>p. \<lparr>slice_Name = Some (port_Name p), slice_Protocol = Some (port_Protocol p),
     slice_Port = Some (port_Port p), slice_AppProtocol = port_AppProtocol p\<rparr>) epPorts"

text \<open>
  The subsets of the pods that are not being deleted; the first error ends the loop. The list of
  addresses of a subset is never nil, so that no subset is left out.
\<close>

fun pod_subsets :: "env \<Rightarrow> Service \<Rightarrow> NetworkSelectionElement list \<Rightarrow> Pod list \<Rightarrow> error + EndpointSubset list" where
  "pod_subsets env svc sels [] = Inr []"
| "pod_subsets env svc sels (pod # pods) =
     (if DeletionTimestamp (pod_meta pod) \<noteq> None then pod_subsets env svc sels pods
      else case getPodEndpointSubset env svc sels pod of
        Inl e \<Rightarrow> Inl e
      | Inr sub \<Rightarrow>
          (case pod_subsets env svc sels pods of
             Inl e \<Rightarrow> Inl e
           | Inr subsets \<Rightarrow> Inr (sub # subsets)))"

definition GetEndpointResources :: "env \<Rightarrow> Service \<Rightarrow> Pod list \<Rightarrow> error + EndpointReource option" where
  "GetEndpointResources env svc pods =
     (let svcNetworkValue = mget (Annotations (svc_meta svc)) networks_annotation in
      if svcNetworkValue = [] then Inr None
      else case parseServiceNetworkSelections env svcNetworkValue (svc_Namespace svc) of
        Inl e \<Rightarrow> Inl (Wrapf ''failed to parse service network annotation [%v: %v]: %w''
                   [networks_annotation, svcNetworkValue] e)
      | Inr svcNetworkSelections \<Rightarrow>
          (case pod_subsets env svc svcNetworkSelections pods of
             Inl e \<Rightarrow> Inl e
           | Inr subsets \<Rightarrow>
               (let subsets = RepackSubsets env subsets in
                Inr (Some \<lparr>er_Subsets = subsets,
                  er_Endpoints = concat (map (\<lambda>s. map addressToEndpoint (ss_Addresses s)) subsets),
                  er_EndpointPorts = concat (map (\<lambda>s. epPortsToEpsPorts (ss_Ports s)) subsets)\<rparr>))))"

subsection \<open>Families of addresses\<close>

definition is_v4 :: "string \<Rightarrow> bool" where
  "is_v4 a \<longleftrightarrow> To4 (ParseIP a) \<noteq> []"

definition is_v6 :: "string \<Rightarrow> bool" where
  "is_v6 a \<longleftrightarrow> ParseIP a \<noteq> [] \<and> To4 (ParseIP a) = []"

lemma scan_addresses_append:
  "scan_addresses t (as @ bs) = (case scan_addresses t as of Inl e \<Rightarrow> Inl e | Inr t \<Rightarrow> scan_addresses t bs)"
  by (induction t as rule: scan_addresses.induct) (simp_all add: Let_def)

lemma scan_endpoints_eq: "scan_endpoints t es = scan_addresses t (concat (map ep_Addresses es))"
  by (induction es arbitrary: t) (auto simp: scan_addresses_append split: sum.splits)

lemma scan_addresses_cons:
  "scan_addresses t (a # as) =
     (if is_v4 a then if t = AddressTypeIPv6 then Inl (Errorf ''both IPv4 and IPv6 address types found in endpoint'' [])
        else scan_addresses AddressTypeIPv4 as
      else if is_v6 a then if t = AddressTypeIPv4 then Inl (Errorf ''both IPv4 and IPv6 address types found in endpoint'' [])
        else scan_addresses AddressTypeIPv6 as
      else scan_addresses t as)"
proof -
  have "To16 (ParseIP a) = [] \<longleftrightarrow> ParseIP a = []" using ParseIP_length [of a] by (auto simp: To16_def)
  moreover have "To4 [] = []" by (simp add: To4_def)
  ultimately show ?thesis
    by (cases "ParseIP a = []"; cases "To4 (ParseIP a) = []") (simp_all add: is_v4_def is_v6_def Let_def)
qed

declare scan_addresses.simps(2) [simp del]

lemma scan_addresses_result:
  "scan_addresses t as =
     (if (t = AddressTypeIPv4 \<or> list_ex is_v4 as) \<and> (t = AddressTypeIPv6 \<or> list_ex is_v6 as)
      then Inl (Errorf ''both IPv4 and IPv6 address types found in endpoint'' [])
      else if t = AddressTypeIPv4 \<or> list_ex is_v4 as then Inr AddressTypeIPv4
      else if t = AddressTypeIPv6 \<or> list_ex is_v6 as then Inr AddressTypeIPv6 else Inr NoAddressType)"
proof (induction as arbitrary: t)
  case Nil
  then show ?case by (cases t) simp_all
next
  case (Cons a as)
  have "\<not> (is_v4 a \<and> is_v6 a)" by (auto simp: is_v4_def is_v6_def)
  then show ?case by (cases t) (auto simp: scan_addresses_cons Cons)
qed

subsection \<open>Properties\<close>

text \<open>
  The address type of a slice: IPv6 when there are IPv6 addresses and no IPv4 address, an error exactly
  when there are both, and IPv4 otherwise, also when no address is valid.
\<close>

theorem GetEndpointSliceAddressType_spec:
  assumes "as = concat (map ep_Addresses (er_Endpoints r))"
  shows "GetEndpointSliceAddressType r =
    (if list_ex is_v4 as \<and> list_ex is_v6 as then Inl (Errorf ''both IPv4 and IPv6 address types found in endpoint'' [])
     else if list_ex is_v6 as then Inr AddressTypeIPv6 else Inr AddressTypeIPv4)"
  by (simp add: GetEndpointSliceAddressType_def scan_endpoints_eq assms scan_addresses_result)

theorem GetEndpointSliceAddressType_spec_witness:
  "let e = (\<lambda>ip. addressToEndpoint (pod_address auto_pod ip));
       r = \<lparr>er_Subsets = [], er_Endpoints = [e ''10.1.0.7'', e ''x''], er_EndpointPorts = []\<rparr>
   in GetEndpointSliceAddressType r = Inr AddressTypeIPv4"
proof -
  have "\<not> is_v6 ''10.1.0.7''" "is_v4 ''10.1.0.7''" "\<not> is_v4 ''x''" "\<not> is_v6 ''x''" by code_simp+
  then show ?thesis
    using GetEndpointSliceAddressType_spec [of "[''10.1.0.7'', ''x'']"
      "\<lparr>er_Subsets = [], er_Endpoints = [addressToEndpoint (pod_address auto_pod ''10.1.0.7''), addressToEndpoint (pod_address auto_pod ''x'')],
        er_EndpointPorts = []\<rparr>"]
    by (simp add: addressToEndpoint_def pod_address_def Let_def)
qed

lemma pod_subsets_addresses:
  "pod_subsets env svc sels pods = Inr ss \<Longrightarrow> sub \<in> set ss \<Longrightarrow>
    \<exists>pod \<in> set pods. DeletionTimestamp (pod_meta pod) = None \<and> getPodEndpointSubset env svc sels pod = Inr sub"
proof (induction pods arbitrary: ss)
  case (Cons pod pods)
  show ?case
  proof (cases "DeletionTimestamp (pod_meta pod) = None")
    case True
    then obtain x xs where x: "getPodEndpointSubset env svc sels pod = Inr x" "pod_subsets env svc sels pods = Inr xs" "ss = x # xs"
      using Cons.prems(1) by (auto split: sum.splits)
    then show ?thesis using Cons True by auto
  next
    case False
    then show ?thesis using Cons by auto
  qed
qed simp

lemma getPodEndpointSubset_address:
  assumes "getPodEndpointSubset env svc sels pod = Inr sub" and "x \<in> set (ss_Addresses sub)"
  obtains sts st ip where "unmarshal_status env (mget (Annotations (pod_meta pod)) NetworkStatusAnnot) = Inr sts"
    and "st \<in> set sts" and "isInNetworkSelectionElementsArray (ns_Name st) (Namespace (pod_meta pod)) sels"
    and "ip \<in> set (ns_IPs st)" and "x = pod_address pod ip"
  using assms by (auto simp: getPodEndpointSubset_def Let_def split: if_splits sum.splits)

lemma endpoint_is_selected:
  assumes "GetEndpointResources env svc pods = Inr (Some r)" and "e \<in> set (er_Endpoints r)"
    and "parseServiceNetworkSelections env (mget (Annotations (svc_meta svc)) networks_annotation) (svc_Namespace svc) = Inr sels"
    and "\<And>ss. set (concat (map ss_Addresses (RepackSubsets env ss))) \<subseteq> set (concat (map ss_Addresses ss))"
  shows "\<exists>pod sts st ip. pod \<in> set pods \<and> DeletionTimestamp (pod_meta pod) = None \<and>
    unmarshal_status env (mget (Annotations (pod_meta pod)) NetworkStatusAnnot) = Inr sts \<and> st \<in> set sts \<and>
    isInNetworkSelectionElementsArray (ns_Name st) (Namespace (pod_meta pod)) sels \<and> ip \<in> set (ns_IPs st) \<and>
    e = addressToEndpoint (pod_address pod ip)"
proof -
  obtain ss where ss: "pod_subsets env svc sels pods = Inr ss"
      and r: "er_Endpoints r = concat (map (\<lambda>s. map addressToEndpoint (ss_Addresses s)) (RepackSubsets env ss))"
    using assms(1,3) by (auto simp: GetEndpointResources_def Let_def split: if_splits sum.splits)
  obtain x where x: "x \<in> set (concat (map ss_Addresses (RepackSubsets env ss)))" "e = addressToEndpoint x"
    using assms(2) r by auto
  then have "x \<in> set (concat (map ss_Addresses ss))" using assms(4) by blast
  then obtain sub where sub: "sub \<in> set ss" "x \<in> set (ss_Addresses sub)" by auto
  obtain pod where pod: "pod \<in> set pods" "DeletionTimestamp (pod_meta pod) = None"
      "getPodEndpointSubset env svc sels pod = Inr sub"
    using pod_subsets_addresses [OF ss sub(1)] by blast
  show ?thesis using getPodEndpointSubset_address [OF pod(3) sub(2)] pod(1,2) x(2) by metis
qed

text \<open>
  C30. The endpoints of a service are addresses of its own networks: when \<open>RepackSubsets\<close> invents no
  address, each endpoint is ready, refers to a pod of the list that is not being deleted, and has one address,
  which the network status of that pod lists for a network that the service selects.
\<close>

theorem endpoints_are_selected:
  assumes "GetEndpointResources env svc pods = Inr (Some r)" and "e \<in> set (er_Endpoints r)"
    and "parseServiceNetworkSelections env (mget (Annotations (svc_meta svc)) networks_annotation) (svc_Namespace svc) = Inr sels"
    and "\<And>ss. set (concat (map ss_Addresses (RepackSubsets env ss))) \<subseteq> set (concat (map ss_Addresses ss))"
  shows "\<exists>pod sts st ip. pod \<in> set pods \<and> DeletionTimestamp (pod_meta pod) = None \<and>
    unmarshal_status env (mget (Annotations (pod_meta pod)) NetworkStatusAnnot) = Inr sts \<and> st \<in> set sts \<and>
    isInNetworkSelectionElementsArray (ns_Name st) (Namespace (pod_meta pod)) sels \<and> ip \<in> set (ns_IPs st) \<and>
    e = addressToEndpoint (pod_address pod ip)"
  using endpoint_is_selected [OF assms(1-3)] assms(4) by blast

definition example_env :: env where
  "example_env = \<lparr>unmarshal_selections = (\<lambda>s. Inl (StatusError OtherReason)),
     unmarshal_status = (\<lambda>s. Inr [\<lparr>ns_Name = ''cbr0'', ns_IPs = [''10.42.0.3'']\<rparr>, \<lparr>ns_Name = ''default/rancher-flat-network'', ns_IPs = [s]\<rparr>]),
     FindPort = (\<lambda>p sp. Inr (uint (sp_Port sp))), RepackSubsets = (\<lambda>ss. ss)\<rparr>"

definition status_pod :: Pod where
  "status_pod = auto_pod\<lparr>pod_meta := (pod_meta auto_pod)\<lparr>Annotations := [(NetworkStatusAnnot, ''10.1.0.7'')]\<rparr>\<rparr>"

definition flat_service :: Service where
  "flat_service = newFlatNetworkService empty_svc_api example_service"

theorem endpoints_are_selected_witness:
  "\<exists>r. GetEndpointResources example_env flat_service [status_pod] = Inr (Some r) \<and>
     er_Endpoints r = [addressToEndpoint (pod_address status_pod ''10.1.0.7'')] \<and>
     (\<exists>st. st \<in> set [\<lparr>ns_Name = ''cbr0'', ns_IPs = [''10.42.0.3'']\<rparr>, \<lparr>ns_Name = ''default/rancher-flat-network'', ns_IPs = [''10.1.0.7'']\<rparr>] \<and>
        ns_IPs st = [''10.1.0.7''])"
proof -
  let ?e = "addressToEndpoint (pod_address status_pod ''10.1.0.7'')"
  let ?sels = "[\<lparr>sel_Namespace = ''default'', sel_Name = ''rancher-flat-network'', sel_InterfaceRequest = []\<rparr>]"
  have "case GetEndpointResources example_env flat_service [status_pod] of
      Inr (Some r) \<Rightarrow> er_Endpoints r = [?e] | _ \<Rightarrow> False" by code_simp
  then obtain r where r: "GetEndpointResources example_env flat_service [status_pod] = Inr (Some r)" "er_Endpoints r = [?e]"
    by (auto split: sum.splits option.splits)
  have sels: "parseServiceNetworkSelections example_env (mget (Annotations (svc_meta flat_service)) networks_annotation)
      (svc_Namespace flat_service) = Inr ?sels" by code_simp
  have pack: "set (concat (map ss_Addresses (RepackSubsets example_env ss))) \<subseteq> set (concat (map ss_Addresses ss))" for ss
    by (simp add: example_env_def)
  have e: "?e \<in> set (er_Endpoints r)" by (simp add: r(2))
  from endpoints_are_selected [OF r(1) e sels pack]
  have "\<exists>st. st \<in> set [\<lparr>ns_Name = ''cbr0'', ns_IPs = [''10.42.0.3'']\<rparr>, \<lparr>ns_Name = ''default/rancher-flat-network'', ns_IPs = [''10.1.0.7'']\<rparr>] \<and>
      ns_IPs st = [''10.1.0.7'']"
    by (fastforce simp: example_env_def status_pod_def auto_pod_def flat_pod_def mget_def addressToEndpoint_def pod_address_def)
  then show ?thesis using r by blast
qed

end
