(* ===== verification/EndpointControllers.thy ===== *)
theory EndpointControllers
  imports Endpoints
begin

text \<open>
  The controllers of the endpoints and of the endpoint slices: \<open>pkg/controller/endpoints\<close> and
  \<open>pkg/controller/endpointslice\<close>. They replace the addresses that Kubernetes wrote for a flat-network service by the
  flat-network addresses of its pods. The record \<open>ep_api\<close> has the caches, clients and queues; \<open>DeepDerivative\<close> of
  apimachinery, once for each type; and \<open>sort.Slice\<close> with the comparisons of the source, whose order of equal names is not
  specified. Sorting a sorted slice again leaves it as it is. The other types of slices than IPv4 and IPv6 are
  \<open>NoAddressType\<close>. A label map that is empty is nil in an object read from the server. Log output is left out.
\<close>

record CoreEndpoints =
  eps_meta :: ObjectMeta
  eps_Subsets :: "EndpointSubset list"

record EndpointSlice =
  es_meta :: ObjectMeta
  es_AddressType :: AddressType
  es_Endpoints :: "Endpoint list"
  es_Ports :: "SlicePort list"

record 'w ep_api =
  ep_serviceCache_Get :: "string \<Rightarrow> string \<Rightarrow> ('w, error + Service) state"
  ep_podCache_List :: "string \<Rightarrow> strmap \<Rightarrow> ('w, error + Pod list) state"
  endpointsCache_Get :: "string \<Rightarrow> string \<Rightarrow> ('w, error + CoreEndpoints) state"
  endpointsClient_Update :: "CoreEndpoints \<Rightarrow> ('w, error + CoreEndpoints) state"
  endpointSliceCache_List :: "string \<Rightarrow> strmap \<Rightarrow> ('w, error + EndpointSlice list) state"
  endpointSliceCache_Get :: "string \<Rightarrow> string \<Rightarrow> ('w, error + EndpointSlice) state"
  endpointSliceClient_Update :: "EndpointSlice \<Rightarrow> ('w, error + EndpointSlice) state"
  endpointsEnqueueAfter :: "string \<Rightarrow> string \<Rightarrow> int \<Rightarrow> ('w, unit) state"
  endpointSliceEnqueue :: "string \<Rightarrow> string \<Rightarrow> ('w, unit) state"
  endpointSliceEnqueueAfter :: "string \<Rightarrow> string \<Rightarrow> int \<Rightarrow> ('w, unit) state"
  retry_endpoints :: "backoff \<Rightarrow> ('w, error + unit) state \<Rightarrow> ('w, error + unit) state"
  retry_slice :: "backoff \<Rightarrow> ('w, (error + unit) outcome) state \<Rightarrow> ('w, (error + unit) outcome) state"
  supportDiscoveryV1 :: bool
  DeepDerivative_subsets :: "EndpointSubset list \<Rightarrow> EndpointSubset list \<Rightarrow> bool"
  DeepDerivative_endpoints :: "Endpoint list \<Rightarrow> Endpoint list \<Rightarrow> bool"
  DeepDerivative_ports :: "SlicePort list \<Rightarrow> SlicePort list \<Rightarrow> bool"
  sort_endpoints :: "Endpoint list \<Rightarrow> Endpoint list"
  sort_ports :: "SlicePort list \<Rightarrow> SlicePort list"

abbreviation labelServiceName :: string where "labelServiceName \<equiv> ''kubernetes.io/service-name''"
abbreviation LabelSkipMirror :: string where "LabelSkipMirror \<equiv> ''endpointslice.kubernetes.io/skip-mirror''"
abbreviation LabelManagedBy :: string where "LabelManagedBy \<equiv> ''endpointslice.kubernetes.io/managed-by''"
abbreviation requeue_status :: int where "requeue_status \<equiv> 100000000"

definition NewControllerRef :: "Service \<Rightarrow> OwnerReference" where
  "NewControllerRef svc = \<lparr>ref_APIVersion = ''v1'', ref_Kind = ''Service'', ref_Name = svc_Name svc, ref_UID = UID (svc_meta svc),
     ref_Controller = Some True\<rparr>"

subsection \<open>Versions of the server: wrangler/utils.go\<close>

text \<open>
  The two questions to the API server: \<open>supported\<close> is the answer of \<open>ServerSupportsVersion\<close>, \<open>text_of\<close> the text of an error, \<open>resources\<close>
  the answer of \<open>ServerResourcesForGroupVersion\<close> with the kinds of the resources.
\<close>

definition serverSupportDiscoveryV1 :: "(error \<Rightarrow> string) \<Rightarrow> error option \<Rightarrow> error + bool" where
  "serverSupportDiscoveryV1 text_of supported =
     (case supported of
        Some e \<Rightarrow>
          if strings_Contains (text_of e) ''does not support'' then Inr False
          else Inl (Wrapf ''failed to check server support %v: %w'' [''discovery.k8s.io''] e)
      | None \<Rightarrow> Inr True)"

definition serverSupportsIngressV1 :: "error + string list option \<Rightarrow> bool" where
  "serverSupportsIngressV1 resources =
     (case resources of
        Inr (Some kinds) \<Rightarrow> list_ex (\<lambda>k. k = ''Ingress'') kinds
      | _ \<Rightarrow> False)"

subsection \<open>Endpoints: endpoints.go\<close>

definition wanted_endpoints :: "bool \<Rightarrow> Service \<Rightarrow> EndpointReource \<Rightarrow> CoreEndpoints \<Rightarrow> CoreEndpoints" where
  "wanted_endpoints discovery svc resource result =
     result\<lparr>eps_meta := (eps_meta result)\<lparr>OwnerReferences := [NewControllerRef svc],
         Labels := (if discovery then AList.update LabelSkipMirror ''true'' (Labels (eps_meta result)) else Labels (eps_meta result))\<rparr>,
       eps_Subsets := er_Subsets resource\<rparr>"

definition endpoints_closure :: "'w ep_api \<Rightarrow> Service \<Rightarrow> EndpointReource \<Rightarrow> ('w, error + unit) state" where
  "endpoints_closure api svc resource =
     do {
       r \<leftarrow> endpointsCache_Get api (svc_Namespace svc) (svc_Name svc);
       case r of
         Inl e \<Rightarrow> ret (Inl (Wrapf ''failed to get corev1.Endpoints from cache: %w'' [] e))
       | Inr result \<Rightarrow>
           if DeepDerivative_subsets api (er_Subsets resource) (eps_Subsets result) then ret (Inr ())
           else
             do {
               r \<leftarrow> endpointsClient_Update api (wanted_endpoints (supportDiscoveryV1 api) svc resource result);
               case r of
                 Inl e \<Rightarrow> ret (Inl e)
               | Inr _ \<Rightarrow> ret (Inr ())
             }
     }"

fun enqueue_slices :: "'w ep_api \<Rightarrow> EndpointSlice list \<Rightarrow> ('w, unit) state" where
  "enqueue_slices api [] = ret ()"
| "enqueue_slices api (s # ss) =
     do {
       _ \<leftarrow> endpointSliceEnqueue api (Namespace (es_meta s)) (Name (es_meta s));
       enqueue_slices api ss
     }"

definition syncCoreV1Endpoints ::
    "'w ep_api \<Rightarrow> CoreEndpoints \<Rightarrow> Service \<Rightarrow> EndpointReource option \<Rightarrow> ('w, error option) state" where
  "syncCoreV1Endpoints api endpoints svc resource0 =
     (case resource0 of
        None \<Rightarrow> ret None
      | Some resource \<Rightarrow>
          do {
            r \<leftarrow> retry_endpoints api DefaultRetry (endpoints_closure api svc resource);
            case r of
              Inl e \<Rightarrow> ret (Some (Wrapf ''failed to update corev1.Endpoints: %w'' [] e))
            | Inr _ \<Rightarrow>
                do {
                  r \<leftarrow> endpointSliceCache_List api (Namespace (eps_meta endpoints)) [(labelServiceName, svc_Name svc)];
                  case r of
                    Inl e \<Rightarrow> ret (Some (Wrapf ''failed to list EndpointSlice: %w'' [] e))
                  | Inr epSlices \<Rightarrow> do { _ \<leftarrow> enqueue_slices api epSlices; ret None }
                }
          })"

definition endpoints_sync :: "'w ep_api \<Rightarrow> env \<Rightarrow> CoreEndpoints option \<Rightarrow> ('w, CoreEndpoints option \<times> error option) state" where
  "endpoints_sync api env endpoints0 =
     (case endpoints0 of
        None \<Rightarrow> ret (endpoints0, None)
      | Some endpoints \<Rightarrow>
          (let m = eps_meta endpoints in
           if Name m = [] \<or> DeletionTimestamp m \<noteq> None then ret (endpoints0, None)
           else
             do {
               r \<leftarrow> ep_serviceCache_Get api (Namespace m) (Name m);
               case r of
                 Inl e \<Rightarrow> ret (endpoints0, Some (Wrapf ''failed to get svc of corev1.Endpoints %q: %w'' [Name m] e))
               | Inr svc \<Rightarrow>
                   do {
                     r \<leftarrow> ep_podCache_List api (svc_Namespace svc) (svc_Selector svc);
                     case r of
                       Inl e \<Rightarrow> ret (endpoints0, Some (Wrapf ''failed to list pod by selector [%v] on endpointSlice [%v/%v]: %w''
                                  [show_strmap (svc_Selector svc), Namespace m, Name m] e))
                     | Inr pods \<Rightarrow>
                         if list_ex (\<lambda>pod. \<not> IsPodEnabledFlatNetwork (Some pod)) pods then ret (endpoints0, None)
                         else
                           (case GetEndpointResources env svc pods of
                              Inl e \<Rightarrow>
                                if root_error e = ErrPodNetworkStatusNotUpdated then
                                  do {
                                    _ \<leftarrow> endpointsEnqueueAfter api (Namespace m) (Name m) requeue_status;
                                    ret (endpoints0, None)
                                  }
                                else ret (endpoints0, Some (Wrapf ''failed to get endpoint resources: %w'' [] e))
                            | Inr resource \<Rightarrow>
                                do {
                                  e \<leftarrow> syncCoreV1Endpoints api endpoints svc resource;
                                  ret (endpoints0, e)
                                })
                   }
             }))"

subsection \<open>Endpoint slices: endpointslice.go\<close>

definition getAvailableEndpointSlices :: "EndpointSlice list \<Rightarrow> EndpointSlice list" where
  "getAvailableEndpointSlices s =
     filter (\<lambda>e. \<not> (DeletionTimestamp (es_meta e) \<noteq> None \<or>
       es_AddressType e \<noteq> AddressTypeIPv4 \<and> es_AddressType e \<noteq> AddressTypeIPv6)) s"

text \<open>
  The comparisons dereference the target of an endpoint and the name of a port. Sorting two or more elements compares each of them with
  another one.
\<close>

definition sorted_endpoints :: "'w ep_api \<Rightarrow> Endpoint list \<Rightarrow> Endpoint list outcome" where
  "sorted_endpoints api es =
     (if length es \<ge> 2 \<and> list_ex (\<lambda>e. ep_TargetRef e = None) es then Panics else Returns (sort_endpoints api es))"

definition sorted_ports :: "'w ep_api \<Rightarrow> SlicePort list \<Rightarrow> SlicePort list outcome" where
  "sorted_ports api ps =
     (if length ps \<ge> 2 \<and> list_ex (\<lambda>p. slice_Name p = None) ps then Panics else Returns (sort_ports api ps))"

fun then_outcome :: "'a outcome \<Rightarrow> ('a \<Rightarrow> ('w, 'b outcome) state) \<Rightarrow> ('w, 'b outcome) state" where
  "then_outcome (Returns x) f = f x"
| "then_outcome Panics f = ret Panics"
| "then_outcome Hangs f = ret Hangs"

text \<open>The resource with its slices sorted in place.\<close>

definition sorted_resource :: "'w ep_api \<Rightarrow> EndpointReource \<Rightarrow> EndpointReource" where
  "sorted_resource api r =
     r\<lparr>er_Endpoints := sort_endpoints api (er_Endpoints r), er_EndpointPorts := sort_ports api (er_EndpointPorts r)\<rparr>"

definition slice_closure :: "'w ep_api \<Rightarrow> EndpointReource \<Rightarrow> EndpointSlice \<Rightarrow> ('w, (error + unit) outcome) state" where
  "slice_closure api resource s =
     do {
       r \<leftarrow> endpointSliceCache_Get api (Namespace (es_meta s)) (Name (es_meta s));
       case r of
         Inl e \<Rightarrow> ret (Returns (Inl e))
       | Inr endpointSlice \<Rightarrow>
           then_outcome (sorted_endpoints api (es_Endpoints endpointSlice)) (\<lambda>endpoints.
           then_outcome (sorted_ports api (es_Ports endpointSlice)) (\<lambda>ports.
           then_outcome (sorted_endpoints api (er_Endpoints resource)) (\<lambda>_.
           then_outcome (sorted_ports api (er_EndpointPorts resource)) (\<lambda>_.
             let resource = sorted_resource api resource in
             if length endpoints = length (er_Endpoints resource) \<and>
                DeepDerivative_endpoints api (er_Endpoints resource) endpoints \<and>
                DeepDerivative_ports api (er_EndpointPorts resource) ports then ret (Returns (Inr ()))
             else if Labels (es_meta endpointSlice) = [] then ret Panics
             else
               (let m = es_meta endpointSlice;
                    wanted = endpointSlice\<lparr>es_meta := m\<lparr>Labels := AList.update LabelManagedBy ''rancher-flat-network-controller'' (Labels m)\<rparr>,
                      es_Endpoints := er_Endpoints resource, es_Ports := er_EndpointPorts resource\<rparr> in
                case GetEndpointSliceAddressType resource of
                  Inl e \<Rightarrow> ret (Returns (Inr ()))
                | Inr addressType \<Rightarrow>
                    if addressType \<noteq> es_AddressType wanted then ret (Returns (Inr ()))
                    else
                      do {
                        r \<leftarrow> endpointSliceClient_Update api wanted;
                        case r of
                          Inl e \<Rightarrow> ret (Returns (Inl (Wrapf ''failed to update endpointSlice: %w'' [] e)))
                        | Inr _ \<Rightarrow> ret (Returns (Inr ()))
                      })))))
     }"

fun update_slices :: "'w ep_api \<Rightarrow> EndpointReource \<Rightarrow> EndpointSlice list \<Rightarrow> ('w, error option outcome) state" where
  "update_slices api resource [] = ret (Returns None)"
| "update_slices api resource (s # ss) =
     do {
       r \<leftarrow> retry_slice api DefaultRetry (slice_closure api resource s);
       then_outcome r (\<lambda>x. case x of
         Inl e \<Rightarrow> ret (Returns (Some (Wrapf ''failed to update discoveryv1.EndpointSlice: %w'' [] e)))
       | Inr _ \<Rightarrow> update_slices api (sorted_resource api resource) ss)
     }"

definition syncDiscoveryV1EndpointSlice ::
    "'w ep_api \<Rightarrow> Service \<Rightarrow> EndpointReource option \<Rightarrow> ('w, error option outcome) state" where
  "syncDiscoveryV1EndpointSlice api svc resource0 =
     (case resource0 of
        None \<Rightarrow> ret (Returns None)
      | Some resource \<Rightarrow>
          do {
            r \<leftarrow> endpointSliceCache_List api (svc_Namespace svc) [(labelServiceName, svc_Name svc)];
            case r of
              Inl e \<Rightarrow> ret (Returns (Some (Wrapf ''failed to list discoveryv1.EndpointSlices from cache: %w'' [] e)))
            | Inr endpointSlices \<Rightarrow> update_slices api resource (getAvailableEndpointSlices endpointSlices)
          })"

definition endpointslice_sync ::
    "'w ep_api \<Rightarrow> env \<Rightarrow> EndpointSlice option \<Rightarrow> ('w, (EndpointSlice option \<times> error option) outcome) state" where
  "endpointslice_sync api env epslice0 =
     (if \<not> supportDiscoveryV1 api then ret (Returns (epslice0, None))
      else case epslice0 of
        None \<Rightarrow> ret (Returns (epslice0, None))
      | Some epslice \<Rightarrow>
          (let m = es_meta epslice; serviceName = mget (Labels m) labelServiceName in
           if Name m = [] \<or> DeletionTimestamp m \<noteq> None then ret (Returns (epslice0, None))
           else if Labels m = [] then ret (Returns (epslice0, None))
           else if serviceName = [] then ret (Returns (epslice0, None))
           else
             do {
               r \<leftarrow> ep_serviceCache_Get api (Namespace m) serviceName;
               case r of
                 Inl e \<Rightarrow> ret (Returns (epslice0, Some (Wrapf ''failed to get service of discoveryv1.EndpointSlice %q: %w'' [Name m] e)))
               | Inr svc \<Rightarrow>
                   do {
                     r \<leftarrow> ep_podCache_List api (svc_Namespace svc) (svc_Selector svc);
                     case r of
                       Inl e \<Rightarrow> ret (Returns (epslice0, Some (Wrapf ''failed to list pod by selector [%v] on endpointSlice [%v/%v]: %w''
                                  [show_strmap (svc_Selector svc), Namespace m, Name m] e)))
                     | Inr pods \<Rightarrow>
                         (case GetEndpointResources env svc pods of
                            Inl e \<Rightarrow>
                              if root_error e = ErrPodNetworkStatusNotUpdated then
                                do {
                                  _ \<leftarrow> endpointSliceEnqueueAfter api (Namespace m) (Name m) requeue_status;
                                  ret (Returns (epslice0, None))
                                }
                              else ret (Returns (epslice0, Some (Wrapf ''failed to get endpoint resources: %w'' [] e)))
                          | Inr resource \<Rightarrow>
                              do {
                                r \<leftarrow> syncDiscoveryV1EndpointSlice api svc resource;
                                then_outcome r (\<lambda>e. ret (Returns (epslice0, e)))
                              })
                   }
             }))"

subsection \<open>The store behind the caches\<close>

record ep_view =
  v_endpoints :: "key \<Rightarrow> CoreEndpoints option"
  v_slices :: "key \<Rightarrow> EndpointSlice option"

abbreviation slice_key :: "EndpointSlice \<Rightarrow> key" where
  "slice_key s \<equiv> (Namespace (es_meta s), Name (es_meta s))"

abbreviation svc_key :: "Service \<Rightarrow> key" where
  "svc_key s \<equiv> (svc_Namespace s, svc_Name s)"

text \<open>\<open>RetryOnConflict\<close> with a closure that may panic.\<close>

inductive tries :: "('w, (error + unit) outcome) state \<Rightarrow> 'w \<Rightarrow> (error + unit) outcome \<Rightarrow> 'w \<Rightarrow> bool" for f where
  once: "run_state f w = (r, w') \<Longrightarrow> tries f w r w'"
| more: "run_state f w = (Returns (Inl e), w1) \<Longrightarrow> IsConflict e \<Longrightarrow> tries f w1 r w' \<Longrightarrow> tries f w r w'"

text \<open>
  The laws: fresh caches that list exactly the stored slices with the labels, updates that store what they are given and keep the type
  of a slice, queues that change nothing, \<open>RetryOnConflict\<close>, a derivative test that holds of equal values, and a sort that keeps the elements
  and leaves its own result as it is.
\<close>

locale ep_store =
  fixes api :: "'w ep_api" and view :: "'w \<Rightarrow> ep_view"
  assumes slice_keyed: "v_slices (view w) k = Some s \<Longrightarrow> slice_key s = k"
    and eps_Get: "run_state (endpointsCache_Get api ns n) w = (re, w') \<Longrightarrow>
      view w' = view w \<and> (\<forall>x. re = Inr x \<longrightarrow> v_endpoints (view w) (ns, n) = Some x \<and> Namespace (eps_meta x) = ns \<and> Name (eps_meta x) = n)"
    and eps_Update: "run_state (endpointsClient_Update api x) w = (Inr x', w') \<Longrightarrow> eps_Subsets x' = eps_Subsets x \<and>
      view w' = (view w)\<lparr>v_endpoints := (v_endpoints (view w))((Namespace (eps_meta x), Name (eps_meta x)) \<mapsto> x')\<rparr>"
    and eps_Update_error: "run_state (endpointsClient_Update api x) w = (Inl e, w') \<Longrightarrow> view w' = view w"
    and slice_List: "run_state (endpointSliceCache_List api ns sel) w = (rl, w') \<Longrightarrow>
      view w' = view w \<and> (\<forall>xs. rl = Inr xs \<longrightarrow>
        set xs = {s. \<exists>n. v_slices (view w) (ns, n) = Some s \<and> has_labels sel (es_meta s)})"
    and slice_Get: "run_state (endpointSliceCache_Get api ns n) w = (rs, w') \<Longrightarrow>
      view w' = view w \<and> (\<forall>s. rs = Inr s \<longrightarrow> v_slices (view w) (ns, n) = Some s)"
    and slice_Update: "run_state (endpointSliceClient_Update api s) w = (Inr s', w') \<Longrightarrow>
      es_Endpoints s' = es_Endpoints s \<and> es_Ports s' = es_Ports s \<and> es_AddressType s' = es_AddressType s \<and>
      view w' = (view w)\<lparr>v_slices := (v_slices (view w))(slice_key s \<mapsto> s')\<rparr>"
    and slice_Update_error: "run_state (endpointSliceClient_Update api s) w = (Inl e, w') \<Longrightarrow> view w' = view w"
    and ep_quiet: "view (snd (run_state (endpointSliceEnqueue api ns n) w)) = view w"
    and retry_eps: "run_state (retry_endpoints api b f) w = (ru, w') \<Longrightarrow> attempts f w ru w'"
    and retry_slices: "run_state (retry_slice api b g) w = (ro, w') \<Longrightarrow> tries g w ro w'"
    and derivative_refl: "DeepDerivative_subsets api xs xs" "DeepDerivative_endpoints api es es" "DeepDerivative_ports api ps ps"
    and sort_elements: "length (sort_endpoints api es) = length es" "set (sort_endpoints api es) = set es"
    and sort_again: "sort_endpoints api (sort_endpoints api es) = sort_endpoints api es" "sort_ports api (sort_ports api ps) = sort_ports api ps"

text \<open>A slice is current when it derives the resource, in the order in which the code compares them.\<close>

definition current :: "'w ep_api \<Rightarrow> EndpointReource \<Rightarrow> EndpointSlice \<Rightarrow> bool" where
  "current api res s \<longleftrightarrow> length (es_Endpoints s) = length (er_Endpoints res) \<and>
     DeepDerivative_endpoints api (sort_endpoints api (er_Endpoints res)) (sort_endpoints api (es_Endpoints s)) \<and>
     DeepDerivative_ports api (sort_ports api (er_EndpointPorts res)) (sort_ports api (es_Ports s))"

text \<open>What the updates may do to the store: replace slices of the right type by current ones.\<close>

inductive slice_step :: "'w ep_api \<Rightarrow> EndpointReource \<Rightarrow> EndpointSlice option \<Rightarrow> EndpointSlice option \<Rightarrow> bool" for api res where
  kept: "slice_step api res a a"
| replaced: "es_AddressType x = es_AddressType s \<Longrightarrow> GetEndpointSliceAddressType res = Inr (es_AddressType s) \<Longrightarrow> current api res x \<Longrightarrow>
    slice_step api res (Some s) (Some x)"

definition advanced :: "'w ep_api \<Rightarrow> EndpointReource \<Rightarrow> ep_view \<Rightarrow> ep_view \<Rightarrow> bool" where
  "advanced api res c c' \<longleftrightarrow> v_endpoints c' = v_endpoints c \<and> (\<forall>k. slice_step api res (v_slices c k) (v_slices c' k))"

inductive_cases slice_step_SomeE: "slice_step api res (Some s) b"

lemma slice_step_trans: "slice_step api res a b \<Longrightarrow> slice_step api res b c \<Longrightarrow> slice_step api res a c"
  by (induction rule: slice_step.induct) (auto elim!: slice_step_SomeE intro: slice_step.intros)

lemma slice_step_Some:
  assumes "slice_step api res (Some s) b"
  obtains x where "b = Some x" "es_AddressType x = es_AddressType s" "current api res s \<Longrightarrow> current api res x"
  using assms by (auto elim: slice_step_SomeE)

lemma advanced_refl: "advanced api res c c"
  by (simp add: advanced_def slice_step.kept)

lemma advanced_trans: "advanced api res c c1 \<Longrightarrow> advanced api res c1 c2 \<Longrightarrow> advanced api res c c2"
  unfolding advanced_def using slice_step_trans by metis

lemma advanced_Some:
  assumes "advanced api res c c'" and "v_slices c k = Some s"
  obtains x where "v_slices c' k = Some x" "es_AddressType x = es_AddressType s" "current api res s \<Longrightarrow> current api res x"
  using assms slice_step_Some [of api res s "v_slices c' k"] unfolding advanced_def by metis

context ep_store
begin

lemma resource_sorted:
  "GetEndpointSliceAddressType (sorted_resource api res) = GetEndpointSliceAddressType res"
  "current api (sorted_resource api res) = current api res"
  "advanced api (sorted_resource api res) = advanced api res"
proof -
  have "set (concat (map ep_Addresses (sort_endpoints api (er_Endpoints res)))) = set (concat (map ep_Addresses (er_Endpoints res)))"
    by (simp add: sort_elements)
  then have "list_ex P (concat (map ep_Addresses (sort_endpoints api (er_Endpoints res)))) =
      list_ex P (concat (map ep_Addresses (er_Endpoints res)))" for P
    by (simp only: list_ex_iff)
  then show type: "GetEndpointSliceAddressType (sorted_resource api res) = GetEndpointSliceAddressType res"
    by (simp add: GetEndpointSliceAddressType_def scan_endpoints_eq scan_addresses_result sorted_resource_def)
  show cur: "current api (sorted_resource api res) = current api res"
    by (simp add: fun_eq_iff current_def sorted_resource_def sort_again sort_elements)
  show "advanced api (sorted_resource api res) = advanced api res"
    by (simp add: fun_eq_iff advanced_def slice_step.simps [of _ "sorted_resource api res"] slice_step.simps [of _ res] type cur)
qed

text \<open>The result of the closure, by the conditions of the code.\<close>

lemma slice_closure_body:
  assumes get: "run_state (endpointSliceCache_Get api (Namespace (es_meta s)) (Name (es_meta s))) w = (Inr s0, w1)"
    and upd: "run_state (endpointSliceClient_Update api (s0\<lparr>
      es_meta := (es_meta s0)\<lparr>Labels := AList.update LabelManagedBy ''rancher-flat-network-controller'' (Labels (es_meta s0))\<rparr>,
      es_Endpoints := er_Endpoints (sorted_resource api res), es_Ports := er_EndpointPorts (sorted_resource api res)\<rparr>)) w1 = (ur, w2)"
  shows "run_state (slice_closure api res s) w = (
      if length (es_Endpoints s0) \<ge> 2 \<and> list_ex (\<lambda>e. ep_TargetRef e = None) (es_Endpoints s0) then (Panics, w1)
      else if length (es_Ports s0) \<ge> 2 \<and> list_ex (\<lambda>p. slice_Name p = None) (es_Ports s0) then (Panics, w1)
      else if length (er_Endpoints res) \<ge> 2 \<and> list_ex (\<lambda>e. ep_TargetRef e = None) (er_Endpoints res) then (Panics, w1)
      else if length (er_EndpointPorts res) \<ge> 2 \<and> list_ex (\<lambda>p. slice_Name p = None) (er_EndpointPorts res) then (Panics, w1)
      else if current api res s0 then (Returns (Inr ()), w1)
      else if Labels (es_meta s0) = [] then (Panics, w1)
      else if GetEndpointSliceAddressType (sorted_resource api res) = Inr (es_AddressType s0)
        then (Returns (map_sum (Wrapf ''failed to update endpointSlice: %w'' []) (\<lambda>_. ()) ur), w2)
      else (Returns (Inr ()), w1))"
proof -
  have cur: "current api res s0 \<longleftrightarrow> length (sort_endpoints api (es_Endpoints s0)) = length (er_Endpoints (sorted_resource api res)) \<and>
      DeepDerivative_endpoints api (er_Endpoints (sorted_resource api res)) (sort_endpoints api (es_Endpoints s0)) \<and>
      DeepDerivative_ports api (er_EndpointPorts (sorted_resource api res)) (sort_ports api (es_Ports s0))"
    by (simp add: current_def sorted_resource_def sort_elements)
  show ?thesis
    unfolding slice_closure_def State_Monad.run_state_bind get prod.case sum.case sorted_endpoints_def sorted_ports_def cur Let_def
    using upd by (auto simp: State_Monad.run_state_bind split: sum.splits)
qed

lemma slice_update_current:
  assumes "run_state (endpointSliceClient_Update api (s0\<lparr>
      es_meta := (es_meta s0)\<lparr>Labels := AList.update LabelManagedBy ''rancher-flat-network-controller'' (Labels (es_meta s0))\<rparr>,
      es_Endpoints := er_Endpoints (sorted_resource api res), es_Ports := er_EndpointPorts (sorted_resource api res)\<rparr>)) w1 = (Inr x, w')"
    and "slice_key s0 = k"
  shows "es_AddressType x = es_AddressType s0 \<and> current api res x \<and> view w' = (view w1)\<lparr>v_slices := (v_slices (view w1))(k \<mapsto> x)\<rparr>"
  using slice_Update [OF assms(1)] assms(2)
  by (auto simp: current_def sorted_resource_def sort_again sort_elements derivative_refl)

text \<open>One run of the closure: nothing, or the update of the slice.\<close>

lemma slice_closure_run:
  assumes run: "run_state (slice_closure api res s) w = (r, w')"
  shows "view w' = view w \<and> (r = Returns (Inr ()) \<longrightarrow> (\<exists>s0. v_slices (view w) (slice_key s) = Some s0 \<and>
       (current api res s0 \<or> GetEndpointSliceAddressType res \<noteq> Inr (es_AddressType s0)))) \<or>
    r = Returns (Inr ()) \<and> (\<exists>s0 x. v_slices (view w) (slice_key s) = Some s0 \<and> es_AddressType x = es_AddressType s0 \<and>
      GetEndpointSliceAddressType res = Inr (es_AddressType s0) \<and> current api res x \<and>
      view w' = (view w)\<lparr>v_slices := (v_slices (view w))(slice_key s \<mapsto> x)\<rparr>)"
proof -
  obtain g w1 where g: "run_state (endpointSliceCache_Get api (Namespace (es_meta s)) (Name (es_meta s))) w = (g, w1)" by fastforce
  note get = slice_Get [OF g]
  show ?thesis
  proof (cases g)
    case (Inl e)
    then show ?thesis using run g get by (auto simp: slice_closure_def State_Monad.run_state_bind)
  next
    case (Inr s0)
    have s0: "v_slices (view w) (slice_key s) = Some s0" "view w1 = view w" using get Inr by auto
    have key: "slice_key s0 = slice_key s" using slice_keyed [OF s0(1)] .
    define R where "R = sorted_resource api res"
    define u where "u = s0\<lparr>es_meta := (es_meta s0)\<lparr>Labels := AList.update LabelManagedBy ''rancher-flat-network-controller'' (Labels (es_meta s0))\<rparr>,
      es_Endpoints := er_Endpoints R, es_Ports := er_EndpointPorts R\<rparr>"
    consider (stop) "r \<noteq> Returns (Inr ())" "w' = w1"
      | (skip) "r = Returns (Inr ())" "w' = w1" "current api res s0 \<or> GetEndpointSliceAddressType R \<noteq> Inr (es_AddressType s0)"
      | (upd) ur where "run_state (endpointSliceClient_Update api u) w1 = (ur, w')" "r = Returns (map_sum (Wrapf ''failed to update endpointSlice: %w'' []) (\<lambda>_. ()) ur)"
          "GetEndpointSliceAddressType R = Inr (es_AddressType s0)"
    proof -
      obtain ur w2 where ur: "run_state (endpointSliceClient_Update api u) w1 = (ur, w2)" by fastforce
      note body = slice_closure_body [OF g [unfolded Inr] ur [unfolded u_def R_def], folded R_def]
      show thesis using run ur body stop skip upd by (auto split: if_splits)
    qed
    then show ?thesis
    proof cases
      case stop
      then show ?thesis using s0 by simp
    next
      case skip
      then show ?thesis using s0 by (simp add: R_def resource_sorted)
    next
      case upd
      show ?thesis
      proof (cases ur)
        case (Inl e)
        then show ?thesis using upd slice_Update_error s0(2) by auto
      next
        case (Inr x)
        note x = slice_update_current [OF upd(1) [unfolded Inr u_def R_def] key]
        then show ?thesis using s0 upd(2,3) Inr by (auto simp: R_def resource_sorted)
      qed
    qed
  qed
qed

lemma slice_closure_advances:
  assumes "run_state (slice_closure api res s) w = (r, w')"
  shows "advanced api res (view w) (view w')" "r = Returns (Inl e) \<Longrightarrow> view w' = view w"
    "r = Returns (Inr ()) \<Longrightarrow> v_slices (view w) (slice_key s) = Some s0 \<Longrightarrow>
      GetEndpointSliceAddressType res = Inr (es_AddressType s0) \<Longrightarrow> \<exists>x. v_slices (view w') (slice_key s) = Some x \<and> current api res x"
  using slice_closure_run [OF assms] by (auto simp: advanced_def intro: slice_step.intros)

lemma tries_advance:
  assumes "tries (slice_closure api res s) w r w'"
  shows "advanced api res (view w) (view w') \<and>
    (r = Returns (Inr ()) \<longrightarrow> v_slices (view w) (slice_key s) = Some s0 \<longrightarrow>
      GetEndpointSliceAddressType res = Inr (es_AddressType s0) \<longrightarrow> (\<exists>x. v_slices (view w') (slice_key s) = Some x \<and> current api res x))"
  using assms
proof (induction rule: tries.induct)
  case (once w r w')
  then show ?case using slice_closure_advances by blast
next
  case (more w e w1 r w')
  then show ?case using slice_closure_advances(2) [OF more.hyps(1) refl] by simp
qed

text \<open>All rounds: the slices of the list that have the type of the resource are current at the end.\<close>

lemma update_slices_advance:
  assumes "run_state (update_slices api res ss) w = (r, w')"
  shows "advanced api res (view w) (view w') \<and>
    (\<forall>s s0. r = Returns None \<longrightarrow> s \<in> set ss \<longrightarrow> v_slices (view w) (slice_key s) = Some s0 \<longrightarrow>
      GetEndpointSliceAddressType res = Inr (es_AddressType s0) \<longrightarrow> (\<exists>x. v_slices (view w') (slice_key s) = Some x \<and> current api res x))"
  using assms
proof (induction ss arbitrary: res w)
  case Nil
  then show ?case by (simp add: advanced_refl)
next
  case (Cons s ss)
  obtain r1 w1 where r1: "run_state (retry_slice api DefaultRetry (slice_closure api res s)) w = (r1, w1)" by fastforce
  note one = tries_advance [OF retry_slices [OF r1]]
  show ?case
  proof (cases "r1 = Returns (Inr ())")
    case False
    then have "w' = w1 \<and> r \<noteq> Returns None" using Cons.prems r1
      by (cases r1) (auto simp: State_Monad.run_state_bind split: sum.splits)
    then show ?thesis using one by blast
  next
    case True
    then have "run_state (update_slices api (sorted_resource api res) ss) w1 = (r, w')"
      using Cons.prems r1 by (simp add: State_Monad.run_state_bind)
    note rest = Cons.IH [OF this, unfolded resource_sorted]
    have cur: "\<exists>x. v_slices (view w') (slice_key t) = Some x \<and> current api res x"
      if p: "r = Returns None" "t \<in> set (s # ss)" "v_slices (view w) (slice_key t) = Some s0"
        "GetEndpointSliceAddressType res = Inr (es_AddressType s0)" for t s0
    proof (cases "t \<in> set ss")
      case True
      obtain x where x: "v_slices (view w1) (slice_key t) = Some x" "es_AddressType x = es_AddressType s0"
        using advanced_Some [OF one [THEN conjunct1] p(3)] by blast
      then show ?thesis using rest True p(1,4) by simp
    next
      case False
      then have "t = s" using p(2) by simp
      then obtain x where x: "v_slices (view w1) (slice_key t) = Some x" "current api res x" using one \<open>r1 = Returns (Inr ())\<close> p(3,4) by blast
      show ?thesis using advanced_Some [OF rest [THEN conjunct1] x(1)] x(2) by metis
    qed
    then show ?thesis using advanced_trans [OF one [THEN conjunct1] rest [THEN conjunct1]] by blast
  qed
qed

theorem slices_synced:
  assumes run: "run_state (syncDiscoveryV1EndpointSlice api svc (Some res)) w = (r, w')"
  shows "advanced api res (view w) (view w') \<and>
    (\<forall>n s. r = Returns None \<longrightarrow> v_slices (view w) (svc_Namespace svc, n) = Some s \<longrightarrow>
      map_of (Labels (es_meta s)) labelServiceName = Some (svc_Name svc) \<longrightarrow> DeletionTimestamp (es_meta s) = None \<longrightarrow>
      GetEndpointSliceAddressType res = Inr (es_AddressType s) \<longrightarrow>
      (\<exists>x. v_slices (view w') (svc_Namespace svc, n) = Some x \<and> current api res x))"
proof -
  obtain l w1 where l: "run_state (endpointSliceCache_List api (svc_Namespace svc) [(labelServiceName, svc_Name svc)]) w = (l, w1)" by fastforce
  note list = slice_List [OF l]
  show ?thesis
  proof (cases l)
    case (Inl e)
    then show ?thesis using run l list by (auto simp: syncDiscoveryV1EndpointSlice_def State_Monad.run_state_bind advanced_refl)
  next
    case (Inr xs)
    then have "run_state (update_slices api res (getAvailableEndpointSlices xs)) w1 = (r, w')"
      using run l by (simp add: syncDiscoveryV1EndpointSlice_def State_Monad.run_state_bind)
    note upd = update_slices_advance [OF this] list [THEN conjunct1]
    have "\<exists>x. v_slices (view w') (svc_Namespace svc, n) = Some x \<and> current api res x"
      if "r = Returns None" and s: "v_slices (view w) (svc_Namespace svc, n) = Some s"
        and "map_of (Labels (es_meta s)) labelServiceName = Some (svc_Name svc)" "DeletionTimestamp (es_meta s) = None"
        and type: "GetEndpointSliceAddressType res = Inr (es_AddressType s)" for n s
    proof -
      have "s \<in> set xs" using list Inr that by (auto simp: has_labels_def)
      moreover have "es_AddressType s = AddressTypeIPv4 \<or> es_AddressType s = AddressTypeIPv6"
        using type by (auto simp: GetEndpointSliceAddressType_def split: sum.splits if_splits) (metis AddressType.exhaust)
      ultimately have "s \<in> set (getAvailableEndpointSlices xs)" using that(4) by (auto simp: getAvailableEndpointSlices_def)
      then show ?thesis using upd that(1) type s slice_keyed [OF s] by auto
    qed
    then show ?thesis using upd by simp
  qed
qed

text \<open>The endpoints: after the retries the stored object derives the subsets of the resource, and nothing else has changed.\<close>

definition eps_written :: "key \<Rightarrow> EndpointReource \<Rightarrow> ep_view \<Rightarrow> error + unit \<Rightarrow> ep_view \<Rightarrow> bool" where
  "eps_written k res c r c' \<longleftrightarrow>
     (case r of
        Inl _ \<Rightarrow> c' = c
      | Inr _ \<Rightarrow> \<exists>x. DeepDerivative_subsets api (er_Subsets res) (eps_Subsets x) \<and> c' = c\<lparr>v_endpoints := (v_endpoints c)(k \<mapsto> x)\<rparr>)"

lemma endpoints_closure_run:
  assumes run: "run_state (endpoints_closure api svc res) w = (r, w')"
  shows "eps_written (svc_key svc) res (view w) r (view w')"
proof -
  obtain g w1 where g: "run_state (endpointsCache_Get api (svc_Namespace svc) (svc_Name svc)) w = (g, w1)" by fastforce
  note get = eps_Get [OF g]
  show ?thesis
  proof (cases g)
    case (Inl e)
    then show ?thesis using run g get by (auto simp: endpoints_closure_def eps_written_def State_Monad.run_state_bind)
  next
    case (Inr old)
    have old: "v_endpoints (view w) (svc_key svc) = Some old" "view w1 = view w" "(Namespace (eps_meta old), Name (eps_meta old)) = svc_key svc"
      using get Inr by auto
    show ?thesis
    proof (cases "DeepDerivative_subsets api (er_Subsets res) (eps_Subsets old)")
      case True
      then have "r = Inr ()" "view w' = view w" using run g Inr old by (auto simp: endpoints_closure_def State_Monad.run_state_bind)
      then show ?thesis using True old(1) by (auto simp: eps_written_def intro!: exI [of _ old] ep_view.equality)
    next
      case False
      define u where "u = wanted_endpoints (supportDiscoveryV1 api) svc res old"
      have u: "(Namespace (eps_meta u), Name (eps_meta u)) = svc_key svc" "eps_Subsets u = er_Subsets res"
        using old(3) by (simp_all add: u_def wanted_endpoints_def)
      obtain ur where ur: "run_state (endpointsClient_Update api u) w1 = (ur, w')" "r = map_sum id (\<lambda>_. ()) ur"
        using run g Inr False
        by (auto simp: endpoints_closure_def State_Monad.run_state_bind u_def [symmetric] split: prod.splits sum.splits)
      show ?thesis
      proof (cases ur)
        case (Inl e)
        then show ?thesis using ur eps_Update_error old(2) by (auto simp: eps_written_def)
      next
        case (Inr x)
        then have "r = Inr ()" "eps_Subsets x = er_Subsets res" "view w' = (view w)\<lparr>v_endpoints := (v_endpoints (view w))(svc_key svc \<mapsto> x)\<rparr>"
          using ur eps_Update [of u w1 x w'] u old(2) by simp_all
        then show ?thesis using derivative_refl(1) unfolding eps_written_def by (intro exI [of _ x] | simp)+
      qed
    qed
  qed
qed

lemma enqueue_slices_quiet: "view (snd (run_state (enqueue_slices api ss) w)) = view w"
proof (induction ss arbitrary: w)
  case (Cons s ss)
  then show ?case using ep_quiet [of "Namespace (es_meta s)" "Name (es_meta s)" w]
    by (cases "run_state (endpointSliceEnqueue api (Namespace (es_meta s)) (Name (es_meta s))) w") (simp add: State_Monad.run_state_bind)
qed simp

theorem endpoints_synced:
  assumes run: "run_state (syncCoreV1Endpoints api endpoints svc (Some res)) w = (None, w')"
  shows "\<exists>x. DeepDerivative_subsets api (er_Subsets res) (eps_Subsets x) \<and>
    view w' = (view w)\<lparr>v_endpoints := (v_endpoints (view w))(svc_key svc \<mapsto> x)\<rparr>"
proof -
  obtain r w1 where r: "run_state (retry_endpoints api DefaultRetry (endpoints_closure api svc res)) w = (r, w1)" by fastforce
  have "eps_written (svc_key svc) res (view w) r (view w1)"
    using retry_eps [OF r] endpoints_closure_run by (rule attempts_view) (auto simp: eps_written_def)
  moreover have "r = Inr ()" using run r by (cases r) (auto simp: syncCoreV1Endpoints_def State_Monad.run_state_bind)
  moreover have "view w' = view w1"
  proof -
    obtain l w2 where l: "run_state (endpointSliceCache_List api (Namespace (eps_meta endpoints)) [(labelServiceName, svc_Name svc)]) w1 = (l, w2)"
      by fastforce
    then obtain xs where "l = Inr xs" using run r \<open>r = Inr ()\<close> by (cases l) (auto simp: syncCoreV1Endpoints_def State_Monad.run_state_bind)
    then show ?thesis using run r l \<open>r = Inr ()\<close> slice_List [OF l] enqueue_slices_quiet [of xs w2]
      by (auto simp: syncCoreV1Endpoints_def State_Monad.run_state_bind split: prod.splits)
  qed
  ultimately show ?thesis by (simp add: eps_written_def)
qed

end

subsection \<open>A store in memory\<close>

record mem_ep =
  me_services :: "Service list"
  me_pods :: "Pod list"
  me_endpoints :: "CoreEndpoints list"
  me_slices :: "EndpointSlice list"

abbreviation eps_key :: "CoreEndpoints \<Rightarrow> key" where "eps_key x \<equiv> (Namespace (eps_meta x), Name (eps_meta x))"

definition mem_ep_view :: "mem_ep \<Rightarrow> ep_view" where
  "mem_ep_view w = \<lparr>v_endpoints = (\<lambda>k. store_get eps_key k (me_endpoints w)), v_slices = (\<lambda>k. store_get slice_key k (me_slices w))\<rparr>"

definition ref_name :: "Endpoint \<Rightarrow> string" where
  "ref_name e = (case ep_TargetRef e of None \<Rightarrow> [] | Some r \<Rightarrow> or_Name r)"

definition port_key :: "SlicePort \<Rightarrow> string" where
  "port_key p = (case slice_Name p of None \<Rightarrow> [] | Some n \<Rightarrow> n)"

text \<open>A stable sort from the greatest name down.\<close>

definition sort_down :: "('a \<Rightarrow> string) \<Rightarrow> 'a list \<Rightarrow> 'a list" where
  "sort_down f xs = rev (sort_key f (rev xs))"

lemma sort_down_again: "sort_down f (sort_down f xs) = sort_down f xs"
  by (simp add: sort_down_def sort_key_id_if_sorted)

lemma sort_down_elements: "length (sort_down f xs) = length xs" "set (sort_down f xs) = set xs"
  by (simp_all add: sort_down_def)

fun retry_out :: "nat \<Rightarrow> ('w, (error + unit) outcome) state \<Rightarrow> ('w, (error + unit) outcome) state" where
  "retry_out 0 f = f"
| "retry_out (Suc n) f =
     do {
       r \<leftarrow> f;
       case r of
         Returns (Inl e) \<Rightarrow> if IsConflict e then retry_out n f else ret r
       | _ \<Rightarrow> ret r
     }"

definition mem_ep_api :: "mem_ep ep_api" where
  "mem_ep_api = \<lparr>
     ep_serviceCache_Get = (\<lambda>ns n. reads (\<lambda>w. found (store_get svc_key (ns, n) (me_services w)))),
     ep_podCache_List = (\<lambda>ns sel. reads (\<lambda>w. Inr (filter (\<lambda>p. Namespace (pod_meta p) = ns \<and> has_labels sel (pod_meta p)) (me_pods w)))),
     endpointsCache_Get = (\<lambda>ns n. reads (\<lambda>w. found (store_get eps_key (ns, n) (me_endpoints w)))),
     endpointsClient_Update = (\<lambda>x. State (\<lambda>w. if store_get eps_key (eps_key x) (me_endpoints w) = None then (Inl (StatusError NotFound), w)
       else (Inr x, w\<lparr>me_endpoints := store_put eps_key x (me_endpoints w)\<rparr>))),
     endpointSliceCache_List = (\<lambda>ns sel. reads (\<lambda>w. Inr (filter (\<lambda>s. store_get slice_key (slice_key s) (me_slices w) = Some s \<and>
       Namespace (es_meta s) = ns \<and> has_labels sel (es_meta s)) (me_slices w)))),
     endpointSliceCache_Get = (\<lambda>ns n. reads (\<lambda>w. found (store_get slice_key (ns, n) (me_slices w)))),
     endpointSliceClient_Update = (\<lambda>s. State (\<lambda>w. if store_get slice_key (slice_key s) (me_slices w) = None then (Inl (StatusError NotFound), w)
       else (Inr s, w\<lparr>me_slices := store_put slice_key s (me_slices w)\<rparr>))),
     endpointsEnqueueAfter = (\<lambda>ns n d. ret ()),
     endpointSliceEnqueue = (\<lambda>ns n. ret ()),
     endpointSliceEnqueueAfter = (\<lambda>ns n d. ret ()),
     retry_endpoints = (\<lambda>b. retry_n 4),
     retry_slice = (\<lambda>b. retry_out 4),
     supportDiscoveryV1 = True,
     DeepDerivative_subsets = prefix,
     DeepDerivative_endpoints = prefix,
     DeepDerivative_ports = prefix,
     sort_endpoints = sort_down ref_name,
     sort_ports = sort_down port_key\<rparr>"

lemma tries_retry_out: "run_state (retry_out n f) w = (r, w') \<Longrightarrow> tries f w r w'"
proof (induction n arbitrary: w)
  case (Suc n)
  obtain r1 w1 where r1: "run_state f w = (r1, w1)" by fastforce
  show ?case
  proof (cases "\<exists>e. r1 = Returns (Inl e) \<and> IsConflict e")
    case True
    then show ?thesis using Suc r1 by (auto simp: State_Monad.run_state_bind intro: tries.more)
  next
    case False
    then have "(r, w') = (r1, w1)" using Suc.prems r1
      by (auto simp: State_Monad.run_state_bind split: outcome.splits sum.splits if_splits)
    then show ?thesis using r1 by (simp add: tries.once)
  qed
qed (simp add: tries.once)

lemma store_get_in: "store_get f k xs = Some x \<Longrightarrow> x \<in> set xs"
  by (induction xs) (auto simp: store_get_def split: if_splits)

interpretation memep: ep_store mem_ep_api mem_ep_view
proof (unfold_locales, goal_cases)
  case (1 w k s)
  then show ?case using store_get_key [of slice_key] by (simp add: mem_ep_view_def)
next
  case (2 ns n w re w')
  then have "w' = w" "re = found (store_get eps_key (ns, n) (me_endpoints w))" by (auto simp: mem_ep_api_def reads_def)
  then show ?case
  proof (cases "store_get eps_key (ns, n) (me_endpoints w)")
    case (Some x)
    then show ?thesis using \<open>w' = w\<close> \<open>re = _\<close> store_get_key [OF Some] by (simp add: mem_ep_view_def found_def)
  qed (simp add: mem_ep_view_def found_def)
next
  case (3 x w x' w')
  then show ?case using store_get_put [of eps_key "eps_key x" "me_endpoints w" x]
    by (auto simp: mem_ep_api_def mem_ep_view_def split: if_splits)
next
  case (5 ns sel w rl w')
  have "s \<in> set (me_slices w) \<and> store_get slice_key (slice_key s) (me_slices w) = Some s \<and> Namespace (es_meta s) = ns \<longleftrightarrow>
      (\<exists>n. store_get slice_key (ns, n) (me_slices w) = Some s)" for s
    using store_get_key [of slice_key "(ns, _)" "me_slices w" s] store_get_in [of slice_key "(ns, _)" "me_slices w" s] by auto
  then show ?case using 5 by (auto simp: mem_ep_api_def mem_ep_view_def reads_def)
next
  case (7 s w s' w')
  then show ?case using store_get_put [of slice_key "slice_key s" "me_slices w" s]
    by (auto simp: mem_ep_api_def mem_ep_view_def split: if_splits)
qed (auto simp: mem_ep_api_def mem_ep_view_def reads_def found_def sort_down_again sort_down_elements
    intro: retry_n_attempts tries_retry_out split: if_splits option.splits)

subsection \<open>Properties\<close>

text \<open>
  C13. The slice controller brings the slices of a service up to date: when \<open>syncDiscoveryV1EndpointSlice\<close> succeeds, every slice of the
  service that is not being deleted and has the address type of the resource has as many endpoints as the resource and derives its endpoints
  and ports. Whatever the result, even after a panic, slices only change into such slices of their own type, so
  that no slice gets addresses of another family, and the \<open>Endpoints\<close> objects stay as they are.
\<close>

theorem slices_are_current:
  assumes "ep_store api view" and "run_state (syncDiscoveryV1EndpointSlice api svc (Some res)) w = (r, w')"
  shows "advanced api res (view w) (view w') \<and>
    (\<forall>n s. r = Returns None \<longrightarrow> v_slices (view w) (svc_Namespace svc, n) = Some s \<longrightarrow>
      map_of (Labels (es_meta s)) labelServiceName = Some (svc_Name svc) \<longrightarrow> DeletionTimestamp (es_meta s) = None \<longrightarrow>
      GetEndpointSliceAddressType res = Inr (es_AddressType s) \<longrightarrow>
      (\<exists>x. v_slices (view w') (svc_Namespace svc, n) = Some x \<and> current api res x))"
  by (rule ep_store.slices_synced [OF assms])

definition example_slice :: EndpointSlice where
  "example_slice = \<lparr>es_meta = empty_meta\<lparr>Name := ''web-1'', Namespace := ''default'', Labels := [(labelServiceName, ''web-flat-network'')]\<rparr>,
     es_AddressType = AddressTypeIPv4, es_Endpoints = [], es_Ports = []\<rparr>"

definition example_resource :: EndpointReource where
  "example_resource = \<lparr>er_Subsets = [], er_Endpoints = [addressToEndpoint (pod_address status_pod ''10.1.0.7'')], er_EndpointPorts = []\<rparr>"

abbreviation ep_world :: "EndpointSlice list \<Rightarrow> mem_ep" where
  "ep_world ss \<equiv> \<lparr>me_services = [flat_service], me_pods = [], me_endpoints = [], me_slices = ss\<rparr>"

definition updated_slice :: EndpointSlice where
  "updated_slice = example_slice\<lparr>
     es_meta := (es_meta example_slice)\<lparr>Labels := [(labelServiceName, ''web-flat-network''), (LabelManagedBy, ''rancher-flat-network-controller'')]\<rparr>,
     es_Endpoints := er_Endpoints example_resource\<rparr>"

theorem slices_are_current_witness:
  "advanced mem_ep_api example_resource (mem_ep_view (ep_world [example_slice])) (mem_ep_view (ep_world [updated_slice])) \<and>
   (\<exists>x. v_slices (mem_ep_view (ep_world [updated_slice])) (''default'', ''web-1'') = Some x \<and> current mem_ep_api example_resource x)"
proof -
  have run: "run_state (syncDiscoveryV1EndpointSlice mem_ep_api flat_service (Some example_resource)) (ep_world [example_slice]) =
      (Returns None, ep_world [updated_slice])" by code_simp
  have svc: "svc_Namespace flat_service = ''default''" "svc_Name flat_service = ''web-flat-network''" by code_simp+
  have "v_slices (mem_ep_view (ep_world [example_slice])) (''default'', ''web-1'') = Some example_slice"
      "map_of (Labels (es_meta example_slice)) labelServiceName = Some ''web-flat-network''" "DeletionTimestamp (es_meta example_slice) = None"
      "GetEndpointSliceAddressType example_resource = Inr (es_AddressType example_slice)" by code_simp+
  then show ?thesis using slices_are_current [OF memep.ep_store_axioms run] unfolding svc by blast
qed

text \<open>
  C27. The endpoints controller writes the flat-network addresses: when \<open>syncCoreV1Endpoints\<close> succeeds, the \<open>Endpoints\<close> object of the
  service derives the subsets of the resource, and no other object has changed, however often the update was retried.
\<close>

theorem endpoints_are_written:
  assumes "ep_store api view" and "run_state (syncCoreV1Endpoints api endpoints svc (Some res)) w = (None, w')"
  shows "\<exists>x. DeepDerivative_subsets api (er_Subsets res) (eps_Subsets x) \<and>
    view w' = (view w)\<lparr>v_endpoints := (v_endpoints (view w))(svc_key svc \<mapsto> x)\<rparr>"
  by (rule ep_store.endpoints_synced [OF assms])

definition example_endpoints :: CoreEndpoints where
  "example_endpoints = \<lparr>eps_meta = empty_meta\<lparr>Name := ''web-flat-network'', Namespace := ''default''\<rparr>,
     eps_Subsets = [\<lparr>ss_Addresses = [pod_address status_pod ''10.42.0.3''], ss_Ports = []\<rparr>]\<rparr>"

definition subset_resource :: EndpointReource where
  "subset_resource = example_resource\<lparr>er_Subsets := [\<lparr>ss_Addresses = [pod_address status_pod ''10.1.0.7''], ss_Ports = []\<rparr>]\<rparr>"

theorem endpoints_are_written_witness:
  "\<exists>w' x. run_state (syncCoreV1Endpoints mem_ep_api example_endpoints flat_service (Some subset_resource))
      ((ep_world [])\<lparr>me_endpoints := [example_endpoints]\<rparr>) = (None, w') \<and>
    prefix (er_Subsets subset_resource) (eps_Subsets x) \<and> v_endpoints (mem_ep_view w') (''default'', ''web-flat-network'') = Some x"
proof -
  have "fst (run_state (syncCoreV1Endpoints mem_ep_api example_endpoints flat_service (Some subset_resource))
      ((ep_world [])\<lparr>me_endpoints := [example_endpoints]\<rparr>)) = None" by code_simp
  then obtain w' where run: "run_state (syncCoreV1Endpoints mem_ep_api example_endpoints flat_service (Some subset_resource))
      ((ep_world [])\<lparr>me_endpoints := [example_endpoints]\<rparr>) = (None, w')" by (metis prod.collapse)
  have key: "svc_key flat_service = (''default'', ''web-flat-network'')" by code_simp
  have "DeepDerivative_subsets mem_ep_api = prefix" by (simp add: mem_ep_api_def)
  then show ?thesis using endpoints_are_written [OF memep.ep_store_axioms run] run unfolding key by fastforce
qed

text \<open>
  A slice with two endpoints of which one refers to no object stops the controller: the comparison of the sort
  dereferences a nil pointer. Such a slice is valid, for example one that was written by hand for the service.
\<close>

theorem slice_without_target_panics:
  "fst (run_state (endpointslice_sync mem_ep_api example_env (Some example_slice))
     (ep_world [example_slice\<lparr>es_Endpoints :=
       [addressToEndpoint (pod_address status_pod ''10.1.0.7''), (addressToEndpoint (pod_address status_pod ''10.1.0.8''))\<lparr>ep_TargetRef := None\<rparr>]\<rparr>])) =
   Panics"
  by code_simp

end
