(* ===== verification/IngressController.thy ===== *)
theory IngressController
  imports Endpoints
begin

text \<open>
  The controller of the ingresses: \<open>pkg/controller/ingress\<close>. For each service behind an ingress it adds or removes the annotation that selects
  the flat network. A backend service is its name, \<open>None\<close> for a nil pointer; a rule without HTTP paths has no paths.
  Adding an empty annotation map to a cached service changes nothing here, where the nil map is the empty map.
  Log output is left out.
\<close>

record IngressPath =
  path_Service :: "string option"

record IngressRule =
  rule_Paths :: "IngressPath list"

record Ingress =
  ing_meta :: ObjectMeta
  ing_Rules :: "IngressRule list"

record 'w ing_api =
  ing_serviceCache_Get :: "string \<Rightarrow> string \<Rightarrow> ('w, error + Service) state"
  ing_serviceClient_Update :: "Service \<Rightarrow> ('w, error + Service) state"
  ingressEnqueueAfter :: "string \<Rightarrow> string \<Rightarrow> int \<Rightarrow> ('w, unit) state"

definition rancherFlatNetworkCNI :: string where "rancherFlatNetworkCNI = ''rancher-flat-network-cni''"

definition set_networks :: "bool \<Rightarrow> Service \<Rightarrow> Service" where
  "set_networks enabled svc =
     svc\<lparr>svc_meta := (svc_meta svc)\<lparr>Annotations :=
       (if enabled then AList.update networks_annotation rancherFlatNetworkCNI (Annotations (svc_meta svc))
        else AList.delete networks_annotation (Annotations (svc_meta svc)))\<rparr>\<rparr>"

definition handleIngressService :: "'w ing_api \<Rightarrow> Service \<Rightarrow> bool \<Rightarrow> ('w, error option) state" where
  "handleIngressService api svc flatNetworkEnabled =
     (let value = mget (Annotations (svc_meta svc)) networks_annotation in
      if flatNetworkEnabled \<and> value = rancherFlatNetworkCNI then ret None
      else if \<not> flatNetworkEnabled \<and> value = [] then ret None
      else
        do {
          r \<leftarrow> ing_serviceClient_Update api (set_networks flatNetworkEnabled svc);
          case r of
            Inl e \<Rightarrow> ret (Some (Wrapf ''failed to update service [%v/%v]: %w'' [svc_Namespace svc, svc_Name svc] e))
          | Inr _ \<Rightarrow> ret None
        })"

text \<open>
  The loops. The result \<open>None\<close> means that the loop went on to its end, \<open>Some x\<close> that the handler returned from inside with the error \<open>x\<close>.
\<close>

fun sync_paths :: "'w ing_api \<Rightarrow> Ingress \<Rightarrow> IngressPath list \<Rightarrow> ('w, error option option) state" where
  "sync_paths api ingress [] = ret None"
| "sync_paths api ingress (path # ps) =
     (case path_Service path of
        None \<Rightarrow> sync_paths api ingress ps
      | Some svcName \<Rightarrow>
          if svcName = [] then sync_paths api ingress ps
          else
            (let flatNetworkEnabled = (mget (Annotations (ing_meta ingress)) AnnotationIngress = ''true'');
                 ns = Namespace (ing_meta ingress) in
             do {
               r \<leftarrow> ing_serviceCache_Get api ns svcName;
               case r of
                 Inl e \<Rightarrow>
                   if IsNotFound e then
                     do { _ \<leftarrow> ingressEnqueueAfter api ns (Name (ing_meta ingress)) (5 * time_Second); ret (Some None) }
                   else ret (Some (Some (Wrapf ''failed to get service [%s/%s] of ingress [%v] from cache: %w''
                          [ns, svcName, Name (ing_meta ingress)] e)))
               | Inr svc \<Rightarrow>
                   if IsFlatNetworkService svc \<or> IsMacvlanV1Service svc then sync_paths api ingress ps
                   else
                     do {
                       e \<leftarrow> handleIngressService api svc flatNetworkEnabled;
                       if e \<noteq> None then ret (Some None) else sync_paths api ingress ps
                     }
             }))"

fun sync_rules :: "'w ing_api \<Rightarrow> Ingress \<Rightarrow> IngressRule list \<Rightarrow> ('w, error option option) state" where
  "sync_rules api ingress [] = ret None"
| "sync_rules api ingress (rule # rules) =
     do {
       r \<leftarrow> sync_paths api ingress (rule_Paths rule);
       if r \<noteq> None then ret r else sync_rules api ingress rules
     }"

definition syncIngress :: "'w ing_api \<Rightarrow> Ingress option \<Rightarrow> ('w, Ingress option \<times> error option) state" where
  "syncIngress api ingress0 =
     (case ingress0 of
        None \<Rightarrow> ret (ingress0, None)
      | Some ingress \<Rightarrow>
          if Name (ing_meta ingress) = [] \<or> DeletionTimestamp (ing_meta ingress) \<noteq> None then ret (ingress0, None)
          else if ing_Rules ingress = [] \<or> Annotations (ing_meta ingress) = [] then ret (ingress0, None)
          else
            do {
              r \<leftarrow> sync_rules api ingress (ing_Rules ingress);
              ret (ingress0, case r of None \<Rightarrow> None | Some e \<Rightarrow> e)
            })"

subsection \<open>What a run may change\<close>

text \<open>
  The laws of the services: a fresh cache, an update that stores the object it is given with a new resource version, and a queue that
  changes nothing.
\<close>

locale service_store =
  fixes api :: "'w ing_api" and services :: "'w \<Rightarrow> key \<Rightarrow> Service option"
  assumes ing_Get: "run_state (ing_serviceCache_Get api ns n) w = (r, w') \<Longrightarrow>
      services w' = services w \<and> (\<forall>s. r = Inr s \<longrightarrow> services w (ns, n) = Some s \<and> svc_Namespace s = ns \<and> svc_Name s = n)"
    and ing_Update: "run_state (ing_serviceClient_Update api s) w = (Inr s', w') \<Longrightarrow>
      s'\<lparr>svc_meta := svc_meta s\<rparr> = s \<and> same_but_version (svc_meta s) (svc_meta s') \<and> services w' = (services w)((svc_Namespace s, svc_Name s) \<mapsto> s')"
    and ing_Update_error: "run_state (ing_serviceClient_Update api s) w = (Inl e, w') \<Longrightarrow> services w' = services w"
    and ing_quiet: "services (snd (run_state (ingressEnqueueAfter api ns n d) w)) = services w"

text \<open>
  Only the selection of the network changes, to the value that the ingress asks for: every other annotation, the rest of the metadata but
  the resource version, the selector, the ports and everything else of the service stay.
\<close>

definition retargeted :: "bool \<Rightarrow> Service \<Rightarrow> Service \<Rightarrow> bool" where
  "retargeted enabled s s' \<longleftrightarrow>
     map_of (Annotations (svc_meta s')) =
       (map_of (Annotations (svc_meta s)))(networks_annotation := (if enabled then Some rancherFlatNetworkCNI else None)) \<and>
     (svc_meta s')\<lparr>Annotations := Annotations (svc_meta s), ResourceVersion := ResourceVersion (svc_meta s)\<rparr> = svc_meta s \<and>
     s'\<lparr>svc_meta := svc_meta s\<rparr> = s"

definition selects :: "bool \<Rightarrow> Service \<Rightarrow> bool" where
  "selects enabled s \<longleftrightarrow> mget (Annotations (svc_meta s)) networks_annotation = (if enabled then rancherFlatNetworkCNI else [])"

inductive svc_step :: "bool \<Rightarrow> Service option \<Rightarrow> Service option \<Rightarrow> bool" for enabled where
  kept: "svc_step enabled a a"
| set: "retargeted enabled s s' \<Longrightarrow> \<not> IsFlatNetworkService s \<Longrightarrow> \<not> IsMacvlanV1Service s \<Longrightarrow> svc_step enabled (Some s) (Some s')"

lemma retargeted_selects: "retargeted enabled s s' \<Longrightarrow> selects enabled s'"
  by (simp add: retargeted_def selects_def mget_def)

lemma set_networks_retargets:
  assumes "s'\<lparr>svc_meta := svc_meta (set_networks enabled s)\<rparr> = set_networks enabled s"
    and "same_but_version (svc_meta (set_networks enabled s)) (svc_meta s')"
  shows "retargeted enabled s s'"
proof -
  let ?m = "svc_meta (set_networks enabled s)"
  have m: "(svc_meta s')\<lparr>ResourceVersion := ResourceVersion ?m\<rparr> = ?m" using assms(2) by (simp add: same_but_version_def)
  have "Annotations (svc_meta s') = Annotations ?m" using arg_cong [OF m, of Annotations] by simp
  then have "map_of (Annotations (svc_meta s')) =
      (map_of (Annotations (svc_meta s)))(networks_annotation := (if enabled then Some rancherFlatNetworkCNI else None))"
    by (simp add: set_networks_def AList.update_conv' AList.delete_conv')
  moreover have "(svc_meta s')\<lparr>Annotations := Annotations (svc_meta s), ResourceVersion := ResourceVersion (svc_meta s)\<rparr> = svc_meta s"
    using arg_cong [OF m, of "\<lambda>x. x\<lparr>Annotations := Annotations (svc_meta s), ResourceVersion := ResourceVersion (svc_meta s)\<rparr>"]
    by (simp add: set_networks_def)
  moreover have "s'\<lparr>svc_meta := svc_meta s\<rparr> = s"
    using arg_cong [OF assms(1), of "\<lambda>x. x\<lparr>svc_meta := svc_meta s\<rparr>"] by (simp add: set_networks_def)
  ultimately show ?thesis by (simp add: retargeted_def)
qed

lemma retargeted_trans:
  assumes "retargeted enabled a b" and "retargeted enabled b c"
  shows "retargeted enabled a c"
  using assms
  by (cases a; cases b; cases c; cases "svc_meta a"; cases "svc_meta b"; cases "svc_meta c") (auto simp: retargeted_def)

inductive_cases svc_step_SomeE: "svc_step enabled (Some s) b"

lemma svc_step_trans: "svc_step enabled a b \<Longrightarrow> svc_step enabled b c \<Longrightarrow> svc_step enabled a c"
  by (induction rule: svc_step.induct) (auto elim!: svc_step_SomeE intro: svc_step.intros retargeted_trans)

text \<open>A backend is done when it is a companion service or selects what the ingress asks for.\<close>

definition backend_done :: "bool \<Rightarrow> Service option \<Rightarrow> bool" where
  "backend_done enabled a \<longleftrightarrow> (\<exists>s. a = Some s \<and> (IsFlatNetworkService s \<or> IsMacvlanV1Service s \<or> selects enabled s))"

lemma backend_done_step: "svc_step enabled a b \<Longrightarrow> backend_done enabled a \<Longrightarrow> backend_done enabled b"
  by (induction rule: svc_step.induct) (auto simp: backend_done_def dest: retargeted_selects)

definition ing_enabled :: "Ingress \<Rightarrow> bool" where
  "ing_enabled ingress \<longleftrightarrow> mget (Annotations (ing_meta ingress)) AnnotationIngress = ''true''"

definition backends :: "IngressPath list \<Rightarrow> string set" where
  "backends ps = {n. n \<noteq> [] \<and> Some n \<in> path_Service ` set ps}"

context service_store
begin

lemma handleIngressService_run:
  assumes run: "run_state (handleIngressService api svc enabled) w = (e, w')"
    and svc: "services w (svc_Namespace svc, svc_Name svc) = Some svc" "\<not> IsFlatNetworkService svc" "\<not> IsMacvlanV1Service svc"
  shows "(\<forall>k. svc_step enabled (services w k) (services w' k)) \<and> (e = None \<longrightarrow> backend_done enabled (services w' (svc_Namespace svc, svc_Name svc)))"
proof (cases "selects enabled svc")
  case True
  then have "e = None" "w' = w" using run by (auto simp: handleIngressService_def Let_def selects_def split: if_splits)
  then show ?thesis using True svc(1) by (auto simp: backend_done_def intro: svc_step.kept)
next
  case False
  obtain u where u: "run_state (ing_serviceClient_Update api (set_networks enabled svc)) w = (u, w')" "e = None \<longleftrightarrow> (\<exists>s. u = Inr s)"
    using run False by (auto simp: handleIngressService_def Let_def selects_def State_Monad.run_state_bind split: if_splits prod.splits sum.splits)
  show ?thesis
  proof (cases u)
    case (Inl x)
    then show ?thesis using u ing_Update_error by (auto intro: svc_step.kept)
  next
    case (Inr s')
    have key: "svc_Namespace (set_networks enabled svc) = svc_Namespace svc" "svc_Name (set_networks enabled svc) = svc_Name svc"
      by (simp_all add: set_networks_def)
    have s': "services w' = (services w)((svc_Namespace svc, svc_Name svc) \<mapsto> s')" "retargeted enabled svc s'"
      using ing_Update [OF u(1) [unfolded Inr]] set_networks_retargets key by auto
    have "svc_step enabled (services w k) (services w' k)" for k
      using svc s' by (cases "k = (svc_Namespace svc, svc_Name svc)") (auto intro: svc_step.intros)
    then show ?thesis using s' retargeted_selects by (auto simp: backend_done_def)
  qed
qed

text \<open>One path with a backend: the loop goes on with the backend done, or the handler returns.\<close>

lemma sync_path_step:
  assumes run: "run_state (sync_paths api ingress (path # ps)) w = (r, w')" and n: "path_Service path = Some n" "n \<noteq> []"
  shows "(r \<noteq> None \<and> (\<forall>k. svc_step (ing_enabled ingress) (services w k) (services w' k))) \<or>
    (\<exists>w2. (\<forall>k. svc_step (ing_enabled ingress) (services w k) (services w2 k)) \<and>
      backend_done (ing_enabled ingress) (services w2 (Namespace (ing_meta ingress), n)) \<and> run_state (sync_paths api ingress ps) w2 = (r, w'))"
proof -
  let ?en = "ing_enabled ingress" and ?ns = "Namespace (ing_meta ingress)"
  obtain g w1 where g: "run_state (ing_serviceCache_Get api ?ns n) w = (g, w1)" by fastforce
  note get = ing_Get [OF g] and simps = State_Monad.run_state_bind Let_def ing_enabled_def
  show ?thesis
  proof (cases g)
    case (Inl e)
    then have "services w' = services w" "r \<noteq> None" using run n g get ing_quiet [of ?ns "Name (ing_meta ingress)" "5 * time_Second" w1]
      by (auto simp: simps split: if_splits prod.splits)
    then show ?thesis by (auto intro: svc_step.kept)
  next
    case (Inr svc)
    have svc: "services w1 (svc_Namespace svc, svc_Name svc) = Some svc" "services w1 = services w" "svc_Namespace svc = ?ns" "svc_Name svc = n"
      using get Inr by auto
    show ?thesis
    proof (cases "IsFlatNetworkService svc \<or> IsMacvlanV1Service svc")
      case True
      then have "run_state (sync_paths api ingress ps) w1 = (r, w')" using run n g Inr by (simp add: simps)
      then show ?thesis using svc True by (intro disjI2 exI [of _ w1]) (auto simp: backend_done_def intro: svc_step.kept)
    next
      case False
      obtain e w2 where e: "run_state (handleIngressService api svc ?en) w1 = (e, w2)" by fastforce
      note handled = handleIngressService_run [OF e svc(1)]
      have "(e = None \<and> run_state (sync_paths api ingress ps) w2 = (r, w')) \<or> (w' = w2 \<and> r = Some None)"
        using run n g Inr False e by (cases e) (simp_all add: simps)
      then show ?thesis using handled False svc by auto
    qed
  qed
qed

lemma sync_paths_run:
  assumes "run_state (sync_paths api ingress ps) w = (r, w')"
  shows "(\<forall>k. svc_step (ing_enabled ingress) (services w k) (services w' k)) \<and>
    (r = None \<longrightarrow> (\<forall>n \<in> backends ps. backend_done (ing_enabled ingress) (services w' (Namespace (ing_meta ingress), n))))"
  using assms
proof (induction ps arbitrary: w)
  case Nil
  then show ?case by (auto simp: backends_def intro: svc_step.kept)
next
  case (Cons path ps)
  show ?case
  proof (cases "path_Service path = None \<or> path_Service path = Some []")
    case True
    then have "backends (path # ps) = backends ps" by (auto simp: backends_def)
    then show ?thesis using Cons True by (auto split: option.splits)
  next
    case False
    then obtain n where n: "path_Service path = Some n" "n \<noteq> []" by auto
    then have "backends (path # ps) = insert n (backends ps)" by (auto simp: backends_def)
    then show ?thesis using sync_path_step [OF Cons.prems n] Cons.IH svc_step_trans backend_done_step by (metis insert_iff)
  qed
qed

lemma sync_rules_run:
  assumes "run_state (sync_rules api ingress rules) w = (r, w')"
  shows "(\<forall>k. svc_step (ing_enabled ingress) (services w k) (services w' k)) \<and>
    (r = None \<longrightarrow> (\<forall>rule \<in> set rules. \<forall>n \<in> backends (rule_Paths rule).
      backend_done (ing_enabled ingress) (services w' (Namespace (ing_meta ingress), n))))"
  using assms
proof (induction rules arbitrary: w)
  case Nil
  then show ?case by (auto intro: svc_step.kept)
next
  case (Cons rule rules)
  obtain r1 w1 where r1: "run_state (sync_paths api ingress (rule_Paths rule)) w = (r1, w1)" by fastforce
  note one = sync_paths_run [OF r1]
  show ?case
  proof (cases r1)
    case None
    then have "run_state (sync_rules api ingress rules) w1 = (r, w')" using Cons.prems r1 by (simp add: State_Monad.run_state_bind)
    note rest = Cons.IH [OF this]
    have "svc_step (ing_enabled ingress) (services w k) (services w' k)" for k using one rest svc_step_trans by blast
    moreover have "backend_done (ing_enabled ingress) (services w' (Namespace (ing_meta ingress), n))"
      if "n \<in> backends (rule_Paths rule)" for n using that one rest None backend_done_step by blast
    ultimately show ?thesis using rest by auto
  next
    case (Some x)
    then show ?thesis using Cons.prems r1 one by (auto simp: State_Monad.run_state_bind)
  qed
qed

end

subsection \<open>Services in memory\<close>

abbreviation service_key :: "Service \<Rightarrow> key" where "service_key s \<equiv> (svc_Namespace s, svc_Name s)"

definition mem_ing_api :: "Service list ing_api" where
  "mem_ing_api = \<lparr>
     ing_serviceCache_Get = (\<lambda>ns n. reads (\<lambda>w. found (store_get service_key (ns, n) w))),
     ing_serviceClient_Update = (\<lambda>s. State (\<lambda>w. if store_get service_key (service_key s) w = None then (Inl (StatusError NotFound), w)
       else (Inr s, store_put service_key s w))),
     ingressEnqueueAfter = (\<lambda>ns n d. ret ())\<rparr>"

interpretation memsvc: service_store mem_ing_api "\<lambda>w k. store_get service_key k w"
proof (unfold_locales, goal_cases)
  case (1 ns n w r w')
  then have "w' = w" "r = found (store_get service_key (ns, n) w)" by (auto simp: mem_ing_api_def reads_def)
  then show ?case
  proof (cases "store_get service_key (ns, n) w")
    case (Some x)
    then show ?thesis using \<open>w' = w\<close> \<open>r = _\<close> store_get_key [OF Some] by (simp add: found_def)
  qed (simp add: found_def)
next
  case (2 s w s' w')
  then show ?case using store_get_put [of service_key "service_key s" w s] by (auto simp: mem_ing_api_def same_but_version_def split: if_splits)
qed (auto simp: mem_ing_api_def split: if_splits)

subsection \<open>Properties\<close>

text \<open>
  C26. The services behind an ingress: a run of the loops changes nothing of a service but the annotation that selects its networks and the
  resource version: all other annotations, the rest of the metadata, the selector and the ports stay. It never touches a companion service. When the loops reach their end, the service of every path of every rule is a companion service or has the
  annotation set, or removed, as the ingress asks.
\<close>

theorem ingress_services_selected:
  assumes "service_store api services" and "run_state (sync_rules api ingress (ing_Rules ingress)) w = (r, w')"
  shows "(\<forall>k. svc_step (ing_enabled ingress) (services w k) (services w' k)) \<and>
    (r = None \<longrightarrow> (\<forall>rule \<in> set (ing_Rules ingress). \<forall>n \<in> backends (rule_Paths rule).
      backend_done (ing_enabled ingress) (services w' (Namespace (ing_meta ingress), n))))"
  by (rule service_store.sync_rules_run [OF assms])

definition example_ingress :: Ingress where
  "example_ingress = \<lparr>ing_meta = empty_meta\<lparr>Name := ''in'', Namespace := ''default'', Annotations := [(AnnotationIngress, ''true'')]\<rparr>,
     ing_Rules = [\<lparr>rule_Paths = [\<lparr>path_Service = Some ''web''\<rparr>, \<lparr>path_Service = None\<rparr>]\<rparr>]\<rparr>"

theorem ingress_services_selected_witness:
  "backend_done True (store_get service_key (''default'', ''web'')
     (snd (run_state (sync_rules mem_ing_api example_ingress (ing_Rules example_ingress)) [example_service]))) \<and>
   svc_step True (store_get service_key (''default'', ''web'') [example_service]) (store_get service_key (''default'', ''web'')
     (snd (run_state (sync_rules mem_ing_api example_ingress (ing_Rules example_ingress)) [example_service])))"
proof -
  obtain r w' where run: "run_state (sync_rules mem_ing_api example_ingress (ing_Rules example_ingress)) [example_service] = (r, w')" by fastforce
  have "fst (run_state (sync_rules mem_ing_api example_ingress (ing_Rules example_ingress)) [example_service]) = None" by code_simp
  then have "r = None" using run by simp
  moreover have "ing_enabled example_ingress" unfolding ing_enabled_def by code_simp
  moreover have "''web'' \<in> backends [\<lparr>path_Service = Some ''web''\<rparr>, \<lparr>path_Service = None\<rparr>]" by (simp add: backends_def)
  ultimately show ?thesis using ingress_services_selected [OF memsvc.service_store_axioms run] run by (simp add: example_ingress_def)
qed

lemma cni_name:
  "strings_Split rancherFlatNetworkCNI (CHR '','') = [rancherFlatNetworkCNI]" "strings_TrimSpace rancherFlatNetworkCNI = rancherFlatNetworkCNI"
  "strings_Split rancherFlatNetworkCNI (CHR ''/'') = [rancherFlatNetworkCNI]" "strings_Split rancherFlatNetworkCNI (CHR ''@'') = [rancherFlatNetworkCNI]"
  "valid_name rancherFlatNetworkCNI" "rancherFlatNetworkCNI \<noteq> []"
  by code_simp+

text \<open>The networks of the pods do not have the name.\<close>

lemma flat_name:
  assumes "CHR ''/'' \<notin> set ns"
  shows "\<not> isInNetworkSelectionElementsArray (ns @ ''/rancher-flat-network'') ns' [\<lparr>sel_Namespace = m, sel_Name = rancherFlatNetworkCNI, sel_InterfaceRequest = i\<rparr>]"
proof -
  have "split_first (ns @ CHR ''/'' # x) (CHR ''/'') = (ns, Some x)" for x
    using assms by (induction ns) (simp_all add: split_first_def split: list.splits)
  then show ?thesis by (simp add: isInNetworkSelectionElementsArray_def rancherFlatNetworkCNI_def)
qed

lemma other_name:
  assumes "CHR ''/'' \<notin> set n" and "n \<noteq> rancherFlatNetworkCNI"
  shows "\<not> isInNetworkSelectionElementsArray n ns' [\<lparr>sel_Namespace = m, sel_Name = rancherFlatNetworkCNI, sel_InterfaceRequest = i\<rparr>]"
proof -
  have "dropWhile (\<lambda>x. x \<noteq> CHR ''/'') n = []" using assms(1) by (induction n) auto
  then have "split_first n (CHR ''/'') = (n, None)" by (simp only: split_first_def list.case)
  then show ?thesis using assms(2) by (simp add: isInNetworkSelectionElementsArray_def)
qed

text \<open>
  C38. The annotation selects no network that a pod has: the network is called \<open>rancher-flat-network\<close>, and the annotation of the ingress
  controller \<open>rancher-flat-network-cni\<close>. For a service with that annotation, a status of the pods that lists no network of that name, and a
  \<open>RepackSubsets\<close> that invents no address, the resource of the endpoint controllers has no endpoint.
\<close>

theorem ingress_annotation_selects_nothing:
  assumes "GetEndpointResources env (set_networks True svc) pods = Inr (Some r)"
    and "unmarshal_selections env rancherFlatNetworkCNI = Inl e"
    and "\<forall>pod sts st. pod \<in> set pods \<longrightarrow> unmarshal_status env (mget (Annotations (pod_meta pod)) NetworkStatusAnnot) = Inr sts \<longrightarrow>
      st \<in> set sts \<longrightarrow> ns_Name st = Namespace (pod_meta pod) @ ''/rancher-flat-network'' \<or> CHR ''/'' \<notin> set (ns_Name st) \<and> ns_Name st \<noteq> rancherFlatNetworkCNI"
    and "\<forall>pod. pod \<in> set pods \<longrightarrow> CHR ''/'' \<notin> set (Namespace (pod_meta pod))"
    and "valid_name (svc_Namespace svc)"
    and "\<forall>ss. set (concat (map ss_Addresses (RepackSubsets env ss))) \<subseteq> set (concat (map ss_Addresses ss))"
  shows "er_Endpoints r = []"
proof (rule ccontr)
  assume "er_Endpoints r \<noteq> []"
  then obtain e where e: "e \<in> set (er_Endpoints r)" using list.set_sel(1) by blast
  let ?sels = "[\<lparr>sel_Namespace = svc_Namespace svc, sel_Name = rancherFlatNetworkCNI, sel_InterfaceRequest = []\<rparr>]"
  have annot: "mget (Annotations (svc_meta (set_networks True svc))) networks_annotation = rancherFlatNetworkCNI"
    by (simp add: set_networks_def mget_def AList.update_conv')
  have ns: "svc_Namespace (set_networks True svc) = svc_Namespace svc" by (simp add: set_networks_def)
  have parse: "parseServiceNetworkSelections env rancherFlatNetworkCNI (svc_Namespace svc) = Inr ?sels"
    using assms(2,5) cni_name by (simp add: parseServiceNetworkSelections_def parsePodNetworkSelectionElement_def)
  obtain pod sts st where st: "pod \<in> set pods" "unmarshal_status env (mget (Annotations (pod_meta pod)) NetworkStatusAnnot) = Inr sts"
      "st \<in> set sts" "isInNetworkSelectionElementsArray (ns_Name st) (Namespace (pod_meta pod)) ?sels"
    using endpoint_is_selected [OF assms(1) e, of ?sels] assms(6) annot ns parse by auto
  have "\<not> isInNetworkSelectionElementsArray (ns_Name st) (Namespace (pod_meta pod)) ?sels"
    using assms(3) [rule_format, OF st(1-3)] assms(4) [rule_format, OF st(1)] flat_name other_name by metis
  then show False using st(4) by blast
qed

theorem ingress_annotation_selects_nothing_witness:
  "\<exists>r. GetEndpointResources example_env (set_networks True example_service) [status_pod] = Inr (Some r) \<and> er_Endpoints r = []"
proof -
  have "case GetEndpointResources example_env (set_networks True example_service) [status_pod] of Inr (Some r) \<Rightarrow> True | _ \<Rightarrow> False" by code_simp
  then obtain r where r: "GetEndpointResources example_env (set_networks True example_service) [status_pod] = Inr (Some r)"
    by (auto split: sum.splits option.splits)
  have ns: "Namespace (pod_meta status_pod) = ''default''" by code_simp
  have "valid_name (svc_Namespace example_service)" by code_simp
  then have "er_Endpoints r = []"
    by (intro ingress_annotation_selects_nothing [OF r, of "StatusError OtherReason"])
      (auto simp: example_env_def rancherFlatNetworkCNI_def ns)
  then show ?thesis using r by blast
qed

end
