(* ===== verification/NamespaceController.thy ===== *)
theory NamespaceController
  imports PodController
begin

text \<open>
  The controller of the namespaces: \<open>pkg/controller/namespace\<close>. Every namespace gets the definition of the network attachment, whose
  configuration the CNI plugin reads. The record \<open>nad_api\<close> has the client of the definitions and the queue; the environment variables are a
  function \<open>Getenv\<close>. Log output is left out.
\<close>

record NetworkAttachmentDefinition =
  nad_meta :: ObjectMeta
  nad_Config :: string

record 'w nad_api =
  nad_Get :: "string \<Rightarrow> string \<Rightarrow> ('w, error + NetworkAttachmentDefinition) state"
  nad_Create :: "string \<Rightarrow> NetworkAttachmentDefinition \<Rightarrow> ('w, error + NetworkAttachmentDefinition) state"
  nad_Update :: "string \<Rightarrow> NetworkAttachmentDefinition \<Rightarrow> ('w, error + NetworkAttachmentDefinition) state"
  nsEnqueueAfter :: "string \<Rightarrow> int \<Rightarrow> ('w, unit) state"

abbreviation nad_name :: string where "nad_name \<equiv> ''rancher-flat-network''"
abbreviation ns_requeueTime :: int where "ns_requeueTime \<equiv> 10 * time_Minute"
abbreviation defaultARPPolicy :: string where "defaultARPPolicy \<equiv> ''arp_notify''"

definition getARPPolicy :: "(string \<Rightarrow> string) \<Rightarrow> string" where
  "getARPPolicy Getenv =
     (let arpPolicy = Getenv ''FLAT_NETWORK_CNI_ARP_POLICY'' in
      if arpPolicy \<noteq> defaultARPPolicy \<and> arpPolicy \<noteq> ''arping'' then defaultARPPolicy else arpPolicy)"

text \<open>\<open>strconv.ParseBool\<close>, with the value false for an error.\<close>

definition ParseBool :: "string \<Rightarrow> bool" where
  "ParseBool s = (s \<in> {''1'', ''t'', ''T'', ''true'', ''TRUE'', ''True''})"

definition getProxyARP :: "(string \<Rightarrow> string) \<Rightarrow> string" where
  "getProxyARP Getenv = (if ParseBool (Getenv ''FLAT_NETWORK_CNI_PROXY_ARP'') then ''true'' else ''false'')"

definition getClusterCIDR :: "(string \<Rightarrow> string) \<Rightarrow> string" where
  "getClusterCIDR Getenv = (let cidr = Getenv ''FLAT_NETWORK_CLUSTER_CIDR'' in if cidr = [] then ''10.42.0.0/16'' else cidr)"

definition getServiceCIDR :: "(string \<Rightarrow> string) \<Rightarrow> string" where
  "getServiceCIDR Getenv = (let cidr = Getenv ''FLAT_NETWORK_SERVICE_CIDR'' in if cidr = [] then ''10.43.0.0/16'' else cidr)"

text \<open>The text of the configuration, line by line; \<open>q\<close> puts a text between double quotes, as the source has them.\<close>

definition q :: "string \<Rightarrow> string" where
  "q s = [CHR 0x22] @ s @ [CHR 0x22]"

definition config_lines :: "string \<Rightarrow> string \<Rightarrow> string \<Rightarrow> string \<Rightarrow> string list" where
  "config_lines cluster service arp proxy = [
     ''{'',
     ''    '' @ q ''cniVersion'' @ '': '' @ q ''1.0.0'' @ '','',
     ''    '' @ q ''type'' @ '': '' @ q ''rancher-flat-network-cni'' @ '','',
     ''    '' @ q ''dns'' @ '': {},'',
     ''    '' @ q ''ipam'' @ '': {'',
     ''        '' @ q ''type'' @ '': '' @ q ''static-ipam'',
     ''    },'',
     ''    '' @ q ''flatNetwork'' @ '': {'',
     ''        '' @ q ''mtu'' @ '': 1500,'',
     ''        '' @ q ''clusterCIDR'' @ '': '' @ q cluster @ '','',
     ''        '' @ q ''serviceCIDR'' @ '': '' @ q service @ '','',
     ''        '' @ q ''arpPolicy'' @ '': '' @ q arp @ '','',
     ''        '' @ q ''proxyARP'' @ '': '' @ proxy,
     ''    }'',
     ''}'']"

definition getNetAttachDefConfig :: "(string \<Rightarrow> string) \<Rightarrow> string" where
  "getNetAttachDefConfig Getenv =
     join_with [CHR 0x0A] (config_lines (getClusterCIDR Getenv) (getServiceCIDR Getenv) (getARPPolicy Getenv) (getProxyARP Getenv))"

text \<open>A namespace object is its metadata.\<close>

definition newNetworkAttachmentDefinition :: "(string \<Rightarrow> string) \<Rightarrow> string \<Rightarrow> ObjectMeta \<Rightarrow> NetworkAttachmentDefinition" where
  "newNetworkAttachmentDefinition Getenv name ns = \<lparr>
     nad_meta = empty_meta\<lparr>Name := name, Namespace := Name ns,
       OwnerReferences := [\<lparr>ref_APIVersion = ''v1'', ref_Kind = ''Namespace'', ref_Name = Name ns, ref_UID = UID ns, ref_Controller = Some True\<rparr>]\<rparr>,
     nad_Config = getNetAttachDefConfig Getenv\<rparr>"

definition syncNamespace :: "'w nad_api \<Rightarrow> (string \<Rightarrow> string) \<Rightarrow> ObjectMeta option \<Rightarrow> ('w, ObjectMeta option \<times> error option) state" where
  "syncNamespace api Getenv ns0 =
     (case ns0 of
        None \<Rightarrow> ret (ns0, None)
      | Some ns \<Rightarrow>
          if Name ns = [] \<or> DeletionTimestamp ns \<noteq> None then ret (ns0, None)
          else
            (let expected = newNetworkAttachmentDefinition Getenv nad_name ns in
             do {
               r \<leftarrow> nad_Get api (Name ns) nad_name;
               case r of
                 Inl e \<Rightarrow>
                   if IsNotFound e then
                     do {
                       r \<leftarrow> nad_Create api (Name ns) expected;
                       case r of
                         Inl e \<Rightarrow> ret (ns0, Some e)
                       | Inr _ \<Rightarrow> do { _ \<leftarrow> nsEnqueueAfter api (Name ns) ns_requeueTime; ret (ns0, None) }
                     }
                   else ret (ns0, Some e)
               | Inr exist \<Rightarrow>
                   if nad_Config expected = nad_Config exist then
                     do { _ \<leftarrow> nsEnqueueAfter api (Name ns) ns_requeueTime; ret (ns0, None) }
                   else
                     do {
                       r \<leftarrow> nad_Update api (Name ns) (exist\<lparr>nad_Config := nad_Config expected,
                              nad_meta := (nad_meta exist)\<lparr>OwnerReferences := OwnerReferences (nad_meta expected)\<rparr>\<rparr>);
                       case r of
                         Inl e \<Rightarrow> ret (ns0, Some e)
                       | Inr _ \<Rightarrow> do { _ \<leftarrow> nsEnqueueAfter api (Name ns) ns_requeueTime; ret (ns0, None) }
                     }
             }))"

subsection \<open>The definitions in the cluster\<close>

text \<open>The laws: a definition is created where there is none, an update replaces the configuration, and a call that fails changes nothing.\<close>

locale nad_store =
  fixes api :: "'w nad_api" and nads :: "'w \<Rightarrow> key \<Rightarrow> NetworkAttachmentDefinition option"
  assumes nad_Get: "run_state (nad_Get api ns n) w = (r, w') \<Longrightarrow> nads w' = nads w \<and> (\<forall>x. r = Inr x \<longrightarrow> nads w (ns, n) = Some x \<and> Name (nad_meta x) = n)"
    and nad_Create: "run_state (nad_Create api ns x) w = (Inr x', w') \<Longrightarrow>
      nad_Config x' = nad_Config x \<and> nads w' = (nads w)((ns, Name (nad_meta x)) \<mapsto> x')"
    and nad_Create_error: "run_state (nad_Create api ns x) w = (Inl e, w') \<Longrightarrow> nads w' = nads w"
    and nad_Update: "run_state (nad_Update api ns x) w = (Inr x', w') \<Longrightarrow>
      nad_Config x' = nad_Config x \<and> nads w' = (nads w)((ns, Name (nad_meta x)) \<mapsto> x')"
    and nad_Update_error: "run_state (nad_Update api ns x) w = (Inl e, w') \<Longrightarrow> nads w' = nads w"
    and nad_quiet: "nads (snd (run_state (nsEnqueueAfter api n d) w)) = nads w"
begin

text \<open>A call of the client, and the queue after it.\<close>

lemma call_then_enqueue:
  assumes "run_state (do { r \<leftarrow> p; case r of Inl e \<Rightarrow> ret (x, Some e) | Inr _ \<Rightarrow> do { _ \<leftarrow> nsEnqueueAfter api n d; ret (x, None) } }) w = ((y, e), w')"
  obtains r w1 where "run_state p w = (r, w1)" and "e = None \<longleftrightarrow> (\<exists>z. r = Inr z)" and "nads w' = nads w1"
proof -
  obtain r w1 where r: "run_state p w = (r, w1)" by fastforce
  show thesis using assms r nad_quiet [of n d w1]
    by (intro that [OF r]) (auto simp: State_Monad.run_state_bind split: sum.splits prod.splits)
qed

definition installed_at :: "string \<Rightarrow> string \<Rightarrow> error option \<Rightarrow> 'w \<Rightarrow> 'w \<Rightarrow> bool" where
  "installed_at ns config e w w' \<longleftrightarrow>
     (if e = None then \<exists>x. nad_Config x = config \<and> nads w' = (nads w)((ns, nad_name) \<mapsto> x) else nads w' = nads w)"

lemma installed_by_call:
  assumes "run_state (do { r \<leftarrow> p; case r of Inl e \<Rightarrow> ret (x, Some e) | Inr _ \<Rightarrow> do { _ \<leftarrow> nsEnqueueAfter api n d; ret (x, None) } }) w1 = ((y, e), w')"
    and "nads w1 = nads w"
    and "\<And>z w2. run_state p w1 = (Inr z, w2) \<Longrightarrow> nad_Config z = config \<and> nads w2 = (nads w1)((ns, nad_name) \<mapsto> z)"
    and "\<And>z w2. run_state p w1 = (Inl z, w2) \<Longrightarrow> nads w2 = nads w1"
  shows "installed_at ns config e w w'"
proof -
  obtain r w2 where r: "run_state p w1 = (r, w2)" "e = None \<longleftrightarrow> (\<exists>z. r = Inr z)" "nads w' = nads w2" using call_then_enqueue [OF assms(1)] .
  show ?thesis
  proof (cases r)
    case (Inl z)
    then show ?thesis using r assms(2,4) by (auto simp: installed_at_def)
  next
    case (Inr z)
    then show ?thesis using r assms(2) assms(3) [of z w2] by (auto simp: installed_at_def)
  qed
qed

theorem definition_installed:
  assumes run: "run_state (syncNamespace api Getenv (Some ns)) w = ((ns', e), w')" and "Name ns \<noteq> []" and "DeletionTimestamp ns = None"
  shows "installed_at (Name ns) (getNetAttachDefConfig Getenv) e w w'"
proof -
  define exp where "exp = newNetworkAttachmentDefinition Getenv nad_name ns"
  have exp: "nad_Config exp = getNetAttachDefConfig Getenv" "Name (nad_meta exp) = nad_name"
    by (simp_all add: exp_def newNetworkAttachmentDefinition_def)
  obtain g w1 where g: "run_state (nad_Get api (Name ns) nad_name) w = (g, w1)" by fastforce
  note get = nad_Get [OF g] and simps = syncNamespace_def Let_def State_Monad.run_state_bind [of "nad_Get api (Name ns) nad_name"] exp_def [symmetric]
  show ?thesis
  proof (cases g)
    case (Inl x)
    show ?thesis
    proof (cases "IsNotFound x")
      case True
      show ?thesis using run g Inl True assms(2,3) get exp nad_Create nad_Create_error
        by (intro installed_by_call [of "nad_Create api (Name ns) exp" "Some ns" "Name ns" 600000000000 w1 ns' e w']) (auto simp: simps)
    next
      case False
      then show ?thesis using run g Inl assms(2,3) get by (auto simp: simps installed_at_def)
    qed
  next
    case (Inr old)
    then have old: "nads w (Name ns, nad_name) = Some old" "Name (nad_meta old) = nad_name" "nads w1 = nads w" using get by auto
    define u where "u = old\<lparr>nad_Config := nad_Config exp, nad_meta := (nad_meta old)\<lparr>OwnerReferences := OwnerReferences (nad_meta exp)\<rparr>\<rparr>"
    show ?thesis
    proof (cases "nad_Config exp = nad_Config old")
      case True
      then have "e = None" "nads w' = nads w"
        using run g Inr assms(2,3) old(3) nad_quiet [of "Name ns" ns_requeueTime w1]
        by (auto simp: simps State_Monad.run_state_bind split: prod.splits)
      then show ?thesis using True old(1) exp(1) by (auto simp: installed_at_def intro!: exI [of _ old])
    next
      case False
      show ?thesis using run g Inr False assms(2,3) old exp nad_Update nad_Update_error
        by (intro installed_by_call [of "nad_Update api (Name ns) u" "Some ns" "Name ns" 600000000000 w1 ns' e w']) (auto simp: simps u_def)
    qed
  qed
qed

end

subsection \<open>Definitions in memory\<close>

abbreviation nad_key :: "NetworkAttachmentDefinition \<Rightarrow> key" where "nad_key x \<equiv> (Namespace (nad_meta x), Name (nad_meta x))"

definition mem_nad_api :: "NetworkAttachmentDefinition list nad_api" where
  "mem_nad_api = \<lparr>
     nad_Get = (\<lambda>ns n. reads (\<lambda>w. found (store_get nad_key (ns, n) w))),
     nad_Create = (\<lambda>ns x. State (\<lambda>w. if Namespace (nad_meta x) \<noteq> ns then (Inl (StatusError OtherReason), w)
       else if store_get nad_key (nad_key x) w \<noteq> None then (Inl (StatusError AlreadyExists), w) else (Inr x, x # w))),
     nad_Update = (\<lambda>ns x. State (\<lambda>w. if Namespace (nad_meta x) \<noteq> ns then (Inl (StatusError OtherReason), w)
       else if store_get nad_key (nad_key x) w = None then (Inl (StatusError NotFound), w) else (Inr x, store_put nad_key x w))),
     nsEnqueueAfter = (\<lambda>n d. ret ())\<rparr>"

interpretation memnad: nad_store mem_nad_api "\<lambda>w k. store_get nad_key k w"
proof (unfold_locales, goal_cases)
  case (1 ns n w r w')
  then have "w' = w" "r = found (store_get nad_key (ns, n) w)" by (auto simp: mem_nad_api_def reads_def)
  then show ?case
  proof (cases "store_get nad_key (ns, n) w")
    case (Some x)
    then show ?thesis using \<open>w' = w\<close> \<open>r = _\<close> store_get_key [OF Some] by (simp add: found_def)
  qed (simp add: found_def)
next
  case (2 ns x w x' w')
  then have "x' = x" "w' = x # w" "Namespace (nad_meta x) = ns" by (auto simp: mem_nad_api_def split: if_splits)
  then show ?case by (auto simp: store_get_def)
next
  case (4 ns x w x' w')
  then show ?case using store_get_put [of nad_key "nad_key x" w x] by (auto simp: mem_nad_api_def split: if_splits)
qed (auto simp: mem_nad_api_def split: if_splits)

text \<open>
  C25. Every namespace gets the definition: for a namespace that has a name and is not being deleted, a run without an error leaves the
  definition with the wanted configuration there and changes no other one; a run with an error changes nothing. Whatever the environment
  has, the configuration names one of the two policies the plugin knows, a boolean, and two networks that are not empty.
\<close>

theorem syncNamespace_installs:
  assumes "nad_store api nads" and "run_state (syncNamespace api Getenv (Some ns)) w = ((ns', e), w')"
    and "Name ns \<noteq> []" and "DeletionTimestamp ns = None"
  shows "(if e = None then \<exists>x. nad_Config x = getNetAttachDefConfig Getenv \<and> nads w' = (nads w)((Name ns, nad_name) \<mapsto> x) else nads w' = nads w) \<and>
    (\<exists>cluster service arp proxy. getNetAttachDefConfig Getenv = join_with [CHR 0x0A] (config_lines cluster service arp proxy) \<and>
      arp \<in> {''arp_notify'', ''arping''} \<and> proxy \<in> {''true'', ''false''} \<and> cluster \<noteq> [] \<and> service \<noteq> [])"
proof
  show "if e = None then \<exists>x. nad_Config x = getNetAttachDefConfig Getenv \<and> nads w' = (nads w)((Name ns, nad_name) \<mapsto> x) else nads w' = nads w"
    using nad_store.definition_installed [OF assms] by (simp add: nad_store.installed_at_def [OF assms(1)])
  show "\<exists>cluster service arp proxy. getNetAttachDefConfig Getenv = join_with [CHR 0x0A] (config_lines cluster service arp proxy) \<and>
      arp \<in> {''arp_notify'', ''arping''} \<and> proxy \<in> {''true'', ''false''} \<and> cluster \<noteq> [] \<and> service \<noteq> []"
    by (rule exI [of _ "getClusterCIDR Getenv"], rule exI [of _ "getServiceCIDR Getenv"], rule exI [of _ "getARPPolicy Getenv"],
        rule exI [of _ "getProxyARP Getenv"])
      (simp add: getNetAttachDefConfig_def getClusterCIDR_def getServiceCIDR_def getARPPolicy_def getProxyARP_def Let_def)
qed

theorem syncNamespace_installs_witness:
  "\<exists>x. nad_Config x = getNetAttachDefConfig (\<lambda>_. []) \<and>
     store_get nad_key (''default'', nad_name) (snd (run_state (syncNamespace mem_nad_api (\<lambda>_. []) (Some (empty_meta\<lparr>Name := ''default''\<rparr>))) [])) = Some x"
proof -
  define ns where "ns = empty_meta\<lparr>Name := ''default''\<rparr>"
  obtain ns' e w' where run: "run_state (syncNamespace mem_nad_api (\<lambda>_. []) (Some ns)) [] = ((ns', e), w')" by (metis prod.exhaust)
  have n: "Name ns = ''default''" "DeletionTimestamp ns = None" by (simp_all add: ns_def empty_meta_def)
  have "snd (fst (run_state (syncNamespace mem_nad_api (\<lambda>_. []) (Some ns)) [])) = None"
    by (simp add: syncNamespace_def mem_nad_api_def n reads_def found_def store_get_def Let_def State_Monad.run_state_bind IsNotFound_def
        newNetworkAttachmentDefinition_def)
  then have "e = None" using run by simp
  then obtain x where x: "nad_Config x = getNetAttachDefConfig (\<lambda>_. [])"
      "(\<lambda>k. store_get nad_key k w') = (\<lambda>k. store_get nad_key k [])((''default'', nad_name) \<mapsto> x)"
    using syncNamespace_installs [OF memnad.nad_store_axioms run, THEN conjunct1] n by auto
  have "store_get nad_key (''default'', nad_name) w' = Some x" using fun_cong [OF x(2), of "(''default'', nad_name)"] by simp
  then show ?thesis using x(1) run unfolding ns_def [symmetric] by auto
qed

end
