(* ===== verification/CniLinks.thy ===== *)
theory CniLinks
  imports PodController
begin

text \<open>
  The interfaces that the network plugin makes: \<open>pkg/cni/common/common.go\<close>, \<open>pkg/cni/macvlan\<close> and \<open>pkg/cni/ipvlan\<close>.
  The kernel is reached through the packages netlink and ns, which are not part of the repository: a record
  \<open>netlink\<close> of operations on a world of an arbitrary type, each of which acts on the network namespace of the calling
  thread. \<open>netns_Do\<close> runs a closure in the namespace of a pod; a closure that assigns captured variables returns
  their values, so that there is one operation for each type of result. \<open>GetIPFamily\<close> and \<open>Via_Equal\<close> are functions of netlink, \<open>range_order\<close> is
  the order in which Go visits the keys of a map, which the language leaves open. The record \<open>nl_Route\<close> has the
  fields of \<open>netlink.Route\<close> that the code reads or sets.
\<close>

type_synonym netns = string

record nl_Route =
  LinkIndex :: int
  nr_Dst :: "IPNet option"
  nr_Src :: net_IP
  nr_Gw :: net_IP
  nr_Via :: "byte list option"
  nr_Priority :: int
  nr_Family :: int

datatype link_kind =
    Device
  | Vlan int
  | Macvlan MacvlanMode
  | IPVlan IPVlanMode IPVlanFlag

record Link =
  attr_Index :: int
  attr_Name :: string
  attr_HardwareAddr :: "byte list"
  attr_Promisc :: int
  attr_MTU :: int
  attr_ParentIndex :: int
  attr_Namespace :: "netns option"
  link_kind :: link_kind

text \<open>An interface of a CNI result; the sandbox is the path of the network namespace.\<close>

record Interface =
  if_Name :: string
  if_Mac :: string
  if_Sandbox :: string

record 'w netlink =
  RouteList :: "('w, error + nl_Route list) state"
  RouteGet :: "net_IP \<Rightarrow> ('w, error + nl_Route list) state"
  RouteAdd :: "nl_Route \<Rightarrow> ('w, error option) state"
  RouteDel :: "nl_Route \<Rightarrow> ('w, error option) state"
  RouteReplace :: "nl_Route \<Rightarrow> ('w, error option) state"
  LinkList :: "('w, error + Link list) state"
  LinkByName :: "string \<Rightarrow> ('w, error + Link) state"
  LinkByIndex :: "int \<Rightarrow> ('w, error + Link) state"
  LinkAdd :: "Link \<Rightarrow> ('w, error option) state"
  LinkDel :: "Link \<Rightarrow> ('w, error option) state"
  LinkSetUp :: "Link \<Rightarrow> ('w, error option) state"
  LinkSetPromiscOn :: "Link \<Rightarrow> ('w, error option) state"
  AddrList :: "Link \<Rightarrow> int \<Rightarrow> ('w, error + IPNet list) state"
  root_netns :: "('w, error option) state"
  netns_Do :: "netns \<Rightarrow> ('w, error option) state \<Rightarrow> ('w, error option) state"
  netns_Do_ip :: "netns \<Rightarrow> ('w, error + net_IP) state \<Rightarrow> ('w, error + net_IP) state"
  netns_Do_iface :: "netns \<Rightarrow> ('w, error + Interface) state \<Rightarrow> ('w, error + Interface) state"
  netns_Do_gateways :: "netns \<Rightarrow> ('w, error + net_IP \<times> net_IP) state \<Rightarrow> ('w, error + net_IP \<times> net_IP) state"
  RandomVethName :: "('w, error + string) state"
  RenameLink :: "string \<Rightarrow> string \<Rightarrow> ('w, error option) state"
  DelLinkByName :: "string \<Rightarrow> ('w, error option) state"
  GetIPFamily :: "net_IP \<Rightarrow> int"
  Via_Equal :: "byte list \<Rightarrow> byte list \<Rightarrow> bool"
  range_order :: "int list \<Rightarrow> int list"
  nl_err_text :: "error \<Rightarrow> string"

abbreviation FAMILY_ALL :: int where "FAMILY_ALL \<equiv> 0"
abbreviation FAMILY_V4 :: int where "FAMILY_V4 \<equiv> 2"
abbreviation FAMILY_V6 :: int where "FAMILY_V6 \<equiv> 10"

abbreviation PodIfaceEth0 :: string where "PodIfaceEth0 \<equiv> ''eth0''"
abbreviation PodIfaceEth1 :: string where "PodIfaceEth1 \<equiv> ''eth1''"

text \<open>\<open>net.IP.IsLinkLocalUnicast\<close>, and the method \<open>String\<close> of a pointer to a network.\<close>

definition IsLinkLocalUnicast :: "net_IP \<Rightarrow> bool" where
  "IsLinkLocalUnicast ip =
     (let ip4 = To4 ip in
      if ip4 \<noteq> [] then ip4 ! 0 = 169 \<and> ip4 ! 1 = 254
      else length ip = 16 \<and> ip ! 0 = 0xFE \<and> ip ! 1 AND 0xC0 = 0x80)"

definition Dst_String :: "IPNet option \<Rightarrow> string" where
  "Dst_String d = (case d of None \<Rightarrow> ''<nil>'' | Some n \<Rightarrow> IPNet_String n)"

subsection \<open>Interfaces: common.go\<close>

text \<open>The loop keeps the last address that is not link-local.\<close>

fun last_global :: "net_IP \<Rightarrow> IPNet list \<Rightarrow> net_IP" where
  "last_global podNativeIP [] = podNativeIP"
| "last_global podNativeIP (a # as) =
     (if IsLinkLocalUnicast (NetIP a) then last_global podNativeIP as else last_global (NetIP a) as)"

definition GetPodNativeIP :: "'w netlink \<Rightarrow> netns \<Rightarrow> int \<Rightarrow> ('w, error + net_IP) state" where
  "GetPodNativeIP k podNS family =
     do {
       r \<leftarrow> netns_Do_ip k podNS
         (do {
            r \<leftarrow> LinkByName k PodIfaceEth0;
            case r of
              Inl e \<Rightarrow> ret (Inl (Wrapf ''failed to get iface %q on pod: %w'' [PodIfaceEth0] e))
            | Inr link \<Rightarrow>
                do {
                  r \<leftarrow> AddrList k link family;
                  case r of
                    Inl e \<Rightarrow> ret (Inl (Wrapf ''failed to list IP addr on pod iface %q: %w'' [PodIfaceEth0] e))
                  | Inr addrs \<Rightarrow> ret (Inr (last_global [] addrs))
                }
          });
       case r of
         Inl e \<Rightarrow> ret (Inl (Wrapf ''getPodNativeIP: %w'' [] e))
       | Inr podNativeIP \<Rightarrow> ret (Inr podNativeIP)
     }"

definition AddrListByName :: "'w netlink \<Rightarrow> string \<Rightarrow> int \<Rightarrow> ('w, error + IPNet list) state" where
  "AddrListByName k iface family =
     do {
       r \<leftarrow> LinkByName k iface;
       case r of
         Inl e \<Rightarrow> ret (Inl (Wrapf ''addrListByName: link %q not found: %w'' [iface] e))
       | Inr link \<Rightarrow>
           do {
             r \<leftarrow> AddrList k link family;
             case r of
               Inl e \<Rightarrow> ret (Inl (Wrapf ''addrListByName: failed to list addr: %w'' [] e))
             | Inr addrs \<Rightarrow> ret (Inr addrs)
           }
     }"

definition SetPromiscOn :: "'w netlink \<Rightarrow> string \<Rightarrow> ('w, error option) state" where
  "SetPromiscOn k iface =
     do {
       r \<leftarrow> LinkByName k iface;
       case r of
         Inl e \<Rightarrow> ret (Some (Wrapf ''setPromiscOn: failed to search iface %q: %w'' [iface] e))
       | Inr link \<Rightarrow>
           if attr_Promisc link = 1 then ret None
           else
             do {
               r \<leftarrow> LinkSetPromiscOn k link;
               case r of
                 Some e \<Rightarrow> ret (Some (Wrapf ''setPromiscOn failed on iface %q: %w'' [iface] e))
               | None \<Rightarrow> ret None
             }
     }"

definition createVLANOnHost :: "'w netlink \<Rightarrow> string \<Rightarrow> int \<Rightarrow> string \<Rightarrow> int \<Rightarrow> ('w, error + Interface) state" where
  "createVLANOnHost k master mtu ifName vlanID =
     do {
       r \<leftarrow> root_netns k;
       case r of
         Some e \<Rightarrow> ret (Inl (Wrapf ''createVLANOnHost: failed to get root network NS: %w'' [] e))
       | None \<Rightarrow>
           do {
             r \<leftarrow> LinkByName k master;
             case r of
               Inl e \<Rightarrow> ret (Inl (Errorf ''createVLANOnHost: failed to lookup master %q: %v'' [master, nl_err_text k e]))
             | Inr m \<Rightarrow>
                 (let vlan = \<lparr>attr_Index = 0, attr_Name = ifName, attr_HardwareAddr = [], attr_Promisc = 0,
                    attr_MTU = mtu, attr_ParentIndex = attr_Index m, attr_Namespace = None, link_kind = Vlan vlanID\<rparr> in
                  do {
                    r \<leftarrow> LinkAdd k vlan;
                    case r of
                      Some e \<Rightarrow> ret (Inl (Wrapf ''createVLANOnHost: failed to create VLAN on %q: %w'' [ifName] e))
                    | None \<Rightarrow>
                        do {
                          r \<leftarrow> LinkSetUp k vlan;
                          case r of
                            Some e \<Rightarrow>
                              do {
                                _ \<leftarrow> LinkDel k vlan;
                                ret (Inl (Wrapf ''createVLANOnHost: failed to set vlan iface [%v] status UP: %w'' [ifName] e))
                              }
                          | None \<Rightarrow>
                              do {
                                r \<leftarrow> LinkByName k ifName;
                                case r of
                                  Inl e \<Rightarrow>
                                    do {
                                      _ \<leftarrow> LinkDel k vlan;
                                      ret (Inl (Wrapf ''createVLANOnHost: failed to refetch vlan iface [%v]: %w'' [ifName] e))
                                    }
                                | Inr contVlan \<Rightarrow>
                                    ret (Inr \<lparr>if_Name = ifName, if_Mac = HardwareAddr_String (attr_HardwareAddr contVlan), if_Sandbox = []\<rparr>)
                              }
                        }
                  })
           }
     }"

definition GetVlanIfaceOnHost :: "'w netlink \<Rightarrow> string \<Rightarrow> int \<Rightarrow> int \<Rightarrow> ('w, error + Interface) state" where
  "GetVlanIfaceOnHost k master mtu vlanID =
     do {
       r \<leftarrow> LinkList k;
       case r of
         Inl e \<Rightarrow> ret (Inl (Wrapf ''netlink.LinkList: failed to list links: %w'' [] e))
       | Inr links \<Rightarrow>
           (let ifName = (if vlanID \<noteq> 0 then master @ ''.'' @ show_int vlanID else master) in
            case find (\<lambda>l. attr_Name l = ifName) links of
              Some l \<Rightarrow> ret (Inr \<lparr>if_Name = ifName, if_Mac = HardwareAddr_String (attr_HardwareAddr l), if_Sandbox = []\<rparr>)
            | None \<Rightarrow> createVLANOnHost k master mtu ifName vlanID)
     }"

subsection \<open>Macvlan and ipvlan interfaces\<close>

text \<open>The address of the options, when there is one.\<close>

definition option_mac :: "string \<Rightarrow> error + byte list" where
  "option_mac m =
     (if m = [] then Inr []
      else case ParseMAC m of
        Inl e \<Rightarrow> Inl (Wrapf ''failed to parse MAC %q: %w'' [m] e)
      | Inr mac \<Rightarrow> Inr mac)"

definition macvlan_setup :: "'w netlink \<Rightarrow> netns \<Rightarrow> Link \<Rightarrow> string \<Rightarrow> string \<Rightarrow> ('w, error + Interface) state" where
  "macvlan_setup k netns mv tmpName ifName =
     do {
       x \<leftarrow> RenameLink k tmpName ifName;
       case x of
         Some e \<Rightarrow>
           do {
             _ \<leftarrow> LinkDel k mv;
             ret (Inl (Wrapf ''macvlan.Create: failed to rename macvlan iface name to %q: %w'' [ifName] e))
           }
       | None \<Rightarrow>
           do {
             r \<leftarrow> LinkByName k ifName;
             case r of
               Inl e \<Rightarrow>
                 do {
                   _ \<leftarrow> DelLinkByName k ifName;
                   ret (Inl (Wrapf ''macvlan.Create: failed to refetch macvlan iface %q: %w'' [ifName] e))
                 }
             | Inr macvlan \<Rightarrow>
                 ret (Inr \<lparr>if_Name = ifName, if_Mac = HardwareAddr_String (attr_HardwareAddr macvlan), if_Sandbox = netns\<rparr>)
           }
     }"

definition macvlan_Create ::
    "'w netlink \<Rightarrow> string \<Rightarrow> string \<Rightarrow> int \<Rightarrow> string \<Rightarrow> netns \<Rightarrow> string \<Rightarrow> ('w, error + Interface) state" where
  "macvlan_Create k omode omaster omtu ifName netns omac =
     (case macvlan_ModeFromString omode of
        Inl e \<Rightarrow> ret (Inl e)
      | Inr mode \<Rightarrow>
          do {
            r \<leftarrow> LinkByName k omaster;
            case r of
              Inl e \<Rightarrow> ret (Inl (Wrapf ''macvlan.Create: failed to get master iface %q: %w'' [omaster] e))
            | Inr master \<Rightarrow>
                do {
                  t \<leftarrow> RandomVethName k;
                  case t of
                    Inl e \<Rightarrow> ret (Inl e)
                  | Inr tmpName \<Rightarrow>
                      (case option_mac omac of
                         Inl e \<Rightarrow> ret (Inl e)
                       | Inr mac \<Rightarrow>
                           (let mv = \<lparr>attr_Index = 0, attr_Name = tmpName, attr_HardwareAddr = mac, attr_Promisc = 0,
                              attr_MTU = omtu, attr_ParentIndex = attr_Index master, attr_Namespace = Some netns,
                              link_kind = Macvlan mode\<rparr> in
                            do {
                              x \<leftarrow> LinkAdd k mv;
                              case x of
                                Some e \<Rightarrow> ret (Inl (Wrapf ''macvlan.Create: failed to create macvlan: LinkAdd: %w'' [] e))
                              | None \<Rightarrow> netns_Do_iface k netns (macvlan_setup k netns mv tmpName ifName)
                            }))
                }
          })"

text \<open>A failed rename of an ipvlan interface leaves the interface behind.\<close>

definition ipvlan_setup :: "'w netlink \<Rightarrow> netns \<Rightarrow> Link \<Rightarrow> string \<Rightarrow> string \<Rightarrow> ('w, error + Interface) state" where
  "ipvlan_setup k netns iv tmpName ifName =
     do {
       x \<leftarrow> RenameLink k tmpName ifName;
       case x of
         Some e \<Rightarrow> ret (Inl (Errorf ''failed to rename ipvlan ifave to %q: %v'' [ifName, nl_err_text k e]))
       | None \<Rightarrow>
           do {
             r \<leftarrow> LinkByName k ifName;
             case r of
               Inl e \<Rightarrow>
                 do {
                   _ \<leftarrow> LinkDel k iv;
                   ret (Inl (Errorf ''failed to refetch ipvlan %q: %v'' [ifName, nl_err_text k e]))
                 }
             | Inr ipvlan \<Rightarrow>
                 ret (Inr \<lparr>if_Name = ifName, if_Mac = HardwareAddr_String (attr_HardwareAddr ipvlan), if_Sandbox = netns\<rparr>)
           }
     }"

definition ipvlan_Create ::
    "'w netlink \<Rightarrow> string \<Rightarrow> string \<Rightarrow> string \<Rightarrow> int \<Rightarrow> string \<Rightarrow> netns \<Rightarrow> string \<Rightarrow> ('w, error + Interface) state" where
  "ipvlan_Create k omode oflag omaster omtu ifName netns omac =
     (case ipvlan_ModeFromString omode of
        Inl e \<Rightarrow> ret (Inl e)
      | Inr mode \<Rightarrow>
          (case ipvlan_FlagFromString oflag of
             Inl e \<Rightarrow> ret (Inl e)
           | Inr flag \<Rightarrow>
               do {
                 r \<leftarrow> LinkByName k omaster;
                 case r of
                   Inl e \<Rightarrow> ret (Inl (Wrapf ''failed to lookup master %q: %w'' [omaster] e))
                 | Inr m \<Rightarrow>
                     do {
                       t \<leftarrow> RandomVethName k;
                       case t of
                         Inl e \<Rightarrow> ret (Inl e)
                       | Inr tmpName \<Rightarrow>
                           (case option_mac omac of
                              Inl e \<Rightarrow> ret (Inl e)
                            | Inr mac \<Rightarrow>
                                (let iv = \<lparr>attr_Index = 0, attr_Name = tmpName, attr_HardwareAddr = mac, attr_Promisc = 0,
                                   attr_MTU = omtu, attr_ParentIndex = attr_Index m, attr_Namespace = Some netns,
                                   link_kind = IPVlan mode flag\<rparr> in
                                 do {
                                   x \<leftarrow> LinkAdd k iv;
                                   case x of
                                     Some e \<Rightarrow> ret (Inl (Errorf ''failed to create ipvlan: %v'' [nl_err_text k e]))
                                   | None \<Rightarrow> netns_Do_iface k netns (ipvlan_setup k netns iv tmpName ifName)
                                 }))
                     }
               }))"

end
