(* ===== verification/CniRoutes.thy ===== *)
theory CniRoutes
  imports CniLinks
begin

text \<open>
  The routes that the network plugin sets: \<open>pkg/cni/route\<close>, and what they are under the laws of a routing table.
\<close>

subsection \<open>Routes: route.go\<close>

definition isDefaultRoute :: "nl_Route option \<Rightarrow> bool" where
  "isDefaultRoute r0 =
     (case r0 of
        None \<Rightarrow> False
      | Some r \<Rightarrow>
          (case nr_Dst r of
             None \<Rightarrow> True
           | Some d \<Rightarrow> IP_Equal (NetIP d) (ParseIP ''0.0.0.0'') \<or> IP_Equal (NetIP d) (ParseIP ''::'')))"

definition sameAddressFamily :: "nl_Route \<Rightarrow> net_IP \<Rightarrow> bool" where
  "sameAddressFamily r ip =
     (if nr_Family r = FAMILY_V4 then To4 ip \<noteq> []
      else if nr_Family r = FAMILY_V6 then To4 ip = []
      else if nr_Family r = FAMILY_ALL then True
      else False)"

definition GetDefaultRoutes :: "'w netlink \<Rightarrow> ('w, error + nl_Route list) state" where
  "GetDefaultRoutes k =
     do {
       r \<leftarrow> RouteList k;
       case r of
         Inl e \<Rightarrow> ret (Inl (Wrapf ''getDefaultRoute: failed to list route: %w'' [] e))
       | Inr rs \<Rightarrow> ret (Inr (filter (\<lambda>r. isDefaultRoute (Some r)) rs))
     }"

text \<open>The keys of the map, in the order of the first route of each.\<close>

definition GetDefaultLinkIDSet :: "'w netlink \<Rightarrow> ('w, error + int list) state" where
  "GetDefaultLinkIDSet k =
     do {
       r \<leftarrow> GetDefaultRoutes k;
       case r of
         Inl e \<Rightarrow> ret (Inl (Wrapf ''getDefaultLinkIDSet: %w'' [] e))
       | Inr rs \<Rightarrow> ret (Inr (remdups (map LinkIndex rs)))
     }"

definition GetRouteByIP :: "'w netlink \<Rightarrow> net_IP \<Rightarrow> ('w, error + nl_Route option) state" where
  "GetRouteByIP k ip =
     do {
       r \<leftarrow> RouteGet k ip;
       case r of
         Inl e \<Rightarrow> ret (Inl (Wrapf ''netlink.RouteGet failed: %w'' [] e))
       | Inr [] \<Rightarrow> ret (Inr None)
       | Inr (x # _) \<Rightarrow> ret (Inr (Some x))
     }"

text \<open>Whether the loop of \<open>CheckRouteExists\<close> stops at the route \<open>r\<close>.\<close>

definition route_matches :: "'w netlink \<Rightarrow> nl_Route \<Rightarrow> nl_Route \<Rightarrow> bool" where
  "route_matches k route r =
     (if Dst_String (nr_Dst r) \<noteq> Dst_String (nr_Dst route) then False
      else if nr_Family r \<noteq> nr_Family route then False
      else if nr_Src r \<noteq> [] \<and> nr_Src route \<noteq> [] \<and> \<not> IP_Equal (nr_Src r) (nr_Src route) then False
      else if (case (nr_Via r, nr_Via route) of (Some a, Some b) \<Rightarrow> \<not> Via_Equal k a b | _ \<Rightarrow> False) then False
      else if nr_Gw r \<noteq> [] \<and> nr_Gw route \<noteq> [] \<and> \<not> IP_Equal (nr_Gw r) (nr_Gw route) then False
      else True)"

definition CheckRouteExists :: "'w netlink \<Rightarrow> nl_Route option \<Rightarrow> ('w, error + bool) state" where
  "CheckRouteExists k route0 =
     (case route0 of
        None \<Rightarrow> ret (Inr False)
      | Some route \<Rightarrow>
          do {
            r \<leftarrow> RouteList k;
            case r of
              Inl e \<Rightarrow> ret (Inl (Wrapf ''checkRouteExists: failed to list route: %w'' [] e))
            | Inr rs \<Rightarrow> ret (Inr (list_ex (route_matches k route) rs))
          })"

definition EnsureRouteExists :: "'w netlink \<Rightarrow> nl_Route option \<Rightarrow> ('w, error option) state" where
  "EnsureRouteExists k route0 =
     (case route0 of
        None \<Rightarrow> ret None
      | Some route \<Rightarrow>
          do {
            r \<leftarrow> CheckRouteExists k route0;
            case r of
              Inl e \<Rightarrow> ret (Some (Wrapf ''ensureRouteExists: checkRouteExists: %w'' [] e))
            | Inr True \<Rightarrow> ret None
            | Inr False \<Rightarrow>
                do {
                  r \<leftarrow> RouteAdd k route;
                  case r of
                    Some e \<Rightarrow> ret (Some (Wrapf ''ensureRouteExists: failed to add route dst %q: %w''
                                [Dst_String (nr_Dst route)] e))
                  | None \<Rightarrow> ret None
                }
          })"

text \<open>The route of the kernel for a custom route, given the index of its interface.\<close>

definition custom_route :: "'w netlink \<Rightarrow> int \<Rightarrow> Route \<Rightarrow> net_IP \<Rightarrow> IPNet \<Rightarrow> nl_Route" where
  "custom_route k index r ip network =
     (let route = \<lparr>LinkIndex = index, nr_Dst = Some network, nr_Src = route_Src r, nr_Gw = [], nr_Via = None,
            nr_Priority = route_Priority r, nr_Family = GetIPFamily k ip\<rparr>;
          route = (if route_Via r \<noteq> [] then route\<lparr>nr_Gw := route_Via r\<rparr> else route)
      in if IP_String (NetIP network) = ''0.0.0.0'' \<or> IP_String (NetIP network) = ''::0''
         then route\<lparr>nr_Dst := None\<rparr> else route)"

fun add_custom_routes :: "'w netlink \<Rightarrow> Route list \<Rightarrow> ('w, error option) state" where
  "add_custom_routes k [] = ret None"
| "add_custom_routes k (r # rs) =
     (if route_Dev r = PodIfaceEth1 then add_custom_routes k rs
      else
        do {
          l \<leftarrow> LinkByName k (route_Dev r);
          case l of
            Inl e \<Rightarrow> ret (Some (Wrapf ''failed to get link %q in pod: %w'' [route_Dev r] e))
          | Inr link \<Rightarrow>
              (case ParseCIDR (route_Dst r) of
                 Inl e \<Rightarrow> ret (Some (Wrapf ''failed to parse CIDR %q: %w'' [route_Dst r] e))
               | Inr (ip, network) \<Rightarrow>
                   do {
                     x \<leftarrow> EnsureRouteExists k (Some (custom_route k (attr_Index link) r ip network));
                     case x of
                       Some e \<Rightarrow> ret (Some (Wrapf ''failed to add pod custom route %q: %w'' [route_Dst r] e))
                     | None \<Rightarrow> add_custom_routes k rs
                   })
        })"

definition AddPodFlatNetworkCustomRoutes :: "'w netlink \<Rightarrow> netns option \<Rightarrow> Route list \<Rightarrow> ('w, error option) state" where
  "AddPodFlatNetworkCustomRoutes k podNS customRoutes =
     (case podNS of
        None \<Rightarrow> ret None
      | Some ns \<Rightarrow>
          if customRoutes = [] then ret None
          else
            do {
              x \<leftarrow> netns_Do k ns (add_custom_routes k customRoutes);
              case x of
                Some e \<Rightarrow> ret (Some (Wrapf ''addPodFlatNetworkCustomRoutes: %w'' [] e))
              | None \<Rightarrow> ret None
            })"

definition redirect :: "int \<Rightarrow> net_IP \<Rightarrow> net_IP \<Rightarrow> nl_Route \<Rightarrow> nl_Route" where
  "redirect index flatNetworkIP gateway r =
     (let replaced = r\<lparr>LinkIndex := index, nr_Src := flatNetworkIP\<rparr> in
      if gateway \<noteq> [] then replaced\<lparr>nr_Gw := gateway\<rparr> else replaced\<lparr>nr_Gw := []\<rparr>)"

fun replace_defaults :: "'w netlink \<Rightarrow> string \<Rightarrow> int \<Rightarrow> net_IP \<Rightarrow> net_IP \<Rightarrow> nl_Route list \<Rightarrow> ('w, error option) state" where
  "replace_defaults k ifName index flatNetworkIP gateway [] = ret None"
| "replace_defaults k ifName index flatNetworkIP gateway (r # rs) =
     (if \<not> isDefaultRoute (Some r) then replace_defaults k ifName index flatNetworkIP gateway rs
      else if \<not> sameAddressFamily r flatNetworkIP then replace_defaults k ifName index flatNetworkIP gateway rs
      else
        do {
          x \<leftarrow> RouteReplace k (redirect index flatNetworkIP gateway r);
          case x of
            Some e \<Rightarrow>
              (let s = (if gateway \<noteq> [] then ''default via '' @ IP_String gateway @ '' dev '' @ ifName @ '' src '' @ IP_String flatNetworkIP
                        else ''default dev '' @ ifName @ '' src '' @ IP_String flatNetworkIP)
               in ret (Some (Wrapf ''failed to replace default route to [%v]: %w'' [s] e)))
          | None \<Rightarrow> replace_defaults k ifName index flatNetworkIP gateway rs
        })"

definition UpdatePodDefaultGateway ::
    "'w netlink \<Rightarrow> netns \<Rightarrow> string \<Rightarrow> net_IP \<Rightarrow> net_IP \<Rightarrow> ('w, error option) state" where
  "UpdatePodDefaultGateway k podNS ifName flatNetworkIP gateway =
     do {
       x \<leftarrow> netns_Do k podNS
         (do {
            l \<leftarrow> LinkByName k ifName;
            case l of
              Inl e \<Rightarrow> ret (Some (Wrapf ''failed to get iface %q: %w'' [ifName] e))
            | Inr link \<Rightarrow>
                do {
                  r \<leftarrow> RouteList k;
                  case r of
                    Inl e \<Rightarrow> ret (Some (Wrapf ''failed to list route: %w'' [] e))
                  | Inr routes \<Rightarrow> replace_defaults k ifName (attr_Index link) flatNetworkIP gateway routes
                }
          });
       case x of
         Some e \<Rightarrow> ret (Some (Wrapf ''updatePodDefaultGateway: %w'' [] e))
       | None \<Rightarrow> ret None
     }"

subsection \<open>Routes to the cluster: kube\_cidr.go\<close>

text \<open>The gateway of the last default route of each family.\<close>

fun default_gateways :: "net_IP \<times> net_IP \<Rightarrow> nl_Route list \<Rightarrow> net_IP \<times> net_IP" where
  "default_gateways (v4, v6) [] = (v4, v6)"
| "default_gateways (v4, v6) (r # rs) =
     (if nr_Family r = FAMILY_V4 then default_gateways (nr_Gw r, v6) rs else default_gateways (v4, nr_Gw r) rs)"

definition kube_route :: "int \<Rightarrow> net_IP \<Rightarrow> IPNet \<Rightarrow> net_IP \<times> net_IP \<Rightarrow> nl_Route" where
  "kube_route i ip network gws =
     (let r = \<lparr>LinkIndex = i, nr_Dst = Some network, nr_Src = [], nr_Gw = fst gws, nr_Via = None, nr_Priority = 0,
            nr_Family = FAMILY_V4\<rparr>
      in if To16 ip \<noteq> [] \<and> To4 ip = [] then r\<lparr>nr_Family := FAMILY_V6, nr_Gw := snd gws\<rparr> else r)"

definition AddPodKubeCIDRRoutes :: "'w netlink \<Rightarrow> netns \<Rightarrow> string \<Rightarrow> ('w, error option) state" where
  "AddPodKubeCIDRRoutes k podNS cidr =
     (case ParseCIDR cidr of
        Inl e \<Rightarrow> ret (Some (Wrapf ''failed to parse CIDR %q: %w'' [cidr] e))
      | Inr (ip, network) \<Rightarrow>
          do {
            x \<leftarrow> netns_Do k podNS
              (do {
                 r \<leftarrow> GetDefaultLinkIDSet k;
                 case r of
                   Inl e \<Rightarrow> ret (Some (Wrapf ''failed to get pod default link id: %w'' [] e))
                 | Inr defaultLinkSet \<Rightarrow>
                     do {
                       r \<leftarrow> GetDefaultRoutes k;
                       case r of
                         Inl e \<Rightarrow> ret (Some (Wrapf ''failed to get pod default routes: %w'' [] e))
                       | Inr podDefaultRoutes \<Rightarrow>
                           if podDefaultRoutes = [] then ret None
                           else
                             (case range_order k defaultLinkSet of
                                [] \<Rightarrow> ret None
                              | i # _ \<Rightarrow> EnsureRouteExists k (Some (kube_route i ip network
                                           (default_gateways ([], []) podDefaultRoutes))))
                     }
               });
            case x of
              Some e \<Rightarrow> ret (Some (Wrapf ''addPodKubeCIDRRoutes: %w'' [] e))
            | None \<Rightarrow> ret None
          })"

subsection \<open>Routes to the node: node.go\<close>

definition node_route :: "'w netlink \<Rightarrow> net_IP \<Rightarrow> net_IP \<Rightarrow> IPNet \<Rightarrow> Route" where
  "node_route k gwV4 gwV6 a = \<lparr>route_Dev = PodIfaceEth0, route_Dst = IPNet_String a, route_Src = [],
     route_Via = (if GetIPFamily k (NetIP a) = FAMILY_V4 then gwV4 else gwV6), route_Priority = 0\<rparr>"

definition getHostCIDRCustomRoutes :: "'w netlink \<Rightarrow> int \<Rightarrow> net_IP \<Rightarrow> net_IP \<Rightarrow> ('w, error + Route list) state" where
  "getHostCIDRCustomRoutes k linkID gwV4 gwV6 =
     do {
       l \<leftarrow> LinkByIndex k linkID;
       case l of
         Inl e \<Rightarrow> ret (Inl (Wrapf ''getHostCIDRCustomRoutes: %w'' [] e))
       | Inr link \<Rightarrow>
           do {
             r \<leftarrow> AddrList k link FAMILY_ALL;
             case r of
               Inl e \<Rightarrow> ret (Inl (Wrapf ''getHostCIDRCustomRoutes: %w'' [] e))
             | Inr addrs \<Rightarrow>
                 ret (Inr (map (node_route k gwV4 gwV6) (filter (\<lambda>a. \<not> IsLinkLocalUnicast (NetIP a)) addrs)))
           }
     }"

fun collect_node_routes :: "'w netlink \<Rightarrow> net_IP \<Rightarrow> net_IP \<Rightarrow> Route list \<Rightarrow> int list \<Rightarrow> ('w, error + Route list) state" where
  "collect_node_routes k gwV4 gwV6 customRoutes [] = ret (Inr customRoutes)"
| "collect_node_routes k gwV4 gwV6 customRoutes (i # ids) =
     do {
       r \<leftarrow> getHostCIDRCustomRoutes k i gwV4 gwV6;
       case r of
         Inl e \<Rightarrow> ret (Inl (Wrapf ''addPodNodeCIDRRoutes: %w'' [] e))
       | Inr results \<Rightarrow> collect_node_routes k gwV4 gwV6 (customRoutes @ results) ids
     }"

definition AddPodNodeCIDRRoutes :: "'w netlink \<Rightarrow> netns \<Rightarrow> ('w, error option) state" where
  "AddPodNodeCIDRRoutes k podNS =
     do {
       r \<leftarrow> GetDefaultLinkIDSet k;
       case r of
         Inl e \<Rightarrow> ret (Some (Wrapf ''failed to get pod default link id: %w'' [] e))
       | Inr defaultLinkSet \<Rightarrow>
           do {
             g \<leftarrow> netns_Do_gateways k podNS
               (do {
                  r \<leftarrow> GetDefaultRoutes k;
                  case r of
                    Inl e \<Rightarrow> ret (Inl (Wrapf ''failed to get pod default routes: %w'' [] e))
                  | Inr podDefaultRoutes \<Rightarrow> ret (Inr (default_gateways ([], []) podDefaultRoutes))
                });
             case g of
               Inl e \<Rightarrow> ret (Some (Wrapf ''addPodNodeCIDRRoutes: %w'' [] e))
             | Inr (gwV4, gwV6) \<Rightarrow>
                 do {
                   r \<leftarrow> collect_node_routes k gwV4 gwV6 [] (range_order k defaultLinkSet);
                   case r of
                     Inl e \<Rightarrow> ret (Some e)
                   | Inr customRoutes \<Rightarrow> AddPodFlatNetworkCustomRoutes k (Some podNS) customRoutes
                 }
           }
     }"

subsection \<open>The route on the host: flatnetwork.go\<close>

definition host_route :: "'w netlink \<Rightarrow> net_IP \<Rightarrow> nl_Route \<Rightarrow> IPNet list \<Rightarrow> nl_Route" where
  "host_route k flatNetworkIP route addrs =
     \<lparr>LinkIndex = LinkIndex route,
      nr_Dst = Some \<lparr>NetIP = flatNetworkIP, NetMask = (if To4 flatNetworkIP = [] then CIDRMask 128 128 else CIDRMask 32 32)\<rparr>,
      nr_Src = (if list_ex (\<lambda>a. \<not> IsLinkLocalUnicast (NetIP a)) addrs then NetIP (hd addrs) else []),
      nr_Gw = [], nr_Via = None, nr_Priority = 0, nr_Family = GetIPFamily k flatNetworkIP\<rparr>"

definition AddFlatNetworkRouteToHost :: "'w netlink \<Rightarrow> netns option \<Rightarrow> net_IP \<Rightarrow> string \<Rightarrow> ('w, error option) state" where
  "AddFlatNetworkRouteToHost k podNS0 flatNetworkIP master =
     (case podNS0 of
        None \<Rightarrow> ret None
      | Some podNS \<Rightarrow>
          if flatNetworkIP = [] \<or> To16 flatNetworkIP = [] \<or> master = [] then ret None
          else
            do {
              r \<leftarrow> GetPodNativeIP k podNS FAMILY_V4;
              case r of
                Inl e \<Rightarrow> ret (Some (Wrapf ''common.GetPodNativeIP: failed to get Pod eth0 IP: %w'' [] e))
              | Inr podIP \<Rightarrow>
                  if podIP = [] then ret None
                  else
                    do {
                      r \<leftarrow> GetRouteByIP k podIP;
                      case r of
                        Inl e \<Rightarrow> ret (Some (Wrapf ''failed to get route by pod IP %q on host: %w'' [IP_String podIP] e))
                      | Inr None \<Rightarrow> ret None
                      | Inr (Some route) \<Rightarrow>
                          if nr_Dst route = None then ret None
                          else
                            do {
                              a \<leftarrow> AddrListByName k master (GetIPFamily k flatNetworkIP);
                              case a of
                                Inl e \<Rightarrow> ret (Some (Wrapf ''failed to get iface %q addresses: %w'' [master] e))
                              | Inr addrs \<Rightarrow>
                                  (let r = host_route k flatNetworkIP route addrs in
                                   do {
                                     x \<leftarrow> RouteAdd k r;
                                     case x of
                                       Some e \<Rightarrow>
                                         do {
                                           _ \<leftarrow> RouteDel k r;
                                           ret (Some (Wrapf ''failed to add pod flatNetwork IP %q route on host: %w''
                                             [IP_String flatNetworkIP] e))
                                         }
                                     | None \<Rightarrow> ret None
                                   })
                            }
                    }
            })"

definition DelFlatNetworkRouteFromHost :: "'w netlink \<Rightarrow> net_IP \<Rightarrow> ('w, error option) state" where
  "DelFlatNetworkRouteFromHost k flatNetworkIP =
     (if flatNetworkIP = [] \<or> To16 flatNetworkIP = [] then ret None
      else
        do {
          r \<leftarrow> GetRouteByIP k flatNetworkIP;
          case r of
            Inl e \<Rightarrow> ret (Some (Wrapf ''failed to get route by flatNetwork IP %q on host: %w'' [IP_String flatNetworkIP] e))
          | Inr None \<Rightarrow> ret None
          | Inr (Some route) \<Rightarrow>
              if nr_Dst route = None then ret None
              else
                do {
                  x \<leftarrow> RouteDel k \<lparr>LinkIndex = LinkIndex route, nr_Dst = nr_Dst route, nr_Src = [], nr_Gw = [],
                         nr_Via = None, nr_Priority = 0, nr_Family = 0\<rparr>;
                  case x of
                    None \<Rightarrow> ret None
                  | Some e \<Rightarrow>
                      if strings_Contains (nl_err_text k e) ''no such process'' then ret None
                      else ret (Some (Wrapf ''failed to delete flatNetwork IP %q route from host: %w''
                             [IP_String flatNetworkIP] e))
                }
        })"

subsection \<open>The laws of the kernel\<close>

text \<open>
  What the kernel keeps for each network namespace, \<open>None\<close> being the one of the host, and the namespace of the calling
  thread.
\<close>

record netview =
  v_routes :: "netns option \<Rightarrow> nl_Route set"
  v_links :: "netns option \<Rightarrow> string \<Rightarrow> Link option"
  v_cur :: "netns option"

abbreviation cur_routes :: "netview \<Rightarrow> nl_Route set" where "cur_routes v \<equiv> v_routes v (v_cur v)"

definition set_cur_routes :: "nl_Route set \<Rightarrow> netview \<Rightarrow> netview" where
  "set_cur_routes rs v = v\<lparr>v_routes := (v_routes v)(v_cur v := rs)\<rparr>"

text \<open>The kernel may choose another metric for a new route. It tells routes apart by family, destination and metric.\<close>

definition stored_as :: "nl_Route \<Rightarrow> nl_Route \<Rightarrow> bool" where
  "stored_as r r' \<longleftrightarrow> r'\<lparr>nr_Priority := nr_Priority r\<rparr> = r"

definition route_key :: "nl_Route \<Rightarrow> int \<times> IPNet option \<times> int" where
  "route_key r = (nr_Family r, nr_Dst r, nr_Priority r)"

text \<open>
  A list returns the routes of the current namespace, each once. A route that is added is in the table afterwards, with
  every other route; a replacement takes the place of the route with the same key; a call that fails changes nothing. A
  closure runs in the namespace of the pod, unless the namespace cannot be entered, and the thread is then back in
  its own.
\<close>

locale routing =
  fixes k :: "'w netlink" and view :: "'w \<Rightarrow> netview"
  assumes RouteList: "run_state (RouteList k) w = (rl, w') \<Longrightarrow>
      view w' = view w \<and> (\<forall>rs. rl = Inr rs \<longrightarrow> set rs = cur_routes (view w) \<and> distinct rs)"
    and RouteAdd: "run_state (RouteAdd k r) w = (None, w') \<Longrightarrow>
      \<exists>r'. (nr_Dst r \<noteq> None \<longrightarrow> stored_as r r') \<and> view w' = set_cur_routes (insert r' (cur_routes (view w))) (view w)"
    and RouteAdd_error: "run_state (RouteAdd k r) w = (Some e, w') \<Longrightarrow> view w' = view w"
    and RouteReplace: "run_state (RouteReplace k r) w = (None, w') \<Longrightarrow> inj_on route_key (cur_routes (view w)) \<Longrightarrow>
      route_key r \<in> route_key ` cur_routes (view w) \<Longrightarrow>
      view w' = set_cur_routes (insert r {x \<in> cur_routes (view w). route_key x \<noteq> route_key r}) (view w)"
    and LinkByName: "run_state (LinkByName k n) w = (l, w') \<Longrightarrow>
      view w' = view w \<and> (\<forall>x. l = Inr x \<longrightarrow> v_links (view w) (v_cur (view w)) n = Some x)"
    and netns_Do: "run_state (netns_Do k ns f) w = (x, w') \<Longrightarrow>
      x \<noteq> None \<and> view w' = view w \<or>
      (\<exists>w1 w2. view w1 = (view w)\<lparr>v_cur := Some ns\<rparr> \<and> run_state f w1 = (x, w2) \<and>
         view w' = (view w2)\<lparr>v_cur := v_cur (view w)\<rparr>)"
    and Via_Equal: "Via_Equal k v v"
    and range_order: "set (range_order k ids) = set ids"

lemma stored_as_matches: "(\<And>v. Via_Equal k v v) \<Longrightarrow> stored_as r r' \<Longrightarrow> route_matches k r r'"
  unfolding stored_as_def route_matches_def
  by (cases r; cases r') (auto simp: IP_Equal_def split: option.splits)

lemma set_cur_routes_simps [simp]:
  "v_routes (set_cur_routes rs v) (v_cur v) = rs" "v_cur (set_cur_routes rs v) = v_cur v" "v_links (set_cur_routes rs v) = v_links v"
  "c \<noteq> v_cur v \<Longrightarrow> v_routes (set_cur_routes rs v) c = v_routes v c"
  "set_cur_routes rs (set_cur_routes rs' v) = set_cur_routes rs v"
  "set_cur_routes (cur_routes v) v = v"
  by (simp_all add: set_cur_routes_def)

text \<open>A custom route has its interface, a valid destination, and, unless it is a default route, a matching route.\<close>

definition installed :: "'w netlink \<Rightarrow> netview \<Rightarrow> nl_Route set \<Rightarrow> Route \<Rightarrow> bool" where
  "installed k v rs r \<longleftrightarrow> (\<exists>link ip network. v_links v (v_cur v) (route_Dev r) = Some link \<and>
     ParseCIDR (route_Dst r) = Inr (ip, network) \<and>
     (nr_Dst (custom_route k (attr_Index link) r ip network) \<noteq> None \<longrightarrow>
        (\<exists>y \<in> rs. route_matches k (custom_route k (attr_Index link) r ip network) y)))"

lemma custom_route_Dst:
  "nr_Dst (custom_route k i r ip network) \<noteq> None \<longleftrightarrow>
    IP_String (NetIP network) \<noteq> ''0.0.0.0'' \<and> IP_String (NetIP network) \<noteq> ''::0''"
  by (simp add: custom_route_def Let_def)

lemma installed_mono: "installed k v rs r \<Longrightarrow> rs \<subseteq> rs' \<Longrightarrow> installed k v rs' r"
  unfolding installed_def by blast

lemma installed_cong [simp]: "installed k (set_cur_routes R v) rs r = installed k v rs r"
  by (simp add: installed_def)

text \<open>The default routes of the family of the address go out of the interface.\<close>

definition redirected :: "int \<Rightarrow> net_IP \<Rightarrow> net_IP \<Rightarrow> nl_Route \<Rightarrow> nl_Route" where
  "redirected index ip gateway r =
     (if isDefaultRoute (Some r) \<and> sameAddressFamily r ip then redirect index ip gateway r else r)"

lemma route_key_redirected [simp]: "route_key (redirected i ip gw r) = route_key r" "route_key (redirect i ip gw r) = route_key r"
  by (auto simp: redirected_def redirect_def route_key_def Let_def)

text \<open>Replacing one route of the table after another.\<close>

lemma replace_one:
  assumes "inj_on route_key R" and "r \<in> R" and "route_key r' = route_key r"
  shows "insert r' {x \<in> R. route_key x \<noteq> route_key r'} = insert r' (R - {r})"
  using assms by (auto dest: inj_onD)

context routing
begin

lemma CheckRouteExists_run:
  assumes "run_state (CheckRouteExists k (Some r)) w = (x, w')"
  shows "view w' = view w \<and> (\<forall>b. x = Inr b \<longrightarrow> b = (\<exists>y \<in> cur_routes (view w). route_matches k r y))"
  using assms RouteList
  by (auto simp: CheckRouteExists_def run_simps list_ex_iff split: sum.splits prod.splits)

text \<open>Routes are only added, in the current namespace, and the wanted one is there.\<close>

lemma EnsureRouteExists_run:
  assumes "run_state (EnsureRouteExists k (Some r)) w = (x, w')"
  shows "\<exists>rs. cur_routes (view w) \<subseteq> rs \<and> view w' = set_cur_routes rs (view w) \<and>
    (x = None \<longrightarrow> nr_Dst r \<noteq> None \<longrightarrow> (\<exists>y \<in> rs. route_matches k r y))"
proof -
  obtain c w1 where c: "run_state (CheckRouteExists k (Some r)) w = (c, w1)" by fastforce
  note C = CheckRouteExists_run [OF c]
  consider e where "c = Inl e" | "c = Inr True" | "c = Inr False" by (cases c) auto
  then show ?thesis
  proof cases
    case 3
    obtain y w2 where y: "run_state (RouteAdd k r) w1 = (y, w2)" by fastforce
    have w': "w' = w2" "x = None \<longleftrightarrow> y = None"
      using assms c 3 y by (auto simp: EnsureRouteExists_def run_simps split: option.splits)
    show ?thesis
    proof (cases y)
      case None
      obtain r' where r': "nr_Dst r \<noteq> None \<longrightarrow> stored_as r r'"
          "view w2 = set_cur_routes (insert r' (cur_routes (view w1))) (view w1)"
        using RouteAdd y None by blast
      then show ?thesis using C w' stored_as_matches [OF Via_Equal] by (intro exI [of _ "insert r' (cur_routes (view w))"]) auto
    next
      case (Some e)
      then have "view w2 = view w1" using RouteAdd_error y by blast
      then show ?thesis using C w' Some by (intro exI [of _ "cur_routes (view w)"]) auto
    qed
  qed (use assms c C in \<open>auto simp: EnsureRouteExists_def run_simps intro!: exI [of _ "cur_routes (view w)"]\<close>)
qed

lemma add_custom_routes_run:
  assumes "run_state (add_custom_routes k rs) w = (x, w')"
  shows "\<exists>R. cur_routes (view w) \<subseteq> R \<and> view w' = set_cur_routes R (view w) \<and>
    (x = None \<longrightarrow> (\<forall>r \<in> set rs. route_Dev r \<noteq> PodIfaceEth1 \<longrightarrow> installed k (view w) R r))"
  using assms
proof (induction rs arbitrary: w)
  case Nil
  then show ?case by (auto simp: run_simps intro!: exI [of _ "cur_routes (view w)"])
next
  case (Cons r rs)
  show ?case
  proof (cases "route_Dev r = PodIfaceEth1")
    case True
    then show ?thesis using Cons by auto
  next
    case False
    obtain l w1 where l: "run_state (LinkByName k (route_Dev r)) w = (l, w1)" by fastforce
    note L = LinkByName [OF l]
    have unchanged: ?thesis if "x \<noteq> None" "w' = w1"
      using that L by (auto intro!: exI [of _ "cur_routes (view w)"])
    show ?thesis
    proof (cases l)
      case (Inl e)
      then show ?thesis using unchanged Cons.prems False l by (auto simp: run_simps)
    next
      case (Inr link)
      show ?thesis
      proof (cases "ParseCIDR (route_Dst r)")
        case (Inl e)
        then show ?thesis using unchanged Cons.prems False l Inr by (auto simp: run_simps)
      next
        case net: (Inr p)
        obtain ip network where p: "p = (ip, network)" by fastforce
        let ?c = "custom_route k (attr_Index link) r ip network"
        obtain y w2 where y: "run_state (EnsureRouteExists k (Some ?c)) w1 = (y, w2)" by fastforce
        obtain R where R: "cur_routes (view w1) \<subseteq> R" "view w2 = set_cur_routes R (view w1)"
            "y = None \<longrightarrow> nr_Dst ?c \<noteq> None \<longrightarrow> (\<exists>z \<in> R. route_matches k ?c z)"
          using EnsureRouteExists_run [OF y] by blast
        show ?thesis
        proof (cases y)
          case (Some e)
          then have "x \<noteq> None" "w' = w2" using Cons.prems False l Inr net p y by (auto simp: run_simps)
          then show ?thesis using R L by auto
        next
          case None
          then have "run_state (add_custom_routes k rs) w2 = (x, w')"
            using Cons.prems False l Inr net p y by (auto simp: run_simps)
          from Cons.IH [OF this] obtain R' where R': "R \<subseteq> R'" "view w' = set_cur_routes R' (view w)"
              "x = None \<longrightarrow> (\<forall>r \<in> set rs. route_Dev r \<noteq> PodIfaceEth1 \<longrightarrow> installed k (view w) R' r)"
            using R L by auto
          moreover have "installed k (view w) R' r"
            unfolding installed_def using L Inr net p R(3) None R'(1) by blast
          ultimately show ?thesis using R(1) L by (intro exI [of _ R']) auto
        qed
      qed
    qed
  qed
qed

lemma replace_defaults_run:
  assumes "run_state (replace_defaults k n i ip gw rs) w = (None, w')" and "inj_on route_key (cur_routes (view w))"
    and "set rs \<subseteq> cur_routes (view w)" and "distinct rs"
  shows "view w' = set_cur_routes (redirected i ip gw ` set rs \<union> (cur_routes (view w) - set rs)) (view w)"
  using assms
proof (induction rs arbitrary: w)
  case Nil
  then show ?case by (simp add: run_simps)
next
  case (Cons r rs)
  show ?case
  proof (cases "isDefaultRoute (Some r) \<and> sameAddressFamily r ip")
    case False
    then have "redirected i ip gw r = r" by (auto simp: redirected_def)
    moreover have "view w' = set_cur_routes (redirected i ip gw ` set rs \<union> (cur_routes (view w) - set rs)) (view w)"
      using Cons False by (simp split: if_splits)
    moreover have "cur_routes (view w) - set rs = insert r (cur_routes (view w) - set (r # rs))"
      using Cons.prems by auto
    ultimately show ?thesis by simp
  next
    case True
    let ?r = "redirect i ip gw r" and ?R = "cur_routes (view w)"
    have red: "redirected i ip gw r = ?r" using True by (simp add: redirected_def)
    obtain w1 where w1: "run_state (RouteReplace k ?r) w = (None, w1)" and rest: "run_state (replace_defaults k n i ip gw rs) w1 = (None, w')"
      using Cons.prems(1) True by (auto simp: run_simps Let_def split: option.splits prod.splits)
    have mem: "r \<in> ?R" using Cons.prems(3) by simp
    have v1: "view w1 = set_cur_routes (insert ?r (?R - {r})) (view w)"
      using RouteReplace [OF w1 Cons.prems(2)] replace_one [OF Cons.prems(2) mem] mem by simp
    have inj: "inj_on route_key (insert ?r (?R - {r}))"
      using Cons.prems(2) mem by (auto simp: inj_on_def)
    have "view w' = set_cur_routes (redirected i ip gw ` set rs \<union> (cur_routes (view w1) - set rs)) (view w1)"
    proof (rule Cons.IH [OF rest])
      show "inj_on route_key (cur_routes (view w1))" using inj v1 by simp
      show "set rs \<subseteq> cur_routes (view w1)" "distinct rs" using Cons.prems v1 by auto
    qed
    moreover have "?r \<notin> set rs"
    proof
      assume "?r \<in> set rs"
      then have "?r \<in> ?R" using Cons.prems(3) by auto
      then have "?r = r" using inj_onD [OF Cons.prems(2) _ _ mem, of ?r] by simp
      then show False using \<open>?r \<in> set rs\<close> Cons.prems(4) by simp
    qed
    ultimately show ?thesis using v1 red by (auto simp: insert_Diff_if intro!: arg_cong [where f = "\<lambda>R. set_cur_routes R (view w)"])
  qed
qed

lemma netns_Do_done:
  assumes "run_state (netns_Do k ns f) w = (None, w')"
  obtains w1 w2 where "view w1 = (view w)\<lparr>v_cur := Some ns\<rparr>" and "run_state f w1 = (None, w2)"
    and "view w' = (view w2)\<lparr>v_cur := v_cur (view w)\<rparr>"
  using netns_Do [OF assms] by auto

lemma AddPodFlatNetworkCustomRoutes_run:
  assumes "run_state (AddPodFlatNetworkCustomRoutes k (Some ns) rs) w = (None, w')"
  shows "\<exists>R. v_routes (view w) (Some ns) \<subseteq> R \<and>
    view w' = (view w)\<lparr>v_routes := (v_routes (view w))(Some ns := R)\<rparr> \<and>
    (\<forall>r \<in> set rs. route_Dev r \<noteq> PodIfaceEth1 \<longrightarrow> installed k ((view w)\<lparr>v_cur := Some ns\<rparr>) R r)"
proof (cases "rs = []")
  case True
  then show ?thesis using assms by (auto simp: AddPodFlatNetworkCustomRoutes_def run_simps)
next
  case False
  then have "run_state (netns_Do k ns (add_custom_routes k rs)) w = (None, w')"
    using assms by (auto simp: AddPodFlatNetworkCustomRoutes_def run_simps split: option.splits prod.splits)
  then obtain w1 w2 where w1: "view w1 = (view w)\<lparr>v_cur := Some ns\<rparr>" "run_state (add_custom_routes k rs) w1 = (None, w2)"
      "view w' = (view w2)\<lparr>v_cur := v_cur (view w)\<rparr>"
    by (rule netns_Do_done)
  from add_custom_routes_run [OF w1(2)] w1(1,3) show ?thesis
    by (auto simp: set_cur_routes_def)
qed

lemma UpdatePodDefaultGateway_run:
  assumes "run_state (UpdatePodDefaultGateway k ns n ip gw) w = (None, w')"
    and "inj_on route_key (v_routes (view w) (Some ns))"
  shows "\<exists>link. v_links (view w) (Some ns) n = Some link \<and>
    view w' = (view w)\<lparr>v_routes := (v_routes (view w))(Some ns := redirected (attr_Index link) ip gw ` v_routes (view w) (Some ns))\<rparr>"
proof -
  define f where "f = do {
            l \<leftarrow> LinkByName k n;
            case l of
              Inl e \<Rightarrow> ret (Some (Wrapf ''failed to get iface %q: %w'' [n] e))
            | Inr link \<Rightarrow>
                do {
                  r \<leftarrow> RouteList k;
                  case r of
                    Inl e \<Rightarrow> ret (Some (Wrapf ''failed to list route: %w'' [] e))
                  | Inr routes \<Rightarrow> replace_defaults k n (attr_Index link) ip gw routes
                }
          }"
  have "run_state (netns_Do k ns f) w = (None, w')"
    using assms(1) unfolding UpdatePodDefaultGateway_def f_def [symmetric]
    by (auto simp: run_simps split: option.splits prod.splits)
  then obtain w1 w2 where w1: "view w1 = (view w)\<lparr>v_cur := Some ns\<rparr>" "run_state f w1 = (None, w2)"
      "view w' = (view w2)\<lparr>v_cur := v_cur (view w)\<rparr>"
    by (rule netns_Do_done)
  obtain link w3 rs w4 where l: "run_state (LinkByName k n) w1 = (Inr link, w3)" and rs: "run_state (RouteList k) w3 = (Inr rs, w4)"
      and rep: "run_state (replace_defaults k n (attr_Index link) ip gw rs) w4 = (None, w2)"
    using w1(2) unfolding f_def by (auto simp: run_simps split: sum.splits prod.splits)
  have v: "view w3 = view w1" "view w4 = view w1" "set rs = cur_routes (view w1)"
      "v_links (view w1) (v_cur (view w1)) n = Some link"
    using LinkByName [OF l] RouteList [OF rs] by auto
  have "view w2 = set_cur_routes (redirected (attr_Index link) ip gw ` set rs \<union> (cur_routes (view w4) - set rs)) (view w4)"
    using assms(2) v w1(1) RouteList [OF rs] by (intro replace_defaults_run [OF rep]) auto
  then show ?thesis using v w1(1,3) by (auto simp: set_cur_routes_def)
qed

lemma GetDefaultRoutes_run:
  "run_state (GetDefaultRoutes k) w = (Inr rs, w') \<Longrightarrow>
    view w' = view w \<and> set rs = {r \<in> cur_routes (view w). isDefaultRoute (Some r)}"
  using RouteList by (fastforce simp: GetDefaultRoutes_def run_simps split: sum.splits prod.splits)

lemma GetDefaultLinkIDSet_run:
  "run_state (GetDefaultLinkIDSet k) w = (Inr ids, w') \<Longrightarrow>
    view w' = view w \<and> set ids = LinkIndex ` {r \<in> cur_routes (view w). isDefaultRoute (Some r)}"
  using GetDefaultRoutes_run by (fastforce simp: GetDefaultLinkIDSet_def run_simps split: sum.splits prod.splits)

lemma AddPodKubeCIDRRoutes_run:
  assumes "run_state (AddPodKubeCIDRRoutes k ns cidr) w = (None, w')"
  shows "\<exists>ip network R. ParseCIDR cidr = Inr (ip, network) \<and> v_routes (view w) (Some ns) \<subseteq> R \<and>
    view w' = (view w)\<lparr>v_routes := (v_routes (view w))(Some ns := R)\<rparr> \<and>
    ((\<exists>d \<in> v_routes (view w) (Some ns). isDefaultRoute (Some d)) \<longrightarrow>
     (\<exists>d \<in> v_routes (view w) (Some ns). isDefaultRoute (Some d) \<and>
        (\<exists>gws. \<exists>y \<in> R. route_matches k (kube_route (LinkIndex d) ip network gws) y)))"
proof -
  obtain ip network where net: "ParseCIDR cidr = Inr (ip, network)"
    using assms by (cases "ParseCIDR cidr") (auto simp: AddPodKubeCIDRRoutes_def run_simps)
  obtain w1 w2 where w1: "view w1 = (view w)\<lparr>v_cur := Some ns\<rparr>" "view w' = (view w2)\<lparr>v_cur := v_cur (view w)\<rparr>"
    and body: "run_state (do {
                 r \<leftarrow> GetDefaultLinkIDSet k;
                 case r of
                   Inl e \<Rightarrow> ret (Some (Wrapf ''failed to get pod default link id: %w'' [] e))
                 | Inr defaultLinkSet \<Rightarrow>
                     do {
                       r \<leftarrow> GetDefaultRoutes k;
                       case r of
                         Inl e \<Rightarrow> ret (Some (Wrapf ''failed to get pod default routes: %w'' [] e))
                       | Inr podDefaultRoutes \<Rightarrow>
                           if podDefaultRoutes = [] then ret None
                           else
                             (case range_order k defaultLinkSet of
                                [] \<Rightarrow> ret None
                              | i # _ \<Rightarrow> EnsureRouteExists k (Some (kube_route i ip network
                                           (default_gateways ([], []) podDefaultRoutes))))
                     }
               }) w1 = (None, w2)"
    using assms net by (auto simp: AddPodKubeCIDRRoutes_def run_bind split: prod.splits option.splits elim!: netns_Do_done)
  obtain ids w3 rs w4 where ids: "run_state (GetDefaultLinkIDSet k) w1 = (Inr ids, w3)" and rs: "run_state (GetDefaultRoutes k) w3 = (Inr rs, w4)"
    and rest: "run_state (if rs = [] then ret None else (case range_order k ids of [] \<Rightarrow> ret None
        | i # _ \<Rightarrow> EnsureRouteExists k (Some (kube_route i ip network (default_gateways ([], []) rs))))) w4 = (None, w2)"
    using body by (auto simp: run_bind split: sum.splits prod.splits)
  have v: "view w4 = view w1" "set rs = {r \<in> cur_routes (view w1). isDefaultRoute (Some r)}" "set ids = LinkIndex ` set rs"
    using GetDefaultLinkIDSet_run [OF ids] GetDefaultRoutes_run [OF rs] by auto
  show ?thesis
  proof (cases "rs = []")
    case True
    then show ?thesis using rest v net w1 by (auto simp: run_simps intro!: exI [of _ "v_routes (view w) (Some ns)"])
  next
    case False
    then have "range_order k ids \<noteq> []" using range_order [of ids] v(3) by auto
    then obtain i js where i: "range_order k ids = i # js" by (cases "range_order k ids") auto
    then have "i \<in> set ids" using range_order [of ids] by auto
    then obtain d where d: "d \<in> set rs" "LinkIndex d = i" using v(3) by auto
    let ?r = "kube_route i ip network (default_gateways ([], []) rs)"
    have e: "run_state (EnsureRouteExists k (Some ?r)) w4 = (None, w2)" using rest False i by simp
    have "nr_Dst ?r \<noteq> None" by (simp add: kube_route_def Let_def)
    then obtain R where "cur_routes (view w4) \<subseteq> R" "view w2 = set_cur_routes R (view w4)" "\<exists>y \<in> R. route_matches k ?r y"
      using EnsureRouteExists_run [OF e] by blast
    moreover from this d(2) have "\<exists>gws. \<exists>y \<in> R. route_matches k (kube_route (LinkIndex d) ip network gws) y" by blast
    ultimately show ?thesis using net v(1,2) w1 d(1)
      by (intro exI [of _ ip] exI [of _ network] exI [of _ R]) (auto simp: set_cur_routes_def simp del: split_paired_Ex)
  qed
qed

end

subsection \<open>A kernel in memory\<close>

record netmem =
  nm_routes :: "netns option \<Rightarrow> nl_Route list"
  nm_links :: "netns option \<Rightarrow> Link list"
  nm_addrs :: "netns option \<Rightarrow> int \<Rightarrow> IPNet list"
  nm_cur :: "netns option"

definition mem_Do :: "netns \<Rightarrow> (netmem, 'a) state \<Rightarrow> (netmem, 'a) state" where
  "mem_Do ns f = State (\<lambda>m. case run_state f (m\<lparr>nm_cur := Some ns\<rparr>) of (x, m') \<Rightarrow> (x, m'\<lparr>nm_cur := nm_cur m\<rparr>))"

definition set_routes :: "nl_Route list \<Rightarrow> netmem \<Rightarrow> netmem" where
  "set_routes rs m = m\<lparr>nm_routes := (nm_routes m)(nm_cur m := rs)\<rparr>"

definition set_links :: "netns option \<Rightarrow> Link list \<Rightarrow> netmem \<Rightarrow> netmem" where
  "set_links c ls m = m\<lparr>nm_links := (nm_links m)(c := ls)\<rparr>"

abbreviation kernel_error :: "string \<Rightarrow> error" where "kernel_error s \<equiv> Errorf s []"

definition mem_kernel :: "netmem netlink" where
  "mem_kernel = \<lparr>
     RouteList = State (\<lambda>m. (Inr (remdups (nm_routes m (nm_cur m))), m)),
     RouteGet = (\<lambda>ip. State (\<lambda>m. (Inr (map (\<lambda>r. r\<lparr>nr_Dst := Some \<lparr>NetIP = ip, NetMask = CIDRMask 32 32\<rparr>\<rparr>)
        (filter (\<lambda>r. case nr_Dst r of None \<Rightarrow> True | Some d \<Rightarrow> Contains d ip) (nm_routes m (nm_cur m)))), m))),
     RouteAdd = (\<lambda>r. State (\<lambda>m. let rs = nm_routes m (nm_cur m) in
        if list_ex (\<lambda>x. route_key x = route_key r) rs then (Some (kernel_error ''file exists''), m)
        else (None, set_routes (rs @ [r]) m))),
     RouteDel = (\<lambda>r. State (\<lambda>m. let rs = nm_routes m (nm_cur m); p = (\<lambda>x. nr_Dst x = nr_Dst r \<and> LinkIndex x = LinkIndex r) in
        if list_ex p rs then (None, set_routes (filter (\<lambda>x. \<not> p x) rs) m) else (Some (kernel_error ''no such process''), m))),
     RouteReplace = (\<lambda>r. State (\<lambda>m. let rs = nm_routes m (nm_cur m) in
        if list_ex (\<lambda>x. route_key x = route_key r) rs
        then (None, set_routes (map (\<lambda>x. if route_key x = route_key r then r else x) rs) m)
        else (None, set_routes (rs @ [r]) m))),
     LinkList = State (\<lambda>m. (Inr (nm_links m (nm_cur m)), m)),
     LinkByName = (\<lambda>n. State (\<lambda>m. (case find (\<lambda>l. attr_Name l = n) (nm_links m (nm_cur m)) of
        None \<Rightarrow> Inl (kernel_error ''Link not found'') | Some l \<Rightarrow> Inr l, m))),
     LinkByIndex = (\<lambda>i. State (\<lambda>m. (case find (\<lambda>l. attr_Index l = i) (nm_links m (nm_cur m)) of
        None \<Rightarrow> Inl (kernel_error ''Link not found'') | Some l \<Rightarrow> Inr l, m))),
     LinkAdd = (\<lambda>l. State (\<lambda>m. let c = (case attr_Namespace l of None \<Rightarrow> nm_cur m | Some ns \<Rightarrow> Some ns); ls = nm_links m c in
        if list_ex (\<lambda>x. attr_Name x = attr_Name l) ls then (Some (kernel_error ''file exists''), m)
        else (None, set_links c (ls @ [l\<lparr>attr_Index := int (length ls) + 1\<rparr>]) m))),
     LinkDel = (\<lambda>l. State (\<lambda>m. (None, set_links (nm_cur m) (filter (\<lambda>x. attr_Name x \<noteq> attr_Name l) (nm_links m (nm_cur m))) m))),
     LinkSetUp = (\<lambda>l. ret None),
     LinkSetPromiscOn = (\<lambda>l. State (\<lambda>m. (None, set_links (nm_cur m)
        (map (\<lambda>x. if attr_Name x = attr_Name l then x\<lparr>attr_Promisc := 1\<rparr> else x) (nm_links m (nm_cur m))) m))),
     AddrList = (\<lambda>l fam. State (\<lambda>m. (Inr (nm_addrs m (nm_cur m) (attr_Index l)), m))),
     root_netns = ret None,
     netns_Do = mem_Do, netns_Do_ip = mem_Do, netns_Do_iface = mem_Do, netns_Do_gateways = mem_Do,
     RandomVethName = ret (Inr ''veth0''),
     RenameLink = (\<lambda>a b. State (\<lambda>m. (None, set_links (nm_cur m)
        (map (\<lambda>x. if attr_Name x = a then x\<lparr>attr_Name := b\<rparr> else x) (nm_links m (nm_cur m))) m))),
     DelLinkByName = (\<lambda>n. State (\<lambda>m. if list_ex (\<lambda>x. attr_Name x = n) (nm_links m (nm_cur m))
        then (None, set_links (nm_cur m) (filter (\<lambda>x. attr_Name x \<noteq> n) (nm_links m (nm_cur m))) m)
        else (Some (kernel_error ''Link not found''), m))),
     GetIPFamily = (\<lambda>ip. if length ip \<le> 4 \<or> To4 ip \<noteq> [] then FAMILY_V4 else FAMILY_V6),
     Via_Equal = (=), range_order = (\<lambda>ids. ids), nl_err_text = (\<lambda>e. case e of Errorf s _ \<Rightarrow> s | _ \<Rightarrow> [])\<rparr>"

definition mem_netview :: "netmem \<Rightarrow> netview" where
  "mem_netview m = \<lparr>v_routes = (\<lambda>c. set (nm_routes m c)), v_links = (\<lambda>c n. find (\<lambda>l. attr_Name l = n) (nm_links m c)), v_cur = nm_cur m\<rparr>"

lemma mem_netview_set_routes: "mem_netview (set_routes rs m) = set_cur_routes (set rs) (mem_netview m)"
  by (auto simp: mem_netview_def set_routes_def set_cur_routes_def fun_eq_iff)

lemma mem_netview_simps:
  "v_cur (mem_netview m) = nm_cur m" "v_routes (mem_netview m) c = set (nm_routes m c)"
  "v_links (mem_netview m) c n = find (\<lambda>l. attr_Name l = n) (nm_links m c)"
  "mem_netview (m\<lparr>nm_cur := c\<rparr>) = (mem_netview m)\<lparr>v_cur := c\<rparr>"
  by (simp_all add: mem_netview_def)

interpretation memnet: routing mem_kernel mem_netview
proof (unfold_locales, goal_cases)
  case (1 w rl w')
  then show ?case by (auto simp: mem_kernel_def mem_netview_simps)
next
  case (2 r w w')
  then show ?case
    by (auto simp: mem_kernel_def mem_netview_set_routes mem_netview_simps stored_as_def Let_def split: if_splits intro!: exI [of _ r])
next
  case (3 r w e w')
  then show ?case by (auto simp: mem_kernel_def Let_def split: if_splits)
next
  case (4 r w w')
  then have "list_ex (\<lambda>x. route_key x = route_key r) (nm_routes w (nm_cur w))"
    by (auto simp: mem_netview_simps list_ex_iff)
  then show ?case using 4(1)
    by (auto simp: mem_kernel_def mem_netview_set_routes mem_netview_simps list_ex_iff intro!: arg_cong [where f = "\<lambda>R. set_cur_routes R (mem_netview w)"])
next
  case (5 n w l w')
  then show ?case by (auto simp: mem_kernel_def mem_netview_simps split: option.splits)
next
  case (6 ns f w x w')
  obtain y m2 where f: "run_state f (w\<lparr>nm_cur := Some ns\<rparr>) = (y, m2)" by fastforce
  then have "y = x" "w' = m2\<lparr>nm_cur := nm_cur w\<rparr>" using 6 by (auto simp: mem_kernel_def mem_Do_def)
  then show ?case using f by (intro disjI2 exI [of _ "w\<lparr>nm_cur := Some ns\<rparr>"] exI [of _ m2]) (simp add: mem_netview_simps)
qed (simp_all add: mem_kernel_def)

subsection \<open>Properties\<close>

text \<open>
  C12. Changing the default gateway of a pod: every default route of the family of the address goes out of the
  flat interface with this address as its source and with the gateway of the subnet, or without one; every other
  route of the pod and the routes of every other namespace are as before.
\<close>

theorem UpdatePodDefaultGateway_redirects:
  assumes "routing k view" and "run_state (UpdatePodDefaultGateway k ns ifName ip gw) w = (None, w')"
    and "inj_on route_key (v_routes (view w) (Some ns))"
  shows "\<exists>link. v_links (view w) (Some ns) ifName = Some link \<and>
    view w' = (view w)\<lparr>v_routes := (v_routes (view w))(Some ns :=
      (\<lambda>r. if isDefaultRoute (Some r) \<and> sameAddressFamily r ip
           then r\<lparr>LinkIndex := attr_Index link, nr_Src := ip, nr_Gw := gw\<rparr> else r) ` v_routes (view w) (Some ns))\<rparr>"
proof -
  have "redirected i ip gw = (\<lambda>r. if isDefaultRoute (Some r) \<and> sameAddressFamily r ip
      then r\<lparr>LinkIndex := i, nr_Src := ip, nr_Gw := gw\<rparr> else r)" for i
    by (auto simp: redirected_def redirect_def Let_def fun_eq_iff)
  then show ?thesis using routing.UpdatePodDefaultGateway_run [OF assms] by simp
qed

definition example_link :: "int \<Rightarrow> string \<Rightarrow> Link" where
  "example_link i n = \<lparr>attr_Index = i, attr_Name = n, attr_HardwareAddr = [], attr_Promisc = 0, attr_MTU = 1500,
     attr_ParentIndex = 0, attr_Namespace = None, link_kind = Device\<rparr>"

definition example_route :: "int \<Rightarrow> IPNet option \<Rightarrow> net_IP \<Rightarrow> nl_Route" where
  "example_route i d gw = \<lparr>LinkIndex = i, nr_Dst = d, nr_Src = [], nr_Gw = gw, nr_Via = None, nr_Priority = 0, nr_Family = FAMILY_V4\<rparr>"

definition pod_network :: IPNet where "pod_network = \<lparr>NetIP = [10, 42, 0, 0], NetMask = [255, 255, 255, 0]\<rparr>"

text \<open>A pod with its own interface, its flat interface, a default route and the route to its own network.\<close>

definition example_net :: netmem where
  "example_net = \<lparr>
     nm_routes = (\<lambda>c. if c = Some ''pod'' then [example_route 2 None [10, 42, 0, 1], example_route 2 (Some pod_network) []] else []),
     nm_links = (\<lambda>c. if c = Some ''pod'' then [example_link 2 ''eth0'', example_link 3 ''eth1''] else [example_link 1 ''eth0'']),
     nm_addrs = (\<lambda>c i. []), nm_cur = None\<rparr>"

lemma example_net_keys: "inj_on route_key (v_routes (mem_netview example_net) (Some ''pod''))"
  by (simp add: mem_netview_simps example_net_def example_route_def route_key_def)

theorem UpdatePodDefaultGateway_redirects_witness:
  "let w' = snd (run_state (UpdatePodDefaultGateway mem_kernel ''pod'' ''eth1'' [10, 1, 0, 7] [10, 1, 0, 1]) example_net)
   in v_routes (mem_netview w') (Some ''pod'') =
        {(example_route 3 None [10, 1, 0, 1])\<lparr>nr_Src := [10, 1, 0, 7]\<rparr>, example_route 2 (Some pod_network) []}"
proof -
  define w' where "w' = snd (run_state (UpdatePodDefaultGateway mem_kernel ''pod'' ''eth1'' [10, 1, 0, 7] [10, 1, 0, 1]) example_net)"
  have "fst (run_state (UpdatePodDefaultGateway mem_kernel ''pod'' ''eth1'' [10, 1, 0, 7] [10, 1, 0, 1]) example_net) = None" by code_simp
  then have run: "run_state (UpdatePodDefaultGateway mem_kernel ''pod'' ''eth1'' [10, 1, 0, 7] [10, 1, 0, 1]) example_net = (None, w')"
    by (simp add: w'_def prod_eq_iff)
  obtain link where link: "v_links (mem_netview example_net) (Some ''pod'') ''eth1'' = Some link"
    "v_routes (mem_netview w') (Some ''pod'') = (\<lambda>r. if isDefaultRoute (Some r) \<and> sameAddressFamily r [10, 1, 0, 7]
           then r\<lparr>LinkIndex := attr_Index link, nr_Src := [10, 1, 0, 7], nr_Gw := [10, 1, 0, 1]\<rparr> else r) `
       v_routes (mem_netview example_net) (Some ''pod'')"
    using UpdatePodDefaultGateway_redirects [OF memnet.routing_axioms run example_net_keys] by auto
  have i: "attr_Index link = 3" using link(1) by (auto simp: mem_netview_simps example_net_def example_link_def)
  have "isDefaultRoute (Some (example_route 2 None [10, 42, 0, 1]))" "\<not> isDefaultRoute (Some (example_route 2 (Some pod_network) []))"
    "sameAddressFamily (example_route 2 None [10, 42, 0, 1]) [10, 1, 0, 7]" by code_simp+
  then show ?thesis unfolding w'_def [symmetric] Let_def link(2) i
    by (simp add: mem_netview_simps example_net_def) (simp add: example_route_def insert_commute)
qed

text \<open>
  The custom routes of a subnet: when they have been added, the interface of each route that is not left to the IPAM plugin
  exists in the pod, its destination is a valid network, and, unless the destination is the default one, the
  pod has a route for the network; no route of the pod is lost and no other namespace is touched.
\<close>

theorem AddPodFlatNetworkCustomRoutes_installs:
  assumes "routing k view" and "run_state (AddPodFlatNetworkCustomRoutes k (Some ns) rs) w = (None, w')"
  shows "\<exists>R. v_routes (view w) (Some ns) \<subseteq> R \<and> view w' = (view w)\<lparr>v_routes := (v_routes (view w))(Some ns := R)\<rparr> \<and>
    (\<forall>r \<in> set rs. route_Dev r \<noteq> PodIfaceEth1 \<longrightarrow>
      (\<exists>link ip network. v_links (view w) (Some ns) (route_Dev r) = Some link \<and> ParseCIDR (route_Dst r) = Inr (ip, network) \<and>
         (IP_String (NetIP network) \<noteq> ''0.0.0.0'' \<and> IP_String (NetIP network) \<noteq> ''::0'' \<longrightarrow>
            (\<exists>y \<in> R. route_matches k (custom_route k (attr_Index link) r ip network) y))))"
  using routing.AddPodFlatNetworkCustomRoutes_run [OF assms]
  unfolding installed_def custom_route_Dst by simp

definition example_custom :: "Route list" where
  "example_custom = [\<lparr>route_Dev = ''eth1'', route_Dst = ''x'', route_Src = [], route_Via = [], route_Priority = 0\<rparr>,
     \<lparr>route_Dev = ''eth0'', route_Dst = ''10.44.1.0/24'', route_Src = [], route_Via = [10, 42, 0, 1], route_Priority = 0\<rparr>]"

theorem AddPodFlatNetworkCustomRoutes_installs_witness:
  "let w' = snd (run_state (AddPodFlatNetworkCustomRoutes mem_kernel (Some ''pod'') example_custom) example_net)
   in v_routes (mem_netview example_net) (Some ''pod'') \<subseteq> v_routes (mem_netview w') (Some ''pod'') \<and>
      v_routes (mem_netview w') None = {} \<and> length (nm_routes w' (Some ''pod'')) = 3"
proof -
  define w' where "w' = snd (run_state (AddPodFlatNetworkCustomRoutes mem_kernel (Some ''pod'') example_custom) example_net)"
  have "fst (run_state (AddPodFlatNetworkCustomRoutes mem_kernel (Some ''pod'') example_custom) example_net) = None" by code_simp
  then have run: "run_state (AddPodFlatNetworkCustomRoutes mem_kernel (Some ''pod'') example_custom) example_net = (None, w')"
    by (simp add: w'_def prod_eq_iff)
  have "length (nm_routes w' (Some ''pod'')) = 3" unfolding w'_def by code_simp
  moreover have "v_routes (mem_netview example_net) None = {}" by (simp add: mem_netview_simps example_net_def)
  ultimately show ?thesis
    using AddPodFlatNetworkCustomRoutes_installs [OF memnet.routing_axioms run] unfolding w'_def [symmetric] Let_def by auto
qed

text \<open>
  The routes to the networks of the cluster: when the route of a network has been added, the network is valid, and if the pod
  has a default route then it has a route for the network on the interface of a default route; no route is lost and no other
  namespace is touched.
\<close>

theorem AddPodKubeCIDRRoutes_installs:
  assumes "routing k view" and "run_state (AddPodKubeCIDRRoutes k ns cidr) w = (None, w')"
  shows "\<exists>ip network R. ParseCIDR cidr = Inr (ip, network) \<and> v_routes (view w) (Some ns) \<subseteq> R \<and>
    view w' = (view w)\<lparr>v_routes := (v_routes (view w))(Some ns := R)\<rparr> \<and>
    ((\<exists>d \<in> v_routes (view w) (Some ns). isDefaultRoute (Some d)) \<longrightarrow>
     (\<exists>d \<in> v_routes (view w) (Some ns). isDefaultRoute (Some d) \<and>
        (\<exists>gws. \<exists>y \<in> R. route_matches k (kube_route (LinkIndex d) ip network gws) y)))"
  by (rule routing.AddPodKubeCIDRRoutes_run [OF assms])

theorem AddPodKubeCIDRRoutes_installs_witness:
  "let w' = snd (run_state (AddPodKubeCIDRRoutes mem_kernel ''pod'' ''10.43.0.0/16'') example_net)
   in v_routes (mem_netview example_net) (Some ''pod'') \<subseteq> v_routes (mem_netview w') (Some ''pod'') \<and>
      example_route 2 (Some \<lparr>NetIP = [10, 43, 0, 0], NetMask = [255, 255, 0, 0]\<rparr>) [10, 42, 0, 1] \<in> v_routes (mem_netview w') (Some ''pod'')"
proof -
  define w' where "w' = snd (run_state (AddPodKubeCIDRRoutes mem_kernel ''pod'' ''10.43.0.0/16'') example_net)"
  have "fst (run_state (AddPodKubeCIDRRoutes mem_kernel ''pod'' ''10.43.0.0/16'') example_net) = None" by code_simp
  then have run: "run_state (AddPodKubeCIDRRoutes mem_kernel ''pod'' ''10.43.0.0/16'') example_net = (None, w')"
    by (simp add: w'_def prod_eq_iff)
  have "list_ex (\<lambda>r. r = example_route 2 (Some \<lparr>NetIP = [10, 43, 0, 0], NetMask = [255, 255, 0, 0]\<rparr>) [10, 42, 0, 1]) (nm_routes w' (Some ''pod''))"
    unfolding w'_def by code_simp
  then have "example_route 2 (Some \<lparr>NetIP = [10, 43, 0, 0], NetMask = [255, 255, 0, 0]\<rparr>) [10, 42, 0, 1] \<in> v_routes (mem_netview w') (Some ''pod'')"
    by (auto simp: mem_netview_simps list_ex_iff)
  moreover have "v_routes (mem_netview example_net) (Some ''pod'') \<subseteq> v_routes (mem_netview w') (Some ''pod'')"
    using AddPodKubeCIDRRoutes_installs [OF memnet.routing_axioms run] by auto
  ultimately show ?thesis unfolding w'_def [symmetric] Let_def by blast
qed

text \<open>
  The destination of a custom route for all addresses of the sixth version is printed with two colons, so that the
  case that should clear it never applies.
\<close>

lemma v6_default_not_cleared:
  "nr_Dst (custom_route k i r (replicate 16 0) \<lparr>NetIP = replicate 16 0, NetMask = replicate 16 0\<rparr>) \<noteq> None"
proof -
  have "To4 (replicate 16 0) = []" by code_simp
  then have "IP_String (replicate 16 0) = ''::''"
    by (simp add: IP_String_def show_ipv6_def longest_run_def zero_run_def join_with_def eval_nat_numeral upt_rec Let_def)
  then show ?thesis unfolding custom_route_Dst by simp
qed

text \<open>The test of a default route does not look at the mask: a route to one half of all addresses counts as one.\<close>

lemma half_route_counts_as_default:
  "isDefaultRoute (Some (example_route 2 (Some \<lparr>NetIP = [0, 0, 0, 0], NetMask = [128, 0, 0, 0]\<rparr>) [10, 42, 0, 1]))"
  by code_simp

end
