(* ===== verification/CniConf.thy ===== *)
theory CniConf
  imports CniRoutes
begin

text \<open>
  The configuration of the network plugin: \<open>pkg/cni/types/types.go\<close> and \<open>pkg/cni/commands/common.go\<close>, the path of the client
  configuration of \<open>pkg/cni/kubeclient\<close>, and the check of an interface of \<open>pkg/cni/commands/check.go\<close>. The texts of JSON
  come from other packages, so that reading and writing them are arguments. The records have the fields that the code reads or sets.
\<close>

subsection \<open>Types: types.go\<close>

record Address =
  adr_Address :: string
  adr_Gateway :: net_IP

record cni_Route =
  cr_Dst :: IPNet
  cr_GW :: net_IP

record IPAMConfig =
  ipam_Type :: string
  ipam_Addresses :: "Address list"
  ipam_Routes :: "cni_Route list"

record FlatNetworkConfig =
  fc_MTU :: int
  ClusterCIDR :: string
  ServiceCIDR :: string
  ARPPolicy :: string
  ProxyARP :: bool

text \<open>The DNS settings and the previous result are only passed on; a raw result is a map from keys to texts.\<close>

record NetConf =
  CNIVersion :: string
  nc_DNS :: string
  RawPrevResult :: "strmap option"
  IPAM :: IPAMConfig
  FlatNetworkConf :: FlatNetworkConfig

record K8sArgs =
  K8S_POD_NAME :: string
  K8S_POD_NAMESPACE :: string

subsection \<open>The IPAM configuration: common.go\<close>

definition loadCNINetConf :: "(string \<Rightarrow> error + NetConf) \<Rightarrow> string \<Rightarrow> error + NetConf" where
  "loadCNINetConf unmarshal bytes =
     (case unmarshal bytes of
        Inl e \<Rightarrow> Inl (Wrapf ''failed to load netconf: %w'' [] e)
      | Inr n \<Rightarrow> Inr n)"

definition get6to4CIDR :: "net_IP \<Rightarrow> nat \<Rightarrow> string" where
  "get6to4CIDR ip0 sz =
     (let ip = To4 ip0 in
      if ip = [] then []
      else if sz \<le> 0 \<or> sz > 32 then []
      else
        (let sixtofourSize = 48 - (32 - sz);
             tmp = map show_byte_hex (To4 ip)
         in if length tmp \<noteq> 4 then []
            else ''2002:'' @ tmp ! 0 @ tmp ! 1 @ '':'' @ tmp ! 2 @ tmp ! 3 @ '':0:0:0:0:0/'' @ show_nat sixtofourSize))"

text \<open>The first result of \<open>net.IPMask.Size\<close>.\<close>

definition Mask_Size :: "IPMask \<Rightarrow> nat" where
  "Mask_Size m = (case mask_ones m of None \<Rightarrow> 0 | Some n \<Rightarrow> n)"

fun ipam_routes :: "Route list \<Rightarrow> error + cni_Route list" where
  "ipam_routes [] = Inr []"
| "ipam_routes (v # vs) =
     (if route_Dev v \<noteq> [] \<and> route_Dev v = PodIfaceEth0 then ipam_routes vs
      else case ParseCIDR (route_Dst v) of
        Inl e \<Rightarrow> Inl (Wrapf ''failed to parse route destination CIDR [%v]: %w'' [route_Dst v] e)
      | Inr (_, n) \<Rightarrow>
          (case ipam_routes vs of
             Inl e \<Rightarrow> Inl e
           | Inr rs \<Rightarrow> Inr (\<lparr>cr_Dst = n, cr_GW = route_Via v\<rparr> # rs)))"

definition merged_IPAM :: "string \<Rightarrow> IPAMConfig \<Rightarrow> FlatNetworkIP \<Rightarrow> FlatNetworkSubnet \<Rightarrow> error + IPAMConfig" where
  "merged_IPAM ifName conf flatNetworkIP subnet =
     (let address = Addr (ip_Status flatNetworkIP) in
      case ParseCIDR (CIDR (sn_Spec subnet)) of
        Inl e \<Rightarrow> Inl (Wrapf ''failed to parse subnet CIDR: %w'' [] e)
      | Inr (_, n) \<Rightarrow>
          (let ones = Mask_Size (NetMask n); routes = Routes (sn_Spec subnet); gateway = Gateway (sn_Spec subnet);
               enable6to4 = (mget (Annotations (ip_meta flatNetworkIP)) AnnotationsIPv6to4 \<noteq> []);
               ip6to4CIDR = (if enable6to4 then get6to4CIDR address ones else []);
               conf = conf\<lparr>ipam_Addresses :=
                 \<lparr>adr_Address = IP_String address @ ''/'' @ show_nat ones, adr_Gateway = gateway\<rparr> #
                 (if ip6to4CIDR \<noteq> [] then [\<lparr>adr_Address = ip6to4CIDR, adr_Gateway = []\<rparr>] else [])\<rparr>
           in if routes \<noteq> [] \<and> ifName \<noteq> PodIfaceEth0 then
                (case ipam_routes routes of
                   Inl e \<Rightarrow> Inl e
                 | Inr rs \<Rightarrow> Inr (conf\<lparr>ipam_Routes := rs\<rparr>))
              else Inr conf))"

definition mergeIPAMConfig ::
    "(NetConf \<Rightarrow> error + string) \<Rightarrow> string \<Rightarrow> NetConf \<Rightarrow> FlatNetworkIP \<Rightarrow> FlatNetworkSubnet \<Rightarrow> error + string" where
  "mergeIPAMConfig marshal ifName netConf flatNetworkIP subnet =
     (case merged_IPAM ifName (IPAM netConf) flatNetworkIP subnet of
        Inl e \<Rightarrow> Inl e
      | Inr conf \<Rightarrow> marshal (netConf\<lparr>IPAM := conf\<rparr>))"

text \<open>The parsed result is of a type of another package.\<close>

definition parsePrevResult ::
    "(strmap \<Rightarrow> error + string) \<Rightarrow> (string \<Rightarrow> string \<Rightarrow> error + 'r) \<Rightarrow> NetConf \<Rightarrow> error + NetConf \<times> 'r option" where
  "parsePrevResult marshal create conf =
     (case RawPrevResult conf of
        None \<Rightarrow> Inr (conf, None)
      | Some raw \<Rightarrow>
          (let raw = (if mget raw ''CNIVersion'' = [] then AList.update ''CNIVersion'' (CNIVersion conf) raw else raw) in
           case marshal raw of
             Inl e \<Rightarrow> Inl (Wrapf ''could not serialize prevResult: %w'' [] e)
           | Inr resultBytes \<Rightarrow>
               (case create (CNIVersion conf) resultBytes of
                  Inl e \<Rightarrow> Inl (Wrapf ''could not parse prevResult: %w'' [] e)
                | Inr r \<Rightarrow> Inr (conf\<lparr>RawPrevResult := None\<rparr>, Some r))))"

subsection \<open>The client: kubeclient.go\<close>

abbreviation defaultKubeConfig :: string where "defaultKubeConfig \<equiv> ''/etc/cni/net.d/multus.d/multus.kubeconfig''"

definition detectKubeConfig :: "string \<Rightarrow> string" where
  "detectKubeConfig cniPath =
     (if strings_Contains cniPath ''k3s'' then ''/var/lib/rancher/k3s/agent'' @ defaultKubeConfig else defaultKubeConfig)"

subsection \<open>Checking an interface: check.go\<close>

text \<open>The modes of the link that the kernel has, for a link of the kind that the subnet asks for.\<close>

definition actual_modes :: "Link \<Rightarrow> string \<Rightarrow> error + string \<times> string" where
  "actual_modes link flatMode =
     (if flatMode = FlatModeMacvlan then
        (case link_kind link of
           Macvlan m \<Rightarrow>
             (case macvlan_ModeToString m of
                Inl e \<Rightarrow> Inl e
              | Inr actualMode \<Rightarrow> Inr (actualMode, []))
         | _ \<Rightarrow> Inl (Errorf ''error: Container interface %s not of type macvlan'' [attr_Name link]))
      else if flatMode = FlatModeIPvlan then
        (case link_kind link of
           IPVlan m f \<Rightarrow>
             (case ipvlan_ModeToString m of
                Inl e \<Rightarrow> Inl e
              | Inr actualMode \<Rightarrow>
                  (case ipvlan_FlagToString f of
                     Inl e \<Rightarrow> Inl e
                   | Inr actualFlag \<Rightarrow> Inr (actualMode, actualFlag)))
         | _ \<Rightarrow> Inl (Errorf ''error: Container interface %s not of type IPvlan'' [attr_Name link]))
      else Inr ([], []))"

definition compare_modes :: "Interface \<Rightarrow> Link \<Rightarrow> string \<Rightarrow> string \<Rightarrow> string \<Rightarrow> error option" where
  "compare_modes intf link flatMode expectedMode0 expectedFlag0 =
     (let expectedMode = (if expectedMode0 = [] then ''bridge'' else expectedMode0);
          expectedFlag = (if expectedFlag0 = [] then ''bridge'' else expectedFlag0) in
      case actual_modes link flatMode of
        Inl e \<Rightarrow> Some e
      | Inr (actualMode, actualFlag) \<Rightarrow>
          if expectedMode \<noteq> actualMode then
            Some (Errorf ''container [%v] mode %s does not match expected value: %v'' [flatMode, actualMode, expectedMode])
          else if expectedFlag \<noteq> actualFlag then
            Some (Errorf ''container [%v] mode [%v] flag %s does not match expected value: %v''
                    [flatMode, actualMode, actualFlag, expectedFlag])
          else if if_Mac intf \<noteq> [] \<and> if_Mac intf \<noteq> HardwareAddr_String (attr_HardwareAddr link) then
            Some (Errorf ''interface %s Mac %s doesn't match container Mac: %s''
                    [if_Name intf, if_Mac intf, HardwareAddr_String (attr_HardwareAddr link)])
          else None)"

definition validateCniContainerInterface ::
    "'w netlink \<Rightarrow> Interface \<Rightarrow> string \<Rightarrow> string \<Rightarrow> string \<Rightarrow> ('w, error option) state" where
  "validateCniContainerInterface k intf flatMode expectedMode expectedFlag =
     (if if_Name intf = [] then ret (Some (Errorf ''container interface name missing in prevResult: %v'' [if_Name intf]))
      else
        do {
          r \<leftarrow> LinkByName k (if_Name intf);
          case r of
            Inl _ \<Rightarrow> ret (Some (Errorf ''container Interface name in prevResult: %s not found'' [if_Name intf]))
          | Inr link \<Rightarrow>
              if if_Sandbox intf = [] then
                ret (Some (Errorf ''error: Container interface %s should not be in host namespace'' [attr_Name link]))
              else ret (compare_modes intf link flatMode expectedMode expectedFlag)
        })"

subsection \<open>Properties\<close>

text \<open>
  C40. The check of a macvlan interface fails for every interface: the flag that is expected is never empty and
  the flag that is found always is. So a pod of a macvlan subnet never passes the command \<open>CHECK\<close>.
\<close>

theorem macvlan_check_always_fails:
  "fst (run_state (validateCniContainerInterface k intf FlatModeMacvlan mode flag) w) \<noteq> None"
  by (auto simp: validateCniContainerInterface_def compare_modes_def actual_modes_def run_simps Let_def
      split: sum.splits prod.splits link_kind.splits)

text \<open>For ipvlan the check is right, except that an empty mode, which stands for \<open>l2\<close>, is refused.\<close>

lemma ipvlan_check_spec:
  assumes "link_kind link = IPVlan m f" and "ipvlan_ModeFromString mode = Inr m" and "ipvlan_FlagFromString flag = Inr f"
  shows "compare_modes intf link FlatModeIPvlan mode flag =
    (if mode = [] then Some (Errorf ''container [%v] mode %s does not match expected value: %v'' [FlatModeIPvlan, ''l2'', ''bridge''])
     else if if_Mac intf \<noteq> [] \<and> if_Mac intf \<noteq> HardwareAddr_String (attr_HardwareAddr link) then
       Some (Errorf ''interface %s Mac %s doesn't match container Mac: %s''
         [if_Name intf, if_Mac intf, HardwareAddr_String (attr_HardwareAddr link)])
     else None)"
  using assms by (auto simp: compare_modes_def actual_modes_def ipvlan_ModeFromString_def ipvlan_FlagFromString_def Let_def split: if_splits)

subsection \<open>The 6to4 address\<close>

lemma is_hex_digit: "d < 16 \<Longrightarrow> is_hex (hex_digit d)"
  by (simp add: is_hex_def hex_val_digit)

lemma byte_high_digit: "unat (b :: byte) div 16 < 16"
  by (rule less_mult_imp_div_less) (use unat_byte_less [of b] in simp)

lemma show_byte_hex_is_hex: "list_all is_hex (show_byte_hex b)"
  by (simp add: show_byte_hex_def is_hex_digit byte_high_digit)

lemma hex_num_bytes: "hex_num (show_byte_hex a @ show_byte_hex b) = unat a * 256 + unat b"
  by (simp add: hex_num_def show_byte_hex_def hex_val_digit byte_high_digit algebra_simps)

text \<open>One group of a printed address.\<close>

lemma parse6_group:
  assumes "list_all is_hex g" and "g \<noteq> []" and "length g \<le> 4" and "s \<noteq> []" and "hd s \<noteq> CHR '':''"
  shows "parse6 (Suc n) (g @ CHR '':'' # s) ip e = parse6 n s (ip @ [of_nat (hex_num g div 256), of_nat (hex_num g)]) e"
proof -
  have "\<not> is_hex (CHR '':'')" by code_simp
  then have "takeWhile is_hex (g @ CHR '':'' # s) = g" "dropWhile is_hex (g @ CHR '':'' # s) = CHR '':'' # s"
    using assms(1) by (simp_all add: takeWhile_append2 dropWhile_append2 list_all_iff)
  then show ?thesis using assms by (simp add: Let_def)
qed


lemma zero_group: "list_all is_hex ''0''" "hex_num ''0'' = 0"
  by code_simp+

lemma parse6_zero: "s \<noteq> [] \<Longrightarrow> hd s \<noteq> CHR '':'' \<Longrightarrow> parse6 (Suc n) (CHR ''0'' # CHR '':'' # s) ip e = parse6 n s (ip @ [0, 0]) e"
  using parse6_group [OF zero_group(1), of s n ip e] by (simp add: zero_group)

lemma parse6_tail: "parse6 5 ''0:0:0:0:0'' ip None = Some (ip @ [0, 0, 0, 0, 0, 0, 0, 0, 0, 0], None)"
proof -
  have "parse6 (Suc 0) ''0'' ip' None = Some (ip' @ [0, 0], None)" for ip'
    by (simp add: is_hex_def hex_val_def hex_num_def Let_def)
  then show ?thesis by (simp add: parse6_zero eval_nat_numeral del: parse6.simps)
qed

lemma of_nat_byte_pair:
  "of_nat ((unat (a :: byte) * 256 + unat (b :: byte)) div 256) = a" "of_nat (unat a * 256 + unat b) = b"
  by (simp_all add: word_eq_iff_unsigned [where 'a = nat] unsigned_of_nat take_bit_eq_mod del: of_nat_add of_nat_mult)

lemma hex_not_sep: "is_hex c \<Longrightarrow> c \<noteq> CHR ''/'' \<and> c \<noteq> CHR '':'' \<and> c \<noteq> CHR ''.'' \<and> c \<noteq> CHR ''%''"
  by (auto simp: is_hex_def hex_val_def)

lemma partial_bytes:
  "n < 8 \<Longrightarrow> NOT (drop_bit n 255 :: byte) \<noteq> 255"
  "n < 8 \<Longrightarrow> m < 8 \<Longrightarrow> NOT (drop_bit n 255 :: byte) = NOT (drop_bit m 255) \<longleftrightarrow> n = m"
proof -
  have "list_all (\<lambda>n. NOT (drop_bit n 255 :: byte) \<noteq> 255 \<and>
      list_all (\<lambda>m. (NOT (drop_bit n 255 :: byte) = NOT (drop_bit m 255)) = (n = m)) [0..<8]) [0..<8]" by code_simp
  then show "n < 8 \<Longrightarrow> NOT (drop_bit n 255 :: byte) \<noteq> 255"
    "n < 8 \<Longrightarrow> m < 8 \<Longrightarrow> NOT (drop_bit n 255 :: byte) = NOT (drop_bit m 255) \<longleftrightarrow> n = m"
    unfolding list_all_iff by auto
qed

lemma mask_bytes_inj: "mask_bytes n l = mask_bytes m l \<Longrightarrow> n \<le> 8 * l \<Longrightarrow> m \<le> 8 * l \<Longrightarrow> n = m"
proof (induction l arbitrary: n m)
  case (Suc l)
  consider "8 \<le> n" "8 \<le> m" | "n < 8" "m < 8" | "n < 8" "8 \<le> m" | "8 \<le> n" "m < 8" by linarith
  then show ?case
  proof cases
    case 1
    then have "n - 8 = m - 8" using Suc.IH [of "n - 8" "m - 8"] Suc.prems by simp
    then show ?thesis using 1 by linarith
  next
    case 2
    then show ?thesis using Suc.prems(1) partial_bytes(2) [of n m] by simp
  next
    case 3
    then show ?thesis using Suc.prems(1) partial_bytes(1) [of n] by simp
  next
    case 4
    then show ?thesis using Suc.prems(1) partial_bytes(1) [of m] by simp
  qed
qed simp

text \<open>The length of a mask made by \<open>CIDRMask\<close> is read back.\<close>

lemma mask_ones_mask_bytes: "m \<le> 8 * l \<Longrightarrow> mask_ones (mask_bytes m l) = Some m"
proof -
  assume m: "m \<le> 8 * l"
  have "mask_bytes j l \<noteq> mask_bytes m l" if "j < m" for j
    using mask_bytes_inj [of j l m] that m by linarith
  then show ?thesis unfolding mask_ones_def find_Some_iff using m
    by (intro exI [of _ m]) (auto simp: nth_append simp del: upt_Suc)
qed

lemma prefix_sizes:
  "m \<in> set [17..<49] \<Longrightarrow> dtoi (show_nat m) 0 = Some m \<and> show_nat m \<noteq> [] \<and> mask_ones (CIDRMask m 128) = Some m"
proof -
  have "list_all (\<lambda>m. dtoi (show_nat m) 0 = Some m \<and> show_nat m \<noteq> []) [17..<49]" by code_simp
  then have digits: "\<forall>m \<in> set [17..<49]. dtoi (show_nat m) 0 = Some m \<and> show_nat m \<noteq> []" unfolding list_all_iff .
  assume m: "m \<in> set [17..<49]"
  then have "m \<le> 128" unfolding set_upt by simp
  then have "mask_ones (CIDRMask m 128) = Some m" using mask_ones_mask_bytes [of m 16] by simp
  then show ?thesis using digits m by blast
qed

lemma ParseAddr_6to4:
  assumes "list_all is_hex g" "length g = 4" "list_all is_hex h" "length h = 4"
    and "hex_num g = unat a * 256 + unat b" "hex_num h = unat c * 256 + unat d"
  shows "ParseAddr (''2002:'' @ g @ '':'' @ h @ '':0:0:0:0:0'') =
    Some (True, [0x20, 0x02, a, b, c, d, 0, 0, 0, 0, 0, 0, 0, 0, 0, 0])"
proof -
  let ?t = "h @ '':0:0:0:0:0''" and ?s = "''2002:'' @ g @ '':'' @ h @ '':0:0:0:0:0''"
  have ne: "g \<noteq> []" "h \<noteq> []" using assms by auto
  then have hd: "hd (g @ xs) \<noteq> CHR '':''" "hd (h @ xs) \<noteq> CHR '':''" for xs
    using assms(1,3) hex_not_sep by (cases g; cases h; auto)+
  have pct: "CHR ''%'' \<notin> set ?s" using assms(1,3) hex_not_sep unfolding list_all_iff by auto
  have y: "list_all is_hex ''2002''" "hex_num ''2002'' = 8194" "(8194 :: byte) = 2" by code_simp+
  have "parse6 8 ?s [] None = parse6 7 (g @ '':'' @ ?t) [0x20, 0x02] None"
    using parse6_group [OF y(1), of "g @ '':'' @ ?t" 7 "[]" None] hd(1) ne y(2,3) by (simp del: parse6.simps)
  also have "\<dots> = parse6 6 ?t [0x20, 0x02, a, b] None"
    using parse6_group [OF assms(1) ne(1), of ?t 6 "[0x20, 0x02]" None] hd(2) ne assms(2,5)
    by (simp add: of_nat_byte_pair del: of_nat_add of_nat_mult parse6.simps)
  also have "\<dots> = parse6 5 ''0:0:0:0:0'' [0x20, 0x02, a, b, c, d] None"
    using parse6_group [OF assms(3) ne(2), of "''0:0:0:0:0''" 5 "[0x20, 0x02, a, b]" None] assms(4,6)
    by (simp add: of_nat_byte_pair del: of_nat_add of_nat_mult parse6.simps)
  finally have "parse6 8 ?s [] None = Some ([0x20, 0x02, a, b, c, d, 0, 0, 0, 0, 0, 0, 0, 0, 0, 0], None)"
    by (simp add: parse6_tail del: parse6.simps)
  then have "parseIPv6 ?s = Some [0x20, 0x02, a, b, c, d, 0, 0, 0, 0, 0, 0, 0, 0, 0, 0]"
    by (simp add: parseIPv6_def expand6_def del: parse6.simps)
  then show ?thesis using pct by (simp add: ParseAddr_def)
qed

text \<open>
  The 6to4 address is well formed: for an IPv4 address and a prefix of 1 to 32 bits, the text that the plugin hands to the IPAM
  plugin parses to the address \<open>2002:aabb:ccdd::\<close> made of the four bytes, with a prefix that is sixteen bits longer, so
  that the two addresses of the pod have the same number of host bits within their networks.
\<close>

theorem get6to4CIDR_parses:
  assumes "To4 ip = [a, b, c, d]" and "1 \<le> n" and "n \<le> 32"
  shows "\<exists>network. ParseCIDR (get6to4CIDR ip n) = Inr ([0x20, 0x02, a, b, c, d, 0, 0, 0, 0, 0, 0, 0, 0, 0, 0], network) \<and>
    Mask_Size (NetMask network) = n + 16"
proof -
  let ?g = "show_byte_hex a @ show_byte_hex b" and ?h = "show_byte_hex c @ show_byte_hex d"
  let ?a = "''2002:'' @ ?g @ '':'' @ ?h @ '':0:0:0:0:0''"
  have g: "list_all is_hex ?g" "list_all is_hex ?h" "length ?g = 4" "length ?h = 4"
    using show_byte_hex_is_hex by (simp_all add: show_byte_hex_def)
  have s: "get6to4CIDR ip n = ?a @ CHR ''/'' # show_nat (n + 16)"
    using assms by (auto simp: get6to4CIDR_def Let_def To4_def add.commute)
  have "c' \<noteq> CHR ''/''" if "c' \<in> set ?a" for c'
    using that g(1,2) hex_not_sep unfolding list_all_iff by auto
  then have split: "takeWhile (\<lambda>c. c \<noteq> CHR ''/'') (?a @ CHR ''/'' # show_nat (n + 16)) = ?a"
      "dropWhile (\<lambda>c. c \<noteq> CHR ''/'') (?a @ CHR ''/'' # show_nat (n + 16)) = CHR ''/'' # show_nat (n + 16)"
    by (subst takeWhile_append2 dropWhile_append2; simp)+
  have "n + 16 \<in> set [17..<49]" using assms unfolding set_upt by simp
  note m = prefix_sizes [OF this]
  have "ParseCIDR (get6to4CIDR ip n) = Inr ([0x20, 0x02, a, b, c, d, 0, 0, 0, 0, 0, 0, 0, 0, 0, 0],
      \<lparr>NetIP = IP_Mask [0x20, 0x02, a, b, c, d, 0, 0, 0, 0, 0, 0, 0, 0, 0, 0] (CIDRMask (n + 16) 128), NetMask = CIDRMask (n + 16) 128\<rparr>)"
    unfolding s ParseCIDR_def split ParseAddr_6to4 [OF g(1,3,2,4) hex_num_bytes hex_num_bytes] Let_def
    using m assms(3) by simp
  then show ?thesis using m by (simp add: Mask_Size_def)
qed

theorem get6to4CIDR_parses_witness:
  "get6to4CIDR [192, 168, 1, 2] 24 = ''2002:c0a8:0102:0:0:0:0:0/40'' \<and>
   (\<exists>network. ParseCIDR (get6to4CIDR [192, 168, 1, 2] 24) = Inr ([0x20, 0x02, 192, 168, 1, 2, 0, 0, 0, 0, 0, 0, 0, 0, 0, 0], network) \<and>
      Mask_Size (NetMask network) = 40)"
proof -
  have "get6to4CIDR [192, 168, 1, 2] 24 = ''2002:c0a8:0102:0:0:0:0:0/40''" by code_simp
  moreover have "To4 [192, 168, 1, 2] = [192, 168, 1, 2]" by code_simp
  ultimately show ?thesis using get6to4CIDR_parses [of "[192, 168, 1, 2]" 192 168 1 2 24] by simp
qed

end
