(* ===== verification/CniCommands.thy ===== *)
theory CniCommands
  imports CniConf
begin

text \<open>
  The commands of the network plugin: \<open>pkg/cni/commands\<close>. \<open>Add\<close> waits for the address of the pod, makes the interface, runs the IPAM
  plugin, sets the routes and marks the IP as active; its deferred functions undo the work when the variable \<open>err\<close> is set. Go's
  deferred functions read the variable of the function and not the returned error, and an \<open>if err := \<dots>\<close> declares another
  variable: the model keeps both, the returned error and the variable. The record \<open>plugin\<close> has the calls into other
  packages: the JSON and CNI types, the IPAM plugins, the API client, the retries (without a backoff, the default one). On an error the API client returns an object as
  well, whose address is \<open>failed_Addr\<close>. Where an error text prints a whole structure, the text of the structure is left out.
\<close>

record CmdArgs =
  Netns :: string
  IfName :: string
  cmd_Args :: string
  cmd_Path :: string
  StdinData :: string

record IPConfig =
  ipc_Interface :: "int option"
  ipc_Address :: IPNet

record Result =
  res_Interfaces :: "Interface list"
  res_IPs :: "IPConfig list"
  res_Routes :: "cni_Route list"
  res_DNS :: string

text \<open>The factor and the jitter of a backoff are in tenths.\<close>

record wait_Backoff =
  Steps :: nat
  Duration :: int
  Factor :: int
  Jitter :: int

record 'w plugin =
  logger_Setup :: "('w, error option) state"
  unmarshal_NetConf :: "string \<Rightarrow> error + NetConf"
  marshal_NetConf :: "NetConf \<Rightarrow> error + string"
  marshal_raw :: "strmap \<Rightarrow> error + string"
  create_Result :: "string \<Rightarrow> string \<Rightarrow> error + string"
  NewResultFromResult :: "string \<Rightarrow> error + Result"
  LoadArgs :: "string \<Rightarrow> error + K8sArgs"
  BuildConfigFromFlags :: "string \<Rightarrow> ('w, error option) state"
  kubernetes_NewForConfig :: "('w, error option) state"
  clientset_NewForConfig :: "('w, error option) state"
  client_GetIP :: "string \<Rightarrow> string \<Rightarrow> ('w, error + FlatNetworkIP) state"
  client_GetSubnet :: "string \<Rightarrow> ('w, error + FlatNetworkSubnet) state"
  client_UpdateIPStatus :: "string \<Rightarrow> FlatNetworkIP \<Rightarrow> ('w, error + FlatNetworkIP) state"
  failed_Addr :: net_IP
  retry_OnError :: "wait_Backoff option \<Rightarrow> (error \<Rightarrow> bool) \<Rightarrow> ('w, error + FlatNetworkIP) state \<Rightarrow> ('w, error + FlatNetworkIP) state"
  retry_OnConflict :: "('w, error + FlatNetworkIP) state \<Rightarrow> ('w, error + FlatNetworkIP) state"
  GetNS :: "string \<Rightarrow> ('w, error + netns) state"
  WithNetNSPath :: "string \<Rightarrow> ('w, error + IPNet list) state \<Rightarrow> ('w, error + IPNet list) state"
  ExecAdd :: "string \<Rightarrow> string \<Rightarrow> ('w, error + string) state"
  ExecDel :: "string \<Rightarrow> string \<Rightarrow> ('w, error option) state"
  ExecCheck :: "string \<Rightarrow> string \<Rightarrow> ('w, error option) state"
  Sysctl :: "string \<Rightarrow> string \<Rightarrow> ('w, unit) state"
  ConfigureIface :: "string \<Rightarrow> Result \<Rightarrow> ('w, error option) state"
  InterfaceByName :: "string \<Rightarrow> ('w, error + Link) state"
  GratuitousArpOverIface :: "net_IP \<Rightarrow> Link \<Rightarrow> ('w, error option) state"
  PrintResult :: "Result \<Rightarrow> string \<Rightarrow> ('w, error option) state"
  ValidateExpectedInterfaceIPs :: "string \<Rightarrow> IPConfig list \<Rightarrow> ('w, error option) state"
  ValidateExpectedRoute :: "cni_Route list \<Rightarrow> ('w, error option) state"
  is_LinkNotFoundError :: "error \<Rightarrow> bool"

definition getPodRetry :: wait_Backoff where
  "getPodRetry = \<lparr>Steps = 10, Duration = 3 * time_Second, Factor = 10, Jitter = 1\<rparr>"

abbreviation errIPNotAllocated :: error where "errIPNotAllocated \<equiv> Errorf ''pod IP not allocated'' []"

abbreviation arpNotifyPolicy :: string where "arpNotifyPolicy \<equiv> ''arp_notify''"
abbreviation arpingPolicy :: string where "arpingPolicy \<equiv> ''arping''"

definition shouldRetryOnFlatNetworkIP :: "error \<Rightarrow> bool" where
  "shouldRetryOnFlatNetworkIP err =
     (if IsNotFound err then True
      else if root_error err = errIPNotAllocated then True
      else False)"

definition GetK8sClient :: "'w plugin \<Rightarrow> 'w netlink \<Rightarrow> string \<Rightarrow> ('w, error option) state" where
  "GetK8sClient p k cniPath =
     do {
       x \<leftarrow> BuildConfigFromFlags p (detectKubeConfig cniPath);
       case x of
         Some e \<Rightarrow> ret (Some (Errorf ''GetK8sClient: failed to get context for the kubeconfig %v, refer Multus README.md for the usage guide: %v''
                     [defaultKubeConfig, nl_err_text k e]))
       | None \<Rightarrow>
           do {
             x \<leftarrow> kubernetes_NewForConfig p;
             case x of
               Some e \<Rightarrow> ret (Some e)
             | None \<Rightarrow> clientset_NewForConfig p
           }
     }"

subsection \<open>Add\<close>

definition get_ip_closure :: "'w plugin \<Rightarrow> string \<Rightarrow> string \<Rightarrow> ('w, error + FlatNetworkIP) state" where
  "get_ip_closure p podNamespace podName =
     do {
       r \<leftarrow> client_GetIP p podNamespace podName;
       case r of
         Inl e \<Rightarrow> ret (Inl e)
       | Inr flatNetworkIP \<Rightarrow>
           if Addr (ip_Status flatNetworkIP) = [] then ret (Inl errIPNotAllocated) else ret (Inr flatNetworkIP)
     }"

definition create_iface ::
    "'w netlink \<Rightarrow> NetConf \<Rightarrow> FlatNetworkSubnet \<Rightarrow> FlatNetworkIP \<Rightarrow> Interface \<Rightarrow> string \<Rightarrow> netns \<Rightarrow> ('w, error + Interface) state" where
  "create_iface k n subnet flatNetworkIP vlanIface ifName netns =
     (let spec = sn_Spec subnet; mtu = fc_MTU (FlatNetworkConf n); mac = MAC (ip_Status flatNetworkIP) in
      if FlatMode spec = FlatModeMacvlan then macvlan_Create k (Mode spec) (if_Name vlanIface) mtu ifName netns mac
      else if FlatMode spec = FlatModeIPvlan then
        ipvlan_Create k (Mode spec) (IPvlanFlag spec) (if_Name vlanIface) mtu ifName netns mac
      else ret (Inl (Errorf ''invalid flat mode [%v], only [%v, %v] supported'' [FlatMode spec, FlatModeMacvlan, FlatModeIPvlan])))"

text \<open>Errors of a gratuitous ARP are only logged.\<close>

fun announce :: "'w plugin \<Rightarrow> Link \<Rightarrow> IPConfig list \<Rightarrow> ('w, unit) state" where
  "announce p contVeth [] = ret ()"
| "announce p contVeth (ipc # ipcs) =
     (if To4 (NetIP (ipc_Address ipc)) \<noteq> [] then
        do {
          _ \<leftarrow> GratuitousArpOverIface p (NetIP (ipc_Address ipc)) contVeth;
          announce p contVeth ipcs
        }
      else announce p contVeth ipcs)"

definition configure_pod :: "'w plugin \<Rightarrow> 'w netlink \<Rightarrow> NetConf \<Rightarrow> string \<Rightarrow> Result \<Rightarrow> ('w, error option) state" where
  "configure_pod p k n ifName result =
     do {
       _ \<leftarrow> (if ARPPolicy (FlatNetworkConf n) = arpNotifyPolicy
             then Sysctl p (''net/ipv4/conf/'' @ ifName @ ''/arp_notify'') ''1'' else ret ());
       _ \<leftarrow> (if ProxyARP (FlatNetworkConf n)
             then Sysctl p (''net/ipv4/conf/'' @ ifName @ ''/proxy_arp'') ''1'' else ret ());
       x \<leftarrow> ConfigureIface p ifName result;
       case x of
         Some e \<Rightarrow> ret (Some (Errorf ''configure ip failed, error: %v, interface: %s, result: %+v'' [nl_err_text k e, ifName]))
       | None \<Rightarrow>
           if ARPPolicy (FlatNetworkConf n) = arpingPolicy then
             do {
               r \<leftarrow> InterfaceByName p ifName;
               case r of
                 Inl e \<Rightarrow> ret (Some (Errorf ''failed to look up %q: %v'' [ifName, nl_err_text k e]))
               | Inr contVeth \<Rightarrow>
                   do {
                     _ \<leftarrow> announce p contVeth (res_IPs result);
                     ret None
                   }
             }
           else ret None
     }"

fun add_cidr_routes :: "'w netlink \<Rightarrow> netns \<Rightarrow> string list \<Rightarrow> ('w, error option) state" where
  "add_cidr_routes k netns [] = ret None"
| "add_cidr_routes k netns (cidr # cidrs) =
     (if cidr = [] then add_cidr_routes k netns cidrs
      else
        do {
          err \<leftarrow> AddPodKubeCIDRRoutes k netns cidr;
          if err \<noteq> None then ret err else add_cidr_routes k netns cidrs
        })"

text \<open>
  How the part under the deferred functions ends: the returned error, the variable \<open>err\<close>, and the address of the variable
  \<open>flatNetworkIP\<close>. \<open>checked m f addr next\<close> is \<open>err = m; if err != nil { return f(err) }\<close>, followed by \<open>next\<close>.
\<close>

type_synonym ending = "error option \<times> error option \<times> net_IP"

definition checked ::
    "('w, error option) state \<Rightarrow> (error \<Rightarrow> error) \<Rightarrow> net_IP \<Rightarrow> ('w, ending) state \<Rightarrow> ('w, ending) state" where
  "checked m f addr next =
     do {
       err \<leftarrow> m;
       case err of
         Some e \<Rightarrow> ret (Some (f e), err, addr)
       | None \<Rightarrow> next
     }"

definition only_if :: "bool \<Rightarrow> ('w, error option) state \<Rightarrow> ('w, error option) state" where
  "only_if b m = (if b then m else ret None)"

definition activate_closure :: "'w plugin \<Rightarrow> string \<Rightarrow> string \<Rightarrow> Interface \<Rightarrow> ('w, error + FlatNetworkIP) state" where
  "activate_closure p podNamespace podName iface =
     do {
       r \<leftarrow> client_GetIP p podNamespace podName;
       case r of
         Inl e \<Rightarrow> ret (Inl e)
       | Inr flatNetworkIP \<Rightarrow>
           client_UpdateIPStatus p podNamespace (flatNetworkIP\<lparr>ip_Status := (ip_Status flatNetworkIP)
             \<lparr>MAC := if_Mac iface, ip_Phase := ''Active''\<rparr>\<rparr>)
     }"

text \<open>The end of the command: the status of the IP, then the result.\<close>

definition finish ::
    "'w plugin \<Rightarrow> 'w netlink \<Rightarrow> NetConf \<Rightarrow> netns \<Rightarrow> string \<Rightarrow> string \<Rightarrow> Interface \<Rightarrow> Result \<Rightarrow> ('w, ending) state" where
  "finish p k n netns podNamespace podName iface result =
     do {
       r \<leftarrow> retry_OnConflict p (activate_closure p podNamespace podName iface);
       case r of
         Inl e \<Rightarrow>
           do {
             _ \<leftarrow> netns_Do k netns (DelLinkByName k (if_Name iface));
             ret (Some (Wrapf ''failed to update flatNetworkIP status: %w'' [] e), Some e, failed_Addr p)
           }
       | Inr flatNetworkIP \<Rightarrow>
           (let addr = Addr (ip_Status flatNetworkIP) in
            checked (PrintResult p result (CNIVersion n)) (Wrapf ''failed to print result: %w'' []) addr
              (ret (None, None, addr)))
     }"

definition setup_routes ::
    "'w plugin \<Rightarrow> 'w netlink \<Rightarrow> string \<Rightarrow> NetConf \<Rightarrow> FlatNetworkSubnet \<Rightarrow> net_IP \<Rightarrow> Interface \<Rightarrow> netns \<Rightarrow>
     ('w, ending) state \<Rightarrow> ('w, ending) state" where
  "setup_routes p k ifName n subnet addr vlanIface netns next =
     (let s = Settings (sn_Spec subnet); c = FlatNetworkConf n in
      checked (only_if (AddClusterCIDR s) (add_cidr_routes k netns (strings_Split (ClusterCIDR c) (CHR '',''))))
        (Wrapf ''failed to add ClusterCIDR route: %w'' []) addr
      (checked (only_if (AddServiceCIDR s) (add_cidr_routes k netns (strings_Split (ServiceCIDR c) (CHR '',''))))
        (Wrapf ''failed to add ServiceCIDR route: %w'' []) addr
      (checked (only_if (AddNodeCIDR s) (AddPodNodeCIDRRoutes k netns)) (Wrapf ''route.AddPodNodeCIDRRoutes: %w'' []) addr
      (checked (only_if (AddPodIPToHost s) (AddFlatNetworkRouteToHost k (Some netns) addr (if_Name vlanIface)))
        (Wrapf ''route.AddFlatNetworkRouteToHost: %w'' []) addr
      (checked (only_if (FlatNetworkDefaultGateway s \<and> ifName \<noteq> PodIfaceEth0)
          (UpdatePodDefaultGateway k netns ifName addr (sn_Gateway (sn_Status subnet))))
        (Wrapf ''route.UpdatePodDefaultGateway: %w'' []) addr
      (do {
         x \<leftarrow> AddPodFlatNetworkCustomRoutes k (Some netns) (Routes (sn_Spec subnet));
         case x of
           Some e \<Rightarrow> ret (Some (Wrapf ''failed to add custom routes: %w'' [] e), None, addr)
         | None \<Rightarrow> next
       }))))))"

definition after_ipam ::
    "'w plugin \<Rightarrow> 'w netlink \<Rightarrow> string \<Rightarrow> NetConf \<Rightarrow> FlatNetworkSubnet \<Rightarrow> FlatNetworkIP \<Rightarrow> Interface \<Rightarrow> Interface \<Rightarrow> netns \<Rightarrow>
     string \<Rightarrow> string \<Rightarrow> string \<Rightarrow> ('w, ending) state" where
  "after_ipam p k ifName n subnet flatNetworkIP vlanIface iface netns podNamespace podName r =
     (let addr = Addr (ip_Status flatNetworkIP) in
      case NewResultFromResult p r of
        Inl e \<Rightarrow> ret (Some (Wrapf ''failed to convert IPAM result from [%v]: %w'' [r] e), Some e, addr)
      | Inr result \<Rightarrow>
          if res_IPs result = [] then ret (Some (Errorf ''IPAM plugin returned missing IP config'' []), None, addr)
          else
            (let result = result\<lparr>res_Interfaces := [iface], res_IPs := map (\<lambda>ipc. ipc\<lparr>ipc_Interface := Some 0\<rparr>) (res_IPs result)\<rparr> in
             checked (netns_Do k netns (configure_pod p k n ifName result)) (Wrapf ''netns do failed, error: %w'' []) addr
               (setup_routes p k ifName n subnet addr vlanIface netns
                 (finish p k n netns podNamespace podName iface (result\<lparr>res_DNS := nc_DNS n\<rparr>)))))"

text \<open>
  The deferred function of the IPAM plugin assigns to \<open>err\<close>; the one of the link runs after it and reads the new value.
\<close>

definition ipam_cleanup ::
    "'w plugin \<Rightarrow> 'w netlink \<Rightarrow> NetConf \<Rightarrow> string \<Rightarrow> FlatNetworkSubnet \<Rightarrow> net_IP \<Rightarrow> error option \<Rightarrow> ('w, error option) state" where
  "ipam_cleanup p k n ipamConf subnet addr err =
     (if err = None then ret None
      else
        do {
          err \<leftarrow> (if AddPodIPToHost (Settings (sn_Spec subnet)) then DelFlatNetworkRouteFromHost k addr else ret err);
          _ \<leftarrow> ExecDel p (ipam_Type (IPAM n)) ipamConf;
          ret err
        })"

definition link_cleanup :: "'w netlink \<Rightarrow> netns \<Rightarrow> string \<Rightarrow> error option \<Rightarrow> ('w, unit) state" where
  "link_cleanup k netns ifName err =
     (if err = None then ret ()
      else
        do {
          _ \<leftarrow> netns_Do k netns (DelLinkByName k ifName);
          ret ()
        })"

text \<open>The command from the creation of the interface on.\<close>

definition with_iface ::
    "'w plugin \<Rightarrow> 'w netlink \<Rightarrow> string \<Rightarrow> NetConf \<Rightarrow> FlatNetworkSubnet \<Rightarrow> FlatNetworkIP \<Rightarrow> Interface \<Rightarrow> Interface \<Rightarrow> netns \<Rightarrow>
     string \<Rightarrow> string \<Rightarrow> ('w, error option) state" where
  "with_iface p k ifName n subnet flatNetworkIP vlanIface iface netns podNamespace podName =
     (case mergeIPAMConfig (marshal_NetConf p) ifName n flatNetworkIP subnet of
        Inl e \<Rightarrow>
          do {
            _ \<leftarrow> link_cleanup k netns ifName (Some e);
            ret (Some (Wrapf ''failed to merge IPAM config on netConf [%v]: %w'' [] e))
          }
      | Inr ipamConf \<Rightarrow>
          do {
            r \<leftarrow> ExecAdd p (ipam_Type (IPAM n)) ipamConf;
            case r of
              Inl e \<Rightarrow>
                do {
                  _ \<leftarrow> link_cleanup k netns ifName (Some e);
                  ret (Some (Wrapf ''failed to execute ipam add, type: [%v] conf [%v]: %w'' [ipam_Type (IPAM n), ipamConf] e))
                }
            | Inr r \<Rightarrow>
                do {
                  (returned, err, addr) \<leftarrow> after_ipam p k ifName n subnet flatNetworkIP vlanIface iface netns podNamespace podName r;
                  err \<leftarrow> ipam_cleanup p k n ipamConf subnet addr err;
                  _ \<leftarrow> link_cleanup k netns ifName err;
                  ret returned
                }
          })"

definition attach ::
    "'w plugin \<Rightarrow> 'w netlink \<Rightarrow> CmdArgs \<Rightarrow> NetConf \<Rightarrow> FlatNetworkIP \<Rightarrow> FlatNetworkSubnet \<Rightarrow> string \<Rightarrow> string \<Rightarrow> ('w, error option) state" where
  "attach p k args n flatNetworkIP subnet podNamespace podName =
     (let spec = sn_Spec subnet in
      do {
        x \<leftarrow> only_if (FlatMode spec = FlatModeMacvlan) (SetPromiscOn k (Master spec));
        case x of
          Some e \<Rightarrow> ret (Some (Wrapf ''failed to set promisc on %v: %w'' [Master spec] e))
        | None \<Rightarrow>
            do {
              v \<leftarrow> GetVlanIfaceOnHost k (Master spec) 0 (VLAN spec);
              case v of
                Inl e \<Rightarrow> ret (Some (Wrapf ''failed to create host vlan of subnet [%v] on iface [%s.%d]: %w''
                           [sn_Name subnet, Master spec, show_int (VLAN spec)] e))
              | Inr vlanIface \<Rightarrow>
                  do {
                    g \<leftarrow> GetNS p (Netns args);
                    case g of
                      Inl e \<Rightarrow> ret (Some (Wrapf ''failed to open netns %q: %w'' [Netns args] e))
                    | Inr netns \<Rightarrow>
                        do {
                          i \<leftarrow> create_iface k n subnet flatNetworkIP vlanIface (IfName args) netns;
                          case i of
                            Inl e \<Rightarrow> ret (Some e)
                          | Inr iface \<Rightarrow> with_iface p k (IfName args) n subnet flatNetworkIP vlanIface iface netns podNamespace podName
                        }
                  }
            }
      })"

definition Add :: "'w plugin \<Rightarrow> 'w netlink \<Rightarrow> CmdArgs \<Rightarrow> ('w, error option) state" where
  "Add p k args =
     do {
       x \<leftarrow> logger_Setup p;
       case x of
         Some e \<Rightarrow> ret (Some e)
       | None \<Rightarrow>
           (case loadCNINetConf (unmarshal_NetConf p) (StdinData args) of
              Inl e \<Rightarrow> ret (Some e)
            | Inr n \<Rightarrow>
                (case LoadArgs p (cmd_Args args) of
                   Inl e \<Rightarrow> ret (Some (Wrapf ''failed to load k8s args: %w'' [] e))
                 | Inr k8sArgs \<Rightarrow>
                     do {
                       x \<leftarrow> GetK8sClient p k (cmd_Path args);
                       case x of
                         Some e \<Rightarrow> ret (Some (Wrapf ''failed to get kube client: %w'' [] e))
                       | None \<Rightarrow>
                           (let podName = K8S_POD_NAME k8sArgs; podNamespace = K8S_POD_NAMESPACE k8sArgs in
                            do {
                              r \<leftarrow> retry_OnError p (Some getPodRetry) shouldRetryOnFlatNetworkIP (get_ip_closure p podNamespace podName);
                              case r of
                                Inl e \<Rightarrow> ret (Some (Wrapf ''failed to get FlatNetworkIP [%v/%v]: %w'' [podNamespace, podName] e))
                              | Inr flatNetworkIP \<Rightarrow>
                                  if Addr (ip_Status flatNetworkIP) = [] then ret (Some (Errorf ''flatNetwork IP address not allocated'' []))
                                  else
                                    do {
                                      s \<leftarrow> client_GetSubnet p (Subnet (ip_Spec flatNetworkIP));
                                      case s of
                                        Inl e \<Rightarrow> ret (Some (Wrapf ''failed to get FlatNetworkSubnet: %w'' [] e))
                                      | Inr subnet \<Rightarrow> attach p k args n flatNetworkIP subnet podNamespace podName
                                    }
                            })
                     }))
     }"

subsection \<open>Del\<close>

fun del_host_routes :: "'w netlink \<Rightarrow> IPNet list \<Rightarrow> ('w, error option) state" where
  "del_host_routes k [] = ret None"
| "del_host_routes k (a # as) =
     (if IsLinkLocalUnicast (NetIP a) then del_host_routes k as
      else
        do {
          x \<leftarrow> DelFlatNetworkRouteFromHost k (NetIP a);
          case x of
            Some e \<Rightarrow> ret (Some (Wrapf ''failed to delete route [%v] from host: %w'' [IP_String (NetIP a)] e))
          | None \<Rightarrow> del_host_routes k as
        })"

definition del_link :: "'w plugin \<Rightarrow> 'w netlink \<Rightarrow> string \<Rightarrow> ('w, error + IPNet list) state" where
  "del_link p k ifName =
     do {
       r \<leftarrow> LinkByName k ifName;
       case r of
         Inl e \<Rightarrow>
           if is_LinkNotFoundError p e then ret (Inr [])
           else ret (Inl (Errorf ''failed to lookup %q: %v'' [ifName, nl_err_text k e]))
       | Inr iface \<Rightarrow>
           do {
             a \<leftarrow> AddrList k iface FAMILY_ALL;
             case a of
               Inl e \<Rightarrow> ret (Inl (Wrapf ''failed to list addrs on %q: %w'' [ifName] e))
             | Inr addrs \<Rightarrow>
                 do {
                   x \<leftarrow> LinkDel k iface;
                   case x of
                     Some e \<Rightarrow> ret (Inl (Errorf ''failed to delete %q: %v'' [ifName, nl_err_text k e]))
                   | None \<Rightarrow> ret (Inr addrs)
                 }
           }
     }"

definition Del :: "'w plugin \<Rightarrow> 'w netlink \<Rightarrow> CmdArgs \<Rightarrow> ('w, error option) state" where
  "Del p k args =
     do {
       x \<leftarrow> logger_Setup p;
       case x of
         Some e \<Rightarrow> ret (Some e)
       | None \<Rightarrow>
           (case loadCNINetConf (unmarshal_NetConf p) (StdinData args) of
              Inl e \<Rightarrow> ret (Some e)
            | Inr n \<Rightarrow>
                do {
                  x \<leftarrow> ExecDel p (ipam_Type (IPAM n)) (StdinData args);
                  case x of
                    Some e \<Rightarrow> ret (Some (Wrapf ''failed to execute ipam del: type: [%v], config: [%v]: %w'' [ipam_Type (IPAM n)] e))
                  | None \<Rightarrow>
                      if Netns args = [] then ret None
                      else
                        do {
                          r \<leftarrow> WithNetNSPath p (Netns args) (del_link p k (IfName args));
                          case r of
                            Inl e \<Rightarrow> ret (Some (Wrapf ''ip del link failed, netns: %v, interface: %v: %w'' [Netns args, IfName args] e))
                          | Inr addrs \<Rightarrow> del_host_routes k addrs
                        }
                })
     }"

subsection \<open>Check\<close>

text \<open>The last interface of the result with the name and the namespace; the empty one when there is none.\<close>

fun find_interface :: "CmdArgs \<Rightarrow> Interface \<Rightarrow> Interface list \<Rightarrow> Interface" where
  "find_interface args contMap [] = contMap"
| "find_interface args contMap (intf # intfs) =
     (if IfName args = if_Name intf \<and> Netns args = if_Sandbox intf then find_interface args intf intfs
      else find_interface args contMap intfs)"

definition check_pod :: "'w plugin \<Rightarrow> 'w netlink \<Rightarrow> CmdArgs \<Rightarrow> FlatNetworkSubnet \<Rightarrow> Result \<Rightarrow> Interface \<Rightarrow> ('w, error option) state" where
  "check_pod p k args subnet result contMap =
     do {
       err \<leftarrow> validateCniContainerInterface k contMap (FlatMode (sn_Spec subnet)) (Mode (sn_Spec subnet)) (IPvlanFlag (sn_Spec subnet));
       if err \<noteq> None then ret err
       else
         do {
           err \<leftarrow> ValidateExpectedInterfaceIPs p (IfName args) (res_IPs result);
           if err \<noteq> None then ret err else ValidateExpectedRoute p (res_Routes result)
         }
     }"

definition check_result :: "'w plugin \<Rightarrow> 'w netlink \<Rightarrow> CmdArgs \<Rightarrow> NetConf \<Rightarrow> FlatNetworkSubnet \<Rightarrow> netns \<Rightarrow> ('w, error option) state" where
  "check_result p k args n subnet netns =
     (if RawPrevResult n = None then ret (Some (Errorf ''required prevResult missing'' []))
      else case parsePrevResult (marshal_raw p) (create_Result p) n of
        Inl e \<Rightarrow> ret (Some e)
      | Inr (_, prev) \<Rightarrow>
          (case NewResultFromResult p (case prev of None \<Rightarrow> [] | Some r \<Rightarrow> r) of
             Inl e \<Rightarrow> ret (Some e)
           | Inr result \<Rightarrow>
               (let contMap = find_interface args \<lparr>if_Name = [], if_Mac = [], if_Sandbox = []\<rparr> (res_Interfaces result) in
                if Netns args \<noteq> if_Sandbox contMap then
                  ret (Some (Errorf ''sandbox in prevResult %s doesn't match configured netns: %s'' [if_Sandbox contMap, Netns args]))
                else
                  do {
                    l \<leftarrow> LinkByName k (Master (sn_Spec subnet));
                    case l of
                      Inl e \<Rightarrow> ret (Some (Errorf ''failed to lookup master %q: %v'' [Master (sn_Spec subnet), nl_err_text k e]))
                    | Inr _ \<Rightarrow> netns_Do k netns (check_pod p k args subnet result contMap)
                  })))"

definition Check :: "'w plugin \<Rightarrow> 'w netlink \<Rightarrow> CmdArgs \<Rightarrow> ('w, error option) state" where
  "Check p k args =
     do {
       x \<leftarrow> logger_Setup p;
       case x of
         Some e \<Rightarrow> ret (Some e)
       | None \<Rightarrow>
           (case loadCNINetConf (unmarshal_NetConf p) (StdinData args) of
              Inl e \<Rightarrow> ret (Some e)
            | Inr n \<Rightarrow>
                (case LoadArgs p (cmd_Args args) of
                   Inl e \<Rightarrow> ret (Some (Wrapf ''failed to load k8s args: %w'' [] e))
                 | Inr k8sArgs \<Rightarrow>
                     do {
                       g \<leftarrow> GetNS p (Netns args);
                       case g of
                         Inl e \<Rightarrow> ret (Some (Errorf ''failed to open netns %q: %v'' [Netns args, nl_err_text k e]))
                       | Inr netns \<Rightarrow>
                           do {
                             x \<leftarrow> GetK8sClient p k (cmd_Path args);
                             case x of
                               Some e \<Rightarrow> ret (Some (Wrapf ''failed to get kube client: %w'' [] e))
                             | None \<Rightarrow>
                                 (let podName = K8S_POD_NAME k8sArgs; podNamespace = K8S_POD_NAMESPACE k8sArgs in
                                  do {
                                    r \<leftarrow> retry_OnError p None IsNotFound (client_GetIP p podNamespace podName);
                                    case r of
                                      Inl e \<Rightarrow> ret (Some (Wrapf ''failed to get FlatNetworkIP [%v/%v]: %w'' [podNamespace, podName] e))
                                    | Inr flatNetworkIP \<Rightarrow>
                                        do {
                                          s \<leftarrow> client_GetSubnet p (Subnet (ip_Spec flatNetworkIP));
                                          case s of
                                            Inl e \<Rightarrow> ret (Some (Wrapf ''failed to get FlatNetworkSubnet: %w'' [] e))
                                          | Inr subnet \<Rightarrow>
                                              do {
                                                err \<leftarrow> ExecCheck p (ipam_Type (IPAM n)) (StdinData args);
                                                if err \<noteq> None then ret err else check_result p k args n subnet netns
                                              }
                                        }
                                  })
                           }
                     }))
     }"

end
