(* ===== verification/CniRuns.thy ===== *)
theory CniRuns
  imports CniCommands
begin

text \<open>
  What the command \<open>ADD\<close> of the network plugin has done when it succeeds, what it undoes when it fails, and what it leaves behind. The
  locale \<open>link_table\<close> states what the package \<open>ip\<close> promises of deleting an interface, the locale \<open>link_keeping\<close> which calls leave the
  interfaces of all namespaces alone; both are interpreted by the kernel and the plugin in memory.
\<close>

subsection \<open>When the work is undone\<close>

text \<open>
  The errors that are returned while the variable \<open>err\<close> is nil. With every other returned error the variable \<open>err\<close> is set.
\<close>

definition untracked :: "error \<Rightarrow> bool" where
  "untracked e \<longleftrightarrow> e = Errorf ''IPAM plugin returned missing IP config'' [] \<or> (\<exists>x. e = Wrapf ''failed to add custom routes: %w'' [] x)"

definition tracked :: "('w, ending) state \<Rightarrow> bool" where
  "tracked m \<longleftrightarrow> (\<forall>w e err a w'. run_state m w = ((Some e, err, a), w') \<longrightarrow> \<not> untracked e \<longrightarrow> err \<noteq> None)"

lemma tracked_ret [simp]: "tracked (ret (x, err, a)) \<longleftrightarrow> (\<forall>e. x = Some e \<longrightarrow> \<not> untracked e \<longrightarrow> err \<noteq> None)"
  by (auto simp: tracked_def run_simps)

lemma tracked_bind: "(\<And>x. tracked (f x)) \<Longrightarrow> tracked (State_Monad.bind m f)"
  unfolding tracked_def by (auto elim!: run_bindE simp del: State_Monad.run_state_bind) metis

lemma tracked_checked: "tracked next \<Longrightarrow> tracked (checked m f addr next)"
  unfolding checked_def by (rule tracked_bind) (simp split: option.split)

lemma tracked_finish: "tracked (finish p k n netns podNamespace podName iface result)"
  unfolding finish_def Let_def
  by (intro tracked_bind) (auto split: sum.split intro!: tracked_bind tracked_checked)

lemma tracked_setup_routes: "tracked next \<Longrightarrow> tracked (setup_routes p k ifName n subnet addr vlanIface netns next)"
  unfolding setup_routes_def Let_def
  by (intro tracked_checked tracked_bind) (simp add: untracked_def split: option.split)

lemma tracked_after_ipam: "tracked (after_ipam p k ifName n subnet ip vlanIface iface netns podNamespace podName r)"
  unfolding after_ipam_def Let_def
  by (auto simp: untracked_def split: sum.split intro!: tracked_checked tracked_setup_routes tracked_finish)

lemma link_cleanup_done:
  assumes "\<And>w x w'. run_state (netns_Do k netns (DelLinkByName k ifName)) w = (x, w') \<Longrightarrow> gone w'"
    and "run_state (link_cleanup k netns ifName (Some e)) w = (u, w')"
  shows "gone w'"
  using assms by (auto simp: link_cleanup_def run_bind split: prod.splits)

text \<open>The runs of \<open>with_iface\<close> that reach the IPAM plugin, and their deferred functions.\<close>

lemma with_iface_runs:
  assumes "run_state (with_iface p k ifName n subnet ip vlanIface iface netns podNamespace podName) w = (x, w')"
  obtains (merge) e where "mergeIPAMConfig (marshal_NetConf p) ifName n ip subnet = Inl e"
      and "x = Some (Wrapf ''failed to merge IPAM config on netConf [%v]: %w'' [] e)"
      and "run_state (link_cleanup k netns ifName (Some e)) w = ((), w')"
  | (add) conf e w1 where "run_state (ExecAdd p (ipam_Type (IPAM n)) conf) w = (Inl e, w1)"
      and "x = Some (Wrapf ''failed to execute ipam add, type: [%v] conf [%v]: %w'' [ipam_Type (IPAM n), conf] e)"
      and "run_state (link_cleanup k netns ifName (Some e)) w1 = ((), w')"
  | (rest) conf raw w1 err a w2 err' w3 where "mergeIPAMConfig (marshal_NetConf p) ifName n ip subnet = Inr conf"
      and "run_state (ExecAdd p (ipam_Type (IPAM n)) conf) w = (Inr raw, w1)"
      and "run_state (after_ipam p k ifName n subnet ip vlanIface iface netns podNamespace podName raw) w1 = ((x, err, a), w2)"
      and "run_state (ipam_cleanup p k n conf subnet a err) w2 = (err', w3)"
      and "run_state (link_cleanup k netns ifName err') w3 = ((), w')"
proof (cases "mergeIPAMConfig (marshal_NetConf p) ifName n ip subnet")
  case (Inl e)
  then show ?thesis using assms merge by (auto simp: with_iface_def run_bind run_simps split: prod.splits)
next
  case conf: (Inr conf)
  obtain r w1 where r: "run_state (ExecAdd p (ipam_Type (IPAM n)) conf) w = (r, w1)" by fastforce
  show ?thesis
  proof (cases r)
    case (Inl e)
    then show ?thesis using assms r conf add by (auto simp: with_iface_def run_bind run_simps split: prod.splits)
  next
    case (Inr raw)
    obtain y err a w2 where y: "run_state (after_ipam p k ifName n subnet ip vlanIface iface netns podNamespace podName raw) w1 = ((y, err, a), w2)"
      by (metis prod.exhaust)
    obtain err' w3 where c: "run_state (ipam_cleanup p k n conf subnet a err) w2 = (err', w3)" by fastforce
    obtain w4 where l: "run_state (link_cleanup k netns ifName err') w3 = ((), w4)"
      by (cases "run_state (link_cleanup k netns ifName err') w3") auto
    have "y = x" "w4 = w'" using assms r conf Inr y c l by (auto simp: with_iface_def run_bind run_simps)
    then show ?thesis using rest conf r Inr y c l by blast
  qed
qed

lemma with_iface_undone:
  assumes del: "\<And>w x w'. run_state (netns_Do k netns (DelLinkByName k ifName)) w = (x, w') \<Longrightarrow> gone w'"
    and run: "run_state (with_iface p k ifName n subnet ip vlanIface iface netns podNamespace podName) w = (Some e, w')"
    and "\<not> untracked e"
  shows "gone w' \<or> AddPodIPToHost (Settings (sn_Spec subnet)) \<and>
    (\<exists>a w1 w2 conf y. run_state (DelFlatNetworkRouteFromHost k a) w1 = (None, w2) \<and> run_state (ExecDel p (ipam_Type (IPAM n)) conf) w2 = (y, w'))"
proof -
  have cleaned: "gone v'" if "run_state (link_cleanup k netns ifName (Some x)) v = (u, v')" for x v u v'
    by (rule link_cleanup_done [OF _ that]) (rule del)
  from run show ?thesis
  proof (cases rule: with_iface_runs)
    case (rest conf raw w1 err a w2 err' w3)
    have err: "err \<noteq> None" using tracked_after_ipam [unfolded tracked_def, rule_format, OF rest(3) assms(3)] .
    show ?thesis
    proof (cases err')
      case None
      then show ?thesis using err rest(4,5) by (auto simp: ipam_cleanup_def link_cleanup_def run_bind run_simps split: prod.splits if_splits)
    qed (use cleaned rest(5) in auto)
  qed (use cleaned in blast)+
qed

text \<open>
  Deleting a link by its name takes it, and nothing else, out of the current namespace. When there is none, the call reports the error
  \<open>not_found\<close>, which is no error of entering a namespace.
\<close>

locale link_table = routing +
  fixes not_found :: error
  assumes DelLinkByName: "run_state (DelLinkByName k n) w = (None, w') \<Longrightarrow>
      view w' = (view w)\<lparr>v_links := (v_links (view w))(v_cur (view w) := (v_links (view w) (v_cur (view w)))(n := None))\<rparr>"
    and DelLinkByName_missing: "run_state (DelLinkByName k n) w = (Some not_found, w') \<Longrightarrow>
      view w' = view w \<and> v_links (view w) (v_cur (view w)) n = None"
    and netns_Do_missing: "run_state (netns_Do k ns f) w = (Some not_found, w') \<Longrightarrow>
      \<exists>w1 w2. view w1 = (view w)\<lparr>v_cur := Some ns\<rparr> \<and> run_state f w1 = (Some not_found, w2) \<and> view w' = (view w2)\<lparr>v_cur := v_cur (view w)\<rparr>"
begin

lemma del_in_netns:
  assumes "run_state (netns_Do k netns (DelLinkByName k n)) w = (x, w')"
  shows "v_links (view w') (Some netns) n = None \<or> (\<exists>e. x = Some e \<and> e \<noteq> not_found)"
proof (cases x)
  case None
  obtain w1 w2 where w: "view w1 = (view w)\<lparr>v_cur := Some netns\<rparr>" "run_state (DelLinkByName k n) w1 = (None, w2)"
      "view w' = (view w2)\<lparr>v_cur := v_cur (view w)\<rparr>"
    by (rule netns_Do_done [OF assms [unfolded None]])
  show ?thesis using DelLinkByName [OF w(2)] w(1,3) by simp
next
  case (Some e)
  show ?thesis
  proof (cases "e = not_found")
    case True
    obtain w1 w2 where w: "view w1 = (view w)\<lparr>v_cur := Some netns\<rparr>" "run_state (DelLinkByName k n) w1 = (Some not_found, w2)"
        "view w' = (view w2)\<lparr>v_cur := v_cur (view w)\<rparr>"
      using netns_Do_missing assms Some True by blast
    show ?thesis using DelLinkByName_missing [OF w(2)] w(1,3) by simp
  qed (use Some in simp)
qed

end

lemma find_filter_None: "find (\<lambda>l. attr_Name l = n) (filter (\<lambda>x. attr_Name x \<noteq> n') ls) =
    (if n = n' then None else find (\<lambda>l. attr_Name l = n) ls)"
  by (induction ls) auto

lemma find_list_ex: "find P xs = None \<longleftrightarrow> \<not> list_ex P xs"
  by (induction xs) auto

interpretation memlinks: link_table mem_kernel mem_netview "kernel_error ''Link not found''"
proof (unfold_locales, goal_cases)
  case (1 n w w')
  then show ?case
    by (auto simp: mem_kernel_def mem_netview_def set_links_def find_filter_None fun_eq_iff split: if_splits)
next
  case (2 n w w')
  then show ?case by (auto simp: mem_kernel_def mem_netview_def find_list_ex split: if_splits)
next
  case (3 ns f w w')
  then obtain m where "run_state f (w\<lparr>nm_cur := Some ns\<rparr>) = (Some (kernel_error ''Link not found''), m)" "w' = m\<lparr>nm_cur := nm_cur w\<rparr>"
    by (auto simp: mem_kernel_def mem_Do_def split: prod.splits)
  then show ?case by (intro exI [of _ "w\<lparr>nm_cur := Some ns\<rparr>"] exI [of _ m]) (simp add: mem_netview_simps)
qed

text \<open>
  C11. A failed command removes the interface again. When the command fails after it has made the interface, then the interface
  is gone from the namespace of the pod, with these exceptions: the IPAM plugin returned no address; a custom route could not be added; the
  subnet asks for a route on the host and the deferred deletion of that route succeeds, which overwrites the error, so that after it only the IPAM
  plugin is called; or the last thing the command did was
  to try to delete the interface, and the kernel refused for another reason than that there is none.
\<close>

theorem Add_failure_removes_link:
  assumes "link_table k view not_found"
    and "run_state (with_iface p k ifName n subnet ip vlanIface iface netns podNamespace podName) w = (Some e, w')"
  shows "v_links (view w') (Some netns) ifName = None \<or>
    e = Errorf ''IPAM plugin returned missing IP config'' [] \<or> (\<exists>x. e = Wrapf ''failed to add custom routes: %w'' [] x) \<or>
    AddPodIPToHost (Settings (sn_Spec subnet)) \<and>
    (\<exists>a w1 w2 conf y. run_state (DelFlatNetworkRouteFromHost k a) w1 = (None, w2) \<and> run_state (ExecDel p (ipam_Type (IPAM n)) conf) w2 = (y, w')) \<or>
    (\<exists>w1 x. run_state (netns_Do k netns (DelLinkByName k ifName)) w1 = (Some x, w') \<and> x \<noteq> not_found)"
proof (cases "untracked e")
  case False
  let ?gone = "\<lambda>w'. v_links (view w') (Some netns) ifName = None \<or>
      (\<exists>w1 x. run_state (netns_Do k netns (DelLinkByName k ifName)) w1 = (Some x, w') \<and> x \<noteq> not_found)"
  have gone: "?gone w'" if "run_state (netns_Do k netns (DelLinkByName k ifName)) w = (x, w')" for w x w'
    using link_table.del_in_netns [OF assms(1) that] that by blast
  have "?gone w' \<or> AddPodIPToHost (Settings (sn_Spec subnet)) \<and>
    (\<exists>a w1 w2 conf y. run_state (DelFlatNetworkRouteFromHost k a) w1 = (None, w2) \<and> run_state (ExecDel p (ipam_Type (IPAM n)) conf) w2 = (y, w'))"
    by (rule with_iface_undone [OF _ assms(2) False]) (rule gone)
  then show ?thesis by blast
qed (auto simp: untracked_def)

subsection \<open>What stays behind\<close>

text \<open>A program leaves the interfaces alone; the predicate is closed under the constructs of the programs.\<close>

definition keeps :: "('w \<Rightarrow> 'l) \<Rightarrow> ('w, 'a) state \<Rightarrow> bool" where
  "keeps links m \<longleftrightarrow> (\<forall>w. links (snd (run_state m w)) = links w)"

lemma keepsD: "keeps links m \<Longrightarrow> run_state m w = (x, w') \<Longrightarrow> links w' = links w"
  by (metis keeps_def snd_conv)

lemma keeps_ret [simp]: "keeps links (ret x)"
  by (simp add: keeps_def)

lemma keeps_bind: "keeps links m \<Longrightarrow> (\<And>x. keeps links (f x)) \<Longrightarrow> keeps links (State_Monad.bind m f)"
  by (auto simp: keeps_def split: prod.splits) (metis snd_conv)

lemmas keeps_splits = option.split sum.split prod.split list.split bool.split

text \<open>
  Only the operations on links change links: routes and reads do not, nor a closure of these in a namespace, nor the IPAM plugins and the
  configuration of an interface.
\<close>

locale link_keeping =
  fixes p :: "'w plugin" and k :: "'w netlink" and links :: "'w \<Rightarrow> netns option \<Rightarrow> string \<Rightarrow> Link option"
  assumes reads: "keeps links (RouteList k)" "keeps links (RouteGet k ip)" "keeps links (LinkByName k n)" "keeps links (LinkByIndex k i)"
      "keeps links (AddrList k l fam)"
    and routes: "keeps links (RouteAdd k r)" "keeps links (RouteDel k r)" "keeps links (RouteReplace k r)"
    and in_netns: "keeps links f \<Longrightarrow> keeps links (netns_Do k ns f)" "keeps links g \<Longrightarrow> keeps links (netns_Do_ip k ns g)"
      "keeps links h \<Longrightarrow> keeps links (netns_Do_gateways k ns h)"
    and plugins: "keeps links (ExecAdd p t c)" "keeps links (ExecDel p t c)" "keeps links (Sysctl p s v)" "keeps links (ConfigureIface p n res)"
      "keeps links (InterfaceByName p n)" "keeps links (GratuitousArpOverIface p ip l)"
begin

lemmas calls = reads routes in_netns plugins keeps_bind

lemma keeps_EnsureRouteExists: "keeps links (EnsureRouteExists k r)"
  unfolding EnsureRouteExists_def CheckRouteExists_def by (auto intro!: calls split: keeps_splits)

lemma keeps_custom_routes: "keeps links (AddPodFlatNetworkCustomRoutes k ns rs)"
proof -
  have "keeps links (add_custom_routes k rs)" for rs
    by (induction rs) (auto intro!: calls keeps_EnsureRouteExists split: keeps_splits)
  then show ?thesis unfolding AddPodFlatNetworkCustomRoutes_def by (auto intro!: calls split: keeps_splits)
qed

lemma keeps_default_routes: "keeps links (GetDefaultRoutes k)" "keeps links (GetDefaultLinkIDSet k)"
  unfolding GetDefaultLinkIDSet_def GetDefaultRoutes_def by (auto intro!: calls split: keeps_splits)

lemma keeps_gateway: "keeps links (UpdatePodDefaultGateway k ns n ip gw)"
proof -
  have "keeps links (replace_defaults k n i ip gw rs)" for i rs
    by (induction rs) (auto intro!: calls split: keeps_splits)
  then show ?thesis unfolding UpdatePodDefaultGateway_def by (auto intro!: calls split: keeps_splits)
qed

lemma keeps_cidr_routes: "keeps links (add_cidr_routes k ns cidrs)"
proof -
  have "keeps links (AddPodKubeCIDRRoutes k ns cidr)" for cidr
    unfolding AddPodKubeCIDRRoutes_def
    by (auto intro!: calls keeps_default_routes keeps_EnsureRouteExists split: keeps_splits)
  then show ?thesis by (induction cidrs) (auto intro!: calls)
qed

lemma keeps_node_routes: "keeps links (AddPodNodeCIDRRoutes k ns)"
proof -
  have "keeps links (collect_node_routes k v4 v6 rs ids)" for v4 v6 rs ids
    by (induction ids arbitrary: rs) (auto simp: getHostCIDRCustomRoutes_def intro!: calls split: keeps_splits)
  then show ?thesis
    unfolding AddPodNodeCIDRRoutes_def by (auto intro!: calls keeps_default_routes keeps_custom_routes split: keeps_splits)
qed

lemma keeps_host_route: "keeps links (AddFlatNetworkRouteToHost k ns ip master)" "keeps links (DelFlatNetworkRouteFromHost k ip)"
  unfolding AddFlatNetworkRouteToHost_def DelFlatNetworkRouteFromHost_def GetPodNativeIP_def GetRouteByIP_def AddrListByName_def Let_def
  by (auto intro!: calls split: keeps_splits)

lemma keeps_configure_pod: "keeps links (configure_pod p k n ifName result)"
proof -
  have "keeps links (announce p l ipcs)" for l ipcs by (induction ipcs) (auto intro!: calls)
  then show ?thesis unfolding configure_pod_def by (auto intro!: calls split: keeps_splits)
qed

lemma keeps_only_if: "keeps links m \<Longrightarrow> keeps links (only_if b m)"
  by (simp add: only_if_def)

end

text \<open>
  How the part under the deferred functions ends with one of the errors in \<open>L\<close>: the interfaces are as they were, and \<open>Q\<close> holds of the
  error, the variable \<open>err\<close>, the address and the world.
\<close>

definition leaves :: "('w \<Rightarrow> 'l) \<Rightarrow> (error \<Rightarrow> bool) \<Rightarrow> (error \<Rightarrow> error option \<Rightarrow> net_IP \<Rightarrow> 'w \<Rightarrow> bool) \<Rightarrow> ('w, ending) state \<Rightarrow> bool" where
  "leaves links L Q m \<longleftrightarrow>
     (\<forall>w e err a w'. run_state m w = ((Some e, err, a), w') \<longrightarrow> L e \<longrightarrow> links w' = links w \<and> Q e err a w')"

lemma leaves_ret [simp]: "leaves links L Q (ret (x, err, a)) \<longleftrightarrow> (\<forall>e w. x = Some e \<longrightarrow> L e \<longrightarrow> Q e err a w)"
  by (auto simp: leaves_def run_simps)

lemma leaves_bind: "keeps links m \<Longrightarrow> (\<And>x. leaves links L Q (f x)) \<Longrightarrow> leaves links L Q (State_Monad.bind m f)"
  unfolding leaves_def by (auto elim!: run_bindE simp del: State_Monad.run_state_bind) (metis keepsD)+

lemma leaves_checked:
  assumes "keeps links m" and "leaves links L Q next" and "\<And>e w w'. run_state m w = (Some e, w') \<Longrightarrow> L (f e) \<Longrightarrow> Q (f e) (Some e) addr w'"
  shows "leaves links L Q (checked m f addr next)"
  unfolding leaves_def
proof (intro allI impI)
  fix w e err a w' assume run: "run_state (checked m f addr next) w = ((Some e, err, a), w')" and "L e"
  obtain x w1 where x: "run_state m w = (x, w1)" by fastforce
  have w1: "links w1 = links w" using keepsD [OF assms(1) x] .
  show "links w' = links w \<and> Q e err a w'"
  proof (cases x)
    case None
    then show ?thesis using run x w1 \<open>L e\<close> assms(2) by (auto simp: checked_def run_bind leaves_def)
  next
    case (Some y)
    then show ?thesis using run x w1 \<open>L e\<close> assms(3) by (auto simp: checked_def run_bind run_simps)
  qed
qed

text \<open>The error of a route on the host, and the two calls it comes from: the one that failed, and then the cleanup.\<close>

definition host_route_error :: "error \<Rightarrow> bool" where
  "host_route_error e \<longleftrightarrow> (\<exists>x. e = Wrapf ''route.AddFlatNetworkRouteToHost: %w'' [] x)"

definition host_route_failed :: "'w netlink \<Rightarrow> netns \<Rightarrow> string \<Rightarrow> net_IP \<Rightarrow> error \<Rightarrow> 'w \<Rightarrow> bool" where
  "host_route_failed k netns master addr e w1 \<longleftrightarrow>
     (\<exists>x w0. e = Wrapf ''route.AddFlatNetworkRouteToHost: %w'' [] x \<and>
        run_state (AddFlatNetworkRouteToHost k (Some netns) addr master) w0 = (Some x, w1))"

lemma error_kinds [simp]:
  "untracked (Errorf s xs) \<longleftrightarrow> s = ''IPAM plugin returned missing IP config'' \<and> xs = []" "\<not> host_route_error (Errorf s xs)"
  "untracked (Wrapf s xs e) \<longleftrightarrow> s = ''failed to add custom routes: %w'' \<and> xs = []"
  "host_route_error (Wrapf s xs e) \<longleftrightarrow> s = ''route.AddFlatNetworkRouteToHost: %w'' \<and> xs = []"
  by (auto simp: untracked_def host_route_error_def)

context link_keeping
begin

lemma leaves_finish:
  "leaves links (\<lambda>e. untracked e \<or> host_route_error e) Q (finish p k n netns podNamespace podName iface result)"
  unfolding leaves_def finish_def checked_def
  by (auto simp: run_bind run_simps Let_def split: prod.splits sum.splits option.splits)

lemma leaves_after_ipam:
  fixes ip subnet vlanIface netns
  defines "addr \<equiv> Addr (ip_Status ip)" and "b \<equiv> AddPodIPToHost (Settings (sn_Spec subnet))"
  shows "leaves links (\<lambda>e. untracked e \<or> host_route_error e)
    (\<lambda>e err a w. (untracked e \<longrightarrow> err = None) \<and>
       (host_route_error e \<longrightarrow> err \<noteq> None \<and> a = addr \<and> b \<and> host_route_failed k netns (if_Name vlanIface) addr e w))
    (after_ipam p k ifName n subnet ip vlanIface iface netns podNamespace podName r)"
proof -
  let ?L = "\<lambda>e. untracked e \<or> host_route_error e"
    and ?Q = "\<lambda>e err a w. (untracked e \<longrightarrow> err = None) \<and>
       (host_route_error e \<longrightarrow> err \<noteq> None \<and> a = addr \<and> b \<and> host_route_failed k netns (if_Name vlanIface) addr e w)"
  have host: "leaves links ?L ?Q (checked (only_if b (AddFlatNetworkRouteToHost k (Some netns) addr (if_Name vlanIface)))
      (Wrapf ''route.AddFlatNetworkRouteToHost: %w'' []) addr next)" if "leaves links ?L ?Q next" for "next"
    by (intro leaves_checked keeps_only_if keeps_host_route that)
      (auto simp: only_if_def host_route_failed_def run_simps split: if_splits)
  have routes: "leaves links ?L ?Q (setup_routes p k ifName n subnet addr vlanIface netns next)" if "leaves links ?L ?Q next" for "next"
    unfolding setup_routes_def Let_def b_def [symmetric]
    by (intro host leaves_checked leaves_bind that keeps_only_if keeps_cidr_routes keeps_node_routes keeps_gateway keeps_custom_routes)
      (auto simp del: not_None_eq intro: that split: option.split)
  show ?thesis
    unfolding after_ipam_def Let_def addr_def [symmetric]
    by (auto simp del: not_None_eq split: sum.split
        intro!: leaves_checked routes leaves_finish in_netns keeps_configure_pod)
qed

text \<open>Where the deferred functions start from, and what they do to the interfaces as long as they do not delete the link.\<close>

lemma with_iface_leaves:
  assumes run: "run_state (with_iface p k ifName n subnet ip vlanIface iface netns podNamespace podName) w = (Some e, w')"
  shows "(untracked e \<longrightarrow> links w' = links w) \<and>
    (host_route_error e \<longrightarrow> (\<exists>w1 y w2. host_route_failed k netns (if_Name vlanIface) (Addr (ip_Status ip)) e w1 \<and>
       run_state (DelFlatNetworkRouteFromHost k (Addr (ip_Status ip))) w1 = (y, w2) \<and> (y = None \<longrightarrow> links w' = links w)))"
  using run
proof (cases rule: with_iface_runs)
  case (rest conf raw w1 err a w2 err' w3)
  let ?addr = "Addr (ip_Status ip)"
  note ends = leaves_after_ipam [unfolded leaves_def, rule_format, OF rest(3)]
  have cleanup: "keeps links (ipam_cleanup p k n conf subnet a err)" unfolding ipam_cleanup_def by (auto intro!: calls keeps_host_route)
  have w3: "links w3 = links w2" by (rule keepsD [OF cleanup rest(4)])
  have w1: "links w1 = links w" by (rule keepsD [OF plugins(1) rest(2)])
  have none: "w' = w3" if "err' = None" using rest(5) that by (simp add: link_cleanup_def run_simps)
  show ?thesis
  proof (intro conjI impI)
    assume "untracked e"
    then have "links w2 = links w1" "err = None" using ends by auto
    then have "err' = None" using rest(4) by (simp add: ipam_cleanup_def run_simps)
    then show "links w' = links w" using none w1 w3 \<open>links w2 = links w1\<close> by simp
  next
    assume "host_route_error e"
    then have w2: "links w2 = links w1" "err \<noteq> None" "a = ?addr" "AddPodIPToHost (Settings (sn_Spec subnet))"
        "host_route_failed k netns (if_Name vlanIface) ?addr e w2"
      using ends by auto
    obtain y w4 where y: "run_state (DelFlatNetworkRouteFromHost k ?addr) w2 = (y, w4)" by fastforce
    then have "err' = y" using rest(4) w2(2-4) by (auto simp: ipam_cleanup_def run_bind run_simps split: prod.splits)
    then show "\<exists>w1 y w2. host_route_failed k netns (if_Name vlanIface) ?addr e w1 \<and>
        run_state (DelFlatNetworkRouteFromHost k ?addr) w1 = (y, w2) \<and> (y = None \<longrightarrow> links w' = links w)"
      using w2(1,5) y none w1 w3 by (intro exI [of _ w2] exI [of _ y] exI [of _ w4]) simp
  qed
qed (simp_all add: untracked_def host_route_error_def)

end

text \<open>
  C39. A failed command leaves the interface behind. When it fails because the IPAM plugin returned no address or because a custom route could not be
  added, the error is in another variable than the one that the deferred functions read, and the command ends with the very interfaces, in every
  namespace, that were there after it had made its own. When it fails because the route on the host could not be added, the deferred function
  next deletes the route on the host and overwrites the variable; if that succeeds, the interfaces stay too.
\<close>

theorem Add_failure_leaks_link:
  assumes "link_keeping p k links"
    and "run_state (with_iface p k ifName n subnet ip vlanIface iface netns podNamespace podName) w = (Some e, w')"
  shows "(e = Errorf ''IPAM plugin returned missing IP config'' [] \<or> (\<exists>x. e = Wrapf ''failed to add custom routes: %w'' [] x) \<longrightarrow> links w' = links w) \<and>
    ((\<exists>x. e = Wrapf ''route.AddFlatNetworkRouteToHost: %w'' [] x) \<longrightarrow>
       (\<exists>x w0 w1 y w2. e = Wrapf ''route.AddFlatNetworkRouteToHost: %w'' [] x \<and>
          run_state (AddFlatNetworkRouteToHost k (Some netns) (Addr (ip_Status ip)) (if_Name vlanIface)) w0 = (Some x, w1) \<and>
          run_state (DelFlatNetworkRouteFromHost k (Addr (ip_Status ip))) w1 = (y, w2) \<and> (y = None \<longrightarrow> links w' = links w)))"
  using link_keeping.with_iface_leaves [OF assms] unfolding untracked_def host_route_error_def host_route_failed_def by blast

subsection \<open>What a successful command has done\<close>

lemma checked_None:
  "run_state (checked m f a next) w = ((None, x), w') \<longleftrightarrow> (\<exists>w1. run_state m w = (None, w1) \<and> run_state next w1 = ((None, x), w'))"
  by (auto simp: checked_def run_bind run_simps split: prod.splits option.splits)

text \<open>The routes are set before the program that follows them runs.\<close>

lemma setup_routes_None:
  assumes "run_state (setup_routes p k ifName n subnet addr vlanIface netns next) w = ((None, x), w')"
  shows "\<exists>w1. run_state (setup_routes p k ifName n subnet addr vlanIface netns (ret (None, None, addr))) w = ((None, None, addr), w1) \<and>
    run_state next w1 = ((None, x), w')"
proof -
  let ?custom = "\<lambda>next. do {
         y \<leftarrow> AddPodFlatNetworkCustomRoutes k (Some netns) (Routes (sn_Spec subnet));
         case y of
           Some e \<Rightarrow> ret (Some (Wrapf ''failed to add custom routes: %w'' [] e), None, addr)
         | None \<Rightarrow> next
       }"
  have last: "\<exists>w2. run_state (?custom (ret (None, None, addr))) w1 = ((None, None, addr), w2) \<and> run_state next w2 = ((None, x), w')"
    if "run_state (?custom next) w1 = ((None, x), w')" for w1
    using that by (auto simp: run_bind run_simps split: prod.splits option.splits)
  show ?thesis using assms last unfolding setup_routes_def Let_def checked_None by blast
qed

lemma finish_None:
  assumes "run_state (finish p k n netns podNamespace podName iface result) w = ((None, x), w')"
  shows "\<exists>i w1. run_state (retry_OnConflict p (activate_closure p podNamespace podName iface)) w = (Inr i, w1) \<and>
    run_state (PrintResult p result (CNIVersion n)) w1 = (None, w') \<and> fst x = None"
  using assms by (auto simp: finish_def checked_None run_bind run_simps Let_def split: prod.splits sum.splits)

text \<open>The result of the plugin, as it is configured and printed.\<close>

abbreviation pod_result :: "Interface \<Rightarrow> Result \<Rightarrow> Result" where
  "pod_result iface result \<equiv>
     result\<lparr>res_Interfaces := [iface], res_IPs := map (\<lambda>ipc. ipc\<lparr>ipc_Interface := Some 0\<rparr>) (res_IPs result)\<rparr>"

lemma after_ipam_None:
  assumes "run_state (after_ipam p k ifName n subnet ip vlanIface iface netns podNamespace podName raw) w = ((None, x), w')"
  obtains result w1 w2 w3 i where "NewResultFromResult p raw = Inr result" and "res_IPs result \<noteq> []"
    and "run_state (netns_Do k netns (configure_pod p k n ifName (pod_result iface result))) w = (None, w1)"
    and "run_state (setup_routes p k ifName n subnet (Addr (ip_Status ip)) vlanIface netns (ret (None, None, Addr (ip_Status ip)))) w1 =
      ((None, None, Addr (ip_Status ip)), w2)"
    and "run_state (retry_OnConflict p (activate_closure p podNamespace podName iface)) w2 = (Inr i, w3)"
    and "run_state (PrintResult p ((pod_result iface result)\<lparr>res_DNS := nc_DNS n\<rparr>) (CNIVersion n)) w3 = (None, w')" and "fst x = None"
proof -
  let ?addr = "Addr (ip_Status ip)"
  obtain result where r: "NewResultFromResult p raw = Inr result" "res_IPs result \<noteq> []"
    using assms by (auto simp: after_ipam_def Let_def run_simps split: sum.splits if_splits)
  let ?finish = "finish p k n netns podNamespace podName iface ((pod_result iface result)\<lparr>res_DNS := nc_DNS n\<rparr>)"
  obtain w1 where w1: "run_state (netns_Do k netns (configure_pod p k n ifName (pod_result iface result))) w = (None, w1)"
      "run_state (setup_routes p k ifName n subnet ?addr vlanIface netns ?finish) w1 = ((None, x), w')"
    using assms r by (auto simp: after_ipam_def Let_def checked_None)
  obtain w2 where w2: "run_state (setup_routes p k ifName n subnet ?addr vlanIface netns (ret (None, None, ?addr))) w1 = ((None, None, ?addr), w2)"
      "run_state ?finish w2 = ((None, x), w')"
    using setup_routes_None [OF w1(2)] by blast
  show thesis using finish_None [OF w2(2)] r w1(1) w2(1) that by blast
qed

text \<open>With no error left in the variable \<open>err\<close>, the deferred functions do nothing.\<close>

lemma deferred_nothing:
  "run_state (ipam_cleanup p k n conf subnet a None) w = (err, w1) \<Longrightarrow> run_state (link_cleanup k netns ifName err) w1 = (u, w') \<Longrightarrow> w' = w"
  by (simp add: ipam_cleanup_def link_cleanup_def run_simps)

lemma attach_None:
  assumes "run_state (attach p k args n ip subnet podNamespace podName) w = (None, w')"
  obtains vlanIface netns iface w1 w2 w3 w4 where
      "run_state (only_if (FlatMode (sn_Spec subnet) = FlatModeMacvlan) (SetPromiscOn k (Master (sn_Spec subnet)))) w = (None, w1)"
    and "run_state (GetVlanIfaceOnHost k (Master (sn_Spec subnet)) 0 (VLAN (sn_Spec subnet))) w1 = (Inr vlanIface, w2)"
    and "run_state (GetNS p (Netns args)) w2 = (Inr netns, w3)"
    and "run_state (create_iface k n subnet ip vlanIface (IfName args) netns) w3 = (Inr iface, w4)"
    and "run_state (with_iface p k (IfName args) n subnet ip vlanIface iface netns podNamespace podName) w4 = (None, w')"
  using assms unfolding attach_def Let_def
  by (auto simp: run_bind run_simps split: sum.splits option.splits prod.splits)

lemma Add_None:
  assumes "run_state (Add p k args) w = (None, w')"
  obtains n ka ip subnet w1 w2 w3 w4 where "unmarshal_NetConf p (StdinData args) = Inr n" and "LoadArgs p (cmd_Args args) = Inr ka"
    and "run_state (logger_Setup p) w = (None, w1)" and "run_state (GetK8sClient p k (cmd_Path args)) w1 = (None, w2)"
    and "run_state (retry_OnError p (Some getPodRetry) shouldRetryOnFlatNetworkIP
      (get_ip_closure p (K8S_POD_NAMESPACE ka) (K8S_POD_NAME ka))) w2 = (Inr ip, w3)" and "Addr (ip_Status ip) \<noteq> []"
    and "run_state (client_GetSubnet p (Subnet (ip_Spec ip))) w3 = (Inr subnet, w4)"
    and "run_state (attach p k args n ip subnet (K8S_POD_NAMESPACE ka) (K8S_POD_NAME ka)) w4 = (None, w')"
  using assms unfolding Add_def loadCNINetConf_def Let_def
  by (auto simp: run_bind run_simps split: sum.splits option.splits prod.splits if_splits)

text \<open>
  C19. A command that succeeds has gone through these calls, each in the world that the one before it left: the set-up of the log and of the client;
  the read of the IP of the pod, which has an address, and of the subnet that the IP names; the promiscuous mode of the master for macvlan, the
  interface on the host, the namespace of the pod, and the interface of the pod, made on the interface of the host; the IPAM plugin, with the configuration
  merged for this IP and subnet, whose result has addresses; the configuration of the interface with that result, and the routes of the
  subnet. Then it reads the IP again, until there is no conflict, and the API server stores it with the hardware address of the interface that the
  command made, the phase Active, and its other fields as read. The last thing it does is to print the result with that interface.
\<close>

theorem Add_success_activates:
  assumes "run_state (Add p k args) w = (None, w')"
    and "\<forall>f x w w'. run_state (retry_OnConflict p f) w = (Inr x, w') \<longrightarrow> attempts f w (Inr x) w'"
  shows "\<exists>n ka ip subnet vlanIface netns iface conf raw result i i' w1 w2 w3 w4 w5 w6 w7 w8 w9 w10 w11 w12 w13 w14.
    unmarshal_NetConf p (StdinData args) = Inr n \<and> LoadArgs p (cmd_Args args) = Inr ka \<and>
    run_state (logger_Setup p) w = (None, w1) \<and> run_state (GetK8sClient p k (cmd_Path args)) w1 = (None, w2) \<and>
    run_state (retry_OnError p (Some getPodRetry) shouldRetryOnFlatNetworkIP
      (get_ip_closure p (K8S_POD_NAMESPACE ka) (K8S_POD_NAME ka))) w2 = (Inr ip, w3) \<and> Addr (ip_Status ip) \<noteq> [] \<and>
    run_state (client_GetSubnet p (Subnet (ip_Spec ip))) w3 = (Inr subnet, w4) \<and>
    run_state (only_if (FlatMode (sn_Spec subnet) = FlatModeMacvlan) (SetPromiscOn k (Master (sn_Spec subnet)))) w4 = (None, w5) \<and>
    run_state (GetVlanIfaceOnHost k (Master (sn_Spec subnet)) 0 (VLAN (sn_Spec subnet))) w5 = (Inr vlanIface, w6) \<and>
    run_state (GetNS p (Netns args)) w6 = (Inr netns, w7) \<and>
    run_state (create_iface k n subnet ip vlanIface (IfName args) netns) w7 = (Inr iface, w8) \<and>
    mergeIPAMConfig (marshal_NetConf p) (IfName args) n ip subnet = Inr conf \<and>
    run_state (ExecAdd p (ipam_Type (IPAM n)) conf) w8 = (Inr raw, w9) \<and>
    NewResultFromResult p raw = Inr result \<and> res_IPs result \<noteq> [] \<and>
    run_state (netns_Do k netns (configure_pod p k n (IfName args) (pod_result iface result))) w9 = (None, w10) \<and>
    run_state (setup_routes p k (IfName args) n subnet (Addr (ip_Status ip)) vlanIface netns (ret (None, None, Addr (ip_Status ip)))) w10 =
      ((None, None, Addr (ip_Status ip)), w11) \<and>
    attempts (activate_closure p (K8S_POD_NAMESPACE ka) (K8S_POD_NAME ka) iface) w11 (Inr i') w14 \<and>
    run_state (client_GetIP p (K8S_POD_NAMESPACE ka) (K8S_POD_NAME ka)) w12 = (Inr i, w13) \<and>
    run_state (client_UpdateIPStatus p (K8S_POD_NAMESPACE ka)
      (i\<lparr>ip_Status := (ip_Status i)\<lparr>MAC := if_Mac iface, ip_Phase := ''Active''\<rparr>\<rparr>)) w13 = (Inr i', w14) \<and>
    run_state (PrintResult p ((pod_result iface result)\<lparr>res_DNS := nc_DNS n\<rparr>) (CNIVersion n)) w14 = (None, w')"
proof -
  obtain n ka ip subnet w1 w2 w3 w4 where add: "unmarshal_NetConf p (StdinData args) = Inr n" "LoadArgs p (cmd_Args args) = Inr ka"
      "run_state (logger_Setup p) w = (None, w1)" "run_state (GetK8sClient p k (cmd_Path args)) w1 = (None, w2)"
      "run_state (retry_OnError p (Some getPodRetry) shouldRetryOnFlatNetworkIP
        (get_ip_closure p (K8S_POD_NAMESPACE ka) (K8S_POD_NAME ka))) w2 = (Inr ip, w3)" "Addr (ip_Status ip) \<noteq> []"
      "run_state (client_GetSubnet p (Subnet (ip_Spec ip))) w3 = (Inr subnet, w4)"
    and att: "run_state (attach p k args n ip subnet (K8S_POD_NAMESPACE ka) (K8S_POD_NAME ka)) w4 = (None, w')"
    by (rule Add_None [OF assms(1)])
  obtain vlanIface netns iface w5 w6 w7 w8 where
      attach: "run_state (only_if (FlatMode (sn_Spec subnet) = FlatModeMacvlan) (SetPromiscOn k (Master (sn_Spec subnet)))) w4 = (None, w5)"
      "run_state (GetVlanIfaceOnHost k (Master (sn_Spec subnet)) 0 (VLAN (sn_Spec subnet))) w5 = (Inr vlanIface, w6)"
      "run_state (GetNS p (Netns args)) w6 = (Inr netns, w7)"
      "run_state (create_iface k n subnet ip vlanIface (IfName args) netns) w7 = (Inr iface, w8)"
    and iface: "run_state (with_iface p k (IfName args) n subnet ip vlanIface iface netns (K8S_POD_NAMESPACE ka) (K8S_POD_NAME ka)) w8 = (None, w')"
    by (rule attach_None [OF att])
  obtain conf raw w9 err a wx err' wy where conf: "mergeIPAMConfig (marshal_NetConf p) (IfName args) n ip subnet = Inr conf"
      "run_state (ExecAdd p (ipam_Type (IPAM n)) conf) w8 = (Inr raw, w9)"
    and rest: "run_state (after_ipam p k (IfName args) n subnet ip vlanIface iface netns (K8S_POD_NAMESPACE ka) (K8S_POD_NAME ka) raw) w9 = ((None, err, a), wx)"
      "run_state (ipam_cleanup p k n conf subnet a err) wx = (err', wy)" "run_state (link_cleanup k netns (IfName args) err') wy = ((), w')"
    using iface by (cases rule: with_iface_runs) auto
  obtain result w10 w11 w14 i' where fin: "NewResultFromResult p raw = Inr result" "res_IPs result \<noteq> []"
      "run_state (netns_Do k netns (configure_pod p k n (IfName args) (pod_result iface result))) w9 = (None, w10)"
      "run_state (setup_routes p k (IfName args) n subnet (Addr (ip_Status ip)) vlanIface netns (ret (None, None, Addr (ip_Status ip)))) w10 =
        ((None, None, Addr (ip_Status ip)), w11)"
    and retry: "run_state (retry_OnConflict p (activate_closure p (K8S_POD_NAMESPACE ka) (K8S_POD_NAME ka) iface)) w11 = (Inr i', w14)"
    and print: "run_state (PrintResult p ((pod_result iface result)\<lparr>res_DNS := nc_DNS n\<rparr>) (CNIVersion n)) w14 = (None, wx)" and "fst (err, a) = None"
    by (rule after_ipam_None [OF rest(1)])
  then have "wx = w'" using deferred_nothing rest(2,3) by (metis fst_conv)
  note print = print [unfolded this]
  have att: "attempts (activate_closure p (K8S_POD_NAMESPACE ka) (K8S_POD_NAME ka) iface) w11 (Inr i') w14"
    using assms(2) retry by blast
  obtain w12 where "run_state (activate_closure p (K8S_POD_NAMESPACE ka) (K8S_POD_NAME ka) iface) w12 = (Inr i', w14)"
    using attempts_last [OF att] by blast
  then obtain i w13 where upd: "run_state (client_GetIP p (K8S_POD_NAMESPACE ka) (K8S_POD_NAME ka)) w12 = (Inr i, w13)"
      "run_state (client_UpdateIPStatus p (K8S_POD_NAMESPACE ka) (i\<lparr>ip_Status := (ip_Status i)\<lparr>MAC := if_Mac iface, ip_Phase := ''Active''\<rparr>\<rparr>)) w13 =
        (Inr i', w14)"
    by (auto simp: activate_closure_def run_bind run_simps split: sum.splits prod.splits)
  show ?thesis
    by (rule exI [of _ n], rule exI [of _ ka], rule exI [of _ ip], rule exI [of _ subnet], rule exI [of _ vlanIface], rule exI [of _ netns],
        (rule exI)+, intro conjI) (rule add attach conf fin att upd print)+
qed

subsection \<open>A plugin in memory\<close>

text \<open>The IPAM plugin returns one address; the update of the status succeeds or not.\<close>

definition mem_result :: Result where
  "mem_result = \<lparr>res_Interfaces = [], res_IPs = [\<lparr>ipc_Interface = None, ipc_Address = \<lparr>NetIP = [10, 1, 0, 7], NetMask = [255, 255, 0, 0]\<rparr>\<rparr>],
     res_Routes = [], res_DNS = []\<rparr>"

definition mem_plugin :: "FlatNetworkIP \<Rightarrow> FlatNetworkSubnet \<Rightarrow> bool \<Rightarrow> netmem plugin" where
  "mem_plugin flatNetworkIP subnet ok = \<lparr>
     logger_Setup = ret None,
     unmarshal_NetConf = (\<lambda>s. Inr \<lparr>CNIVersion = ''1.0.0'', nc_DNS = [], RawPrevResult = None,
       IPAM = \<lparr>ipam_Type = ''static-ipam'', ipam_Addresses = [], ipam_Routes = []\<rparr>,
       FlatNetworkConf = \<lparr>fc_MTU = 1500, ClusterCIDR = ''10.42.0.0/16'', ServiceCIDR = ''10.43.0.0/16'', ARPPolicy = ''arp_notify'', ProxyARP = False\<rparr>\<rparr>),
     marshal_NetConf = (\<lambda>n. Inr []), marshal_raw = (\<lambda>m. Inr []), create_Result = (\<lambda>v s. Inr []),
     NewResultFromResult = (\<lambda>s. Inr mem_result),
     LoadArgs = (\<lambda>s. Inr \<lparr>K8S_POD_NAME = ''p'', K8S_POD_NAMESPACE = ''default''\<rparr>),
     BuildConfigFromFlags = (\<lambda>s. ret None), kubernetes_NewForConfig = ret None, clientset_NewForConfig = ret None,
     client_GetIP = (\<lambda>ns n. ret (Inr flatNetworkIP)), client_GetSubnet = (\<lambda>n. ret (Inr subnet)),
     client_UpdateIPStatus = (\<lambda>ns i. ret (if ok then Inr i else Inl (StatusError OtherReason))), failed_Addr = [],
     retry_OnError = (\<lambda>b t f. f), retry_OnConflict = (\<lambda>f. f),
     GetNS = (\<lambda>s. ret (Inr s)), WithNetNSPath = mem_Do,
     ExecAdd = (\<lambda>t c. ret (Inr [])), ExecDel = (\<lambda>t c. ret None), ExecCheck = (\<lambda>t c. ret None),
     Sysctl = (\<lambda>a b. ret ()), ConfigureIface = (\<lambda>n r. ret None), InterfaceByName = (\<lambda>n. ret (Inr (example_link 2 n))),
     GratuitousArpOverIface = (\<lambda>ip l. ret None), PrintResult = (\<lambda>r v. ret None),
     ValidateExpectedInterfaceIPs = (\<lambda>n ips. ret None), ValidateExpectedRoute = (\<lambda>rs. ret None),
     is_LinkNotFoundError = (\<lambda>e. True)\<rparr>"

definition example_args :: CmdArgs where
  "example_args = \<lparr>Netns = ''pod'', IfName = ''eth1'', cmd_Args = [], cmd_Path = ''/opt/cni/bin'', StdinData = []\<rparr>"

text \<open>A pod that has no flat interface yet.\<close>

definition fresh_net :: netmem where
  "fresh_net = example_net\<lparr>nm_links := (\<lambda>c. if c = Some ''pod'' then [example_link 2 ''eth0''] else [example_link 1 ''eth0''])\<rparr>"

definition plugin_subnet :: "bool \<Rightarrow> Route list \<Rightarrow> FlatNetworkSubnet" where
  "plugin_subnet host rs = (active_subnet [])\<lparr>sn_Spec := (sn_Spec (active_subnet []))\<lparr>Routes := rs,
     Settings := \<lparr>AddClusterCIDR = True, AddServiceCIDR = True, AddNodeCIDR = False, AddPodIPToHost = host,
       FlatNetworkDefaultGateway = True\<rparr>\<rparr>\<rparr>"

text \<open>A node with a route to the pods, on which a route to the address of the pod is left over.\<close>

definition stale_route_net :: netmem where
  "stale_route_net = fresh_net\<lparr>
     nm_addrs := (\<lambda>c i. if c = Some ''pod'' then [\<lparr>NetIP = [10, 42, 0, 3], NetMask = [255, 255, 255, 0]\<rparr>] else []),
     nm_routes := (nm_routes fresh_net)(None := [example_route 5 (Some pod_network) [],
       example_route 5 (Some \<lparr>NetIP = [10, 1, 0, 7], NetMask = CIDRMask 32 32\<rparr>) []])\<rparr>"

definition run_Add :: "bool \<Rightarrow> Route list \<Rightarrow> bool \<Rightarrow> netmem \<Rightarrow> error option \<times> netmem" where
  "run_Add host rs ok m =
     run_state (Add (mem_plugin (example_ip ''p'' [10, 1, 0, 7] ''Pending'') (plugin_subnet host rs) ok) mem_kernel example_args) m"

definition has_link :: "netmem \<Rightarrow> string \<Rightarrow> bool" where
  "has_link m n = list_ex (\<lambda>l. attr_Name l = n) (nm_links m (Some ''pod''))"

definition missing_iface_route :: Route where
  "missing_iface_route = \<lparr>route_Dev = ''eth9'', route_Dst = ''10.44.1.0/24'', route_Src = [], route_Via = [], route_Priority = 0\<rparr>"

text \<open>The interface of the pod that the examples of \<open>with_iface\<close> start from.\<close>

definition example_iface :: "string \<Rightarrow> Interface" where
  "example_iface n = \<lparr>if_Name = n, if_Mac = [], if_Sandbox = ''pod''\<rparr>"

definition example_conf :: NetConf where
  "example_conf = (case unmarshal_NetConf (mem_plugin (example_ip ''p'' [] []) (plugin_subnet False []) True) [] of Inr n \<Rightarrow> n)"

lemma keeps_mem_Do:
  assumes "keeps (\<lambda>m. v_links (mem_netview m)) f"
  shows "keeps (\<lambda>m. v_links (mem_netview m)) (mem_Do ns f)"
  unfolding keeps_def
proof
  fix w
  obtain x m where r: "run_state f (w\<lparr>nm_cur := Some ns\<rparr>) = (x, m)" by fastforce
  then show "v_links (mem_netview (snd (run_state (mem_Do ns f) w))) = v_links (mem_netview w)"
    using keepsD [OF assms r] by (simp add: mem_Do_def mem_netview_def)
qed

lemma netns_Do_mem [simp]: "netns_Do mem_kernel = mem_Do" "netns_Do_ip mem_kernel = mem_Do" "netns_Do_gateways mem_kernel = mem_Do"
  by (simp_all add: mem_kernel_def)

interpretation memkeep: link_keeping "mem_plugin i s ok" mem_kernel "\<lambda>m. v_links (mem_netview m)"
proof (unfold_locales, goal_cases)
  case (9 f ns)
  then show ?case by (simp add: keeps_mem_Do)
next
  case (10 g ns)
  then show ?case by (simp add: keeps_mem_Do)
next
  case (11 h ns)
  then show ?case by (simp add: keeps_mem_Do)
qed (simp_all add: mem_plugin_def mem_kernel_def keeps_def mem_netview_simps set_routes_def fun_eq_iff Let_def)

text \<open>The command on this plugin: attached, undone, and the interface left behind in two ways.\<close>

lemma Add_examples:
  "case run_Add False [] True fresh_net of (e, m) \<Rightarrow> e = None \<and> has_link m ''eth1''"
  "case run_Add False [] False fresh_net of (e, m) \<Rightarrow> e \<noteq> None \<and> \<not> has_link m ''eth1''"
  "case run_Add False [missing_iface_route] True fresh_net of (e, m) \<Rightarrow> e \<noteq> None \<and> has_link m ''eth1''"
  "case run_Add True [] True stale_route_net of (e, m) \<Rightarrow> e \<noteq> None \<and> has_link m ''eth1''"
  by code_simp+

text \<open>The part of the command under the deferred functions, on the interface \<open>eth1\<close> of the pod.\<close>

definition run_with_iface :: "bool \<Rightarrow> Route list \<Rightarrow> bool \<Rightarrow> netmem \<Rightarrow> error option \<times> netmem" where
  "run_with_iface host rs ok m =
     run_state (with_iface (mem_plugin (example_ip ''p'' [10, 1, 0, 7] ''Pending'') (plugin_subnet host rs) ok) mem_kernel ''eth1'' example_conf
       (plugin_subnet host rs) (example_ip ''p'' [10, 1, 0, 7] ''Pending'') (example_iface ''eth0'') (example_iface ''eth1'') ''pod'' ''default'' ''p'') m"

theorem Add_failure_removes_link_witness:
  "v_links (mem_netview example_net) (Some ''pod'') ''eth1'' \<noteq> None \<and>
   fst (run_with_iface False [] False example_net) = Some (Wrapf ''failed to update flatNetworkIP status: %w'' [] (StatusError OtherReason)) \<and>
   v_links (mem_netview (snd (run_with_iface False [] False example_net))) (Some ''pod'') ''eth1'' = None"
proof (intro conjI)
  show err: "fst (run_with_iface False [] False example_net) =
      Some (Wrapf ''failed to update flatNetworkIP status: %w'' [] (StatusError OtherReason))" by code_simp
  let ?e = "Wrapf ''failed to update flatNetworkIP status: %w'' [] (StatusError OtherReason)" and ?w = "snd (run_with_iface False [] False example_net)"
  have "run_with_iface False [] False example_net = (Some ?e, ?w)" using err by (simp add: prod_eq_iff)
  note removed = Add_failure_removes_link [OF memlinks.link_table_axioms this [unfolded run_with_iface_def [of False "[]" False example_net]]]
  moreover have "\<not> AddPodIPToHost (Settings (sn_Spec (plugin_subnet False [])))" by (simp add: plugin_subnet_def)
  moreover have "x = kernel_error ''Link not found''"
    if "run_state (netns_Do mem_kernel ''pod'' (DelLinkByName mem_kernel ''eth1'')) w1 = (Some x, w2)" for w1 x w2
    using that by (auto simp: mem_kernel_def mem_Do_def split: prod.splits if_splits)
  ultimately show "v_links (mem_netview ?w) (Some ''pod'') ''eth1'' = None"
    by (auto simp: run_with_iface_def)
qed (simp add: mem_netview_simps example_net_def example_link_def)

theorem Add_failure_leaks_link_witness:
  "(\<exists>x. fst (run_with_iface False [missing_iface_route] True example_net) = Some (Wrapf ''failed to add custom routes: %w'' [] x)) \<and>
   v_links (mem_netview example_net) (Some ''pod'') ''eth1'' \<noteq> None \<and>
   v_links (mem_netview (snd (run_with_iface False [missing_iface_route] True example_net))) = v_links (mem_netview example_net)"
proof (intro conjI)
  have "case fst (run_with_iface False [missing_iface_route] True example_net) of Some (Wrapf s xs x) \<Rightarrow> s = ''failed to add custom routes: %w'' \<and> xs = [] | _ \<Rightarrow> False"
    by code_simp
  then show err: "\<exists>x. fst (run_with_iface False [missing_iface_route] True example_net) = Some (Wrapf ''failed to add custom routes: %w'' [] x)"
    by (auto split: option.splits error.splits)
  then obtain e where "run_with_iface False [missing_iface_route] True example_net =
      (Some e, snd (run_with_iface False [missing_iface_route] True example_net))" and e: "\<exists>x. e = Wrapf ''failed to add custom routes: %w'' [] x"
    by (metis prod.collapse)
  note leaks = Add_failure_leaks_link [OF memkeep.link_keeping_axioms this(1) [unfolded run_with_iface_def [of False "[missing_iface_route]"]]]
  show "v_links (mem_netview (snd (run_with_iface False [missing_iface_route] True example_net))) = v_links (mem_netview example_net)"
    using leaks e unfolding run_with_iface_def by blast
qed (simp add: mem_netview_simps example_net_def example_link_def)

theorem Add_success_activates_witness:
  "\<exists>(n :: NetConf) vlanIface iface w1 w2 w3 w4 w5. let i = example_ip ''p'' [10, 1, 0, 7] ''Pending'' in
     run_state (create_iface mem_kernel n (plugin_subnet False []) i vlanIface ''eth1'' ''pod'') w1 = (Inr iface, w2) \<and>
     run_state (client_UpdateIPStatus (mem_plugin i (plugin_subnet False []) True) ''default''
       (i\<lparr>ip_Status := (ip_Status i)\<lparr>MAC := if_Mac iface, ip_Phase := ''Active''\<rparr>\<rparr>)) w3 =
     (Inr (i\<lparr>ip_Status := (ip_Status i)\<lparr>MAC := if_Mac iface, ip_Phase := ''Active''\<rparr>\<rparr>), w4) \<and>
     run_state (PrintResult (mem_plugin i (plugin_subnet False []) True) ((pod_result iface mem_result)\<lparr>res_DNS := nc_DNS n\<rparr>) (CNIVersion n)) w4 = (None, w5)"
proof -
  let ?i = "example_ip ''p'' [10, 1, 0, 7] ''Pending''"
  let ?p = "mem_plugin ?i (plugin_subnet False []) True"
  have "fst (run_Add False [] True fresh_net) = None" by code_simp
  then have run: "run_state (Add ?p mem_kernel example_args) fresh_net = (None, snd (run_Add False [] True fresh_net))"
    by (simp add: run_Add_def prod_eq_iff)
  have "\<forall>f x w w'. run_state (retry_OnConflict ?p f) w = (Inr x, w') \<longrightarrow> attempts f w (Inr x) w'"
    by (auto simp: mem_plugin_def intro: attempts.intros)
  from Add_success_activates [OF run this] show ?thesis
    by (auto simp: mem_plugin_def example_args_def run_simps Let_def get_ip_closure_def run_bind split: if_splits) blast
qed

end
