(* ===== verification/Migrate.thy ===== *)
theory Migrate
  imports WorkloadController ServiceController Webhook
begin

text \<open>
  The migration from the first version: \<open>pkg/migrate\<close> and the prompts of \<open>pkg/utils/utils.go\<close>. The tool reads the
  macvlan resources, writes flat-network resources, rewrites the annotations of the workloads, and makes backups. The record
  \<open>mig_api\<close> has the calls of the clients, of the converters of unstructured objects, which are texts here, of the YAML package, and of the
  terminal. A function with a loop over pages is a partial function on the world: \<open>None\<close> means that it does not return. Log output and the
  texts printed before a prompt are left out.
\<close>

subsection \<open>Types: types/types.go\<close>

record V1Range =
  RangeStart :: string
  RangeEnd :: string

record V1Route =
  v1_Dst :: string
  v1_GW :: string
  v1_Iface :: string

record PodDefaultGateway =
  pdg_Enable :: bool
  pdg_ServiceCIDR :: string

record MacvlanSubnetSpec =
  v1_Master :: string
  v1_VLAN :: int
  v1_CIDR :: string
  v1_Mode :: string
  v1_Gateway :: string
  v1_Ranges :: "V1Range list"
  v1_Routes :: "V1Route list"
  v1_PodDefaultGateway :: PodDefaultGateway
  v1_IPDelayReuse :: int

text \<open>The type meta of an object is its kind.\<close>

record MacvlanSubnet =
  ms_Kind :: string
  ms_meta :: ObjectMeta
  ms_Spec :: MacvlanSubnetSpec

record MacvlanIPSpec =
  mi_Subnet :: string
  mi_PodId :: string
  mi_CIDR :: string
  mi_MAC :: string

record MacvlanIP =
  mi_Kind :: string
  mi_meta :: ObjectMeta
  mi_Spec :: MacvlanIPSpec

subsection \<open>Clients\<close>

datatype resource = macvlanSubnetResource | macvlanIPResource | crdResource

text \<open>The objects that a backup holds.\<close>

datatype saved =
    SavedCRD string ObjectMeta
  | SavedNamespace ObjectMeta
  | SavedV1 MacvlanIP
  | SavedSubnet FlatNetworkSubnet
  | SavedService Service

record migrator =
  workloadKinds :: "string list"
  migrateServices :: bool
  interval :: int
  listLimit :: int
  autoYes :: bool

record 'w mig_api =
  dynamic_List :: "resource \<Rightarrow> int \<Rightarrow> string \<Rightarrow> ('w, error + string list \<times> string) state"
  dynamic_Delete :: "resource \<Rightarrow> string \<Rightarrow> string \<Rightarrow> ('w, error option) state"
  dynamic_Create :: "resource \<Rightarrow> string \<Rightarrow> string \<Rightarrow> ('w, error option) state"
  crd_Get :: "string \<Rightarrow> ('w, error + saved) state"
  FromUnstructured_subnet :: "string \<Rightarrow> error + MacvlanSubnet"
  FromUnstructured_ip :: "string \<Rightarrow> error + MacvlanIP"
  v2Subnet_List :: "string \<Rightarrow> int \<Rightarrow> string \<Rightarrow> ('w, error + FlatNetworkSubnet list \<times> string) state"
  v2Subnet_Create :: "FlatNetworkSubnet \<Rightarrow> ('w, error option) state"
  service_List :: "int \<Rightarrow> string \<Rightarrow> ('w, error + Service list \<times> string) state"
  service_Create :: "Service \<Rightarrow> ('w, error option) state"
  namespace_Get :: "string \<Rightarrow> ('w, error + saved) state"
  namespace_Create :: "string \<Rightarrow> ('w, error option) state"
  workload_List :: "object_type \<Rightarrow> int \<Rightarrow> string \<Rightarrow> ('w, error + Workload list \<times> string) state"
  workload_Get :: "object_type \<Rightarrow> string \<Rightarrow> string \<Rightarrow> ('w, error + Workload) state"
  workload_Update :: "Workload \<Rightarrow> ('w, error + Workload) state"
  retry_workload :: "backoff \<Rightarrow> ('w, error + Workload) state \<Rightarrow> ('w, error + Workload) state"
  Scanf :: "('w, error + string) state"
  mig_Sleep :: "int \<Rightarrow> ('w, unit) state"
  yaml_Marshal :: "saved \<Rightarrow> error + string"
  yaml_Kind :: "string \<Rightarrow> error + string \<times> string \<times> string"
  yaml_Service :: "string \<Rightarrow> error + Service"
  yaml_Subnet :: "string \<Rightarrow> error + FlatNetworkSubnet"
  yaml_Namespace :: "string \<Rightarrow> error + string"
  file_Write :: "string \<Rightarrow> ('w, error option) state"
  os_ReadFile :: "string \<Rightarrow> ('w, error + string) state"

abbreviation v1SubnetCRD :: string where "v1SubnetCRD \<equiv> ''macvlansubnets.macvlan.cluster.cattle.io''"
abbreviation v1IPCRD :: string where "v1IPCRD \<equiv> ''macvlanips.macvlan.cluster.cattle.io''"
abbreviation v2SubnetCRD :: string where "v2SubnetCRD \<equiv> ''flatnetworksubnets.flatnetwork.pandaria.io''"

text \<open>The resource names of \<open>resource.Resource\<close>.\<close>

fun resource_name :: "resource \<Rightarrow> string" where
  "resource_name macvlanSubnetResource = ''macvlansubnets''"
| "resource_name macvlanIPResource = ''macvlanips''"
| "resource_name crdResource = ''customresourcedefinitions''"

fun resource_group :: "resource \<Rightarrow> string" where
  "resource_group macvlanSubnetResource = ''macvlan.cluster.cattle.io''"
| "resource_group macvlanIPResource = ''macvlan.cluster.cattle.io''"
| "resource_group crdResource = ''apiextensions.k8s.io''"

subsection \<open>Prompts: utils.go\<close>

definition PromptUser :: "'w mig_api \<Rightarrow> bool \<Rightarrow> ('w, error option) state" where
  "PromptUser api yes =
     (if yes then ret None
      else
        do {
          r \<leftarrow> Scanf api;
          case r of
            Inl e \<Rightarrow> ret (Some e)
          | Inr s \<Rightarrow>
              if s = [] then ret None
              else if hd s \<noteq> CHR ''y'' \<and> hd s \<noteq> CHR ''Y'' then ret (Some (Errorf ''process canceled by user'' []))
              else ret None
        })"

subsection \<open>Pages\<close>

text \<open>The loops that handle each page, and the loops that collect the objects of all pages.\<close>

partial_function (option) each_page ::
    "(string \<Rightarrow> ('w, error + 'a list \<times> string) state) \<Rightarrow> ('a list \<Rightarrow> ('w, error option) state) \<Rightarrow> string \<Rightarrow> 'w \<Rightarrow>
     (error option \<times> 'w) option" where
  "each_page page body c w =
     (case run_state (page c) w of
        (Inl e, w1) \<Rightarrow> Some (Some e, w1)
      | (Inr (items, next), w1) \<Rightarrow>
          (case run_state (body items) w1 of
             (Some e, w2) \<Rightarrow> Some (Some e, w2)
           | (None, w2) \<Rightarrow> if next = [] then Some (None, w2) else each_page page body next w2))"

partial_function (option) collect_pages ::
    "(string \<Rightarrow> ('w, error + 'a list \<times> string) state) \<Rightarrow> (error \<Rightarrow> error + 'b list) \<Rightarrow> ('a list \<Rightarrow> error + 'b list) \<Rightarrow>
     ('w, unit) state \<Rightarrow> 'b list \<Rightarrow> string \<Rightarrow> 'w \<Rightarrow> ((error + 'b list) \<times> 'w) option" where
  "collect_pages page failed conv sleep objects c w =
     (case run_state (page c) w of
        (Inl e, w1) \<Rightarrow> Some (failed e, w1)
      | (Inr (items, next), w1) \<Rightarrow>
          (case conv items of
             Inl e \<Rightarrow> Some (Inl e, w1)
           | Inr os \<Rightarrow>
               (case run_state sleep w1 of
                  (_, w2) \<Rightarrow>
                    if next = [] then Some (Inr (objects @ os), w2)
                    else collect_pages page failed conv sleep (objects @ os) next w2)))"

declare each_page.simps [code]
declare collect_pages.simps [code]

fun convert_all :: "('a \<Rightarrow> error + 'b) \<Rightarrow> 'a list \<Rightarrow> error + 'b list" where
  "convert_all f [] = Inr []"
| "convert_all f (x # xs) =
     (case f x of
        Inl e \<Rightarrow> Inl e
      | Inr y \<Rightarrow>
          (case convert_all f xs of
             Inl e \<Rightarrow> Inl e
           | Inr ys \<Rightarrow> Inr (y # ys)))"

text \<open>A loop whose body may fail.\<close>

fun for_each :: "('a \<Rightarrow> ('w, error option) state) \<Rightarrow> 'a list \<Rightarrow> ('w, error option) state" where
  "for_each f [] = ret None"
| "for_each f (x # xs) =
     do {
       e \<leftarrow> f x;
       if e \<noteq> None then ret e else for_each f xs
     }"

text \<open>Running one part after another.\<close>

definition after_page :: "(error option \<times> 'w) option \<Rightarrow> (error \<Rightarrow> error) \<Rightarrow> ('w \<Rightarrow> (error option \<times> 'w) option) \<Rightarrow> (error option \<times> 'w) option" where
  "after_page r wrap next =
     Option.bind r (\<lambda>(x, w). case x of Some e \<Rightarrow> Some (Some (wrap e), w) | None \<Rightarrow> next w)"

subsection \<open>Annotations: annotation\_maps.go\<close>

definition annotationKeyMap :: strmap where
  "annotationKeyMap = [
     (''macvlan.pandaria.cattle.io/ip'', AnnotationIP),
     (''macvlan.pandaria.cattle.io/subnet'', AnnotationSubnet),
     (''macvlan.pandaria.cattle.io/mac'', AnnotationMac),
     (''macvlan.panda.io/ingress'', AnnotationIngress),
     (''macvlan.panda.io/macvlanService'', AnnotationFlatNetworkService),
     (''macvlan.panda.io/ipDelayReuseTimestamp'', []),
     (''macvlan.panda.io/ipv6to4'', AnnotationsIPv6to4)]"

definition k8sCNINetworksMultiKey :: string where "k8sCNINetworksMultiKey = ''k8s.v1.cni.cncf.io/networks''"
definition k8sCNINetworksSingleKey :: string where "k8sCNINetworksSingleKey = ''v1.multus-cni.io/default-network''"
abbreviation macvlanV1AnnotationIP :: string where "macvlanV1AnnotationIP \<equiv> ''macvlan.pandaria.cattle.io/ip''"
abbreviation macvlanV1AnnotationSubnet :: string where "macvlanV1AnnotationSubnet \<equiv> ''macvlan.pandaria.cattle.io/subnet''"

text \<open>The attachment of one network to one interface, as JSON.\<close>

definition attachment :: "string \<Rightarrow> string \<Rightarrow> string" where
  "attachment name iface = ''[{'' @ json_string ''name'' @ '':'' @ json_string name @ '','' @ json_string ''interface'' @ '':'' @
     json_string iface @ ''}]''"

definition rancherFlatNetworkCNIMulti :: string where
  "rancherFlatNetworkCNIMulti = attachment ''rancher-flat-network'' ''eth1''"
definition rancherFlatNetworkCNISingle :: string where
  "rancherFlatNetworkCNISingle = attachment ''rancher-flat-network'' ''eth0''"
definition macvlanV1NetAttatchDefNameMulti :: string where
  "macvlanV1NetAttatchDefNameMulti = attachment ''static-macvlan-cni-attach'' ''eth1''"
definition macvlanV1NetAttatchDefNameSingle :: string where
  "macvlanV1NetAttatchDefNameSingle = attachment ''static-macvlan-cni-attach'' ''eth0''"

definition is_v1_key :: "string \<Rightarrow> bool" where
  "is_v1_key k = (strings_Contains k ''macvlan.panda.io'' \<or> strings_Contains k ''macvlan.pandaria.cattle.io'')"

text \<open>One round of the loop over the old annotations, which updates the copy \<open>u\<close>.\<close>

definition migrate_key :: "string \<times> string \<Rightarrow> strmap \<Rightarrow> strmap" where
  "migrate_key kv u =
     (case kv of (k, v) \<Rightarrow>
        if k = k8sCNINetworksMultiKey \<and> v = macvlanV1NetAttatchDefNameMulti then AList.update k rancherFlatNetworkCNIMulti u
        else if k = k8sCNINetworksSingleKey \<and> v = macvlanV1NetAttatchDefNameSingle then AList.update k rancherFlatNetworkCNISingle u
        else if \<not> is_v1_key k then u
        else
          (let n = mget annotationKeyMap k; u = AList.delete k u in
           if n \<noteq> [] then AList.update n v u else u))"

text \<open>Go visits the entries of the map in an order of its own: \<open>order\<close> is the list of the entries in that order.\<close>

definition updated_annotations :: "strmap \<Rightarrow> strmap \<Rightarrow> strmap" where
  "updated_annotations order a = fold migrate_key order a"

definition updateAnnotation :: "(strmap \<Rightarrow> strmap) \<Rightarrow> Workload \<Rightarrow> strmap" where
  "updateAnnotation map_range w = (let a = Annotations (GetTemplateObjectMeta w) in updated_annotations (map_range a) a)"

definition removeV1Labels :: "Workload \<Rightarrow> strmap" where
  "removeV1Labels w =
     filter (\<lambda>(k, v). \<not> (prefix ''macvlan.panda.io/'' k \<or> prefix ''macvlan.pandaria.cattle.io/'' k)) (Labels (w_meta w))"

subsection \<open>Subnets: subnet.go\<close>

fun migrate_ranges :: "string \<Rightarrow> V1Range list \<Rightarrow> error + IPRange list" where
  "migrate_ranges name [] = Inr []"
| "migrate_ranges name (mr # mrs) =
     (let r = \<lparr>From = ParseIP (RangeStart mr), To = ParseIP (RangeEnd mr)\<rparr> in
      if From r = [] \<or> To r = [] then
        Inl (Errorf ''failed to parse MacvlanSubnet [%v] custom range [%v - %v]: invalid IP address'' [name, RangeStart mr, RangeEnd mr])
      else case migrate_ranges name mrs of
        Inl e \<Rightarrow> Inl e
      | Inr rs \<Rightarrow> Inr (r # rs))"

fun migrate_routes :: "string \<Rightarrow> V1Route list \<Rightarrow> error + Route list" where
  "migrate_routes name [] = Inr []"
| "migrate_routes name (mr # mrs) =
     (let r = \<lparr>route_Dev = v1_Iface mr, route_Dst = v1_Dst mr, route_Src = [], route_Via = ParseIP (v1_GW mr), route_Priority = 0\<rparr> in
      if route_Via r = [] \<and> v1_GW mr \<noteq> [] then
        Inl (Errorf ''failed to parse MacvlanSubnet [%v] custom route gateway [%v]: invalid IP address'' [name, v1_GW mr])
      else case migrate_routes name mrs of
        Inl e \<Rightarrow> Inl e
      | Inr rs \<Rightarrow> Inr (r # rs))"

definition newFlatNetworkSubnet :: "MacvlanSubnet \<Rightarrow> error + FlatNetworkSubnet" where
  "newFlatNetworkSubnet ms =
     (let spec = ms_Spec ms; name = Name (ms_meta ms);
          fs = \<lparr>sn_meta = no_meta\<lparr>Name := name, Namespace := SubnetNamespace, Labels := Labels (ms_meta ms),
                  Annotations := Annotations (ms_meta ms)\<rparr>,
                sn_Spec = \<lparr>FlatMode = FlatModeMacvlan, Master = v1_Master spec, VLAN = v1_VLAN spec, CIDR = v1_CIDR spec,
                  Mode = v1_Mode spec, IPvlanFlag = [], Gateway = ParseIP (v1_Gateway spec), Ranges = [], Routes = [],
                  Settings = \<lparr>AddClusterCIDR = False, AddServiceCIDR = False, AddNodeCIDR = False, AddPodIPToHost = False,
                    FlatNetworkDefaultGateway = pdg_Enable (v1_PodDefaultGateway spec)\<rparr>\<rparr>,
                sn_Status = \<lparr>sn_Phase = [], sn_FailureMessage = [], sn_Gateway = [], ReservedIP = [], UsedIP = [],
                  UsedIPCount = 0, UsedMAC = []\<rparr>\<rparr> in
      case migrate_ranges name (v1_Ranges spec) of
        Inl e \<Rightarrow> Inl e
      | Inr ranges \<Rightarrow>
          (case migrate_routes name (v1_Routes spec) of
             Inl e \<Rightarrow> Inl e
           | Inr routes \<Rightarrow> Inr (fs\<lparr>sn_Spec := (sn_Spec fs)\<lparr>Ranges := ranges, Routes := routes\<rparr>\<rparr>)))"

definition migrate_subnet_item :: "'w mig_api \<Rightarrow> migrator \<Rightarrow> string \<Rightarrow> ('w, error option) state" where
  "migrate_subnet_item api m item =
     (case FromUnstructured_subnet api item of
        Inl e \<Rightarrow> ret (Some (Wrapf ''failed to convert unstruct object to macvlan.cluster.cattle.io/v1 MacvlanSubnet: %w'' [] e))
      | Inr subnet \<Rightarrow>
          (case newFlatNetworkSubnet subnet of
             Inl e \<Rightarrow> ret (Some e)
           | Inr fs \<Rightarrow>
               do {
                 x \<leftarrow> v2Subnet_Create api fs;
                 case x of
                   Some e \<Rightarrow>
                     if IsAlreadyExists e then do { _ \<leftarrow> mig_Sleep api (interval m); ret None }
                     else ret (Some (Wrapf ''failed to create V2 FlatNetwork Subnet [%v]: %w'' [sn_Name fs] e))
                 | None \<Rightarrow> do { _ \<leftarrow> mig_Sleep api (interval m); ret None }
               }))"

definition migrateSubnetList :: "'w mig_api \<Rightarrow> migrator \<Rightarrow> string list \<Rightarrow> ('w, error option) state" where
  "migrateSubnetList api m items = for_each (migrate_subnet_item api m) items"

text \<open>The list operation with the error of the caller.\<close>

definition wrapping :: "(error \<Rightarrow> error) \<Rightarrow> ('w, error + 'a) state \<Rightarrow> ('w, error + 'a) state" where
  "wrapping f p = do { r \<leftarrow> p; ret (map_sum f id r) }"

definition migrateSubnets :: "'w mig_api \<Rightarrow> migrator \<Rightarrow> 'w \<Rightarrow> (error option \<times> 'w) option" where
  "migrateSubnets api m w =
     after_page (each_page (\<lambda>c. wrapping (Wrapf ''failed to list MacvlanSubnet resource: %w'' [])
         (dynamic_List api macvlanSubnetResource (listLimit m) c)) (migrateSubnetList api m) [] w)
       id (\<lambda>w. Some (None, snd (run_state (mig_Sleep api time_Second) w)))"

text \<open>Whatever the resource is, its objects are converted to the type of the IPs.\<close>

definition listV1Resources :: "'w mig_api \<Rightarrow> migrator \<Rightarrow> resource \<Rightarrow> 'w \<Rightarrow> ((error + MacvlanIP list) \<times> 'w) option" where
  "listV1Resources api m res w =
     collect_pages (dynamic_List api res (listLimit m))
       (\<lambda>e. if IsNotFound e then Inr [] else Inl (Wrapf ''failed to list %v resource: %w'' [resource_name res] e))
       (convert_all (\<lambda>item. map_sum (Wrapf ''failed to convert unstruct object to %v %v: %w'' [resource_group res, resource_name res]) id
          (FromUnstructured_ip api item)))
       (mig_Sleep api (interval m)) [] [] w"

definition listV2Subnets :: "'w mig_api \<Rightarrow> migrator \<Rightarrow> 'w \<Rightarrow> ((error + FlatNetworkSubnet list) \<times> 'w) option" where
  "listV2Subnets api m w =
     collect_pages (v2Subnet_List api SubnetNamespace (listLimit m))
       (\<lambda>e. if IsNotFound e then Inr [] else Inl (Wrapf ''failed to list FlatNetworkSubnet resource: %w'' [] e))
       Inr (mig_Sleep api (interval m)) [] [] w"

definition confirm :: "'w mig_api \<Rightarrow> migrator \<Rightarrow> ('w, error option) state" where
  "confirm api m =
     (if autoYes m then ret None
      else
        do {
          r \<leftarrow> Scanf api;
          case r of
            Inl e \<Rightarrow> ret (Some e)
          | Inr s \<Rightarrow>
              if s \<noteq> [] \<and> hd s \<noteq> CHR ''y'' \<and> hd s \<noteq> CHR ''Y'' then ret (Some (Errorf ''abort by user'' []))
              else ret None
        })"

definition deleteV1Subnet :: "'w mig_api \<Rightarrow> migrator \<Rightarrow> string \<Rightarrow> string \<Rightarrow> ('w, error option) state" where
  "deleteV1Subnet api m ns name =
     do {
       x \<leftarrow> confirm api m;
       if x \<noteq> None then ret x
       else
         do {
           x \<leftarrow> dynamic_Delete api macvlanSubnetResource ns name;
           case x of
             Some e \<Rightarrow> ret (Some (Wrapf ''failed to delete %v %v: %w'' [v1SubnetCRD, name] e))
           | None \<Rightarrow> do { _ \<leftarrow> mig_Sleep api (interval m); ret None }
         }
     }"

definition deleteV1CRD :: "'w mig_api \<Rightarrow> migrator \<Rightarrow> ('w, error option) state" where
  "deleteV1CRD api m =
     for_each (\<lambda>crd.
       do {
         x \<leftarrow> confirm api m;
         if x \<noteq> None then ret x
         else
           do {
             x \<leftarrow> dynamic_Delete api crdResource [] crd;
             case x of
               Some e \<Rightarrow> if IsNotFound e then ret None else ret (Some (Wrapf ''failed to delete CRD %v: %w'' [crd] e))
             | None \<Rightarrow> ret None
           }
       }) [v1IPCRD, v1SubnetCRD]"

subsection \<open>Services: service.go\<close>

definition listV1Service :: "'w mig_api \<Rightarrow> migrator \<Rightarrow> 'w \<Rightarrow> ((error + Service list) \<times> 'w) option" where
  "listV1Service api m w =
     collect_pages (service_List api (listLimit m)) (\<lambda>e. Inl (Wrapf ''failed to list corev1.Service resource: %w'' [] e))
       (\<lambda>items. Inr (filter IsMacvlanV1Service items)) (mig_Sleep api (interval m)) [] [] w"

definition migrate_newFlatNetworkService :: "Service \<Rightarrow> Service" where
  "migrate_newFlatNetworkService svc = \<lparr>
     svc_meta = no_meta\<lparr>Name := strings_TrimSuffix (svc_Name svc) ''-macvlan'' @ FlatNetworkServiceNameSuffix,
       Namespace := svc_Namespace svc, OwnerReferences := OwnerReferences (svc_meta svc),
       Annotations := [(networks_annotation, NetAttatchDefName)]\<rparr>,
     svc_Ports = map (\<lambda>v. v\<lparr>sp_NodePort := 0\<rparr>) (svc_Ports svc),
     svc_Selector = svc_Selector svc,
     svc_ClusterIP = clusterIPNone,
     svc_ClusterIPs = [''None''],
     svc_Type = ''ClusterIP''\<rparr>"

definition migrate_service_item :: "'w mig_api \<Rightarrow> migrator \<Rightarrow> Service \<Rightarrow> ('w, error option) state" where
  "migrate_service_item api m svc =
     (if \<not> IsMacvlanV1Service svc then ret None
      else
        (let fs = migrate_newFlatNetworkService svc in
         do {
           x \<leftarrow> PromptUser api (autoYes m);
           case x of
             Some e \<Rightarrow> ret (Some (Wrapf ''failed to create service %v: %w'' [svc_Name fs] e))
           | None \<Rightarrow>
               do {
                 _ \<leftarrow> mig_Sleep api (interval m);
                 x \<leftarrow> service_Create api fs;
                 case x of
                   Some e \<Rightarrow>
                     if IsAlreadyExists e then ret None
                     else ret (Some (Wrapf ''failed to create service %v: %w'' [svc_Name fs] e))
                 | None \<Rightarrow> do { _ \<leftarrow> mig_Sleep api (interval m); ret None }
               }
         }))"

definition migrateServiceList :: "'w mig_api \<Rightarrow> migrator \<Rightarrow> Service list \<Rightarrow> ('w, error option) state" where
  "migrateServiceList api m svcs = for_each (migrate_service_item api m) svcs"

definition migrateService :: "'w mig_api \<Rightarrow> migrator \<Rightarrow> 'w \<Rightarrow> (error option \<times> 'w) option" where
  "migrateService api m w =
     each_page (\<lambda>c. wrapping (Wrapf ''failed to list service: %w'' []) (service_List api 100 c)) (migrateServiceList api m) [] w"

subsection \<open>Workloads: workloads.go\<close>

definition isMacvlanV1Enabled :: "strmap \<Rightarrow> bool" where
  "isMacvlanV1Enabled a =
     (if a = [] then False
      else if mget a macvlanV1AnnotationIP = [] \<or> mget a macvlanV1AnnotationSubnet = [] then False
      else True)"

abbreviation workload_types :: "object_type set" where
  "workload_types \<equiv> {Deployment, DaemonSet, StatefulSet, CronJob, Job}"

definition getWorkload :: "'w mig_api \<Rightarrow> Workload \<Rightarrow> ('w, error + Workload) state" where
  "getWorkload api w =
     (if w_type w \<in> workload_types then workload_Get api (w_type w) (Namespace (w_meta w)) (Name (w_meta w))
      else ret (Inl (Errorf ''unrecognized workload type %T'' [])))"

definition updateWorkload :: "'w mig_api \<Rightarrow> Workload \<Rightarrow> ('w, error + Workload) state" where
  "updateWorkload api w =
     (if w_type w \<in> workload_types then workload_Update api w else ret (Inl (Errorf ''unrecognized workload type %T'' [])))"

definition setTemplateObjectMetaAnnotations :: "Workload \<Rightarrow> strmap \<Rightarrow> Workload" where
  "setTemplateObjectMetaAnnotations w a =
     (case w_type w of
        Deployment \<Rightarrow> w\<lparr>w_template := (w_template w)\<lparr>Annotations := a\<rparr>\<rparr>
      | DaemonSet \<Rightarrow> w\<lparr>w_template := (w_template w)\<lparr>Annotations := a\<rparr>\<rparr>
      | StatefulSet \<Rightarrow> w\<lparr>w_template := (w_template w)\<lparr>Annotations := a\<rparr>\<rparr>
      | CronJob \<Rightarrow> w\<lparr>w_jobTemplate := (w_jobTemplate w)\<lparr>Annotations := a\<rparr>\<rparr>
      | Job \<Rightarrow> w\<lparr>w_template := (w_template w)\<lparr>Annotations := a\<rparr>\<rparr>
      | _ \<Rightarrow> w)"

text \<open>
  The closure reads the workload again before it changes it. After a failed read the error names the object that the client returned with it;
  here it names the workload.
\<close>

definition workload_closure :: "'w mig_api \<Rightarrow> Workload \<Rightarrow> strmap \<Rightarrow> ('w, error + Workload) state" where
  "workload_closure api o1 au =
     do {
       r \<leftarrow> getWorkload api o1;
       case r of
         Inl e \<Rightarrow> ret (Inl (Wrapf ''failed to get workload %T [%v/%v]: %w'' [Namespace (w_meta o1), Name (w_meta o1)] e))
       | Inr w \<Rightarrow>
           (let w = setTemplateObjectMetaAnnotations w au in
            updateWorkload api (w\<lparr>w_meta := (w_meta w)\<lparr>Labels := removeV1Labels w\<rparr>\<rparr>))
     }"

definition processPodTemplateAnnotation ::
    "'w mig_api \<Rightarrow> migrator \<Rightarrow> (strmap \<Rightarrow> strmap) \<Rightarrow> Workload \<Rightarrow> ('w, error option) state" where
  "processPodTemplateAnnotation api m map_range w =
     (let annotation = Annotations (GetTemplateObjectMeta w) in
      if \<not> isMacvlanV1Enabled annotation then ret None
      else
        (let au = updateAnnotation map_range w in
         if meq annotation au then ret None
         else
           do {
             x \<leftarrow> PromptUser api (autoYes m);
             case x of
               Some e \<Rightarrow> ret (Some (Wrapf ''failed to update %T [%v/%v] annotation: %w'' [Namespace (w_meta w), Name (w_meta w)] e))
             | None \<Rightarrow>
                 do {
                   r \<leftarrow> retry_workload api DefaultBackoff (workload_closure api w au);
                   case r of
                     Inl e \<Rightarrow> ret (Some (Wrapf ''failed to update workload %T [%v/%v]: %w'' [Namespace (w_meta w), Name (w_meta w)] e))
                   | Inr _ \<Rightarrow> do { _ \<leftarrow> mig_Sleep api (interval m); ret None }
                 }
           }))"

definition kind_type :: "string \<Rightarrow> object_type option" where
  "kind_type kind =
     (let k = strings_TrimSuffix (strings_ToLower kind) ''s'' in
      if k = ''deployment'' then Some Deployment
      else if k = ''daemonset'' then Some DaemonSet
      else if k = ''statefulset'' then Some StatefulSet
      else if k = ''cronjob'' then Some CronJob
      else if k = ''job'' then Some Job
      else None)"

definition migrateWorkload ::
    "'w mig_api \<Rightarrow> migrator \<Rightarrow> (strmap \<Rightarrow> strmap) \<Rightarrow> string \<Rightarrow> 'w \<Rightarrow> (error option \<times> 'w) option" where
  "migrateWorkload api m map_range kind w =
     (case kind_type kind of
        None \<Rightarrow> Some (None, w)
      | Some t \<Rightarrow> each_page (workload_List api t 100) (for_each (processPodTemplateAnnotation api m map_range)) [] w)"

subsection \<open>Definitions of the resources: crd.go\<close>

definition found_or_skip :: "(error \<Rightarrow> error) \<Rightarrow> error + saved \<Rightarrow> error + saved option" where
  "found_or_skip wrap r =
     (case r of
        Inl e \<Rightarrow> if IsNotFound e then Inr None else Inl (wrap e)
      | Inr x \<Rightarrow> Inr (Some x))"

definition getV1SubnetCRD :: "'w mig_api \<Rightarrow> ('w, error + saved option) state" where
  "getV1SubnetCRD api = do { r \<leftarrow> crd_Get api v1SubnetCRD; ret (found_or_skip (Wrapf ''failed to get %q CRD: %w'' [v1SubnetCRD]) r) }"

definition getV2SubnetCRD :: "'w mig_api \<Rightarrow> ('w, error + saved option) state" where
  "getV2SubnetCRD api = do { r \<leftarrow> crd_Get api v2SubnetCRD; ret (found_or_skip (Wrapf ''failed to get %q CRD: %w'' [v2SubnetCRD]) r) }"

definition getV2Namespace :: "'w mig_api \<Rightarrow> ('w, error + saved option) state" where
  "getV2Namespace api = do { r \<leftarrow> namespace_Get api SubnetNamespace; ret (found_or_skip (Wrapf ''failed to get %q namespace: %w'' [SubnetNamespace]) r) }"

subsection \<open>The migrator: migrator.go\<close>

definition NewResourceMigrator :: "string \<Rightarrow> bool \<Rightarrow> int \<Rightarrow> int \<Rightarrow> bool \<Rightarrow> migrator" where
  "NewResourceMigrator kinds services intv limit yes =
     \<lparr>workloadKinds = filter (\<lambda>s. s \<noteq> []) (strings_Split (strings_TrimSpace kinds) (CHR '','')),
      migrateServices = services, interval = intv, listLimit = (if limit < 0 then 100 else limit), autoYes = yes\<rparr>"

fun migrate_kinds ::
    "'w mig_api \<Rightarrow> migrator \<Rightarrow> (strmap \<Rightarrow> strmap) \<Rightarrow> string list \<Rightarrow> 'w \<Rightarrow> (error option \<times> 'w) option" where
  "migrate_kinds api m map_range [] w = Some (None, w)"
| "migrate_kinds api m map_range (v # vs) w =
     after_page (migrateWorkload api m map_range v w) (Wrapf ''failed to migrate %v: %w'' [v]) (migrate_kinds api m map_range vs)"

definition Run :: "'w mig_api \<Rightarrow> migrator \<Rightarrow> (strmap \<Rightarrow> strmap) \<Rightarrow> 'w \<Rightarrow> (error option \<times> 'w) option" where
  "Run api m map_range w =
     after_page (migrateSubnets api m w) (Wrapf ''failed to migrate subnet resource: %w'' [])
       (\<lambda>w. if workloadKinds m = [] then Some (None, w)
            else after_page (migrate_kinds api m map_range (workloadKinds m) w) id
              (\<lambda>w. if migrateServices m
                   then after_page (migrateService api m w) (Wrapf ''failed to migrate service: %w'' []) (\<lambda>w. Some (None, w))
                   else Some (None, w)))"

text \<open>The metadata that a backup keeps; the generation and the managed fields, which are reset too, are not part of the record.\<close>

definition clean_meta :: "ObjectMeta \<Rightarrow> ObjectMeta" where
  "clean_meta m = m\<lparr>CreationTimestamp := 0, ResourceVersion := [], UID := [],
     Annotations := AList.update ''kubectl.kubernetes.io/last-applied-configuration'' [] (Annotations m)\<rparr>"

fun clean_saved :: "saved \<Rightarrow> saved" where
  "clean_saved (SavedCRD t m) = SavedCRD t (clean_meta m)"
| "clean_saved (SavedNamespace m) = SavedNamespace (clean_meta m)"
| "clean_saved (SavedV1 i) = SavedV1 (i\<lparr>mi_meta := clean_meta (mi_meta i)\<rparr>)"
| "clean_saved (SavedSubnet s) = SavedSubnet (s\<lparr>sn_meta := clean_meta (sn_meta s)\<rparr>)"
| "clean_saved (SavedService s) = SavedService (s\<lparr>svc_meta := clean_meta (svc_meta s)\<rparr>)"

definition save_one :: "'w mig_api \<Rightarrow> saved \<Rightarrow> ('w, error option) state" where
  "save_one api x =
     (case yaml_Marshal api (clean_saved x) of
        Inl e \<Rightarrow> ret (Some (Wrapf ''failed to marshal yaml: %w'' [] e))
      | Inr b \<Rightarrow>
          do {
            e \<leftarrow> file_Write api b;
            case e of
              Some e \<Rightarrow> ret (Some (Wrapf ''failed to write data to file: %w'' [] e))
            | None \<Rightarrow>
                do {
                  e \<leftarrow> file_Write api (''---'' @ [CHR 0x0A]);
                  case e of
                    Some e \<Rightarrow> ret (Some (Wrapf ''failed to write data to file: %w'' [] e))
                  | None \<Rightarrow> ret None
                }
          })"

definition saveYAML :: "'w mig_api \<Rightarrow> saved list \<Rightarrow> ('w, error option) state" where
  "saveYAML api objs = for_each (save_one api) objs"

text \<open>A backup gets the definition of the resource, if there is one, lists the objects, and saves them.\<close>

definition opt_list :: "'a option \<Rightarrow> 'a list" where
  "opt_list x = (case x of None \<Rightarrow> [] | Some y \<Rightarrow> [y])"

definition save_listed ::
    "'w mig_api \<Rightarrow> saved list \<Rightarrow> (error \<Rightarrow> error) \<Rightarrow> ('a \<Rightarrow> saved) \<Rightarrow> ((error + 'a list) \<times> 'w) option \<Rightarrow> (error option \<times> 'w) option" where
  "save_listed api objs wrap save r =
     Option.bind r (\<lambda>(x, w). case x of
        Inl e \<Rightarrow> Some (Some (wrap e), w)
      | Inr xs \<Rightarrow> Some (run_state (saveYAML api (objs @ map save xs)) w))"

definition BackupV1 :: "'w mig_api \<Rightarrow> migrator \<Rightarrow> 'w \<Rightarrow> (error option \<times> 'w) option" where
  "BackupV1 api m w =
     (case run_state (getV1SubnetCRD api) w of
        (Inl e, w) \<Rightarrow> Some (Some (Wrapf ''failed to get %q CRD: %w'' [v1SubnetCRD] e), w)
      | (Inr crd, w) \<Rightarrow>
          save_listed api (opt_list crd) (Wrapf ''failed to list %v: %w'' [v1SubnetCRD]) SavedV1
            (listV1Resources api m macvlanSubnetResource w))"

definition BackupV2 :: "'w mig_api \<Rightarrow> migrator \<Rightarrow> 'w \<Rightarrow> (error option \<times> 'w) option" where
  "BackupV2 api m w =
     (case run_state (getV2SubnetCRD api) w of
        (Inl e, w) \<Rightarrow> Some (Some (Wrapf ''failed to get %q CRD: %w'' [v2SubnetCRD] e), w)
      | (Inr crd, w) \<Rightarrow>
          (case run_state (getV2Namespace api) w of
             (Inl e, w) \<Rightarrow> Some (Some (Wrapf ''failed to get %q CRD: %w'' [v2SubnetCRD] e), w)
           | (Inr ns, w) \<Rightarrow>
               save_listed api (opt_list crd @ opt_list ns) (Wrapf ''failed to list flatnetworksubnets.flatnetwork.pandaria.io: %w'' [])
                 SavedSubnet (listV2Subnets api m w)))"

definition BackupV1Service :: "'w mig_api \<Rightarrow> migrator \<Rightarrow> 'w \<Rightarrow> (error option \<times> 'w) option" where
  "BackupV1Service api m w =
     save_listed api [] (Wrapf ''failed to list corev1.Service: %w'' []) SavedService (listV1Service api m w)"

text \<open>\<open>strings.Split\<close> with a separator of several characters; \<open>acc\<close> is the part read so far, reversed.\<close>

function split_at :: "string \<Rightarrow> string \<Rightarrow> string \<Rightarrow> string list" where
  "split_at sep acc s =
     (case s of
        [] \<Rightarrow> [rev acc]
      | c # cs \<Rightarrow>
          if sep \<noteq> [] \<and> prefix sep s then rev acc # split_at sep [] (drop (length sep) s)
          else split_at sep (c # acc) cs)"
  by pat_completeness auto

termination
  by (relation "measure (\<lambda>(sep, acc, s). length s)") auto

text \<open>Creating the object of one document; other kinds are skipped.\<close>

definition restore_create :: "'w mig_api \<Rightarrow> string \<Rightarrow> string \<Rightarrow> string \<Rightarrow> string \<Rightarrow> ('w, error + error option) state" where
  "restore_create api s kind name ns =
     (let failed = (\<lambda>e. ret (Inl (Wrapf ''failed to unmarshal %v %v: %w'' [kind, name] e)));
          done = (\<lambda>p. do { x \<leftarrow> p; ret (Inr x) }) in
      if kind = ''Namespace'' then (case yaml_Namespace api s of Inl e \<Rightarrow> failed e | Inr n \<Rightarrow> done (namespace_Create api n))
      else if kind = ''CustomResourceDefinition'' then done (dynamic_Create api crdResource [] s)
      else if kind = ''FlatNetworkSubnet'' then (case yaml_Subnet api s of Inl e \<Rightarrow> failed e | Inr x \<Rightarrow> done (v2Subnet_Create api x))
      else if kind = ''MacvlanSubnet'' then done (dynamic_Create api macvlanSubnetResource ns s)
      else if kind = ''Service'' then (case yaml_Service api s of Inl e \<Rightarrow> failed e | Inr x \<Rightarrow> done (service_Create api x))
      else ret (Inr None))"

definition restore_one :: "'w mig_api \<Rightarrow> migrator \<Rightarrow> string \<Rightarrow> ('w, error option) state" where
  "restore_one api m s =
     (if s = [] \<or> s = [CHR 0x0A] then ret None
      else case yaml_Kind api s of
        Inl e \<Rightarrow> ret (Some (Wrapf ''failed to decode yaml: %w'' [] e))
      | Inr (kind, name, ns) \<Rightarrow>
          do {
            r \<leftarrow> restore_create api s kind name ns;
            case r of
              Inl e \<Rightarrow> ret (Some e)
            | Inr (Some e) \<Rightarrow>
                if IsAlreadyExists e then do { _ \<leftarrow> mig_Sleep api (interval m); ret None }
                else ret (Some (Wrapf ''failed to create %v %v: %w'' [kind, name] e))
            | Inr None \<Rightarrow> do { _ \<leftarrow> mig_Sleep api (interval m); ret None }
          })"

definition Restore :: "'w mig_api \<Rightarrow> migrator \<Rightarrow> string \<Rightarrow> ('w, error option) state" where
  "Restore api m filePath =
     do {
       r \<leftarrow> os_ReadFile api filePath;
       case r of
         Inl e \<Rightarrow> ret (Some (Wrapf ''failed to open %q: %w'' [filePath] e))
       | Inr s \<Rightarrow> for_each (restore_one api m) (split_at ([CHR 0x0A] @ ''---'') [] s)
     }"

text \<open>A resource that is not found counts as an empty list.\<close>

definition found_or_empty :: "(error \<Rightarrow> error) \<Rightarrow> error + 'a list \<Rightarrow> error + 'a list" where
  "found_or_empty wrap r = (case r of Inl e \<Rightarrow> if IsNotFound e then Inr [] else Inl (wrap e) | Inr xs \<Rightarrow> Inr xs)"

definition Clean :: "'w mig_api \<Rightarrow> migrator \<Rightarrow> 'w \<Rightarrow> (error option \<times> 'w) option" where
  "Clean api m w =
     Option.bind (listV1Resources api m macvlanIPResource w) (\<lambda>(r, w).
       case found_or_empty (Wrapf ''failed to list %q: %w'' [v1IPCRD]) r of
         Inl e \<Rightarrow> Some (Some e, w)
       | Inr ips \<Rightarrow>
           if ips \<noteq> [] then Some (Some (Errorf ''unable to cleanup: pods are still using Macvlan V1'' []), w)
           else Option.bind (listV1Resources api m macvlanSubnetResource w) (\<lambda>(r, w).
             case found_or_empty (Wrapf ''failed to list %q: %w'' [v1SubnetCRD]) r of
               Inl e \<Rightarrow> Some (Some e, w)
             | Inr subnets \<Rightarrow>
                 Some (run_state
                   (do {
                      x \<leftarrow> for_each (\<lambda>s. deleteV1Subnet api m (Namespace (mi_meta s)) (Name (mi_meta s))) subnets;
                      if x \<noteq> None then ret x else deleteV1CRD api m
                    }) w)))"

subsection \<open>What becomes of the annotations\<close>

text \<open>
  The specification: no key of the first version is left; a key of the second version has the value of its old key, if there was one;
  the attachment of the old network is replaced by one of the new; every other annotation stays.
\<close>

definition migrated :: "strmap \<Rightarrow> string \<Rightarrow> string option" where
  "migrated a k =
     (if is_v1_key k then None
      else case find (\<lambda>(k', n). n = k \<and> n \<noteq> [] \<and> map_of a k' \<noteq> None) annotationKeyMap of
        Some (k', _) \<Rightarrow> map_of a k'
      | None \<Rightarrow>
          if k = k8sCNINetworksMultiKey \<and> map_of a k = Some macvlanV1NetAttatchDefNameMulti then Some rancherFlatNetworkCNIMulti
          else if k = k8sCNINetworksSingleKey \<and> map_of a k = Some macvlanV1NetAttatchDefNameSingle then Some rancherFlatNetworkCNISingle
          else map_of a k)"

text \<open>What one entry does to a key: nothing, deletion, or a new value.\<close>

definition effect :: "string \<times> string \<Rightarrow> string \<Rightarrow> string option option" where
  "effect kv k =
     (case kv of (k', v) \<Rightarrow>
        if k' = k8sCNINetworksMultiKey \<and> v = macvlanV1NetAttatchDefNameMulti then
          if k = k' then Some (Some rancherFlatNetworkCNIMulti) else None
        else if k' = k8sCNINetworksSingleKey \<and> v = macvlanV1NetAttatchDefNameSingle then
          if k = k' then Some (Some rancherFlatNetworkCNISingle) else None
        else if \<not> is_v1_key k' then None
        else if mget annotationKeyMap k' \<noteq> [] \<and> k = mget annotationKeyMap k' then Some (Some v)
        else if k = k' then Some None else None)"

lemma migrate_key_effect:
  "map_of (migrate_key kv u) k = (case effect kv k of None \<Rightarrow> map_of u k | Some x \<Rightarrow> x)"
proof -
  obtain k' v where kv: "kv = (k', v)" by fastforce
  define n where "n = mget annotationKeyMap k'"
  have "map_of (migrate_key (k', v) u) k = (case effect (k', v) k of None \<Rightarrow> map_of u k | Some x \<Rightarrow> x)"
    unfolding migrate_key_def effect_def prod.case Let_def n_def [symmetric] by (auto simp: AList.update_conv' AList.delete_conv')
  then show ?thesis using kv by simp
qed

lemma fold_migrate_none:
  "(\<And>p. p \<in> set xs \<Longrightarrow> effect p k = None) \<Longrightarrow> map_of (fold migrate_key xs u) k = map_of u k"
  by (induction xs arbitrary: u) (simp_all add: migrate_key_effect)

text \<open>When only one entry has an effect on the key, the order of the entries does not matter.\<close>

lemma fold_migrate_one:
  assumes "kv \<in> set xs" and "effect kv k = Some x" and "\<And>p. p \<in> set xs \<Longrightarrow> effect p k \<noteq> None \<Longrightarrow> p = kv"
  shows "map_of (fold migrate_key xs u) k = x"
  using assms
proof (induction xs arbitrary: u)
  case (Cons p xs)
  show ?case
  proof (cases "kv \<in> set xs")
    case True
    show ?thesis unfolding fold_simps
      by (rule Cons.IH [OF True Cons.prems(2)]) (use Cons.prems(3) in \<open>meson list.set_intros(2)\<close>)
  next
    case False
    then have "p = kv" using Cons.prems(1) by simp
    moreover have "effect q k = None" if "q \<in> set xs" for q
      using Cons.prems(3) that False by (metis list.set_intros(2))
    ultimately show ?thesis using Cons.prems(2) by (simp add: fold_migrate_none migrate_key_effect)
  qed
qed simp

lemma key_map_facts:
  "list_all (\<lambda>(k, n). is_v1_key k \<and> \<not> is_v1_key n \<and> n \<noteq> k8sCNINetworksMultiKey \<and> n \<noteq> k8sCNINetworksSingleKey \<and>
     list_all (\<lambda>(k', n'). n' = n \<longrightarrow> k' = k) annotationKeyMap) annotationKeyMap"
  "distinct (map fst annotationKeyMap)" "\<not> is_v1_key k8sCNINetworksMultiKey" "\<not> is_v1_key k8sCNINetworksSingleKey"
  by code_simp+

lemma key_mapD:
  assumes "mget annotationKeyMap k = n" and "n \<noteq> []"
  shows "is_v1_key k" "\<not> is_v1_key n" "n \<noteq> k8sCNINetworksMultiKey" "n \<noteq> k8sCNINetworksSingleKey" "(k, n) \<in> set annotationKeyMap"
    "mget annotationKeyMap k' = n \<Longrightarrow> k' = k"
proof -
  have mem: "(k, n) \<in> set annotationKeyMap" if "mget annotationKeyMap k = n" for k
    using that assms(2) by (auto simp: mget_def split: option.splits dest: map_of_SomeD)
  note F = key_map_facts(1) [unfolded list_all_iff]
  show "is_v1_key k" "\<not> is_v1_key n" "n \<noteq> k8sCNINetworksMultiKey" "n \<noteq> k8sCNINetworksSingleKey" "(k, n) \<in> set annotationKeyMap"
    using F mem [OF assms(1)] by (blast | fast)+
  show "k' = k" if "mget annotationKeyMap k' = n"
    using F mem [OF assms(1)] mem [OF that] by blast
qed

lemma effect_unique:
  assumes "effect (k1, v1) k \<noteq> None" and "effect (k2, v2) k \<noteq> None"
  shows "k1 = k2"
proof -
  have own: "k' = k \<or> (is_v1_key k' \<and> mget annotationKeyMap k' = k \<and> k \<noteq> [])" if "effect (k', v) k \<noteq> None" for k' v
    using that by (auto simp: effect_def split: if_splits)
  have not: "effect (k, v) k = None" if "mget annotationKeyMap k' = k" "k \<noteq> []" for k' v
    using key_mapD(2-4) [OF that] by (simp add: effect_def)
  show ?thesis using own [OF assms(1)] own [OF assms(2)] not assms key_mapD(6) by metis
qed

lemma v1_not_attachment: "is_v1_key k \<Longrightarrow> k \<noteq> k8sCNINetworksMultiKey \<and> k \<noteq> k8sCNINetworksSingleKey"
  using key_map_facts(3,4) by blast

lemma effect_value:
  assumes "distinct (map fst a)" and "(k', v) \<in> set a" and "effect (k', v) k = Some x"
  shows "migrated a k = x"
proof -
  have v: "map_of a k' = Some v" using assms(1,2) by simp
  consider (move) "is_v1_key k'" "mget annotationKeyMap k' = k" "k \<noteq> []" "x = Some v"
    | (gone) "is_v1_key k'" "k = k'" "x = None"
    | (multi) "k = k'" "k = k8sCNINetworksMultiKey" "v = macvlanV1NetAttatchDefNameMulti" "x = Some rancherFlatNetworkCNIMulti"
    | (single) "k = k'" "k = k8sCNINetworksSingleKey" "v = macvlanV1NetAttatchDefNameSingle" "x = Some rancherFlatNetworkCNISingle"
    using assms(3) by (auto simp: effect_def split: if_splits)
  then show ?thesis
  proof cases
    case move
    note K = key_mapD [OF move(2,3)]
    have "find (\<lambda>(k', n). n = k \<and> n \<noteq> [] \<and> map_of a k' \<noteq> None) annotationKeyMap = Some (k', k)"
    proof (cases "find (\<lambda>(k', n). n = k \<and> n \<noteq> [] \<and> map_of a k' \<noteq> None) annotationKeyMap")
      case None
      then show ?thesis using K(5) move(3) v by (auto simp: find_None_iff)
    next
      case (Some p)
      then have "p \<in> set annotationKeyMap" "snd p = k" by (auto simp: find_Some_iff in_set_conv_nth)
      then obtain k2 where p: "p = (k2, k)" "(k2, k) \<in> set annotationKeyMap" by (metis prod.collapse)
      have "map_of annotationKeyMap k2 = Some k" by (rule map_of_is_SomeI [OF key_map_facts(2) p(2)])
      then have "mget annotationKeyMap k2 = k" by (simp add: mget_def)
      then show ?thesis using Some K(6) p(1) by simp
    qed
    then show ?thesis using K(2) move(4) v by (simp add: migrated_def)
  next
    case gone
    then show ?thesis by (simp add: migrated_def)
  next
    case multi
    then have "find (\<lambda>(k', n). n = k \<and> n \<noteq> [] \<and> map_of a k' \<noteq> None) annotationKeyMap = None"
      using key_map_facts(1) by (auto simp: find_None_iff list_all_iff)
    then show ?thesis using multi v key_map_facts(3) by (simp add: migrated_def)
  next
    case single
    then have "find (\<lambda>(k', n). n = k \<and> n \<noteq> [] \<and> map_of a k' \<noteq> None) annotationKeyMap = None"
      using key_map_facts(1) by (auto simp: find_None_iff list_all_iff)
    moreover have "k8sCNINetworksSingleKey \<noteq> k8sCNINetworksMultiKey" by code_simp
    ultimately show ?thesis using single v key_map_facts(4) by (simp add: migrated_def)
  qed
qed

lemma no_effect_value:
  assumes "distinct (map fst a)" and "\<And>p. p \<in> set a \<Longrightarrow> effect p k = None"
  shows "migrated a k = map_of a k"
proof -
  have keys: "map_of a k' = Some v \<Longrightarrow> effect (k', v) k = None" for k' v
    using assms by (auto dest: map_of_SomeD)
  have f: "find (\<lambda>(k', n). n = k \<and> n \<noteq> [] \<and> map_of a k' \<noteq> None) annotationKeyMap = None"
    unfolding find_None_iff
  proof (intro notI, elim bexE exE conjE)
    fix p assume p: "p \<in> set annotationKeyMap" "case p of (k', n) \<Rightarrow> n = k \<and> n \<noteq> [] \<and> map_of a k' \<noteq> None"
    obtain k' v where k': "p = (k', k)" "k \<noteq> []" "map_of a k' = Some v" using p(2) by (cases p) auto
    then have "mget annotationKeyMap k' = k" using p(1) key_map_facts(2) by (simp add: mget_def)
    then have "effect (k', v) k = Some (Some v)"
      using key_mapD(1) [of k' k] k'(2) v1_not_attachment by (simp add: effect_def)
    then show False using keys k'(3) by simp
  qed
  have "\<not> is_v1_key k \<or> map_of a k = None"
  proof (rule ccontr)
    assume "\<not> (\<not> is_v1_key k \<or> map_of a k = None)"
    then obtain v where "is_v1_key k" "map_of a k = Some v" by auto
    then show False using keys [of k v] v1_not_attachment [of k] by (simp add: effect_def split: if_splits)
  qed
  moreover have "\<not> (k = k8sCNINetworksMultiKey \<and> map_of a k = Some macvlanV1NetAttatchDefNameMulti)"
    using keys [of k] by (auto simp: effect_def)
  moreover have "\<not> (k = k8sCNINetworksSingleKey \<and> map_of a k = Some macvlanV1NetAttatchDefNameSingle)"
    using keys [of k macvlanV1NetAttatchDefNameSingle] by (auto simp: effect_def split: if_splits)
  ultimately show ?thesis using f by (auto simp: migrated_def)
qed

lemma updated_annotations_migrated:
  assumes "distinct (map fst a)" and "set order = set a"
  shows "map_of (updated_annotations order a) k = migrated a k"
proof (cases "\<exists>p \<in> set a. effect p k \<noteq> None")
  case True
  then obtain k' v x where p: "(k', v) \<in> set a" "effect (k', v) k = Some x" by force
  have only: "q = (k', v)" if "q \<in> set order" "effect q k \<noteq> None" for q
  proof -
    obtain k2 v2 where q: "q = (k2, v2)" by fastforce
    then have "k2 = k'" using that(2) p(2) effect_unique [of k2 v2 k k' v] by simp
    then show ?thesis using eq_key_imp_eq_value [OF assms(1) p(1), of v2] that(1) q assms(2) by simp
  qed
  have "(k', v) \<in> set order" using p(1) assms(2) by simp
  then have "map_of (updated_annotations order a) k = x"
    unfolding updated_annotations_def using only by (intro fold_migrate_one [OF _ p(2)])
  then show ?thesis using effect_value [OF assms(1) p] by simp
next
  case False
  then have none: "\<And>p. p \<in> set a \<Longrightarrow> effect p k = None" by blast
  have "map_of (updated_annotations order a) k = map_of a k"
    unfolding updated_annotations_def by (rule fold_migrate_none) (use none assms(2) in simp)
  then show ?thesis using no_effect_value [OF assms(1) none] by simp
qed

lemma attachments_differ:
  "rancherFlatNetworkCNIMulti \<noteq> macvlanV1NetAttatchDefNameMulti" "rancherFlatNetworkCNISingle \<noteq> macvlanV1NetAttatchDefNameSingle"
  by code_simp+

text \<open>
  C20. Migrating the annotations of a workload: whatever the order in which Go visits the map, no annotation of the first version is left, each one with a
  successor has moved its value there, the old network attachments are replaced, and every other annotation is as it was. So the result does
  not count as a workload of the first version any more, and the tool leaves it alone when it runs again.
\<close>

theorem updateAnnotation_migrates:
  assumes "distinct (map fst a)" and "a = Annotations (GetTemplateObjectMeta w)" and "set (map_range a) = set a"
  shows "(\<forall>k. map_of (updateAnnotation map_range w) k = migrated a k) \<and>
    (\<forall>k. is_v1_key k \<longrightarrow> map_of (updateAnnotation map_range w) k = None) \<and>
    \<not> isMacvlanV1Enabled (updateAnnotation map_range w)"
proof -
  have spec: "map_of (updateAnnotation map_range w) k = migrated a k" for k
    using updated_annotations_migrated [OF assms(1,3)] by (simp add: updateAnnotation_def Let_def assms(2))
  have gone: "map_of (updateAnnotation map_range w) k = None" if "is_v1_key k" for k
    using that spec by (simp add: migrated_def)
  have "is_v1_key macvlanV1AnnotationIP" by code_simp
  then have "mget (updateAnnotation map_range w) macvlanV1AnnotationIP = []" using gone by (simp add: mget_def)
  then show ?thesis using spec gone by (simp add: isMacvlanV1Enabled_def)
qed

definition v1_workload :: Workload where
  "v1_workload = \<lparr>w_type = Deployment, w_meta = no_meta\<lparr>Name := ''web'', Namespace := ''default''\<rparr>,
     w_template = no_meta\<lparr>Annotations := [(macvlanV1AnnotationIP, ''auto''), (macvlanV1AnnotationSubnet, ''lan''),
       (''macvlan.panda.io/ipDelayReuseTimestamp'', ''1''), (''team'', ''net'')]\<rparr>,
     w_jobTemplate = no_meta\<rparr>"

theorem updateAnnotation_migrates_witness:
  "\<not> isMacvlanV1Enabled (updateAnnotation rev v1_workload) \<and>
   (\<forall>k. map_of (updateAnnotation rev v1_workload) k = migrated (Annotations (w_template v1_workload)) k) \<and>
   mget (updateAnnotation rev v1_workload) AnnotationIP = ''auto''"
proof -
  have "distinct (map fst (Annotations (w_template v1_workload)))" by code_simp
  moreover have "Annotations (w_template v1_workload) = Annotations (GetTemplateObjectMeta v1_workload)" by code_simp
  ultimately have "(\<forall>k. map_of (updateAnnotation rev v1_workload) k = migrated (Annotations (w_template v1_workload)) k) \<and>
      \<not> isMacvlanV1Enabled (updateAnnotation rev v1_workload)"
    using updateAnnotation_migrates [of "Annotations (w_template v1_workload)" v1_workload rev] by simp
  moreover have "mget (updateAnnotation rev v1_workload) AnnotationIP = ''auto''" by code_simp
  ultimately show ?thesis by blast
qed

subsection \<open>Loops over pages\<close>

lemma for_each_append: "for_each f (xs @ ys) = do { e \<leftarrow> for_each f xs; if e \<noteq> None then ret e else for_each f ys }"
proof (induction xs)
  case (Cons x xs)
  have "(\<lambda>e. if e \<noteq> None then ret e else for_each f (xs @ ys)) =
      (\<lambda>e. do { e \<leftarrow> if e \<noteq> None then ret e else for_each f xs; if e \<noteq> None then ret e else for_each f ys })"
    by (auto simp: Cons.IH)
  then show ?case by simp
qed simp

text \<open>When the lists do not change while the pages are handled, the loop is one loop over all objects, and it returns.\<close>

lemma each_page_concat:
  assumes "pages f c ps" and "\<And>c w. run_state (page c) w = (f c, w)"
  shows "each_page page (for_each g) c w = Some (run_state (for_each g (concat ps)) w)"
  using assms
proof (induction f c ps arbitrary: w rule: pages.induct)
  case (2 f c p ps)
  obtain n where n: "f c = Inr (p, n)" using "2.prems"(1) by (cases "f c") auto
  obtain e w1 where e: "run_state (for_each g p) w = (e, w1)" by fastforce
  have rest: "each_page page (for_each g) c w =
      (case e of Some e \<Rightarrow> Some (Some e, w1) | None \<Rightarrow> if n = [] then Some (None, w1) else each_page page (for_each g) n w1)"
    by (simp add: each_page.simps [of page _ c w] "2.prems"(2) n e)
  show ?case
  proof (cases "n = []")
    case True
    then show ?thesis using "2.prems"(1) n rest e by (cases e) auto
  next
    case False
    then have "pages f n ps" using "2.prems"(1) n by simp
    then show ?thesis using "2.IH" [OF n refl False _ "2.prems"(2)] rest e False
      by (cases e) (simp_all add: for_each_append State_Monad.run_state_bind)
  qed
qed simp

lemma pages_wrapped: "pages f c ps \<Longrightarrow> pages (\<lambda>c. map_sum g id (f c)) c ps"
  by (induction f c ps rule: pages.induct) (auto split: sum.splits prod.splits if_splits)

subsection \<open>The migrated subnets\<close>

text \<open>
  What the migration relies on: the list of the old subnets does not change, a new subnet is created under a free name, an existing one is
  reported as such and kept, and sleeping changes nothing. \<open>stored\<close> is the store of the new subnets by name.
\<close>

locale migration =
  fixes api :: "'w mig_api"
    and stored :: "'w \<Rightarrow> string \<Rightarrow> FlatNetworkSubnet option"
    and v1_pages :: "int \<Rightarrow> string \<Rightarrow> error + string list \<times> string"
  assumes v1_List: "run_state (dynamic_List api macvlanSubnetResource n c) w = (v1_pages n c, w)"
    and v2_Create: "run_state (v2Subnet_Create api fs) w = (None, w') \<Longrightarrow> sn_Namespace fs = SubnetNamespace \<Longrightarrow>
      stored w (sn_Name fs) = None \<and> stored w' = (stored w)(sn_Name fs \<mapsto> fs)"
    and v2_Create_failed: "run_state (v2Subnet_Create api fs) w = (Some e, w') \<Longrightarrow> sn_Namespace fs = SubnetNamespace \<Longrightarrow>
      stored w' = stored w \<and> (IsAlreadyExists e \<longrightarrow> stored w (sn_Name fs) \<noteq> None)"
    and Sleep: "stored (snd (run_state (mig_Sleep api d) w)) = stored w"

text \<open>The new subnet of an old one, if it has one.\<close>

definition v2_of :: "'w mig_api \<Rightarrow> string \<Rightarrow> FlatNetworkSubnet option" where
  "v2_of api item =
     (case FromUnstructured_subnet api item of
        Inl _ \<Rightarrow> None
      | Inr ms \<Rightarrow> (case newFlatNetworkSubnet ms of Inl _ \<Rightarrow> None | Inr fs \<Rightarrow> Some fs))"

definition by_name :: "FlatNetworkSubnet list \<Rightarrow> string \<Rightarrow> FlatNetworkSubnet option" where
  "by_name fss = map_of (map (\<lambda>fs. (sn_Name fs, fs)) fss)"

lemma newFlatNetworkSubnet_meta:
  "newFlatNetworkSubnet ms = Inr fs \<Longrightarrow> sn_Namespace fs = SubnetNamespace \<and> sn_Name fs = Name (ms_meta ms)"
  by (auto simp: newFlatNetworkSubnet_def Let_def split: sum.splits)

context migration
begin

text \<open>One subnet: it is created, unless its name is taken.\<close>

lemma migrate_subnet_item_stores:
  assumes "run_state (migrate_subnet_item api m item) w = (e, w')"
  shows "(e \<noteq> None \<longrightarrow> stored w' = stored w) \<and>
    (e = None \<longrightarrow> (\<exists>fs. v2_of api item = Some fs \<and> stored w' = by_name [fs] ++ stored w))"
proof (cases "v2_of api item")
  case None
  then show ?thesis using assms by (auto simp: v2_of_def migrate_subnet_item_def split: sum.splits)
next
  case (Some fs)
  then obtain ms where ms: "FromUnstructured_subnet api item = Inr ms" "newFlatNetworkSubnet ms = Inr fs"
    by (auto simp: v2_of_def split: sum.splits)
  note meta = newFlatNetworkSubnet_meta [OF ms(2), THEN conjunct1]
  obtain x w1 where x: "run_state (v2Subnet_Create api fs) w = (x, w1)" by fastforce
  show ?thesis
  proof (cases x)
    case None
    then have "e = None" "stored w' = (stored w)(sn_Name fs \<mapsto> fs)" "stored w (sn_Name fs) = None"
      using assms x ms Sleep [of "interval m" w1] v2_Create [of fs w w1] meta
      by (auto simp: migrate_subnet_item_def State_Monad.run_state_bind split: prod.splits)
    then show ?thesis using Some by (auto simp: by_name_def map_add_def fun_eq_iff split: option.splits)
  next
    case (Some y)
    then have "stored w1 = stored w" "IsAlreadyExists y \<Longrightarrow> stored w (sn_Name fs) \<noteq> None"
      using x v2_Create_failed meta by auto
    then have "if IsAlreadyExists y then e = None \<and> stored w' = stored w \<and> stored w (sn_Name fs) \<noteq> None else e \<noteq> None \<and> stored w' = stored w"
      using assms x ms Some Sleep [of "interval m" w1]
      by (auto simp: migrate_subnet_item_def State_Monad.run_state_bind split: prod.splits if_splits)
    then show ?thesis using \<open>v2_of api item = Some fs\<close>
      by (auto simp: by_name_def map_add_def fun_eq_iff split: option.splits if_splits)
  qed
qed

lemma by_name_Cons: "by_name (fs # fss) ++ s = by_name fss ++ (by_name [fs] ++ s)"
  by (auto simp: by_name_def map_add_def fun_eq_iff split: option.splits)

lemma migrateSubnetList_stores:
  assumes "run_state (for_each (migrate_subnet_item api m) items) w = (e, w')"
  shows "\<exists>k fss. k \<le> length items \<and> (e = None \<longrightarrow> k = length items) \<and>
    list_all2 (\<lambda>item fs. v2_of api item = Some fs) (take k items) fss \<and> stored w' = by_name fss ++ stored w"
  using assms
proof (induction items arbitrary: w)
  case Nil
  then show ?case by (auto simp: by_name_def)
next
  case (Cons item items)
  obtain e1 w1 where e1: "run_state (migrate_subnet_item api m item) w = (e1, w1)" by fastforce
  note one = migrate_subnet_item_stores [OF e1]
  show ?case
  proof (cases e1)
    case None
    then obtain fs where fs: "v2_of api item = Some fs" "stored w1 = by_name [fs] ++ stored w" using one by auto
    have "run_state (for_each (migrate_subnet_item api m) items) w1 = (e, w')"
      using Cons.prems e1 None by (simp add: State_Monad.run_state_bind)
    then obtain k fss where k: "k \<le> length items" "e = None \<longrightarrow> k = length items"
        "list_all2 (\<lambda>item fs. v2_of api item = Some fs) (take k items) fss" "stored w' = by_name fss ++ stored w1"
      using Cons.IH by blast
    have "stored w' = by_name (fs # fss) ++ stored w" using k(4) fs(2) by_name_Cons by metis
    then show ?thesis using k(1-3) fs(1) by (intro exI [of _ "Suc k"] exI [of _ "fs # fss"]) simp
  next
    case (Some y)
    then have "e = Some y" "w' = w1" using Cons.prems e1 by (simp_all add: State_Monad.run_state_bind)
    then show ?thesis using one Some by (intro exI [of _ 0] exI [of _ "[]"]) (simp add: by_name_def)
  qed
qed

theorem migration_stores:
  assumes "pages (v1_pages (listLimit m)) [] ps"
  shows "\<exists>e w' k fss. migrateSubnets api m w = Some (e, w') \<and> k \<le> length (concat ps) \<and> (e = None \<longrightarrow> k = length (concat ps)) \<and>
    list_all2 (\<lambda>item fs. v2_of api item = Some fs) (take k (concat ps)) fss \<and> stored w' = by_name fss ++ stored w"
proof -
  obtain e w1 where e: "run_state (for_each (migrate_subnet_item api m) (concat ps)) w = (e, w1)" by fastforce
  have list: "migrateSubnetList api m = for_each (migrate_subnet_item api m)" by (auto simp: migrateSubnetList_def)
  define g where "g = Wrapf ''failed to list MacvlanSubnet resource: %w'' []"
  have "each_page (\<lambda>c. wrapping g (dynamic_List api macvlanSubnetResource (listLimit m) c)) (migrateSubnetList api m) [] w = Some (e, w1)"
    unfolding list by (subst each_page_concat [OF pages_wrapped [OF assms, of g]])
      (simp_all add: wrapping_def State_Monad.run_state_bind v1_List e)
  then have "\<exists>w'. migrateSubnets api m w = Some (e, w') \<and> stored w' = stored w1"
    using Sleep [of time_Second w1] unfolding migrateSubnets_def after_page_def g_def
    by (cases e) auto
  then show ?thesis using migrateSubnetList_stores [OF e] by metis
qed

end

subsection \<open>A server in memory\<close>

record mem_mig =
  mm_subnets :: "FlatNetworkSubnet list"
  mm_services :: "Service list"
  mm_workloads :: "Workload list"
  mm_file :: string

text \<open>Pages with tokens that count them.\<close>

definition page_at :: "'a list list \<Rightarrow> string \<Rightarrow> error + 'a list \<times> string" where
  "page_at ps c =
     (if length c < length ps then Inr (ps ! length c, if Suc (length c) < length ps then CHR ''x'' # c else [])
      else Inl (StatusError OtherReason))"

definition mem_create_subnet :: "FlatNetworkSubnet \<Rightarrow> mem_mig \<Rightarrow> error option \<times> mem_mig" where
  "mem_create_subnet fs w =
     (if sn_Namespace fs \<noteq> SubnetNamespace then (Some (StatusError OtherReason), w)
      else if by_name (mm_subnets w) (sn_Name fs) \<noteq> None then (Some (StatusError AlreadyExists), w)
      else (None, w\<lparr>mm_subnets := fs # mm_subnets w\<rparr>))"

definition same_workload :: "object_type \<Rightarrow> string \<Rightarrow> string \<Rightarrow> Workload \<Rightarrow> bool" where
  "same_workload t ns n x \<longleftrightarrow> w_type x = t \<and> Namespace (w_meta x) = ns \<and> Name (w_meta x) = n"

fun saved_kind :: "saved \<Rightarrow> string" where
  "saved_kind (SavedCRD t m) = ''CustomResourceDefinition''"
| "saved_kind (SavedNamespace m) = ''Namespace''"
| "saved_kind (SavedV1 i) = ''MacvlanSubnet''"
| "saved_kind (SavedSubnet s) = ''FlatNetworkSubnet''"
| "saved_kind (SavedService s) = ''Service''"

text \<open>\<open>tbl\<close> has the old subnets by their texts, \<open>ps\<close> the texts in pages; there are no old IPs.\<close>

definition mem_mig_api :: "(string \<times> MacvlanSubnet) list \<Rightarrow> string list list \<Rightarrow> mem_mig mig_api" where
  "mem_mig_api tbl ps = \<lparr>
     dynamic_List = (\<lambda>r n c. ret (if r = macvlanSubnetResource then page_at ps c else Inr ([], []))),
     dynamic_Delete = (\<lambda>r ns n. ret None),
     dynamic_Create = (\<lambda>r ns s. ret None),
     crd_Get = (\<lambda>n. ret (Inl (StatusError NotFound))),
     FromUnstructured_subnet = (\<lambda>s. case map_of tbl s of None \<Rightarrow> Inl (ParseError s s) | Some x \<Rightarrow> Inr x),
     FromUnstructured_ip = (\<lambda>s. case map_of tbl s of None \<Rightarrow> Inl (ParseError s s)
       | Some x \<Rightarrow> Inr \<lparr>mi_Kind = ms_Kind x, mi_meta = ms_meta x,
           mi_Spec = \<lparr>mi_Subnet = [], mi_PodId = [], mi_CIDR = v1_CIDR (ms_Spec x), mi_MAC = []\<rparr>\<rparr>),
     v2Subnet_List = (\<lambda>ns n c. State (\<lambda>w. (Inr (mm_subnets w, []), w))),
     v2Subnet_Create = (\<lambda>fs. State (mem_create_subnet fs)),
     service_List = (\<lambda>n c. State (\<lambda>w. (Inr (mm_services w, []), w))),
     service_Create = (\<lambda>s. State (\<lambda>w. (None, w\<lparr>mm_services := s # mm_services w\<rparr>))),
     namespace_Get = (\<lambda>n. ret (Inl (StatusError NotFound))),
     namespace_Create = (\<lambda>n. ret None),
     workload_List = (\<lambda>t n c. State (\<lambda>w. (Inr (filter (\<lambda>x. w_type x = t) (mm_workloads w), []), w))),
     workload_Get = (\<lambda>t ns n. State (\<lambda>w. (case find (same_workload t ns n) (mm_workloads w) of
        None \<Rightarrow> Inl (StatusError NotFound) | Some x \<Rightarrow> Inr x, w))),
     workload_Update = (\<lambda>x. State (\<lambda>w. (Inr x, w\<lparr>mm_workloads :=
        map (\<lambda>y. if same_workload (w_type x) (Namespace (w_meta x)) (Name (w_meta x)) y then x else y) (mm_workloads w)\<rparr>))),
     retry_workload = (\<lambda>_ p. p),
     Scanf = ret (Inr ''y''),
     mig_Sleep = (\<lambda>d. ret ()),
     yaml_Marshal = (\<lambda>x. Inr (''kind: '' @ saved_kind x @ [CHR 0x0A])),
     yaml_Kind = (\<lambda>s. Inl (ParseError s s)),
     yaml_Service = (\<lambda>s. Inl (ParseError s s)),
     yaml_Subnet = (\<lambda>s. Inl (ParseError s s)),
     yaml_Namespace = (\<lambda>s. Inl (ParseError s s)),
     file_Write = (\<lambda>b. State (\<lambda>w. (None, w\<lparr>mm_file := mm_file w @ b\<rparr>))),
     os_ReadFile = (\<lambda>p. State (\<lambda>w. (Inr (mm_file w), w)))\<rparr>"

interpretation memmig: migration "mem_mig_api tbl ps" "\<lambda>w. by_name (mm_subnets w)" "\<lambda>_. page_at ps"
  by unfold_locales (auto simp: mem_mig_api_def mem_create_subnet_def by_name_def IsAlreadyExists_def split: if_splits)

text \<open>
  C14. Migrating the subnets is complete and loses nothing: when the server sends the old subnets in a chain of pages, the loop over the
  pages returns. If it succeeds, every old subnet of every page was converted and the store has, under each of their names, the first subnet
  that got there; whatever it ends with, the new subnets are those of an initial part of the list, and a subnet that was
  there before is never overwritten, so that the tool can be run again after a failure.
\<close>

theorem migrateSubnets_complete:
  assumes "migration api stored v1_pages" and "pages (v1_pages (listLimit m)) [] ps"
  shows "\<exists>e w' k fss. migrateSubnets api m w = Some (e, w') \<and> k \<le> length (concat ps) \<and> (e = None \<longrightarrow> k = length (concat ps)) \<and>
    list_all2 (\<lambda>item fs. v2_of api item = Some fs) (take k (concat ps)) fss \<and> stored w' = by_name fss ++ stored w"
  by (rule migration.migration_stores [OF assms])

definition example_v1 :: "string \<Rightarrow> MacvlanSubnet" where
  "example_v1 n = \<lparr>ms_Kind = ''MacvlanSubnet'', ms_meta = no_meta\<lparr>Name := n\<rparr>,
     ms_Spec = \<lparr>v1_Master = ''eth0'', v1_VLAN = 0, v1_CIDR = ''10.0.0.0/8'', v1_Mode = ''bridge'', v1_Gateway = [], v1_Ranges = [],
       v1_Routes = [], v1_PodDefaultGateway = \<lparr>pdg_Enable = False, pdg_ServiceCIDR = []\<rparr>, v1_IPDelayReuse = 0\<rparr>\<rparr>"

abbreviation example_tbl :: "(string \<times> MacvlanSubnet) list" where
  "example_tbl \<equiv> [(''a'', example_v1 ''a''), (''b'', example_v1 ''b''), (''c'', example_v1 ''c'')]"

abbreviation example_ps :: "string list list" where "example_ps \<equiv> [[''a'', ''b''], [''c'']]"

abbreviation example_migrator :: migrator where
  "example_migrator \<equiv> \<lparr>workloadKinds = [], migrateServices = False, interval = 0, listLimit = 2, autoYes = True\<rparr>"

theorem migrateSubnets_complete_witness:
  "\<exists>e w' k fss. migrateSubnets (mem_mig_api example_tbl example_ps) example_migrator
      \<lparr>mm_subnets = [], mm_services = [], mm_workloads = [], mm_file = []\<rparr> = Some (e, w') \<and>
    k \<le> 3 \<and> (e = None \<longrightarrow> k = 3) \<and>
    list_all2 (\<lambda>item fs. v2_of (mem_mig_api example_tbl example_ps) item = Some fs) (take k [''a'', ''b'', ''c'']) fss \<and>
    by_name (mm_subnets w') = by_name fss"
proof -
  have "pages (page_at example_ps) [] example_ps" by (simp add: page_at_def)
  then show ?thesis
    using migrateSubnets_complete [OF memmig.migration_axioms, where m = example_migrator and ps = example_ps and tbl1 = example_tbl
        and ps1 = example_ps and w = "\<lparr>mm_subnets = [], mm_services = [], mm_workloads = [], mm_file = []\<rparr>"]
    by (simp add: by_name_def numeral_3_eq_3)
qed

subsection \<open>The migrated services\<close>

text \<open>
  A service that the tool makes is a service of the second version for the service controller, and not one of the first version: it is
  headless, carries the new network attachment and the new name, selects the same pods, and has the same ports without node ports. So
  neither the controller nor a second run of the tool takes it for an old one.
\<close>

theorem migrated_service_recognised:
  "IsFlatNetworkService (migrate_newFlatNetworkService svc) \<and> \<not> IsMacvlanV1Service (migrate_newFlatNetworkService svc) \<and>
   svc_Selector (migrate_newFlatNetworkService svc) = svc_Selector svc \<and>
   svc_Namespace (migrate_newFlatNetworkService svc) = svc_Namespace svc \<and>
   map (\<lambda>p. p\<lparr>sp_NodePort := 0\<rparr>) (svc_Ports svc) = svc_Ports (migrate_newFlatNetworkService svc) \<and>
   svc_Name svc = strings_TrimSuffix (svc_Name svc) ''-macvlan'' @ (if suffix ''-macvlan'' (svc_Name svc) then ''-macvlan'' else [])"
  by (auto simp: migrate_newFlatNetworkService_def IsFlatNetworkService_def IsMacvlanV1Service_def mget_def
      strings_TrimSuffix_def suffix_def)

end
