(* ===== verification/MigrateBackup.thy ===== *)
theory MigrateBackup
  imports Migrate
begin

text \<open>
  Backups of the migration tool: the file that \<open>saveYAML\<close> writes, and what \<open>Restore\<close> reads of it. The locale
  \<open>backup_file\<close> is the behaviour of the file and of the YAML package that the pair relies on.
\<close>

subsection \<open>The commands: migrator/commands\<close>

text \<open>
  The bodies of the four commands, once the client configuration is built; \<open>cli_api\<close> has what they use of the package os. A file is
  opened for writing and emptied. The rest of these files declares flags.
\<close>

record 'w cli_api =
  os_Stat :: "string \<Rightarrow> ('w, error option) state"
  os_IsNotExist :: "error \<Rightarrow> bool"
  os_OpenFile :: "string \<Rightarrow> ('w, error option) state"

definition CheckFileExistsPrompt :: "'w cli_api \<Rightarrow> 'w mig_api \<Rightarrow> string \<Rightarrow> bool \<Rightarrow> ('w, error option) state" where
  "CheckFileExistsPrompt cli api name yes =
     do {
       x \<leftarrow> os_Stat cli name;
       case x of
         Some e \<Rightarrow> if \<not> os_IsNotExist cli e then ret (Some e) else ret None
       | None \<Rightarrow>
           if yes then ret None
           else
             do {
               r \<leftarrow> Scanf api;
               case r of
                 Inl e \<Rightarrow> ret (Some e)
               | Inr s \<Rightarrow>
                   if s \<noteq> [] \<and> hd s \<noteq> CHR ''y'' \<and> hd s \<noteq> CHR ''Y'' then ret (Some (Errorf ''file %q already exists'' [name]))
                   else ret None
             }
     }"

record backupCmd =
  backupV1 :: bool
  backupV2 :: bool
  backupV1Service :: bool
  output_file :: string

definition backup_files :: "'w mig_api \<Rightarrow> migrator \<Rightarrow> backupCmd \<Rightarrow> 'w \<Rightarrow> (error option \<times> 'w) option" where
  "backup_files api m cc w =
     after_page (if backupV1 cc then BackupV1 api m w else Some (None, w)) (Wrapf ''failed to backup Rancher Macvlan V1 resources: %w'' [])
       (\<lambda>w. after_page (if backupV2 cc then BackupV2 api m w else Some (None, w)) (Wrapf ''failed to backup FlatNetwork V2 resources: %w'' [])
         (\<lambda>w. after_page (if backupV1Service cc then BackupV1Service api m w else Some (None, w))
           (Wrapf ''failed to backup Rancher Macvlan V1 services: %w'' []) (\<lambda>w. Some (None, w))))"

definition backup_run :: "'w cli_api \<Rightarrow> 'w mig_api \<Rightarrow> int \<Rightarrow> int \<Rightarrow> bool \<Rightarrow> backupCmd \<Rightarrow> 'w \<Rightarrow> (error option \<times> 'w) option" where
  "backup_run cli api intv limit yes cc w =
     (if output_file cc = [] then Some (Some (Errorf ''output file not specified'' []), w)
      else
        (let m = NewResourceMigrator [] False intv limit yes in
         case run_state (CheckFileExistsPrompt cli api (output_file cc) yes) w of
           (Some e, w) \<Rightarrow> Some (Some e, w)
         | (None, w) \<Rightarrow>
             (case run_state (os_OpenFile cli (output_file cc)) w of
                (Some e, w) \<Rightarrow> Some (Some (Wrapf ''failed to open %q: %w'' [output_file cc] e), w)
              | (None, w) \<Rightarrow> backup_files api m cc w)))"

definition restore_run :: "'w mig_api \<Rightarrow> int \<Rightarrow> int \<Rightarrow> bool \<Rightarrow> string \<Rightarrow> ('w, error option) state" where
  "restore_run api intv limit yes filePath =
     (if filePath = [] then ret (Some (Errorf ''restore YAML file not specified'' []))
      else Restore api (NewResourceMigrator [] False intv limit yes) filePath)"

definition clean_run :: "'w mig_api \<Rightarrow> int \<Rightarrow> int \<Rightarrow> bool \<Rightarrow> 'w \<Rightarrow> (error option \<times> 'w) option" where
  "clean_run api intv limit yes w = Clean api (NewResourceMigrator [] False intv limit yes) w"

definition migrate_run ::
    "'w mig_api \<Rightarrow> (strmap \<Rightarrow> strmap) \<Rightarrow> string \<Rightarrow> bool \<Rightarrow> int \<Rightarrow> int \<Rightarrow> bool \<Rightarrow> 'w \<Rightarrow> (error option \<times> 'w) option" where
  "migrate_run api map_range kinds services intv limit yes w =
     after_page (Run api (NewResourceMigrator kinds services intv limit yes) map_range w)
       (Wrapf ''failed to migrate resource: %w'' []) (\<lambda>w. Some (None, w))"

abbreviation newline :: char where "newline \<equiv> CHR 0x0A"
abbreviation doc_sep :: string where "doc_sep \<equiv> newline # ''---''"

subsection \<open>Splitting a file\<close>

declare split_at.simps [simp del]

lemma split_at_end [simp]: "split_at sep acc [] = [rev acc]"
  by (simp add: split_at.simps)

lemma split_at_sep: "sep \<noteq> [] \<Longrightarrow> split_at sep acc (sep @ s) = rev acc # split_at sep [] s"
  by (cases sep) (simp_all add: split_at.simps [of _ acc])

lemma split_at_other: "\<not> prefix sep (c # s) \<Longrightarrow> split_at sep acc (c # s) = split_at sep (c # acc) s"
  by (simp add: split_at.simps [of sep acc])

lemma no_sep_inside:
  assumes "\<not> strings_Contains d doc_sep" and "xs @ d' = d" and "d' \<noteq> []"
  shows "\<not> prefix doc_sep (d' @ doc_sep @ rest)"
proof
  assume pre: "prefix doc_sep (d' @ doc_sep @ rest)"
  show False
  proof (cases "length d' < length doc_sep")
    case False
    then have "prefix doc_sep d'" using pre by (metis prefix_length_prefix prefixI not_less)
    then have "sublist doc_sep d" using assms(2) by (metis sublist_appendI prefix_def append_assoc)
    then show False using assms(1) by (simp add: strings_Contains_iff)
  next
    case True
    moreover have "length d' \<noteq> 0" using assms(3) by simp
    ultimately have "length d' = 1 \<or> length d' = 2 \<or> length d' = 3" by (simp, linarith)
    then show False using pre by (auto simp: length_Suc_conv numeral_2_eq_2 numeral_3_eq_3)
  qed
qed

lemma split_document:
  assumes "\<not> strings_Contains d doc_sep" and "xs @ d' = d"
  shows "split_at doc_sep acc (d' @ doc_sep @ rest) = (rev acc @ d') # split_at doc_sep [] rest"
  using assms(2)
proof (induction d' arbitrary: acc xs)
  case Nil
  show ?case using split_at_sep [of doc_sep acc rest] by simp
next
  case (Cons c d')
  have "\<not> prefix doc_sep ((c # d') @ doc_sep @ rest)" using no_sep_inside [OF assms(1) Cons.prems] by simp
  then have "split_at doc_sep acc ((c # d') @ doc_sep @ rest) = split_at doc_sep (c # acc) (d' @ doc_sep @ rest)"
    unfolding append_Cons by (rule split_at_other)
  also have "\<dots> = (rev (c # acc) @ d') # split_at doc_sep [] rest"
    using Cons.prems by (intro Cons.IH [of "xs @ [c]"]) simp
  finally show ?case by simp
qed

text \<open>The text of a contents with the documents \<open>ds\<close>, and its parts.\<close>

definition file_text :: "string list \<Rightarrow> string" where
  "file_text ds = concat (map (\<lambda>d. d @ [newline] @ ''---'' @ [newline]) ds)"

lemma split_rest:
  assumes "list_all (\<lambda>d. \<not> strings_Contains (newline # d) doc_sep) ds"
  shows "split_at doc_sep [] (newline # file_text ds) = map (Cons newline) ds @ [[newline]]"
  using assms
proof (induction ds)
  case Nil
  show ?case by (simp add: file_text_def split_at_other)
next
  case (Cons d ds)
  have "newline # file_text (d # ds) = (newline # d) @ doc_sep @ newline # file_text ds" by (simp add: file_text_def)
  then show ?case using Cons split_document [of "newline # d" "[]" "newline # d" "[]"] by simp
qed

definition documents :: "string list \<Rightarrow> string list" where
  "documents ds = (case ds of [] \<Rightarrow> [[]] | d # ds \<Rightarrow> d # map (Cons newline) ds @ [[newline]])"

lemma split_file:
  assumes "list_all (\<lambda>d. \<not> strings_Contains (newline # d) doc_sep) ds"
  shows "split_at doc_sep [] (file_text ds) = documents ds"
proof (cases ds)
  case Nil
  then show ?thesis by (simp add: documents_def file_text_def)
next
  case (Cons d rest)
  then have "\<not> strings_Contains d doc_sep" using assms by simp
  moreover have "file_text ds = d @ doc_sep @ newline # file_text rest" by (simp add: Cons file_text_def)
  ultimately show ?thesis using split_document [of d "[]" d "[]"] split_rest [of rest] assms Cons by (simp add: documents_def)
qed

subsection \<open>Writing and reading a backup\<close>

text \<open>The document of an object.\<close>

definition doc_of :: "'w mig_api \<Rightarrow> saved \<Rightarrow> string \<Rightarrow> bool" where
  "doc_of api x d \<longleftrightarrow> yaml_Marshal api (clean_saved x) = Inr (d @ [newline])"

text \<open>
  A write appends to the file; the text of an object ends with a newline and has no line that starts with the separator of
  documents, since an object is a mapping whose lines start with a key or with a space.
\<close>

locale backup_file =
  fixes api :: "'w mig_api" and contents :: "'w \<Rightarrow> string"
  assumes Write: "run_state (file_Write api b) w = (None, w') \<Longrightarrow> contents w' = contents w @ b"
    and ReadFile: "run_state (os_ReadFile api p) w = (Inr (contents w), w)"
    and Marshal: "yaml_Marshal api x = Inr b \<Longrightarrow> \<exists>d. b = d @ [newline] \<and> \<not> strings_Contains (newline # d) doc_sep"
begin

lemma doc_of_separate: "doc_of api x d \<Longrightarrow> \<not> strings_Contains (newline # d) doc_sep"
  using Marshal by (fastforce simp: doc_of_def)

lemma save_one_appends:
  assumes "run_state (save_one api x) w = (None, w')"
  shows "\<exists>d. doc_of api x d \<and> contents w' = contents w @ file_text [d]"
proof -
  obtain b where b: "yaml_Marshal api (clean_saved x) = Inr b" using assms by (cases "yaml_Marshal api (clean_saved x)") (auto simp: save_one_def)
  obtain d where d: "b = d @ [newline]" using Marshal [OF b] by blast
  obtain e1 w1 where w1: "run_state (file_Write api b) w = (e1, w1)" by fastforce
  then have "e1 = None" using assms b by (cases e1) (auto simp: save_one_def State_Monad.run_state_bind)
  obtain e2 w2 where w2: "run_state (file_Write api (''---'' @ [newline])) w1 = (e2, w2)" by fastforce
  then have "e2 = None" "w2 = w'" using assms b w1 \<open>e1 = None\<close>
    by (cases e2; auto simp: save_one_def State_Monad.run_state_bind)+
  then have "contents w' = contents w @ b @ ''---'' @ [newline]" using Write [of b w w1] Write [of "''---'' @ [newline]" w1 w'] w1 w2 \<open>e1 = None\<close> by simp
  then show ?thesis using b d by (auto simp: doc_of_def file_text_def)
qed

lemma saveYAML_appends:
  assumes "run_state (saveYAML api objs) w = (None, w')"
  shows "\<exists>ds. list_all2 (doc_of api) objs ds \<and> contents w' = contents w @ file_text ds"
  using assms
proof (induction objs arbitrary: w)
  case Nil
  then show ?case by (auto simp: saveYAML_def file_text_def)
next
  case (Cons x objs)
  obtain e1 w1 where w1: "run_state (save_one api x) w = (e1, w1)" by fastforce
  then have *: "e1 = None" "run_state (saveYAML api objs) w1 = (None, w')"
    using Cons.prems by (auto simp: saveYAML_def State_Monad.run_state_bind split: if_splits)
  obtain d where d: "doc_of api x d" "contents w1 = contents w @ file_text [d]" using save_one_appends w1 *(1) by blast
  obtain ds where ds: "list_all2 (doc_of api) objs ds" "contents w' = contents w1 @ file_text ds" using Cons.IH [OF *(2)] by blast
  show ?case using d ds by (intro exI [of _ "d # ds"]) (simp add: file_text_def)
qed

text \<open>\<open>Restore\<close> sees one document per saved object, and two that it skips.\<close>

lemma restore_skips:
  "for_each (restore_one api m) (documents ds) = for_each (restore_one api m) (case ds of [] \<Rightarrow> [] | d # ds \<Rightarrow> d # map (Cons newline) ds)"
proof -
  have skip: "for_each (restore_one api m) [[newline]] = ret None" "for_each (restore_one api m) [[]] = ret None"
    by (simp_all add: restore_one_def)
  have "(\<lambda>e. if e \<noteq> None then ret e else ret None) = (\<lambda>e. ret e :: ('w, error option) state)" by auto
  then have last: "for_each (restore_one api m) (xs @ [[newline]]) = for_each (restore_one api m) xs" for xs
    unfolding for_each_append skip by (simp only: State_Monad.bind_right_identity)
  show ?thesis
  proof (cases ds)
    case (Cons d ds')
    then show ?thesis using last [of "d # map (Cons newline) ds'"] by (simp only: documents_def list.case append_Cons)
  qed (simp add: documents_def skip(2) del: for_each.simps(2))
qed

lemma Restore_file_text:
  assumes "list_all2 (doc_of api) objs ds" and "contents w = file_text ds"
  shows "run_state (Restore api m p) w =
    run_state (for_each (restore_one api m) (case ds of [] \<Rightarrow> [] | d # ds \<Rightarrow> d # map (Cons newline) ds)) w"
proof -
  have "list_all (\<lambda>d. \<not> strings_Contains (newline # d) doc_sep) ds"
    using assms(1) by (induction rule: list_all2_induct) (auto dest: doc_of_separate simp del: strings_Contains.simps)
  then have "run_state (Restore api m p) w = run_state (for_each (restore_one api m) (documents ds)) w"
    using split_file [of ds] by (simp add: Restore_def State_Monad.run_state_bind ReadFile assms(2))
  then show ?thesis unfolding restore_skips .
qed

theorem Restore_documents:
  assumes "run_state (saveYAML api objs) w = (None, w')" and "contents w = []"
  shows "\<exists>ds. list_all2 (doc_of api) objs ds \<and>
    run_state (Restore api m p) w' =
      run_state (for_each (restore_one api m) (case ds of [] \<Rightarrow> [] | d # ds \<Rightarrow> d # map (Cons newline) ds)) w'"
  using saveYAML_appends [OF assms(1)] assms(2) Restore_file_text by fastforce

end

subsection \<open>The backup command\<close>

text \<open>The calls of the server do not touch the file, and opening it leaves it empty.\<close>

locale backup_cluster = backup_file +
  fixes cli :: "'w cli_api"
  assumes Open: "run_state (os_OpenFile cli p) w = (None, w') \<Longrightarrow> contents w' = []"
    and api_quiet: "contents (snd (run_state (crd_Get api n) w)) = contents w"
      "contents (snd (run_state (namespace_Get api n) w)) = contents w"
      "contents (snd (run_state (dynamic_List api res lim c) w)) = contents w"
      "contents (snd (run_state (v2Subnet_List api n lim c) w)) = contents w"
      "contents (snd (run_state (service_List api lim c) w)) = contents w"
      "contents (snd (run_state (mig_Sleep api d) w)) = contents w"
begin

lemma collect_pages_keeps:
  assumes "collect_pages page failed conv sleep objects c w = Some (r, w')"
    and page: "\<And>c w. contents (snd (run_state (page c) w)) = contents w" and sleep: "\<And>w. contents (snd (run_state sleep w)) = contents w"
  shows "contents w' = contents w"
proof -
  have "contents (snd (r, w')) = contents w"
  proof (rule collect_pages.raw_induct [OF _ assms(1),
      where P = "\<lambda>page' failed' conv' sleep' objects' c' w y. page' = page \<and> sleep' = sleep \<longrightarrow> contents (snd y) = contents w", THEN mp])
    fix f page' failed' conv' sleep' objects' c' w y
    assume IH: "\<And>page' failed' conv' sleep' objects' c' w y. f page' failed' conv' sleep' objects' c' w = Some y \<Longrightarrow>
        page' = page \<and> sleep' = sleep \<longrightarrow> contents (snd y) = contents w"
      and body: "(case run_state (page' c') w of
          (Inl e, w1) \<Rightarrow> Some (failed' e, w1)
        | (Inr (items, next), w1) \<Rightarrow>
            (case conv' items of
               Inl e \<Rightarrow> Some (Inl e, w1)
             | Inr os \<Rightarrow>
                 (case run_state sleep' w1 of
                    (_, w2) \<Rightarrow> if next = [] then Some (Inr (objects' @ os), w2)
                      else f page' failed' conv' sleep' (objects' @ os) next w2))) = Some y"
    show "page' = page \<and> sleep' = sleep \<longrightarrow> contents (snd y) = contents w"
    proof (intro impI, elim conjE)
      assume eq: "page' = page" "sleep' = sleep"
      obtain p w1 where p: "run_state (page c') w = (p, w1)" by fastforce
      obtain w2 where u: "run_state sleep w1 = ((), w2)" by (cases "run_state sleep w1") auto
      have "contents w1 = contents w" "contents w2 = contents w" using page [of c' w] sleep [of w1] p u by simp_all
      then show "contents (snd y) = contents w"
        using body eq p u IH by (auto split: sum.splits prod.splits if_splits)
    qed
  qed simp
  then show ?thesis by simp
qed

text \<open>A part of the backup appends documents.\<close>

definition appends :: "'w \<Rightarrow> (error option \<times> 'w) option \<Rightarrow> bool" where
  "appends w r \<longleftrightarrow> (\<forall>w'. r = Some (None, w') \<longrightarrow> (\<exists>objs ds. list_all2 (doc_of api) objs ds \<and> contents w' = contents w @ file_text ds))"

lemma appends_nothing: "contents w1 = contents w \<Longrightarrow> appends w (Some (x, w1))"
  unfolding appends_def by (auto simp: file_text_def intro!: exI [of _ "[]"])

lemma save_listed_appends:
  assumes "\<And>x w1. r = Some (x, w1) \<Longrightarrow> contents w1 = contents w"
  shows "appends w (save_listed api objs wrap save r)"
proof (cases r)
  case (Some p)
  then show ?thesis
    using assms saveYAML_appends [of "objs @ map save xs" for xs] by (cases p) (fastforce simp: save_listed_def appends_def split: sum.splits)
qed (simp add: save_listed_def appends_def)

lemma lists_keep:
  "listV1Resources api m res w = Some (x, w') \<Longrightarrow> contents w' = contents w"
  "listV2Subnets api m w = Some (y, w') \<Longrightarrow> contents w' = contents w"
  "listV1Service api m w = Some (z, w') \<Longrightarrow> contents w' = contents w"
  unfolding listV1Resources_def listV2Subnets_def listV1Service_def by (elim collect_pages_keeps; simp add: api_quiet)+

lemma gets_keep:
  "contents (snd (run_state (getV1SubnetCRD api) w)) = contents w"
  "contents (snd (run_state (getV2SubnetCRD api) w)) = contents w"
  "contents (snd (run_state (getV2Namespace api) w)) = contents w"
  using api_quiet(1) [of v1SubnetCRD w] api_quiet(1) [of v2SubnetCRD w] api_quiet(2) [of SubnetNamespace w]
  by (auto simp: getV1SubnetCRD_def getV2SubnetCRD_def getV2Namespace_def State_Monad.run_state_bind split: prod.splits)

lemma parts_append: "appends w (BackupV1 api m w)" "appends w (BackupV2 api m w)" "appends w (BackupV1Service api m w)"
proof -
  obtain g1 w1 where g1: "run_state (getV1SubnetCRD api) w = (g1, w1)" by fastforce
  then have "contents w1 = contents w" using gets_keep(1) [of w] by simp
  then show "appends w (BackupV1 api m w)"
    using g1 lists_keep(1) by (cases g1) (auto simp: BackupV1_def appends_nothing intro!: save_listed_appends)
  obtain g2 w2 where g2: "run_state (getV2SubnetCRD api) w = (g2, w2)" by fastforce
  obtain g3 w3 where g3: "run_state (getV2Namespace api) w2 = (g3, w3)" by fastforce
  have "contents w2 = contents w" "contents w3 = contents w" using g2 g3 gets_keep(2) [of w] gets_keep(3) [of w2] by simp_all
  then show "appends w (BackupV2 api m w)"
    using g2 g3 lists_keep(2) by (cases g2; cases g3) (auto simp: BackupV2_def appends_nothing intro!: save_listed_appends)
  show "appends w (BackupV1Service api m w)"
    unfolding BackupV1Service_def using lists_keep(3) by (intro save_listed_appends) blast
qed

lemma after_page_appends:
  assumes "appends w r" and "\<And>w1. appends w1 (next w1)"
  shows "appends w (after_page r wrap next)"
  unfolding appends_def
proof (intro allI impI)
  fix w' assume "after_page r wrap next = Some (None, w')"
  then obtain w1 where w1: "r = Some (None, w1)" "next w1 = Some (None, w')"
    by (auto simp: after_page_def bind_eq_Some_conv split: option.splits)
  obtain objs ds where a: "list_all2 (doc_of api) objs ds" "contents w1 = contents w @ file_text ds" using assms(1) w1(1) by (auto simp: appends_def)
  obtain objs' ds' where b: "list_all2 (doc_of api) objs' ds'" "contents w' = contents w1 @ file_text ds'" using assms(2) [of w1] w1(2) by (auto simp: appends_def)
  show "\<exists>objs ds. list_all2 (doc_of api) objs ds \<and> contents w' = contents w @ file_text ds"
    using list_all2_appendI [OF a(1) b(1)] a(2) b(2) by (intro exI [of _ "objs @ objs'"] exI [of _ "ds @ ds'"]) (simp add: file_text_def)
qed

lemma backup_files_append: "appends w (backup_files api m cc w)"
  unfolding backup_files_def by (intro after_page_appends) (simp_all add: parts_append appends_nothing)

theorem backup_restored:
  assumes "backup_run cli api intv limit yes cc w = Some (None, w')" and "p \<noteq> []"
  shows "\<exists>objs ds. list_all2 (doc_of api) objs ds \<and>
    run_state (restore_run api intv limit yes p) w' =
      run_state (for_each (restore_one api (NewResourceMigrator [] False intv limit yes))
        (case ds of [] \<Rightarrow> [] | d # ds \<Rightarrow> d # map (Cons newline) ds)) w'"
proof -
  obtain w1 w2 where w2: "run_state (os_OpenFile cli (output_file cc)) w1 = (None, w2)"
      and run: "backup_files api (NewResourceMigrator [] False intv limit yes) cc w2 = Some (None, w')"
  proof -
    obtain x w1 where x: "run_state (CheckFileExistsPrompt cli api (output_file cc) yes) w = (x, w1)" by fastforce
    obtain y w2 where y: "run_state (os_OpenFile cli (output_file cc)) w1 = (y, w2)" by fastforce
    have "x = None" "y = None" "backup_files api (NewResourceMigrator [] False intv limit yes) cc w2 = Some (None, w')"
      using assms(1) x y unfolding backup_run_def Let_def by (cases x; cases y; simp split: if_splits)+
    then show thesis using that y by blast
  qed
  obtain objs ds where ds: "list_all2 (doc_of api) objs ds" "contents w' = file_text ds"
    using backup_files_append [of w2 "NewResourceMigrator [] False intv limit yes" cc] run Open [OF w2] unfolding appends_def by auto
  then show ?thesis using Restore_file_text [OF ds] assms(2) by (auto simp: restore_run_def)
qed

end

lemma mem_Marshal_separate: "\<not> strings_Contains (newline # ''kind: '' @ saved_kind x) doc_sep"
  by (cases x) simp_all

interpretation membak: backup_file "mem_mig_api tbl ps" mm_file
  by unfold_locales (use mem_Marshal_separate in \<open>auto simp: mem_mig_api_def simp del: strings_Contains.simps\<close>)

text \<open>The file of the server in memory: it exists when it is not empty.\<close>

definition mem_cli :: "mem_mig cli_api" where
  "mem_cli = \<lparr>os_Stat = (\<lambda>p. State (\<lambda>w. (if mm_file w = [] then Some (StatusError NotFound) else None, w))),
     os_IsNotExist = IsNotFound, os_OpenFile = (\<lambda>p. State (\<lambda>w. (None, w\<lparr>mm_file := []\<rparr>)))\<rparr>"

interpretation memcli: backup_cluster "mem_mig_api tbl ps" mm_file mem_cli
  by unfold_locales (auto simp: mem_cli_def mem_mig_api_def)

text \<open>The commands: what a backup of any choice of parts wrote is what the restore reads.\<close>

theorem backup_then_restore:
  assumes "backup_cluster api contents cli" and "backup_run cli api intv limit yes cc w = Some (None, w')" and "p \<noteq> []"
  shows "\<exists>objs ds. list_all2 (doc_of api) objs ds \<and>
    run_state (restore_run api intv limit yes p) w' =
      run_state (for_each (restore_one api (NewResourceMigrator [] False intv limit yes))
        (case ds of [] \<Rightarrow> [] | d # ds \<Rightarrow> d # map (Cons newline) ds)) w'"
  by (rule backup_cluster.backup_restored [OF assms])

text \<open>
  C21. A backup is read back as it was written: if \<open>saveYAML\<close> succeeds on an empty file, then \<open>Restore\<close> of that file handles the
  documents of the saved objects, cleaned of their server-side metadata, one for each object and in their order, and nothing else: the
  separators at the ends of the documents and of the file are skipped.
\<close>

theorem saveYAML_Restore:
  assumes "backup_file api contents" and "run_state (saveYAML api objs) w = (None, w')" and "contents w = []"
  shows "\<exists>ds. list_all2 (doc_of api) objs ds \<and>
    run_state (Restore api m p) w' =
      run_state (for_each (restore_one api m) (case ds of [] \<Rightarrow> [] | d # ds \<Rightarrow> d # map (Cons newline) ds)) w'"
  by (rule backup_file.Restore_documents [OF assms])

definition example_saved :: "saved list" where
  "example_saved = [SavedNamespace (no_meta\<lparr>Name := ''a''\<rparr>), SavedCRD ''t'' (no_meta\<lparr>Name := ''b''\<rparr>)]"

abbreviation empty_mig :: mem_mig where
  "empty_mig \<equiv> \<lparr>mm_subnets = [], mm_services = [], mm_workloads = [], mm_file = []\<rparr>"

abbreviation example_backup :: mem_mig where
  "example_backup \<equiv> empty_mig\<lparr>mm_file := ''kind: Namespace'' @ [newline] @ ''---'' @ [newline] @
     ''kind: CustomResourceDefinition'' @ [newline] @ ''---'' @ [newline]\<rparr>"

theorem saveYAML_Restore_witness:
  "\<exists>ds. list_all2 (doc_of (mem_mig_api [] [])) example_saved ds \<and>
    run_state (Restore (mem_mig_api [] []) example_migrator ''f'') example_backup =
      run_state (for_each (restore_one (mem_mig_api [] []) example_migrator) (case ds of [] \<Rightarrow> [] | d # ds \<Rightarrow> d # map (Cons newline) ds))
        example_backup"
proof -
  have "run_state (saveYAML (mem_mig_api [] []) example_saved) empty_mig = (None, example_backup)"
    by (simp add: saveYAML_def save_one_def mem_mig_api_def example_saved_def State_Monad.run_state_bind)
  then show ?thesis by (rule saveYAML_Restore [OF membak.backup_file_axioms]) simp
qed

end
