(* ===== verification/IPAMLive.thy ===== *)
theory IPAMLive
  imports IPAMRuns
begin

text \<open>
  Progress of the IP controller: the create handler not only records the right address when it
  returns one, it does return one, as long as the subnet has an address left, the informer caches
  have synced and the API server accepts updates with the stored resource version. With a subnet cache that is behind, it
  succeeds too, on an address that another resource has.
\<close>

context kube_live
begin

text \<open>The two closures of \<open>onIPCreate\<close> succeed at the first attempt.\<close>

lemma claim_succeeds:
  assumes "c_subnets (view w) (SubnetNamespace, sn) = Some s"
  shows "\<exists>s' w'. run_state (claim_closure api sn a m) w = (Inr s', w')"
proof -
  obtain w1 where get: "run_state (subnetCache_Get api SubnetNamespace sn) w = (Inr s, w1)"
    using subnet_stored [OF assms] by blast
  let ?t = "s\<lparr>sn_Status := claim_addr a m (sn_Status s)\<rparr>"
  have "c_subnets (view w1) (sn_Namespace ?t, sn_Name ?t) = Some s"
    using assms subnet_Get [OF get] keyed_subnet [OF assms] by simp
  then obtain s' w' where "run_state (subnetClient_UpdateStatus api ?t) w1 = (Inr s', w')"
    using subnet_accepted [of w1 ?t s] by auto
  then show ?thesis using get by (simp add: claim_closure_def)
qed

lemma pending_succeeds:
  assumes "c_ips (view w) (ip_Namespace ip, ip_Name ip) = Some i"
  shows "\<exists>i' w'. run_state (retry_ip api b (pending_closure api ip a m)) w = (Inr i', w')"
proof -
  obtain w1 where get: "run_state (ipCache_Get api (ip_Namespace ip) (ip_Name ip)) w = (Inr i, w1)"
    using ip_stored [OF assms] by blast
  obtain now w2 where now: "run_state (time_Now api) w1 = (now, w2)" by fastforce
  let ?t = "i\<lparr>ip_Status := (ip_Status i)\<lparr>Addr := a, MAC := m, ip_Phase := flatNetworkIPPendingPhase,
    AllocatedTimeStamp := now\<rparr>\<rparr>"
  have "c_ips (view w2) (ip_Namespace ?t, ip_Name ?t) = Some i"
    using assms ip_Get [OF get] run_quiet(3) [OF now] keyed_ip [OF assms] by simp
  then obtain i' w' where "run_state (ipClient_UpdateStatus api ?t) w2 = (Inr i', w')"
    using ip_accepted [of w2 ?t i] by auto
  then have "run_state (pending_closure api ip a m) w = (Inr i', w')" using get now by (simp add: pending_closure_def)
  then show ?thesis using ip_once by blast
qed

lemma commit_succeeds:
  assumes "c_subnets (view w) (SubnetNamespace, Subnet (ip_Spec ip)) = Some t"
    and "c_ips (view w) (ip_Namespace ip, ip_Name ip) = Some i"
  shows "\<exists>i' w'. run_state (commit_allocation api ip pod s a m) w = (Returns (i', None), w')"
proof -
  obtain s' w1 where cl: "run_state (retry_subnet api DefaultBackoff (claim_closure api (Subnet (ip_Spec ip)) a m)) w = (Inr s', w1)"
    using claim_succeeds [OF assms(1)] subnet_once by blast
  have "c_ips (view w1) (ip_Namespace ip, ip_Name ip) = Some i"
    using retry_claim [OF cl] assms(2) by (auto simp: claimed_def)
  then obtain i' w' where "run_state (retry_ip api DefaultBackoff (pending_closure api ip a m)) w1 = (Inr i', w')"
    using pending_succeeds by blast
  then show ?thesis using cl by (auto simp: commit_allocation_def)
qed

text \<open>
  A cache of the subnets of which only the next read is behind: \<open>stale\<close> takes the place of the reads of the cache. The allocation that
  follows a stale read is the one that follows a fresh read.
\<close>

lemma stale_commit:
  assumes "run_state (stale SubnetNamespace (Subnet (ip_Spec ip))) w = run_state (subnetCache_Get api SubnetNamespace (Subnet (ip_Spec ip))) w"
    and "c_subnets (view w) (SubnetNamespace, Subnet (ip_Spec ip)) = Some t"
    and "c_ips (view w) (ip_Namespace ip, ip_Name ip) = Some i"
  shows "\<exists>i' w'. run_state (commit_allocation (api\<lparr>subnetCache_Get := stale\<rparr>) ip pod s a m) w = (Returns (i', None), w') \<and>
    run_state (commit_allocation api ip pod s a m) w = (Returns (i', None), w')"
proof -
  let ?sn = "Subnet (ip_Spec ip)" and ?api = "api\<lparr>subnetCache_Get := stale\<rparr>"
  obtain s' w1 where cl: "run_state (claim_closure api ?sn a m) w = (Inr s', w1)" using claim_succeeds [OF assms(2)] by blast
  then have "run_state (claim_closure ?api ?sn a m) w = (Inr s', w1)" using assms(1)
    by (auto simp: claim_closure_def split: prod.splits sum.splits)
  then have r: "run_state (retry_subnet api b (claim_closure api ?sn a m)) w = (Inr s', w1)"
      "run_state (retry_subnet api b (claim_closure ?api ?sn a m)) w = (Inr s', w1)" for b
    using cl subnet_once by blast+
  have "c_ips (view w1) (ip_Namespace ip, ip_Name ip) = Some i" using retry_claim [OF r(1)] assms(3) by (auto simp: claimed_def)
  then obtain i' w' where p: "run_state (retry_ip api DefaultBackoff (pending_closure api ip a m)) w1 = (Inr i', w')"
    using pending_succeeds by blast
  have "pending_closure ?api = pending_closure api" by (simp add: pending_closure_def fun_eq_iff cong: sum.case_cong)
  then show ?thesis using r p by (auto simp: commit_allocation_def)
qed

lemma stale_onIPCreate:
  assumes pod: "run_state (podCache_Get api (ip_Namespace ip) (ip_Name ip)) w = (Inr pod, w1)"
    and lock: "run_state (acquire api (Subnet (ip_Spec ip))) w1 = ((), w2)"
    and behind: "run_state (stale SubnetNamespace (Subnet (ip_Spec ip))) w2 = (Inr s, w3)" "view w3 = view w2"
    and fresh: "run_state (stale SubnetNamespace (Subnet (ip_Spec ip))) w3 = run_state (subnetCache_Get api SubnetNamespace (Subnet (ip_Spec ip))) w3"
    and stored: "c_subnets (view w) (SubnetNamespace, Subnet (ip_Spec ip)) = Some t"
      "c_ips (view w) (ip_Namespace ip, ip_Name ip) = Some i"
    and s: "sn_Phase (sn_Status s) = ''Active''" "allocateIP ip s = Some (Inr a)" "allocateMAC ip s = Inr m"
  shows "\<exists>i' w'. run_state (onIPCreate (api\<lparr>subnetCache_Get := stale\<rparr>) ip) w = (Returns (i', None), w') \<and>
    c_ips (view w') (ip_Namespace ip, ip_Name ip) = Some i' \<and> Addr (ip_Status i') = a \<and> ip_Spec i' = ip_Spec i \<and>
    (\<forall>k. k \<noteq> (ip_Namespace ip, ip_Name ip) \<longrightarrow> c_ips (view w') k = c_ips (view w) k)"
proof -
  let ?api = "api\<lparr>subnetCache_Get := stale\<rparr>" and ?sn = "Subnet (ip_Spec ip)"
  have v: "view w3 = view w" using pod_Get [OF pod] run_quiet(5) [OF lock] behind(2) by simp
  obtain i' w4 where c: "run_state (commit_allocation ?api ip pod s a m) w3 = (Returns (i', None), w4)"
      "run_state (commit_allocation api ip pod s a m) w3 = (Returns (i', None), w4)"
    using stale_commit [where stale = stale, OF fresh] stored v by metis
  obtain w5 where re: "run_state (release api ?sn) w4 = ((), w5)" by (cases "run_state (release api ?sn) w4") auto
  have "run_state (onIPCreate_locked ?api ip pod) w2 = (Returns (i', None), w4)"
    using behind(1) c(1) s by (simp add: onIPCreate_locked_def)
  then have "run_state (onIPCreate ?api ip) w = (Returns (i', None), w5)"
    using pod lock re by (simp add: onIPCreate_def with_lock_def)
  moreover have "view w5 = view w4" by (rule run_quiet(6) [OF re])
  ultimately show ?thesis using commit_success [OF c(2)] v stored(2) by auto
qed

lemma onIPCreate_returns:
  assumes pod: "c_pods (view w) (ip_Namespace ip, ip_Name ip) = Some pod"
    and ip: "c_ips (view w) (ip_Namespace ip, ip_Name ip) = Some i"
    and s: "c_subnets (view w) (SubnetNamespace, Subnet (ip_Spec ip)) = Some s" "sn_Phase (sn_Status s) = ''Active''"
    and al: "allocateIP ip s = Some (Inr a)" "allocateMAC ip s = Inr m"
  shows "\<exists>i' w'. run_state (onIPCreate api ip) w = (Returns (i', None), w') \<and> Addr (ip_Status i') = a \<and>
    MAC (ip_Status i') = m \<and> ip_Phase (ip_Status i') = flatNetworkIPPendingPhase \<and>
    c_ips (view w') (ip_Namespace ip, ip_Name ip) = Some i'"
proof -
  let ?sn = "Subnet (ip_Spec ip)"
  obtain w1 where p: "run_state (podCache_Get api (ip_Namespace ip) (ip_Name ip)) w = (Inr pod, w1)"
    using pod_stored [OF pod] by blast
  obtain w2 where ac: "run_state (acquire api ?sn) w1 = ((), w2)" by (cases "run_state (acquire api ?sn) w1") auto
  have v2: "view w2 = view w" using pod_Get [OF p] run_quiet(5) [OF ac] by simp
  then obtain w3 where g: "run_state (subnetCache_Get api SubnetNamespace ?sn) w2 = (Inr s, w3)"
    using subnet_stored [of w2] s by metis
  have v3: "view w3 = view w" using subnet_Get [OF g] v2 by simp
  obtain i' w4 where c: "run_state (commit_allocation api ip pod s a m) w3 = (Returns (i', None), w4)"
    using commit_succeeds [of w3 ip s i pod s a m] s ip v3 by auto
  obtain w5 where re: "run_state (release api ?sn) w4 = ((), w5)" by (cases "run_state (release api ?sn) w4") auto
  have "run_state (onIPCreate_locked api ip pod) w2 = (Returns (i', None), w4)"
    using g c s al by (simp add: onIPCreate_locked_def)
  then have "run_state (onIPCreate api ip) w = (Returns (i', None), w5)"
    using p ac re by (simp add: onIPCreate_def with_lock_def)
  moreover have "view w5 = view w4" by (rule run_quiet(6) [OF re])
  ultimately show ?thesis using commit_success [OF c] by auto
qed

text \<open>With a validated subnet that has an address left, a resource that leaves the choice to the controller gets an address.\<close>

lemma onIPCreate_allocates:
  assumes stored: "c_pods (view w) (ip_Namespace ip, ip_Name ip) = Some pod"
      "c_ips (view w) (ip_Namespace ip, ip_Name ip) = Some ip"
      "c_subnets (view w) (SubnetNamespace, Subnet (ip_Spec ip)) = Some s" "sn_Phase (sn_Status s) = ''Active''"
    and valid: "ValidateSubnet s = None" and ok: "subnet_ok s"
    and parse: "ParseCIDR (CIDR (sn_Spec s)) = Inr (x, n)" "\<not> Contains n (replicate 16 255)"
    and auto: "Addrs (ip_Spec ip) = []" "MACs (ip_Spec ip) = []" "Addr (ip_Status ip) = []"
    and free: "allocatable s free" "\<not> IPInRanges free (UsedIP (sn_Status s))"
  shows "\<exists>i' w'. run_state (onIPCreate api ip) w = (Returns (i', None), w') \<and>
    ip_Phase (ip_Status i') = flatNetworkIPPendingPhase \<and>
    c_ips (view w') (ip_Namespace ip, ip_Name ip) = Some i' \<and>
    allocatable s (Addr (ip_Status i')) \<and> \<not> IPInRanges (Addr (ip_Status i')) (UsedIP (sn_Status s))"
proof -
  have "list_all range16 (UsedIP (sn_Status s))" "plain_cidr (CIDR (sn_Spec s))"
    using ok by (simp_all add: subnet_ok_def canon_range16)
  then obtain a where a: "GetAvailableIP (CIDR (sn_Spec s)) (Ranges (sn_Spec s)) (UsedIP (sn_Status s)) = Some (Inr a)"
      "allocatable s a" "\<not> IPInRanges a (UsedIP (sn_Status s))"
    using GetAvailableIP_validated [of s "UsedIP (sn_Status s)"] valid parse free by auto
  have "allocateIP ip s = Some (Inr a)" using a(1) auto by (simp add: allocateIP_def alreadyAllocateIP_def)
  moreover have "allocateMAC ip s = Inr []" using auto by (simp add: allocateMAC_def)
  ultimately show ?thesis
    using onIPCreate_returns [OF stored] a by metis
qed

end

text \<open>
  C16. Liveness of the allocation. A new resource that leaves the choice of its addresses to the
  controller, with its pod and its active, validated subnet in the store, gets an address: as long as
  one address of the subnet is not used, the create handler returns without an error a resource in
  the phase Pending, the API server stores it, and its address is one that the subnet offers and
  that was not used.
\<close>

theorem onIPCreate_progress:
  assumes "kube_live api view"
    and "c_pods (view w) (ip_Namespace ip, ip_Name ip) = Some pod"
    and "c_ips (view w) (ip_Namespace ip, ip_Name ip) = Some ip"
    and "c_subnets (view w) (SubnetNamespace, Subnet (ip_Spec ip)) = Some s"
    and "sn_Phase (sn_Status s) = ''Active''" and "ValidateSubnet s = None" and "subnet_ok s"
    and "ParseCIDR (CIDR (sn_Spec s)) = Inr (x, n)" and "\<not> Contains n (replicate 16 255)"
    and "Addrs (ip_Spec ip) = []" and "MACs (ip_Spec ip) = []" and "Addr (ip_Status ip) = []"
    and "allocatable s free" and "\<not> IPInRanges free (UsedIP (sn_Status s))"
  shows "\<exists>i' w'. run_state (onIPCreate api ip) w = (Returns (i', None), w') \<and>
    ip_Phase (ip_Status i') = flatNetworkIPPendingPhase \<and>
    c_ips (view w') (ip_Namespace ip, ip_Name ip) = Some i' \<and>
    allocatable s (Addr (ip_Status i')) \<and> \<not> IPInRanges (Addr (ip_Status i')) (UsedIP (sn_Status s))"
  by (rule kube_live.onIPCreate_allocates [OF assms])

lemma active_subnet_usable:
  "sn_Phase (sn_Status (active_subnet [])) = ''Active''" "ValidateSubnet (active_subnet []) = None" "subnet_ok (active_subnet [])"
  "ParseCIDR (CIDR (sn_Spec (active_subnet []))) =
     Inr (ParseIP ''10.1.0.0'', \<lparr>NetIP = [10, 1, 0, 0], NetMask = [255, 255, 0, 0]\<rparr>)"
  "\<not> Contains \<lparr>NetIP = [10, 1, 0, 0], NetMask = [255, 255, 0, 0]\<rparr> (replicate 16 255)"
  "allocatable (active_subnet []) (ParseIP ''10.1.0.1'')"
  "\<not> IPInRanges (ParseIP ''10.1.0.1'') (UsedIP (sn_Status (active_subnet [])))"
proof -
  have "plain_cidr (CIDR (sn_Spec (active_subnet [])))" by code_simp
  then show "subnet_ok (active_subnet [])" by (simp add: active_subnet_def subnet_ok_def)
qed code_simp+

theorem onIPCreate_progress_witness:
  "\<exists>i' w'. run_state (onIPCreate mem_api (example_ip ''a'' [] '''')) (example_world [] [example_ip ''a'' [] '''']) =
      (Returns (i', None), w') \<and> allocatable (active_subnet []) (Addr (ip_Status i'))"
proof -
  let ?ip = "example_ip ''a'' [] ''''" and ?s = "active_subnet []"
  let ?w = "example_world [] [?ip]"
  have stored: "c_pods (mem_view ?w) (ip_Namespace ?ip, ip_Name ?ip) = Some \<lparr>pod_meta = ip_meta ?ip, pod_NodeName = ''n1''\<rparr>"
    "c_ips (mem_view ?w) (ip_Namespace ?ip, ip_Name ?ip) = Some ?ip"
    "c_subnets (mem_view ?w) (SubnetNamespace, Subnet (ip_Spec ?ip)) = Some ?s"
    by (simp_all add: mem_view_def example_world_def store_get_def example_ip_def active_subnet_def example_subnet_def)
  have spec: "Addrs (ip_Spec ?ip) = []" "MACs (ip_Spec ?ip) = []" "Addr (ip_Status ?ip) = []"
    by (simp_all add: example_ip_def)
  show ?thesis
    using onIPCreate_progress [where api = mem_api and view = mem_view, OF memlive.kube_live_axioms stored
        active_subnet_usable(1-5) spec active_subnet_usable(6,7)] by blast
qed

text \<open>
  C36. Fresh caches are needed. Let the one read of the subnet by which the create handler chooses an address be behind, while the API
  server and all later reads are as they should be. Whenever the address chosen for the old subnet has meanwhile been given to another
  resource, the create handler succeeds all the same and both resources have the address: the update closure reads the subnet again, finds
  the address used, and goes on.
\<close>

theorem stale_cache_double_allocation:
  assumes "kube_live api view"
    and "run_state (podCache_Get api (ip_Namespace ip) (ip_Name ip)) w = (Inr pod, w1)"
    and "run_state (acquire api (Subnet (ip_Spec ip))) w1 = ((), w2)"
    and "run_state (stale SubnetNamespace (Subnet (ip_Spec ip))) w2 = (Inr s, w3)" and "view w3 = view w2"
    and "run_state (stale SubnetNamespace (Subnet (ip_Spec ip))) w3 = run_state (subnetCache_Get api SubnetNamespace (Subnet (ip_Spec ip))) w3"
    and "c_subnets (view w) (SubnetNamespace, Subnet (ip_Spec ip)) = Some t"
    and "c_ips (view w) (ip_Namespace ip, ip_Name ip) = Some ip"
    and "sn_Phase (sn_Status s) = ''Active''" and "allocateIP ip s = Some (Inr a)" and "allocateMAC ip s = Inr m"
    and "c_ips (view w) k = Some j" and "k \<noteq> (ip_Namespace ip, ip_Name ip)" and "holds j (Subnet (ip_Spec ip)) a"
  shows "\<exists>i' w'. run_state (onIPCreate (api\<lparr>subnetCache_Get := stale\<rparr>) ip) w = (Returns (i', None), w') \<and>
    c_ips (view w') (ip_Namespace ip, ip_Name ip) = Some i' \<and> holds i' (Subnet (ip_Spec ip)) a \<and>
    c_ips (view w') k = Some j \<and> \<not> ipam_inv (view w')"
proof -
  obtain i' w' where run: "run_state (onIPCreate (api\<lparr>subnetCache_Get := stale\<rparr>) ip) w = (Returns (i', None), w')"
    and i': "c_ips (view w') (ip_Namespace ip, ip_Name ip) = Some i'" "Addr (ip_Status i') = a" "ip_Spec i' = ip_Spec ip"
    and rest: "\<forall>k. k \<noteq> (ip_Namespace ip, ip_Name ip) \<longrightarrow> c_ips (view w') k = c_ips (view w) k"
    using kube_live.stale_onIPCreate [where stale = stale, OF assms(1-11)] by blast
  have j: "c_ips (view w') k = Some j" using rest [rule_format, OF assms(13)] assms(12) by simp
  have "holds i' (Subnet (ip_Spec ip)) a" using i'(2,3) assms(14) by (auto simp: holds_def)
  moreover have "\<not> ipam_inv (view w')" using ipam_invD(4) [OF _ i'(1) j calculation assms(14)] assms(13) by blast
  ultimately show ?thesis using run i'(1) j by blast
qed

text \<open>
  An informer one read behind: the resource \<open>a\<close> has been given an address, and the resource \<open>b\<close> gets the same one.
\<close>

definition behind_world :: mem where
  "behind_world = (example_world [example_range ''10.1.0.1'' ''10.1.0.1''] [example_ip ''a'' (ParseIP ''10.1.0.1'') ''Pending'', example_ip ''b'' [] ''''])
     \<lparr>m_cache := [active_subnet []]\<rparr>"

theorem stale_cache_double_allocation_witness:
  "\<exists>i' w'. run_state (onIPCreate lag_api (example_ip ''b'' [] '''')) behind_world = (Returns (i', None), w') \<and>
    addr_of w' ''a'' = ParseIP ''10.1.0.1'' \<and> addr_of w' ''b'' = ParseIP ''10.1.0.1''"
proof -
  let ?ip = "example_ip ''b'' [] ''''" and ?j = "example_ip ''a'' (ParseIP ''10.1.0.1'') ''Pending''"
  let ?lag = "subnetCache_Get lag_api" and ?used = "active_subnet [example_range ''10.1.0.1'' ''10.1.0.1'']"
  let ?w = "behind_world\<lparr>m_cache := [?used]\<rparr>"
  have sn: "Subnet (ip_Spec ?ip) = ''s''" and key: "ip_Namespace ?ip = ''default''" "ip_Name ?ip = ''b''"
    by (simp_all add: example_ip_def example_meta_def)
  note world = behind_world_def example_world_def mem_view_def store_get_def active_subnet_def example_subnet_def example_ip_def example_meta_def
    mem_api_def lag_api_def reads_def found_def
  have al: "allocateIP ?ip (active_subnet []) = Some (Inr (ParseIP ''10.1.0.1''))" "allocateMAC ?ip (active_subnet []) = Inr []"
    "ParseIP ''10.1.0.1'' \<noteq> []" by code_simp+
  then have h: "holds ?j (Subnet (ip_Spec ?ip)) (ParseIP ''10.1.0.1'')"
    by (simp add: holds_def example_ip_def)
  have f: "run_state (podCache_Get mem_api (ip_Namespace ?ip) (ip_Name ?ip)) behind_world =
      (Inr \<lparr>pod_meta = ip_meta ?ip, pod_NodeName = ''n1''\<rparr>, behind_world)"
    "run_state (acquire mem_api (Subnet (ip_Spec ?ip))) behind_world = ((), behind_world)"
    "run_state (?lag SubnetNamespace (Subnet (ip_Spec ?ip))) behind_world = (Inr (active_subnet []), ?w)"
    "run_state (?lag SubnetNamespace (Subnet (ip_Spec ?ip))) ?w = run_state (subnetCache_Get mem_api SubnetNamespace (Subnet (ip_Spec ?ip))) ?w"
    "mem_view ?w = mem_view behind_world"
    "c_subnets (mem_view behind_world) (SubnetNamespace, Subnet (ip_Spec ?ip)) = Some ?used"
    "c_ips (mem_view behind_world) (ip_Namespace ?ip, ip_Name ?ip) = Some ?ip" "c_ips (mem_view behind_world) (''default'', ''a'') = Some ?j"
    "sn_Phase (sn_Status (active_subnet [])) = ''Active''" "(''default'', ''a'') \<noteq> (ip_Namespace ?ip, ip_Name ?ip)"
    by (simp_all add: world)
  from stale_cache_double_allocation [where api = mem_api and view = mem_view and stale = ?lag, OF memlive.kube_live_axioms f(1-3,5,4,6,7,9)
      al(1,2) f(8,10) h] obtain i' w' where
      "run_state (onIPCreate (mem_api\<lparr>subnetCache_Get := ?lag\<rparr>) ?ip) behind_world = (Returns (i', None), w')"
      "c_ips (mem_view w') (''default'', ''b'') = Some i'" "holds i' ''s'' (ParseIP ''10.1.0.1'')" "c_ips (mem_view w') (''default'', ''a'') = Some ?j"
    unfolding key sn by blast
  moreover have "mem_api\<lparr>subnetCache_Get := ?lag\<rparr> = lag_api" by (simp add: lag_api_def)
  ultimately show ?thesis by (auto simp: addr_of_def holds_def example_ip_def)
qed

end
