(* ===== verification/PodAllocation.thy ===== *)
theory PodAllocation
  imports IPAMLive CniRuns
begin

text \<open>
  The way of a pod to its address, through three programs that meet at the API server only: the pod controller stores the resource that
  the annotations of the pod ask for, the IP controller, run on that resource, allocates an address for it, and the network plugin on
  the node, which asks for the resource again and again, goes on with that address.
\<close>

subsection \<open>What the network plugin sees\<close>

text \<open>The laws of the client of the plugin: it reads the store of the API server, and reports that an object is not there.\<close>

locale plugin_client =
  fixes p :: "'w plugin" and view :: "'w \<Rightarrow> cluster"
  assumes client_GetIP: "run_state (client_GetIP p ns n) w = (r, w') \<Longrightarrow>
    view w' = view w \<and>
    (case c_ips (view w) (ns, n) of Some i \<Rightarrow> r = Inr i | None \<Rightarrow> \<exists>e. r = Inl e \<and> IsNotFound e)"
begin

text \<open>The closure of ADD returns the resource once it has an address, and an error that is retried as long as it has none.\<close>

lemma get_ip_waits:
  assumes "run_state (get_ip_closure p ns n) w = (r, w')"
    and "\<And>i. c_ips (view w) (ns, n) = Some i \<Longrightarrow> Addr (ip_Status i) = []"
  shows "\<exists>e. r = Inl e \<and> shouldRetryOnFlatNetworkIP e"
proof -
  obtain g w1 where g: "run_state (client_GetIP p ns n) w = (g, w1)" by fastforce
  show ?thesis
  proof (cases "c_ips (view w) (ns, n)")
    case None
    then obtain e where "g = Inl e" "IsNotFound e" using client_GetIP [OF g] by auto
    then have "r = Inl e" "shouldRetryOnFlatNetworkIP e"
      using assms(1) g by (simp_all add: get_ip_closure_def shouldRetryOnFlatNetworkIP_def)
    then show ?thesis by blast
  next
    case (Some i)
    then have "g = Inr i" using client_GetIP [OF g] by simp
    then have "r = Inl errIPNotAllocated" using assms g Some by (simp add: get_ip_closure_def)
    then show ?thesis by (simp add: shouldRetryOnFlatNetworkIP_def)
  qed
qed

lemma get_ip_returns:
  assumes "c_ips (view w) (ns, n) = Some i" and "Addr (ip_Status i) \<noteq> []"
  shows "fst (run_state (get_ip_closure p ns n) w) = Inr i"
proof -
  obtain g w1 where g: "run_state (client_GetIP p ns n) w = (g, w1)" by fastforce
  then have "g = Inr i" using client_GetIP [OF g] assms(1) by simp
  then show ?thesis using g assms(2) by (simp add: get_ip_closure_def)
qed

end

subsection \<open>From the annotation to the plugin\<close>

text \<open>
  C4. A pod gets an address. When the pod handler returns without an error for a pod that asks for a flat network with automatic
  addresses, and the subnet that its annotations name is active, valid and has an address left, then the resource stored for the
  pod, if it has no address yet, is one for which the network plugin waits and on which the create handler of the IP controller
  succeeds: it stores the resource in the phase Pending with an address that the subnet offers and that no one uses. The next request of
  the plugin then returns that resource.
\<close>

theorem pod_gets_address:
  assumes "kube_pods api view" and "kube_live api view" and "plugin_client pl view"
    and "run_state (pod_sync api (Some pod)) w = ((p, None), w1)"
    and "IsPodEnabledFlatNetwork (Some pod)" and "DeletionTimestamp (pod_meta pod) = None"
    and "wanted_spec pod = Some sp" and "Addrs sp = []" and "MACs sp = []"
    and "c_pods (view w1) (Namespace (pod_meta pod), Name (pod_meta pod)) = Some q"
    and "\<forall>i. c_ips (view w1) (Namespace (pod_meta pod), Name (pod_meta pod)) = Some i \<longrightarrow> Addr (ip_Status i) = []"
    and "c_subnets (view w1) (SubnetNamespace, Subnet sp) = Some s" and "sn_Phase (sn_Status s) = ''Active''"
    and "ValidateSubnet s = None" and "subnet_ok s"
    and "ParseCIDR (CIDR (sn_Spec s)) = Inr (x, n)" and "\<not> Contains n (replicate 16 255)"
    and "allocatable s free" and "\<not> IPInRanges free (UsedIP (sn_Status s))"
  shows "(\<exists>e. fst (run_state (get_ip_closure pl (Namespace (pod_meta pod)) (Name (pod_meta pod))) w1) = Inl e \<and>
      shouldRetryOnFlatNetworkIP e) \<and>
    (\<exists>i i' w'. c_ips (view w1) (Namespace (pod_meta pod), Name (pod_meta pod)) = Some i \<and>
      run_state (onIPCreate api i) w1 = (Returns (i', None), w') \<and>
      c_ips (view w') (Namespace (pod_meta pod), Name (pod_meta pod)) = Some i' \<and>
      ip_Phase (ip_Status i') = flatNetworkIPPendingPhase \<and>
      allocatable s (Addr (ip_Status i')) \<and> \<not> IPInRanges (Addr (ip_Status i')) (UsedIP (sn_Status s)) \<and>
      fst (run_state (get_ip_closure pl (Namespace (pod_meta pod)) (Name (pod_meta pod))) w') = Inr i')"
proof -
  let ?ns = "Namespace (pod_meta pod)" and ?n = "Name (pod_meta pod)"
  obtain i where i: "c_ips (view w1) (?ns, ?n) = Some i" "ip_Spec i = sp"
    using kube_pods.pod_sync_run [OF assms(1,4-6)] assms(7) by (auto simp: ensured_def)
  have key: "ip_Namespace i = ?ns" "ip_Name i = ?n"
    using kube.keyed_ip [OF kube_live.axioms(1) [OF assms(2)] i(1)] by simp_all
  have addr: "Addr (ip_Status i) = []" using assms(11) i(1) by blast
  then have wait: "\<exists>e. fst (run_state (get_ip_closure pl ?ns ?n) w1) = Inl e \<and> shouldRetryOnFlatNetworkIP e"
    using plugin_client.get_ip_waits [OF assms(3), of ?ns ?n w1] i(1)
    by (cases "run_state (get_ip_closure pl ?ns ?n) w1") simp
  obtain i' w' where i': "run_state (onIPCreate api i) w1 = (Returns (i', None), w')"
      "ip_Phase (ip_Status i') = flatNetworkIPPendingPhase" "c_ips (view w') (?ns, ?n) = Some i'"
      "allocatable s (Addr (ip_Status i'))" "\<not> IPInRanges (Addr (ip_Status i')) (UsedIP (sn_Status s))"
    using kube_live.onIPCreate_allocates [OF assms(2), of w1 i q s x n free] assms i key addr by auto
  then have "Addr (ip_Status i') \<noteq> []" by (auto simp: allocatable_def)
  then have "fst (run_state (get_ip_closure pl ?ns ?n) w') = Inr i'"
    by (rule plugin_client.get_ip_returns [OF assms(3) i'(3)])
  then show ?thesis using wait i(1) i' by blast
qed

text \<open>A plugin whose client reads the API server in memory; the rest of it is not used here.\<close>

definition cluster_plugin :: "mem plugin" where
  "cluster_plugin = \<lparr>
     logger_Setup = ret None, unmarshal_NetConf = (\<lambda>s. Inl (StatusError OtherReason)),
     marshal_NetConf = (\<lambda>n. Inr []), marshal_raw = (\<lambda>m. Inr []), create_Result = (\<lambda>v s. Inr []),
     NewResultFromResult = (\<lambda>s. Inr mem_result), LoadArgs = (\<lambda>s. Inl (StatusError OtherReason)),
     BuildConfigFromFlags = (\<lambda>s. ret None), kubernetes_NewForConfig = ret None, clientset_NewForConfig = ret None,
     client_GetIP = ipCache_Get mem_api,
     client_GetSubnet = subnetCache_Get mem_api SubnetNamespace,
     client_UpdateIPStatus = (\<lambda>ns i. ipClient_UpdateStatus mem_api i), failed_Addr = [],
     retry_OnError = (\<lambda>b t f. f), retry_OnConflict = retry_n 3,
     GetNS = (\<lambda>s. ret (Inr s)), WithNetNSPath = (\<lambda>s f. f),
     ExecAdd = (\<lambda>t c. ret (Inr [])), ExecDel = (\<lambda>t c. ret None), ExecCheck = (\<lambda>t c. ret None),
     Sysctl = (\<lambda>a b. ret ()), ConfigureIface = (\<lambda>n r. ret None), InterfaceByName = (\<lambda>n. ret (Inl (StatusError NotFound))),
     GratuitousArpOverIface = (\<lambda>ip l. ret None), PrintResult = (\<lambda>r v. ret None),
     ValidateExpectedInterfaceIPs = (\<lambda>n ips. ret None), ValidateExpectedRoute = (\<lambda>rs. ret None),
     is_LinkNotFoundError = (\<lambda>e. True)\<rparr>"

interpretation memplugin: plugin_client cluster_plugin mem_view
  by unfold_locales
    (auto simp: cluster_plugin_def mem_api_def reads_def found_def mem_view_def IsNotFound_def split: option.splits)

definition pod_world :: mem where
  "pod_world = (example_world [] [])\<lparr>m_pods := [auto_pod]\<rparr>"

theorem pod_gets_address_witness:
  "\<exists>w1 i i' w'. run_state (pod_sync mem_api (Some auto_pod)) pod_world = ((Some auto_pod, None), w1) \<and>
     run_state (onIPCreate mem_api i) w1 = (Returns (i', None), w') \<and> allocatable (active_subnet []) (Addr (ip_Status i')) \<and>
     fst (run_state (get_ip_closure cluster_plugin ''default'' ''p'') w') = Inr i'"
proof -
  define out where "out = run_state (pod_sync mem_api (Some auto_pod)) pod_world"
  have "case fst out of (Some p, None) \<Rightarrow> p = auto_pod | _ \<Rightarrow> False" unfolding out_def by code_simp
  then have "fst out = (Some auto_pod, None)" by (auto split: prod.splits option.splits)
  then have run: "run_state (pod_sync mem_api (Some auto_pod)) pod_world = ((Some auto_pod, None), snd out)"
    unfolding out_def by (metis prod.collapse)
  have en: "IsPodEnabledFlatNetwork (Some auto_pod)" by code_simp
  have pod: "DeletionTimestamp (pod_meta auto_pod) = None" "Namespace (pod_meta auto_pod) = ''default''"
    "Name (pod_meta auto_pod) = ''p''"
    by (simp_all add: auto_pod_def flat_pod_def example_meta_def)
  have "case wanted_spec auto_pod of Some sp \<Rightarrow> Subnet sp = ''s'' \<and> Addrs sp = [] \<and> MACs sp = [] | None \<Rightarrow> False" by code_simp
  then obtain sp where sp: "wanted_spec auto_pod = Some sp" "Subnet sp = ''s''" "Addrs sp = []" "MACs sp = []"
    by (auto split: option.splits)
  have "case c_pods (mem_view (snd out)) (''default'', ''p'') of Some q \<Rightarrow> True | None \<Rightarrow> False"
    "case c_ips (mem_view (snd out)) (''default'', ''p'') of Some i \<Rightarrow> Addr (ip_Status i) = [] | None \<Rightarrow> True"
    "case c_subnets (mem_view (snd out)) (SubnetNamespace, ''s'') of Some s \<Rightarrow> s = active_subnet [] | None \<Rightarrow> False"
    unfolding out_def by code_simp+
  then obtain q where q: "c_pods (mem_view (snd out)) (Namespace (pod_meta auto_pod), Name (pod_meta auto_pod)) = Some q"
      and new: "\<forall>i. c_ips (mem_view (snd out)) (Namespace (pod_meta auto_pod), Name (pod_meta auto_pod)) = Some i \<longrightarrow> Addr (ip_Status i) = []"
      and s: "c_subnets (mem_view (snd out)) (SubnetNamespace, Subnet sp) = Some (active_subnet [])"
    unfolding sp(2) pod by (auto split: option.splits)
  show ?thesis
    using pod_gets_address [where api = mem_api and view = mem_view, OF mempod.kube_pods_axioms memlive.kube_live_axioms
        memplugin.plugin_client_axioms run en pod(1)
        sp(1,3,4) q new s active_subnet_usable] run
    unfolding pod by blast
qed

end
