(* ===== verification/Logging.thy ===== *)
theory Logging
  imports KubeAPI
begin

text \<open>
  The set-up of the log: \<open>SetupLogrus\<close> of \<open>pkg/utils/utils.go\<close> and \<open>Setup\<close> of \<open>pkg/cni/logger/logger.go\<close>. The logger is a package
  outside the repository; its setters, the parser of levels and the file system are operations of \<open>log_api\<close>, and the locale
  \<open>log_host\<close> states what they do to the writer and the level in force.
\<close>

subsection \<open>Levels and writers\<close>

datatype Level = PanicLevel | FatalLevel | ErrorLevel | WarnLevel | InfoLevel | DebugLevel | TraceLevel

datatype log_writer = io_Discard | os_Stdout | os_Stderr | os_File string

record 'w log_api =
  SetOutput :: "log_writer \<Rightarrow> ('w, unit) state"
  SetFormatter :: "bool \<Rightarrow> ('w, unit) state"
  SetLevel :: "Level \<Rightarrow> ('w, unit) state"
  AddHook :: "log_writer \<Rightarrow> Level list \<Rightarrow> ('w, unit) state"
  log_at :: "Level \<Rightarrow> string \<Rightarrow> ('w, unit) state"
  ParseLevel :: "string \<Rightarrow> error + Level"
  Level_String :: "Level \<Rightarrow> string"
  file_Stat :: "string \<Rightarrow> ('w, error option) state"
  is_ErrNotExist :: "error \<Rightarrow> bool"
  file_Read :: "string \<Rightarrow> ('w, error + string) state"
  dir_MkdirAll :: "string \<Rightarrow> ('w, error option) state"
  today :: "('w, string) state"
  file_Open :: "string \<Rightarrow> ('w, error option) state"
  file_SeekEnd :: "string \<Rightarrow> ('w, error option) state"

subsection \<open>The operator and the migrator: utils.go\<close>

definition SetupLogrus :: "'w log_api \<Rightarrow> bool \<Rightarrow> ('w, unit) state" where
  "SetupLogrus api debug =
     do {
       _ \<leftarrow> SetFormatter api False;
       _ \<leftarrow> SetOutput api io_Discard;
       _ \<leftarrow> AddHook api os_Stderr [PanicLevel, FatalLevel, ErrorLevel, WarnLevel];
       _ \<leftarrow> AddHook api os_Stdout [TraceLevel, InfoLevel, DebugLevel];
       if debug then
         do {
           _ \<leftarrow> SetLevel api DebugLevel;
           log_at api DebugLevel ''debug output enabled''
         }
       else ret ()
     }"

subsection \<open>The network plugin: logger.go\<close>

abbreviation loggingFlagFile :: string where "loggingFlagFile \<equiv> ''/etc/rancher/flat-network/cni-loglevel.conf''"
abbreviation logDir :: string where "logDir \<equiv> ''/var/log/rancher-flat-network/''"

definition logFile :: "string \<Rightarrow> string" where
  "logFile date = ''/var/log/rancher-flat-network/'' @ date @ ''.log''"

text \<open>
  The second half of \<open>Setup\<close>, with the level known: the file of the day becomes the writer. The time in the second
  log line is left out.
\<close>

definition open_log :: "'w log_api \<Rightarrow> Level \<Rightarrow> ('w, error option) state" where
  "open_log api level =
     do {
       x \<leftarrow> dir_MkdirAll api logDir;
       case x of
         Some e \<Rightarrow> ret (Some (Wrapf ''failed to mkdir %q: %w'' [logDir] e))
       | None \<Rightarrow>
           do {
             date \<leftarrow> today api;
             x \<leftarrow> file_Open api (logFile date);
             case x of
               Some e \<Rightarrow> ret (Some (Wrapf ''failed to open %q: %w'' [logFile date] e))
             | None \<Rightarrow>
                 do {
                   x \<leftarrow> file_SeekEnd api (logFile date);
                   case x of
                     Some e \<Rightarrow> ret (Some (Wrapf ''failed to seek log file %q: %w'' [logFile date] e))
                   | None \<Rightarrow>
                       do {
                         _ \<leftarrow> SetOutput api (os_File (logFile date));
                         _ \<leftarrow> log_at api InfoLevel ''---------------------------------------'';
                         _ \<leftarrow> log_at api DebugLevel ''CNI run at %v'';
                         _ \<leftarrow> log_at api InfoLevel (''set log level to: '' @ Level_String api level);
                         ret None
                       }
                 }
           }
     }"

definition Setup :: "'w log_api \<Rightarrow> ('w, error option) state" where
  "Setup api =
     do {
       _ \<leftarrow> SetOutput api io_Discard;
       _ \<leftarrow> SetFormatter api True;
       _ \<leftarrow> SetLevel api InfoLevel;
       x \<leftarrow> file_Stat api loggingFlagFile;
       case x of
         Some e \<Rightarrow>
           ret (if is_ErrNotExist api e then None else Some (Wrapf ''failed to stat %v: %w'' [loggingFlagFile] e))
       | None \<Rightarrow>
           do {
             r \<leftarrow> file_Read api loggingFlagFile;
             case r of
               Inl e \<Rightarrow> ret (Some (Wrapf ''failed to read %v: %w'' [loggingFlagFile] e))
             | Inr data \<Rightarrow>
                 (let content = strings_TrimSpace data in
                  case ParseLevel api content of
                    Inl e \<Rightarrow> ret (Some (Wrapf ''failed to parse loglevel %q: %w'' [content] e))
                  | Inr level \<Rightarrow>
                      do {
                        _ \<leftarrow> SetLevel api level;
                        open_log api level
                      })
           }
     }"

subsection \<open>What is written where\<close>

text \<open>
  The laws of the host: \<open>out\<close> and \<open>lev\<close> are the writer and the level in force, \<open>flag\<close> the contents of the flag file. The setters
  set, and nothing else changes them; the file can be read when it is there.
\<close>

locale log_host =
  fixes api :: "'w log_api" and out :: "'w \<Rightarrow> log_writer" and lev :: "'w \<Rightarrow> Level" and flag :: "'w \<Rightarrow> string option"
  assumes set_out: "run_state (SetOutput api f) w = (u, w') \<Longrightarrow> out w' = f \<and> lev w' = lev w \<and> flag w' = flag w"
    and set_lev: "run_state (SetLevel api l) w = (u, w') \<Longrightarrow> out w' = out w \<and> lev w' = l \<and> flag w' = flag w"
    and keep_unit: "run_state (SetFormatter api c) w = (u, w') \<or> run_state (AddHook api f ls) w = (u, w') \<or>
      run_state (log_at api l t) w = (u, w') \<Longrightarrow> out w' = out w \<and> lev w' = lev w \<and> flag w' = flag w"
    and keep_file: "run_state (dir_MkdirAll api p) w = (x, w') \<or> run_state (file_Open api p) w = (x, w') \<or>
      run_state (file_SeekEnd api p) w = (x, w') \<or> run_state (file_Stat api p) w = (x, w') \<Longrightarrow>
      out w' = out w \<and> lev w' = lev w \<and> flag w' = flag w"
    and keep_today: "run_state (today api) w = (d, w') \<Longrightarrow> out w' = out w \<and> lev w' = lev w \<and> flag w' = flag w"
    and stat_flag: "run_state (file_Stat api loggingFlagFile) w = (x, w') \<Longrightarrow>
      (x = None \<longrightarrow> flag w \<noteq> None) \<and> (\<forall>e. x = Some e \<and> is_ErrNotExist api e \<longrightarrow> flag w = None)"
    and read_flag: "run_state (file_Read api loggingFlagFile) w = (r, w') \<Longrightarrow>
      (\<forall>s. r = Inr s \<longrightarrow> flag w = Some s) \<and> out w' = out w \<and> lev w' = lev w \<and> flag w' = flag w"
begin

lemma open_log_run:
  assumes "run_state (open_log api level) w = (r, w')"
  shows "lev w' = lev w \<and> (if r = None then \<exists>d. out w' = os_File (logFile d) else out w' = out w)"
proof -
  obtain x1 w1 where 1: "run_state (dir_MkdirAll api logDir) w = (x1, w1)" by fastforce
  obtain d w2 where 2: "run_state (today api) w1 = (d, w2)" by fastforce
  obtain x3 w3 where 3: "run_state (file_Open api (logFile d)) w2 = (x3, w3)" by fastforce
  obtain x4 w4 where 4: "run_state (file_SeekEnd api (logFile d)) w3 = (x4, w4)" by fastforce
  obtain w5 where 5: "run_state (SetOutput api (os_File (logFile d))) w4 = ((), w5)"
    by (cases "run_state (SetOutput api (os_File (logFile d))) w4") auto
  obtain w6 where 6: "run_state (log_at api InfoLevel ''---------------------------------------'') w5 = ((), w6)"
    by (cases "run_state (log_at api InfoLevel ''---------------------------------------'') w5") auto
  obtain w7 where 7: "run_state (log_at api DebugLevel ''CNI run at %v'') w6 = ((), w7)"
    by (cases "run_state (log_at api DebugLevel ''CNI run at %v'') w6") auto
  obtain w8 where 8: "run_state (log_at api InfoLevel (''set log level to: '' @ Level_String api level)) w7 = ((), w8)"
    by (cases "run_state (log_at api InfoLevel (''set log level to: '' @ Level_String api level)) w7") auto
  note keeps = keep_file [OF disjI1, OF 1] keep_today [OF 2] keep_file [OF disjI2, OF disjI1, OF 3]
    keep_file [OF disjI2, OF disjI2, OF disjI1, OF 4] set_out [OF 5] keep_unit [OF disjI2, OF disjI2, OF 6]
    keep_unit [OF disjI2, OF disjI2, OF 7] keep_unit [OF disjI2, OF disjI2, OF 8]
  show ?thesis
    using assms 1 2 3 4 5 6 7 8 keeps
    by (cases x1; cases x3; cases x4) (auto simp: open_log_def)
qed

lemma Setup_run:
  assumes "run_state (Setup api) w = (r, w')"
  shows "case flag w of
      None \<Rightarrow> out w' = io_Discard \<and> lev w' = InfoLevel
    | Some s \<Rightarrow> if r = None then (\<exists>d. out w' = os_File (logFile d)) \<and> ParseLevel api (strings_TrimSpace s) = Inr (lev w')
        else out w' = io_Discard"
proof -
  obtain w1 where 1: "run_state (SetOutput api io_Discard) w = ((), w1)" by (cases "run_state (SetOutput api io_Discard) w") auto
  obtain w2 where 2: "run_state (SetFormatter api True) w1 = ((), w2)" by (cases "run_state (SetFormatter api True) w1") auto
  obtain w3 where 3: "run_state (SetLevel api InfoLevel) w2 = ((), w3)" by (cases "run_state (SetLevel api InfoLevel) w2") auto
  obtain x w4 where 4: "run_state (file_Stat api loggingFlagFile) w3 = (x, w4)" by fastforce
  obtain y w5 where 5: "run_state (file_Read api loggingFlagFile) w4 = (y, w5)" by fastforce
  have v4: "out w4 = io_Discard" "lev w4 = InfoLevel" "flag w4 = flag w" "flag w3 = flag w"
    using set_out [OF 1] keep_unit [OF disjI1, OF 2] set_lev [OF 3] keep_file [OF disjI2, OF disjI2, OF disjI2, OF 4] by auto
  show ?thesis
  proof (cases x)
    case (Some e)
    then show ?thesis using assms 1 2 3 4 v4 stat_flag [OF 4] by (auto simp: Setup_def split: option.splits)
  next
    case None
    then obtain s where s: "flag w = Some s" using stat_flag [OF 4] v4 by auto
    have v5: "out w5 = io_Discard" "\<And>s'. y = Inr s' \<Longrightarrow> s' = s" using read_flag [OF 5] v4 s by auto
    show ?thesis
    proof (cases "\<exists>level. y = Inr s \<and> ParseLevel api (strings_TrimSpace s) = Inr level")
      case False
      then have "r \<noteq> None \<and> w' = w5"
        using assms 1 2 3 4 5 None v5(2)
        by (cases y; cases "ParseLevel api (strings_TrimSpace s)") (auto simp: Setup_def Let_def)
      then show ?thesis using s v5(1) by simp
    next
      case True
      then obtain level where level: "y = Inr s" "ParseLevel api (strings_TrimSpace s) = Inr level" by blast
      obtain w6 where 6: "run_state (SetLevel api level) w5 = ((), w6)" by (cases "run_state (SetLevel api level) w5") auto
      have "run_state (open_log api level) w6 = (r, w')"
        using assms 1 2 3 4 5 6 None level by (simp add: Setup_def)
      then show ?thesis using open_log_run set_lev [OF 6] v5(1) s level(2) by (auto split: if_splits)
    qed
  qed
qed

end

text \<open>A host in memory: the writer, the level and the flag file; the directory and the log file can be refused.\<close>

record mem_log =
  ml_out :: log_writer
  ml_level :: Level
  ml_flag :: "string option"
  ml_refuse :: bool

definition mem_ParseLevel :: "string \<Rightarrow> error + Level" where
  "mem_ParseLevel s = (if s = ''debug'' then Inr DebugLevel else if s = ''info'' then Inr InfoLevel
     else Inl (Errorf ''not a valid logrus Level: %q'' [s]))"

definition mem_log_api :: "mem_log log_api" where
  "mem_log_api = \<lparr>
     SetOutput = (\<lambda>f. State (\<lambda>w. ((), w\<lparr>ml_out := f\<rparr>))),
     SetFormatter = (\<lambda>c. ret ()),
     SetLevel = (\<lambda>l. State (\<lambda>w. ((), w\<lparr>ml_level := l\<rparr>))),
     AddHook = (\<lambda>f ls. ret ()),
     log_at = (\<lambda>l t. ret ()),
     ParseLevel = mem_ParseLevel,
     Level_String = (\<lambda>l. case l of DebugLevel \<Rightarrow> ''debug'' | _ \<Rightarrow> ''info''),
     file_Stat = (\<lambda>p. State (\<lambda>w. (if ml_flag w = None then Some (StatusError NotFound) else None, w))),
     is_ErrNotExist = IsNotFound,
     file_Read = (\<lambda>p. State (\<lambda>w. (case ml_flag w of None \<Rightarrow> Inl (StatusError NotFound) | Some s \<Rightarrow> Inr s, w))),
     dir_MkdirAll = (\<lambda>p. State (\<lambda>w. (if ml_refuse w then Some (StatusError OtherReason) else None, w))),
     today = ret ''2025-01-01'',
     file_Open = (\<lambda>p. ret None),
     file_SeekEnd = (\<lambda>p. ret None)\<rparr>"

interpretation memlog: log_host mem_log_api ml_out ml_level ml_flag
  by unfold_locales (auto simp: mem_log_api_def split: option.splits)

text \<open>
  The network plugin writes a log only when it was told to: without the flag file the log is discarded at the level info; with it,
  \<open>Setup\<close> succeeds exactly when the writer is the file of the day, and then the level in force is the one the flag file names; when
  \<open>Setup\<close> fails the log is discarded.
\<close>

theorem cni_log_only_with_flag:
  assumes "log_host api out lev flag" and "run_state (Setup api) w = (r, w')"
  shows "case flag w of
      None \<Rightarrow> out w' = io_Discard \<and> lev w' = InfoLevel
    | Some s \<Rightarrow> if r = None then (\<exists>d. out w' = os_File (logFile d)) \<and> ParseLevel api (strings_TrimSpace s) = Inr (lev w')
        else out w' = io_Discard"
  by (rule log_host.Setup_run [OF assms])

theorem cni_log_only_with_flag_witness:
  "\<exists>w'. run_state (Setup mem_log_api) \<lparr>ml_out = os_Stderr, ml_level = WarnLevel, ml_flag = Some ''debug '', ml_refuse = False\<rparr> =
      (None, w') \<and> (\<exists>d. ml_out w' = os_File (logFile d)) \<and> mem_ParseLevel ''debug'' = Inr (ml_level w')"
proof -
  let ?w = "\<lparr>ml_out = os_Stderr, ml_level = WarnLevel, ml_flag = Some ''debug '', ml_refuse = False\<rparr>"
  have trim: "strings_TrimSpace ''debug '' = ''debug''" by code_simp
  obtain w' where w': "run_state (Setup mem_log_api) ?w = (None, w')"
    by (simp add: Setup_def open_log_def mem_log_api_def mem_ParseLevel_def trim)
  from cni_log_only_with_flag [OF memlog.log_host_axioms this] w' show ?thesis
    by (simp add: trim) (simp add: mem_log_api_def)
qed

end
