(* ===== verification/HttpServers.thy ===== *)
theory HttpServers
  imports Webhook Logging
begin

text \<open>
  The two HTTP servers of the operator: the log server of \<open>pkg/logserver/server.go\<close> on a socket of the host and the admission server of
  \<open>pkg/admission/server.go\<close> with \<open>ping.go\<close> on a port of the network. Both register their handlers with \<open>http.HandleFunc\<close> and both
  serve with the handler left out, that is with the one default multiplexer of the process.
\<close>

subsection \<open>Replies\<close>

text \<open>
  A \<open>ResponseWriter\<close>: the first status sent counts, a body sent without a status sends 200 first. The headers are left out.
\<close>

record reply =
  rp_Status :: "nat option"
  rp_Body :: string

abbreviation no_reply :: reply where "no_reply \<equiv> \<lparr>rp_Status = None, rp_Body = []\<rparr>"
abbreviation eol :: string where "eol \<equiv> [CHR 0x0A]"

definition WriteHeader :: "nat \<Rightarrow> reply \<Rightarrow> reply" where
  "WriteHeader code rw = (if rp_Status rw = None then rw\<lparr>rp_Status := Some code\<rparr> else rw)"

definition rw_Write :: "string \<Rightarrow> reply \<Rightarrow> reply" where
  "rw_Write s rw = (let rw = WriteHeader 200 rw in rw\<lparr>rp_Body := rp_Body rw @ s\<rparr>)"

definition http_Error :: "string \<Rightarrow> nat \<Rightarrow> reply \<Rightarrow> reply" where
  "http_Error msg code rw = rw_Write (msg @ eol) (WriteHeader code rw)"

text \<open>The form of a request comes with the error of \<open>ParseForm\<close>, which leaves the part it could read.\<close>

record http_request =
  rq_Method :: string
  rq_Path :: string
  rq_Form :: "error option \<times> strmap"
  rq_ContentType :: string
  rq_Body :: string

subsection \<open>The log server: logserver/server.go\<close>

text \<open>The level in force is an argument, and the level afterwards a result.\<close>

definition loglevel ::
    "(string \<Rightarrow> error + Level) \<Rightarrow> (Level \<Rightarrow> string) \<Rightarrow> (error \<Rightarrow> string) \<Rightarrow> http_request \<Rightarrow> Level \<Rightarrow> reply \<Rightarrow> reply \<times> Level" where
  "loglevel parse show_level text_of req level rw =
     (let rw = (if rq_Method req = ''GET'' then rw_Write (show_level level @ eol) rw else rw) in
      if rq_Method req = ''POST'' then
        (let rw = (case fst (rq_Form req) of
               Some e \<Rightarrow> rw_Write (''Failed to parse form: '' @ text_of e @ eol) (WriteHeader 500 rw)
             | None \<Rightarrow> rw)
         in case parse (mget (snd (rq_Form req)) ''level'') of
              Inl e \<Rightarrow> (rw_Write (''Failed to parse loglevel: '' @ text_of e @ eol) (WriteHeader 500 rw), level)
            | Inr l \<Rightarrow> (rw_Write (''OK'' @ eol) rw, l))
      else (rw, level))"

subsection \<open>The default multiplexer and the servers of the process\<close>

datatype endpoint = ep_loglevel | ep_ping | ep_hostname | ep_validate

type_synonym mux = "(string \<times> endpoint) list"

text \<open>
  The fields of \<open>http.Server\<close> that say what a server answers, and where: the handler, \<open>None\<close> for a nil one, and its network and address.
\<close>

record http_Server =
  hs_Handler :: "mux option"
  hs_Network :: string
  hs_Addr :: string

text \<open>What the servers share in the process: the default multiplexer, and the servers that have been started.\<close>

record process =
  default_mux :: mux
  started :: "http_Server list"

text \<open>The statements of the two goroutines that act on it. \<open>http.HandleFunc\<close> panics when a pattern is registered twice.\<close>

datatype stmt = HandleFunc "string \<times> endpoint" | Serve http_Server

fun exec_stmt :: "stmt \<Rightarrow> process \<Rightarrow> process outcome" where
  "exec_stmt (HandleFunc r) p =
     (if fst r \<in> fst ` set (default_mux p) then Panics else Returns (p\<lparr>default_mux := default_mux p @ [r]\<rparr>))"
| "exec_stmt (Serve s) p = Returns (p\<lparr>started := started p @ [s]\<rparr>)"

fun exec_stmts :: "stmt list \<Rightarrow> process \<Rightarrow> process outcome" where
  "exec_stmts [] p = Returns p"
| "exec_stmts (st # sts) p =
     (case exec_stmt st p of Returns p \<Rightarrow> exec_stmts sts p | Panics \<Rightarrow> Panics | Hangs \<Rightarrow> Hangs)"

text \<open>
  The function of the log server: the statements it executes and the error it returns. The results of \<open>net.Listen\<close> and of \<open>Serve\<close> are
  arguments. The server has no handler of its own; the route is registered before the socket is opened.
\<close>

record log_Server =
  ls_SocketLocation :: string
  ls_Debug :: bool

definition ListenAndServe :: "error option \<Rightarrow> error option \<Rightarrow> log_Server \<Rightarrow> stmt list \<times> error option" where
  "ListenAndServe listen serve s =
     (let server = \<lparr>hs_Handler = None, hs_Network = ''unix'', hs_Addr = ls_SocketLocation s\<rparr>;
          handle = HandleFunc (''/v1/loglevel'', ep_loglevel) in
      case listen of
        Some e \<Rightarrow> ([handle], Some e)
      | None \<Rightarrow> ([handle, Serve server], serve))"

subsection \<open>The admission server: admission/server.go and ping.go\<close>

definition pingHandler :: "reply \<Rightarrow> reply" where
  "pingHandler w = rw_Write (''pong'' @ eol) w"

definition hostnameHandler :: "(error \<Rightarrow> string) \<Rightarrow> error + string \<Rightarrow> reply \<Rightarrow> reply" where
  "hostnameHandler text_of host w =
     (case host of
        Inl e \<Rightarrow> http_Error (text_of (Wrapf ''failed to get hostname: %w'' [] e)) 400 w
      | Inr n \<Rightarrow> rw_Write (n @ eol) w)"

record admission_Server =
  srv_address :: string
  srv_port :: int
  srv_certFile :: string
  srv_keyFile :: string

text \<open>
  The results of \<open>LoadX509KeyPair\<close> and of \<open>ListenAndServeTLS\<close> are arguments; \<open>closed\<close> recognises \<open>ErrServerClosed\<close>. This server has
  no handler of its own either.
\<close>

definition admission_Run ::
    "(error \<Rightarrow> bool) \<Rightarrow> error option \<Rightarrow> error option \<Rightarrow> admission_Server \<Rightarrow> stmt list \<times> error option" where
  "admission_Run closed load listen s =
     (case load of
        Some e \<Rightarrow> ([], Some (Wrapf ''failed to load key pair [%v] [%v]: %w'' [srv_certFile s, srv_keyFile s] e))
      | None \<Rightarrow>
          (let addr = srv_address s @ '':'' @ show_int (srv_port s);
               httpServer = \<lparr>hs_Handler = None, hs_Network = ''tcp'', hs_Addr = addr\<rparr> in
           ([HandleFunc (''/ping'', ep_ping), HandleFunc (''/hostname'', ep_hostname), HandleFunc (''/validate'', ep_validate),
             Serve httpServer],
            case listen of
              Some e \<Rightarrow> if closed e then None else Some (Wrapf ''failed to start admission web server: %w'' [] e)
            | None \<Rightarrow> None)))"

subsection \<open>Serving\<close>

text \<open>What the handlers rely on: the logger, the texts of errors, the name of the host, the webhook and the JSON of a review.\<close>

record server_env =
  env_ParseLevel :: "string \<Rightarrow> error + Level"
  env_Level_String :: "Level \<Rightarrow> string"
  env_Error :: "error \<Rightarrow> string"
  env_Hostname :: "error + string"
  env_hooks :: hooks
  env_Marshal :: "AdmissionReview \<Rightarrow> string"

definition write_validation :: "server_env \<Rightarrow> http_reply \<Rightarrow> reply \<Rightarrow> reply" where
  "write_validation env r rw =
     (case r of HttpError msg code \<Rightarrow> http_Error msg code rw | WriteReview ar \<Rightarrow> rw_Write (env_Marshal env ar) rw)"

text \<open>
  A multiplexer looks the path up. The patterns here have no trailing slash, so that
  they match one path each; the redirect of a path that is not in normal form is left out.
\<close>

definition ServeHTTP :: "server_env \<Rightarrow> mux \<Rightarrow> http_request \<Rightarrow> Level \<Rightarrow> (reply \<times> Level) outcome" where
  "ServeHTTP env m req level =
     (case map_of m (rq_Path req) of
        None \<Rightarrow> Returns (http_Error ''404 page not found'' 404 no_reply, level)
      | Some ep_loglevel \<Rightarrow>
          Returns (loglevel (env_ParseLevel env) (env_Level_String env) (env_Error env) req level no_reply)
      | Some ep_ping \<Rightarrow> Returns (pingHandler no_reply, level)
      | Some ep_hostname \<Rightarrow> Returns (hostnameHandler (env_Error env) (env_Hostname env) no_reply, level)
      | Some ep_validate \<Rightarrow>
          (case ValidateHandler (env_hooks env) (rq_ContentType req) (rq_Body req) of
             Returns r \<Rightarrow> Returns (write_validation env r no_reply, level)
           | Panics \<Rightarrow> Panics
           | Hangs \<Rightarrow> Hangs))"

text \<open>A server answers with its own handler, and without one with the default multiplexer of the process.\<close>

definition answer :: "server_env \<Rightarrow> process \<Rightarrow> http_Server \<Rightarrow> http_request \<Rightarrow> Level \<Rightarrow> (reply \<times> Level) outcome" where
  "answer env p server req level =
     ServeHTTP env (case hs_Handler server of None \<Rightarrow> default_mux p | Some m \<Rightarrow> m) req level"

subsection \<open>Statements in any order\<close>

definition routes_of :: "stmt list \<Rightarrow> mux" where
  "routes_of sts = concat (map (\<lambda>st. case st of HandleFunc r \<Rightarrow> [r] | Serve _ \<Rightarrow> []) sts)"

definition servers_of :: "stmt list \<Rightarrow> http_Server list" where
  "servers_of sts = concat (map (\<lambda>st. case st of HandleFunc _ \<Rightarrow> [] | Serve s \<Rightarrow> [s]) sts)"

lemma exec_distinct:
  "distinct (map fst (default_mux p @ routes_of sts)) \<Longrightarrow>
    exec_stmts sts p = Returns (p\<lparr>default_mux := default_mux p @ routes_of sts, started := started p @ servers_of sts\<rparr>)"
proof (induction sts arbitrary: p)
  case (Cons st sts)
  show ?case
  proof (cases st)
    case (HandleFunc r)
    let ?p = "p\<lparr>default_mux := default_mux p @ [r]\<rparr>"
    have "fst r \<notin> fst ` set (default_mux p)" "distinct (map fst (default_mux ?p @ routes_of sts))"
      using Cons.prems HandleFunc by (auto simp: routes_of_def)
    then show ?thesis using Cons.IH [of ?p] HandleFunc by (simp add: routes_of_def servers_of_def)
  next
    case (Serve s)
    then show ?thesis using Cons.IH [of "p\<lparr>started := started p @ [s]\<rparr>"] Cons.prems by (simp add: routes_of_def servers_of_def)
  qed
qed (simp add: routes_of_def servers_of_def)

lemma mset_concat_map: "mset xs = mset ys \<Longrightarrow> mset (concat (map f xs)) = mset (concat (map f ys))"
  by (simp add: mset_concat flip: sum_mset_sum_list)

text \<open>The interleavings of two goroutines: the same routes and the same servers in some order.\<close>

lemma exec_shuffles:
  assumes "zs \<in> shuffles xs ys" and "distinct (map fst (routes_of (xs @ ys)))"
  obtains p where "exec_stmts zs \<lparr>default_mux = [], started = []\<rparr> = Returns p"
    and "map_of (default_mux p) = map_of (routes_of (xs @ ys))" and "set (started p) = set (servers_of (xs @ ys))"
proof
  let ?p = "\<lparr>default_mux = routes_of zs, started = servers_of zs\<rparr>"
  have perm: "mset zs = mset (xs @ ys)" using mset_shuffles [OF assms(1)] by simp
  have routes: "mset (routes_of zs) = mset (routes_of (xs @ ys))" and servers: "mset (servers_of zs) = mset (servers_of (xs @ ys))"
    unfolding routes_of_def servers_of_def by (rule mset_concat_map [OF perm])+
  from mset_eq_setD [OF servers] show "set (started ?p) = set (servers_of (xs @ ys))" by simp
  have "mset (map fst (routes_of zs)) = mset (map fst (routes_of (xs @ ys)))" using routes by simp
  then have dist: "distinct (map fst (routes_of zs))" using assms(2) mset_eq_imp_distinct_iff by blast
  moreover have "set (routes_of zs) = set (routes_of (xs @ ys))" using routes by (rule mset_eq_setD)
  ultimately show "map_of (default_mux ?p) = map_of (routes_of (xs @ ys))"
    using map_of_inject_set [OF dist assms(2)] by simp
  show "exec_stmts zs \<lparr>default_mux = [], started = []\<rparr> = Returns ?p" using exec_distinct [of "\<lparr>default_mux = [], started = []\<rparr>" zs] dist by simp
qed

subsection \<open>Properties\<close>

text \<open>
  The level changes on a POST whose form names a level only; a GET answers with the level. A POST answers with 500 when the form or
  the level cannot be read. A form that could be read in part answers with 500 and yet sets the level it names.
\<close>

theorem loglevel_replies:
  assumes "loglevel parse show_level text_of req level no_reply = (rw, l)"
  shows "(l \<noteq> level \<longrightarrow> rq_Method req = ''POST'' \<and> parse (mget (snd (rq_Form req)) ''level'') = Inr l) \<and>
    (rp_Status rw = Some 500 \<longleftrightarrow> rq_Method req = ''POST'' \<and>
       (fst (rq_Form req) \<noteq> None \<or> (\<exists>e. parse (mget (snd (rq_Form req)) ''level'') = Inl e))) \<and>
    (rq_Method req = ''GET'' \<longrightarrow> rw = \<lparr>rp_Status = Some 200, rp_Body = show_level level @ eol\<rparr>)"
  using assms
  by (auto simp: loglevel_def rw_Write_def WriteHeader_def Let_def split: if_splits option.splits sum.splits)

theorem loglevel_failed_form_sets:
  assumes "rq_Method req = ''POST''" and "fst (rq_Form req) = Some e" and "parse (mget (snd (rq_Form req)) ''level'') = Inr l"
  shows "\<exists>rw. loglevel parse show_level text_of req level no_reply = (rw, l) \<and> rp_Status rw = Some 500"
  using assms by (simp add: loglevel_def rw_Write_def WriteHeader_def Let_def)

text \<open>
  C37. The log server and the admission server run in two goroutines of one process. In whatever order their statements are executed, no
  registration panics, the admission server is started, and every server that has been started answers every request as the admission server does.
  So the admission server, which listens on the network, answers a POST to the path of the log server, and it sets the level, whether or not
  the socket of the log server could be opened.
\<close>

theorem loglevel_open_on_the_network:
  assumes "sts \<in> shuffles (fst (ListenAndServe listened served ls)) (fst (admission_Run closed None listen s))"
    and "env_ParseLevel env x = Inr l"
  shows "\<exists>p admission. exec_stmts sts \<lparr>default_mux = [], started = []\<rparr> = Returns p \<and> admission \<in> set (started p) \<and>
    hs_Network admission = ''tcp'' \<and> hs_Addr admission = srv_address s @ '':'' @ show_int (srv_port s) \<and>
    (\<forall>server \<in> set (started p). \<forall>req level. answer env p server req level = answer env p admission req level) \<and>
    answer env p admission
      \<lparr>rq_Method = ''POST'', rq_Path = ''/v1/loglevel'', rq_Form = (None, [(''level'', x)]), rq_ContentType = ct, rq_Body = b\<rparr> level =
        Returns (\<lparr>rp_Status = Some 200, rp_Body = ''OK'' @ eol\<rparr>, l)"
proof -
  let ?log = "fst (ListenAndServe listened served ls)" and ?adm = "fst (admission_Run closed None listen s)"
  let ?server = "\<lparr>hs_Handler = None, hs_Network = ''tcp'', hs_Addr = srv_address s @ '':'' @ show_int (srv_port s)\<rparr>"
  have routes: "routes_of (?log @ ?adm) =
      [(''/v1/loglevel'', ep_loglevel), (''/ping'', ep_ping), (''/hostname'', ep_hostname), (''/validate'', ep_validate)]"
    and servers: "?server \<in> set (servers_of (?log @ ?adm))" "\<forall>x \<in> set (servers_of (?log @ ?adm)). hs_Handler x = None"
    by (auto simp: routes_of_def servers_of_def ListenAndServe_def admission_Run_def Let_def split: option.splits)
  have "distinct (map fst (routes_of (?log @ ?adm)))" unfolding routes by simp
  then obtain p where p: "exec_stmts sts \<lparr>default_mux = [], started = []\<rparr> = Returns p"
      "map_of (default_mux p) = map_of (routes_of (?log @ ?adm))" "set (started p) = set (servers_of (?log @ ?adm))"
    using exec_shuffles [OF assms(1)] by blast
  have same: "\<forall>server \<in> set (started p). \<forall>req level. answer env p server req level = answer env p ?server req level"
    using servers(2) p(3) by (simp add: answer_def)
  have "answer env p ?server
      \<lparr>rq_Method = ''POST'', rq_Path = ''/v1/loglevel'', rq_Form = (None, [(''level'', x)]), rq_ContentType = ct, rq_Body = b\<rparr> level =
        Returns (\<lparr>rp_Status = Some 200, rp_Body = ''OK'' @ eol\<rparr>, l)"
    using assms(2) p(2) routes
    by (simp add: answer_def ServeHTTP_def loglevel_def rw_Write_def WriteHeader_def Let_def mget_def)
  moreover have "?server \<in> set (started p)" using servers(1) p(3) by simp
  moreover have "hs_Network ?server = ''tcp''" "hs_Addr ?server = srv_address s @ '':'' @ show_int (srv_port s)" by simp_all
  ultimately show ?thesis using p(1) same by blast
qed

definition example_admission :: admission_Server where
  "example_admission = \<lparr>srv_address = ''0.0.0.0'', srv_port = 80, srv_certFile = ''tls.crt'', srv_keyFile = ''tls.key''\<rparr>"

definition example_env_servers :: server_env where
  "example_env_servers = \<lparr>env_ParseLevel = mem_ParseLevel, env_Level_String = (\<lambda>l. []), env_Error = (\<lambda>e. []), env_Hostname = Inr ''h'',
     env_hooks = example_hooks, env_Marshal = (\<lambda>ar. [])\<rparr>"

text \<open>The admission server registers its first route, then the log server its own.\<close>

theorem loglevel_open_on_the_network_witness:
  "\<exists>p admission. exec_stmts [HandleFunc (''/ping'', ep_ping), HandleFunc (''/v1/loglevel'', ep_loglevel), HandleFunc (''/hostname'', ep_hostname),
       HandleFunc (''/validate'', ep_validate), Serve \<lparr>hs_Handler = None, hs_Network = ''tcp'', hs_Addr = ''0.0.0.0:80''\<rparr>,
       Serve \<lparr>hs_Handler = None, hs_Network = ''unix'', hs_Addr = ''/tmp/log.sock''\<rparr>] \<lparr>default_mux = [], started = []\<rparr> = Returns p \<and>
     admission \<in> set (started p) \<and> hs_Network admission = ''tcp'' \<and>
     answer example_env_servers p admission \<lparr>rq_Method = ''POST'', rq_Path = ''/v1/loglevel'', rq_Form = (None, [(''level'', ''debug'')]),
       rq_ContentType = [], rq_Body = []\<rparr> InfoLevel = Returns (\<lparr>rp_Status = Some 200, rp_Body = ''OK'' @ eol\<rparr>, DebugLevel)"
proof -
  have port: "''0.0.0.0'' @ '':'' @ show_int 80 = ''0.0.0.0:80''" by code_simp
  have "[HandleFunc (''/ping'', ep_ping), HandleFunc (''/v1/loglevel'', ep_loglevel), HandleFunc (''/hostname'', ep_hostname),
      HandleFunc (''/validate'', ep_validate), Serve \<lparr>hs_Handler = None, hs_Network = ''tcp'', hs_Addr = ''0.0.0.0:80''\<rparr>,
      Serve \<lparr>hs_Handler = None, hs_Network = ''unix'', hs_Addr = ''/tmp/log.sock''\<rparr>]
    \<in> shuffles (fst (ListenAndServe None None \<lparr>ls_SocketLocation = ''/tmp/log.sock'', ls_Debug = False\<rparr>))
        (fst (admission_Run (\<lambda>e. False) None None example_admission))"
    using port by (simp add: ListenAndServe_def admission_Run_def example_admission_def Let_def Cons_in_shuffles_iff)
  moreover have "env_ParseLevel example_env_servers ''debug'' = Inr DebugLevel" by (simp add: example_env_servers_def mem_ParseLevel_def)
  ultimately show ?thesis
    using loglevel_open_on_the_network [of _ None None _ _ None example_admission example_env_servers "''debug''" DebugLevel "[]" "[]" InfoLevel]
    by blast
qed

end
