(* ===== verification/Operator.thy ===== *)
theory Operator
  imports HttpServers EndpointControllers
begin

text \<open>
  The start of the programs: the entry of the operator in \<open>main.go\<close>, its context in \<open>pkg/controller/wrangler/context.go\<close>, the
  \<open>Register\<close> functions of the controllers and the signal handler of the migrator in \<open>pkg/signal/signal.go\<close>.
\<close>

subsection \<open>The controllers register: Register of each package\<close>

datatype resource_kind =
    RIP | RSubnet | RService | RPod | RNamespace | REndpoints | REndpointSlice | RIngress
  | RDeployment | RDaemonSet | RReplicaSet | RStatefulSet | RCronJob | RJob

text \<open>What a field of a handler is set to: the client, the cache or a queue of a resource, or something shared.\<close>

datatype wire =
    Client resource_kind | Cache resource_kind | Enqueue resource_kind | EnqueueAfter resource_kind
  | Recorder | NDClientSet | Discovery bool

text \<open>The handlers of the other theories, as they are registered.\<close>

datatype handler_fun =
    h_handleError_handleIP | h_handleIPRemove | h_handleError_handleSubnet | h_handleSubnetRemove | h_syncService
  | h_handleError_sync_pod | h_syncIngress | h_syncWorkload | h_sync_endpoints | h_sync_endpointslice | h_syncNamespace

datatype register_event = OnChange | OnRemove

record registration =
  reg_kind :: resource_kind
  reg_event :: register_event
  reg_name :: string
  reg_handler :: handler_fun

abbreviation on_change :: "resource_kind \<Rightarrow> string \<Rightarrow> handler_fun \<Rightarrow> registration" where
  "on_change k n h \<equiv> \<lparr>reg_kind = k, reg_event = OnChange, reg_name = n, reg_handler = h\<rparr>"

abbreviation on_remove :: "resource_kind \<Rightarrow> string \<Rightarrow> handler_fun \<Rightarrow> registration" where
  "on_remove k n h \<equiv> \<lparr>reg_kind = k, reg_event = OnRemove, reg_name = n, reg_handler = h\<rparr>"

type_synonym registered = "(string \<times> wire) list \<times> registration list"

definition flatnetworkip_Register :: registered where
  "flatnetworkip_Register =
     ([(''ipClient'', Client RIP), (''ipCache'', Cache RIP), (''subnetClient'', Client RSubnet), (''subnetCache'', Cache RSubnet),
       (''podClient'', Client RPod), (''podCache'', Cache RPod), (''recorder'', Recorder),
       (''ipEnqueueAfter'', EnqueueAfter RIP), (''ipEnqueue'', Enqueue RSubnet),
       (''subnetEnqueueAfter'', EnqueueAfter RSubnet), (''subnetEnqueue'', Enqueue RSubnet),
       (''podEnqueueAfter'', EnqueueAfter RPod), (''podEnqueue'', Enqueue RPod)],
      [on_change RIP ''rancher-flat-network-ip'' h_handleError_handleIP,
       on_remove RIP ''rancher-flat-network-ip-remove'' h_handleIPRemove])"

definition flatnetworksubnet_Register :: registered where
  "flatnetworksubnet_Register =
     ([(''subnetClient'', Client RSubnet), (''subnetCache'', Cache RSubnet), (''ipClient'', Client RIP), (''ipCache'', Cache RIP),
       (''podClient'', Client RPod), (''subnetEnqueueAfter'', EnqueueAfter RSubnet), (''subnetEnqueue'', Enqueue RSubnet)],
      [on_change RSubnet ''rancher-flat-network-subnet'' h_handleError_handleSubnet,
       on_remove RSubnet ''rancher-flat-network-subnet-remove'' h_handleSubnetRemove])"

definition service_Register :: "bool \<Rightarrow> registered" where
  "service_Register discovery =
     ([(''serviceClient'', Client RService), (''serviceCache'', Cache RService), (''podCache'', Cache RPod),
       (''endpointsCache'', Cache REndpoints), (''endpointsClient'', Client REndpoints),
       (''endpointSliceCache'', Cache REndpointSlice), (''endpointSliceClient'', Client REndpointSlice),
       (''supportDiscoveryV1'', Discovery discovery),
       (''serviceEnqueueAfter'', EnqueueAfter RService), (''serviceEnqueue'', Enqueue RService)],
      [on_change RService ''rancher-flat-network-service'' h_syncService])"

definition pod_Register :: registered where
  "pod_Register =
     ([(''podClient'', Client RPod), (''podCache'', Cache RPod), (''ipClient'', Client RIP), (''ipCache'', Cache RIP),
       (''subnetCache'', Cache RSubnet), (''subnetClient'', Client RSubnet), (''namespaceCache'', Cache RNamespace),
       (''deploymentCache'', Cache RDeployment), (''daemonSetCache'', Cache RDaemonSet), (''replicaSetCache'', Cache RReplicaSet),
       (''statefulSetCache'', Cache RStatefulSet), (''cronJobCache'', Cache RCronJob), (''jobCache'', Cache RJob),
       (''recorder'', Recorder), (''podEnqueueAfter'', EnqueueAfter RPod), (''podEnqueue'', Enqueue RPod)],
      [on_change RPod ''rancher-flat-network-pod'' h_handleError_sync_pod])"

definition ingress_Register :: registered where
  "ingress_Register =
     ([(''serviceClient'', Client RService), (''serviceCache'', Cache RService),
       (''ingressEnqueueAfter'', EnqueueAfter RIngress), (''ingressEnqueue'', Enqueue RIngress)],
      [on_change RIngress ''rancher-flat-network-ingress'' h_syncIngress])"

definition workload_Register :: registered where
  "workload_Register =
     ([(''deploymentClient'', Client RDeployment), (''daemonsetClient'', Client RDaemonSet), (''statefulsetClient'', Client RStatefulSet),
       (''cronjobClient'', Client RCronJob), (''jobClient'', Client RJob), (''subnetClient'', Client RSubnet),
       (''subnetCache'', Cache RSubnet)],
      map (\<lambda>k. on_change k ''rancher-flat-network-workload'' h_syncWorkload) [RDeployment, RDaemonSet, RStatefulSet, RCronJob, RJob])"

definition endpoints_Register :: "bool \<Rightarrow> registered" where
  "endpoints_Register discovery =
     ([(''endpointsCache'', Cache REndpoints), (''endpointsClient'', Client REndpoints), (''endpointSliceCache'', Cache REndpointSlice),
       (''serviceCache'', Cache RService), (''podCache'', Cache RPod), (''supportDiscoveryV1'', Discovery discovery),
       (''endpointsEnqueueAfter'', EnqueueAfter REndpoints), (''endpointsEnqueue'', Enqueue REndpoints),
       (''endpointSliceEnqueue'', Enqueue REndpointSlice)],
      [on_change REndpoints ''rancher-flat-network-endpoints'' h_sync_endpoints])"

definition endpointslice_Register :: "bool \<Rightarrow> registered" where
  "endpointslice_Register discovery =
     ([(''endpointSliceCache'', Cache REndpointSlice), (''endpointSliceClient'', Client REndpointSlice), (''serviceCache'', Cache RService),
       (''podCache'', Cache RPod), (''supportDiscoveryV1'', Discovery discovery),
       (''endpointSliceEnqueueAfter'', EnqueueAfter REndpointSlice), (''endpointSliceEnqueue'', Enqueue REndpointSlice)],
      if \<not> discovery then []
      else [on_change REndpointSlice ''rancher-flat-network-endpointslice'' h_sync_endpointslice])"

definition namespace_Register :: registered where
  "namespace_Register =
     ([(''namespaceClient'', Client RNamespace), (''ndClientSet'', NDClientSet),
       (''nsEnqueueAfter'', EnqueueAfter RNamespace), (''nsEnqueue'', Enqueue RNamespace)],
      [on_change RNamespace ''rancher-flat-network-namespace'' h_syncNamespace])"

subsection \<open>The context: wrangler/context.go\<close>

text \<open>A step of the start: it goes on with a value, logs a fatal error and exits, or panics.\<close>

datatype 'a starting = Goes_on 'a | Fatal error | Panics_with error

record Context =
  supportDiscoveryV1 :: bool
  supportIngressV1 :: bool
  starters :: "string list"

text \<open>The answers of the packages that the context is built from.\<close>

record context_env =
  ce_factory :: "string \<Rightarrow> error option"
  ce_ndClientSet :: "error option"
  ce_sharedFactory :: "error option"
  ce_AddToScheme :: "error option"
  ce_NewForConfig :: "error option"
  ce_Error :: "error \<Rightarrow> string"
  ce_discovery :: "error option"
  ce_ingress :: "error + string list option"

fun or_panic :: "error option list \<Rightarrow> 'a starting \<Rightarrow> 'a starting" where
  "or_panic [] k = k"
| "or_panic (None # es) k = or_panic es k"
| "or_panic (Some e # es) k = Panics_with e"

abbreviation factory_groups :: "string list" where
  "factory_groups \<equiv> [''flatnetwork'', ''core'', ''apps'', ''networking'', ''batch'', ''discovery'']"

definition NewContextOrDie :: "context_env \<Rightarrow> Context starting" where
  "NewContextOrDie ce =
     or_panic (map (ce_factory ce) factory_groups @ [ce_ndClientSet ce])
       (case ce_sharedFactory ce of
          Some e \<Rightarrow> Fatal (Wrapf ''failed to build shared controller factory: %v'' [] e)
        | None \<Rightarrow>
            or_panic [ce_AddToScheme ce]
              (case ce_NewForConfig ce of
                 Some e \<Rightarrow> Fatal (Wrapf ''kubernetes.NewForConfig: %v'' [] e)
               | None \<Rightarrow>
                   (case serverSupportDiscoveryV1 (ce_Error ce) (ce_discovery ce) of
                      Inl e \<Rightarrow> Fatal e
                    | Inr discovery \<Rightarrow>
                        Goes_on \<lparr>supportDiscoveryV1 = discovery, supportIngressV1 = serverSupportsIngressV1 (ce_ingress ce),
                          starters = factory_groups\<rparr>)))"

text \<open>The loop over the caches of the shared factory, in the order the map gives them: the names it reports, and whether all have synced.\<close>

fun unsynced :: "(string \<times> bool) list \<Rightarrow> string list \<times> bool \<Rightarrow> string list \<times> bool" where
  "unsynced [] r = r"
| "unsynced ((k, v) # ok) (failed, succeed) = unsynced ok (if \<not> v then (failed @ [k], False) else (failed, succeed))"

definition WaitForCacheSyncOrDie :: "error option \<Rightarrow> (string \<times> bool) list \<Rightarrow> (string list \<times> bool) starting" where
  "WaitForCacheSyncOrDie start ok =
     (case start of
        Some e \<Rightarrow> Fatal (Wrapf ''failed to start shared cache factory: %v'' [] e)
      | None \<Rightarrow> Goes_on (unsynced ok ([], True)))"

subsection \<open>The operator: main.go\<close>

record options =
  opt_port :: int
  opt_address :: string
  opt_cert :: string
  opt_key :: string
  opt_worker :: int
  opt_webhookServer :: bool
  opt_version :: bool
  opt_debug :: bool

definition versionString :: "string \<Rightarrow> string \<Rightarrow> string" where
  "versionString ver commit = (if commit \<noteq> [] then ver @ '' - '' @ commit else ver)"

datatype start_action =
    act_SetupLogrus bool | act_SetLevel Level | act_PrintVersion string | act_StartLogServer | act_WaitedForCaches
  | act_Register registration | act_OnLeader int | act_Run | act_Webhook admission_Server

datatype main_end = Ended | Blocked | Exited error | Panicked

record operator_env =
  oe_versionString :: string
  oe_DEV_MODE :: string
  oe_kubeconfig :: "error option"
  oe_context :: context_env
  oe_cacheStart :: "error option"
  oe_cachesSynced :: "(string \<times> bool) list"
  oe_serverClosed :: "error \<Rightarrow> bool"
  oe_keyPair :: "error option"
  oe_listen :: "error option"
  oe_process :: process

definition worker_number :: "int \<Rightarrow> int" where
  "worker_number worker = (if worker > 50 \<or> worker < 1 then 5 else worker)"

definition all_registered :: "bool \<Rightarrow> registered list" where
  "all_registered discovery =
     [flatnetworkip_Register, flatnetworksubnet_Register, service_Register discovery, pod_Register, ingress_Register,
      workload_Register, endpoints_Register discovery, endpointslice_Register discovery, namespace_Register]"

definition registrations :: "bool \<Rightarrow> registration list" where
  "registrations discovery = concat (map snd (all_registered discovery))"

text \<open>The webhook server at the end of \<open>main\<close>, which then blocks.\<close>

definition run_webhook :: "options \<Rightarrow> operator_env \<Rightarrow> start_action list \<times> main_end" where
  "run_webhook opts oe =
     (if \<not> opt_webhookServer opts then ([], Blocked)
      else
        (let srv = \<lparr>srv_address = opt_address opts, srv_port = opt_port opts, srv_certFile = opt_cert opts, srv_keyFile = opt_key opts\<rparr>
         in ([act_Webhook srv],
             case admission_Run (oe_serverClosed oe) (oe_keyPair oe) (oe_listen oe) srv of
               (stmts, err) \<Rightarrow>
                 (case exec_stmts stmts (oe_process oe) of
                    Returns _ \<Rightarrow>
                      (case err of
                         Some e \<Rightarrow> Exited (Wrapf ''failed to start webhook: %v'' [] e)
                       | None \<Rightarrow> Blocked)
                  | Panics \<Rightarrow> Panicked
                  | Hangs \<Rightarrow> Blocked))))"

definition main :: "options \<Rightarrow> operator_env \<Rightarrow> start_action list \<times> main_end" where
  "main opts oe =
     (let worker = worker_number (opt_worker opts);
          pre = act_SetupLogrus (opt_debug opts) #
            (if opt_debug opts \<or> oe_DEV_MODE oe \<noteq> [] then [act_SetLevel DebugLevel] else [])
      in if opt_version opts then (pre @ [act_PrintVersion (oe_versionString oe)], Ended)
         else
           (let pre = pre @ [act_StartLogServer] in
            case oe_kubeconfig oe of
              Some e \<Rightarrow> (pre, Exited (Wrapf ''Error building kubeconfig: %v'' [] e))
            | None \<Rightarrow>
                (case NewContextOrDie (oe_context oe) of
                   Fatal e \<Rightarrow> (pre, Exited e)
                 | Panics_with e \<Rightarrow> (pre, Panicked)
                 | Goes_on wctx \<Rightarrow>
                     (case WaitForCacheSyncOrDie (oe_cacheStart oe) (oe_cachesSynced oe) of
                        Fatal e \<Rightarrow> (pre, Exited e)
                      | Panics_with e \<Rightarrow> (pre, Panicked)
                      | Goes_on _ \<Rightarrow>
                          (case run_webhook opts oe of
                             (post, end) \<Rightarrow>
                               (pre @ [act_WaitedForCaches] @ map act_Register (registrations (supportDiscoveryV1 wctx)) @
                                  [act_OnLeader worker, act_Run] @ post, end))))))"

subsection \<open>The signals of the migrator: signal.go\<close>

text \<open>
  \<open>sig_closed\<close>: the channel that guards against a second set-up is closed; \<open>sig_done\<close>: the context is cancelled; \<open>sig_exit\<close>: the
  status the process exited with.
\<close>

record signals =
  sig_closed :: bool
  sig_done :: bool
  sig_exit :: "nat option"

definition SetupSignalContext :: "signals \<Rightarrow> signals outcome" where
  "SetupSignalContext st = (if sig_closed st then Panics else Returns (st\<lparr>sig_closed := True\<rparr>))"

text \<open>The goroutine takes one signal out of the channel.\<close>

definition on_signal :: "signals \<Rightarrow> signals" where
  "on_signal st =
     (if sig_exit st \<noteq> None then st
      else if \<not> sig_done st then st\<lparr>sig_done := True\<rparr>
      else st\<lparr>sig_exit := Some 130\<rparr>)"

definition Execute :: "(error option) \<Rightarrow> error \<Rightarrow> signals \<Rightarrow> error option" where
  "Execute result canceled st =
     (case result of
        Some e \<Rightarrow> if sig_done st then Some canceled else Some e
      | None \<Rightarrow> None)"

subsection \<open>The wiring\<close>

text \<open>The names that the fields of the handlers use for a resource.\<close>

fun field_names :: "resource_kind \<Rightarrow> string list" where
  "field_names RIP = [''ip'']"
| "field_names RSubnet = [''subnet'']"
| "field_names RService = [''service'']"
| "field_names RPod = [''pod'']"
| "field_names RNamespace = [''namespace'', ''ns'']"
| "field_names REndpoints = [''endpoints'']"
| "field_names REndpointSlice = [''endpointSlice'']"
| "field_names RIngress = [''ingress'']"
| "field_names RDeployment = [''deployment'']"
| "field_names RDaemonSet = [''daemonSet'', ''daemonset'']"
| "field_names RReplicaSet = [''replicaSet'']"
| "field_names RStatefulSet = [''statefulSet'', ''statefulset'']"
| "field_names RCronJob = [''cronJob'', ''cronjob'']"
| "field_names RJob = [''job'']"

fun wired_as_named :: "string \<times> wire \<Rightarrow> bool" where
  "wired_as_named (f, Client k) = list_ex (\<lambda>n. f = n @ ''Client'') (field_names k)"
| "wired_as_named (f, Cache k) = list_ex (\<lambda>n. f = n @ ''Cache'') (field_names k)"
| "wired_as_named (f, Enqueue k) = list_ex (\<lambda>n. f = n @ ''Enqueue'') (field_names k)"
| "wired_as_named (f, EnqueueAfter k) = list_ex (\<lambda>n. f = n @ ''EnqueueAfter'') (field_names k)"
| "wired_as_named (f, w) = True"

lemmas Register_defs = all_registered_def registrations_def flatnetworkip_Register_def flatnetworksubnet_Register_def
  service_Register_def pod_Register_def ingress_Register_def workload_Register_def endpoints_Register_def
  endpointslice_Register_def namespace_Register_def

text \<open>Every client, cache and queue of every handler belongs to the resource its field names, but for \<open>ipEnqueue\<close>.\<close>

theorem handlers_wired_as_named:
  "filter (\<lambda>x. \<not> wired_as_named x) (concat (map fst (all_registered discovery))) = [(''ipEnqueue'', Enqueue RSubnet)]"
  by (cases discovery) (simp_all add: Register_defs)

text \<open>
  No resource has two change handlers, and every resource that a handler is for has one; the slices have one exactly when the server
  knows them. Only the addresses and the subnets are handled on removal.
\<close>

theorem one_handler_for_each_kind:
  "distinct (map reg_kind (filter (\<lambda>r. reg_event r = OnChange) (registrations discovery))) \<and>
   set (map reg_kind (filter (\<lambda>r. reg_event r = OnChange) (registrations discovery))) =
     UNIV - {RReplicaSet} - (if discovery then {} else {REndpointSlice}) \<and>
   map reg_kind (filter (\<lambda>r. reg_event r = OnRemove) (registrations discovery)) = [RIP, RSubnet]"
proof -
  have univ: "(UNIV :: resource_kind set) = {RIP, RSubnet, RService, RPod, RNamespace, REndpoints, REndpointSlice, RIngress,
      RDeployment, RDaemonSet, RReplicaSet, RStatefulSet, RCronJob, RJob}"
    using resource_kind.exhaust by blast
  show ?thesis unfolding univ by (cases discovery) (auto simp: Register_defs)
qed

subsection \<open>The order of the start\<close>

lemma unsynced_acc:
  "unsynced ok (failed, succeed) = (failed @ map fst (filter (\<lambda>x. \<not> snd x) ok), succeed \<and> list_all snd ok)"
  by (induction ok arbitrary: failed succeed) auto

text \<open>The wait for the caches goes on although caches have not synced; it only names them.\<close>

theorem WaitForCacheSyncOrDie_goes_on:
  "WaitForCacheSyncOrDie None ok = Goes_on (map fst (filter (\<lambda>x. \<not> snd x) ok), list_all snd ok)"
  by (simp add: WaitForCacheSyncOrDie_def unsynced_acc)

lemma or_panic_Goes_on: "or_panic es k = Goes_on x \<longleftrightarrow> list_all (\<lambda>e. e = None) es \<and> k = Goes_on x"
  by (induction es k rule: or_panic.induct) auto

lemma split_unique:
  assumes "xs @ a # ys = us @ a # vs" and "a \<notin> set us" and "a \<notin> set vs"
  shows "xs = us \<and> ys = vs"
  using assms by (auto simp: append_eq_append_conv2 Cons_eq_append_conv append_eq_Cons_conv)

lemma run_webhook_acts: "run_webhook opts oe = (acts, end) \<Longrightarrow> set acts \<subseteq> range act_Webhook"
  by (auto simp: run_webhook_def Let_def split: if_splits)

text \<open>
  The operator takes part in the election only after its context was built, the caches were waited for and every handler was
  registered together with the callback that starts them, with one to fifty workers; afterwards only the webhook server starts.
\<close>

theorem handlers_registered_before_election:
  assumes "main opts oe = (acts, end)" and "acts = xs @ act_Run # ys"
  shows "\<exists>wctx. NewContextOrDie (oe_context oe) = Goes_on wctx \<and>
    act_Register ` set (registrations (supportDiscoveryV1 wctx)) \<subseteq> set xs \<and> act_WaitedForCaches \<in> set xs \<and>
    (\<exists>n. act_OnLeader n \<in> set xs \<and> 1 \<le> n \<and> n \<le> 50) \<and> set ys \<subseteq> range act_Webhook"
proof -
  obtain post e where post: "run_webhook opts oe = (post, e)" by fastforce
  have run: "act_Run \<in> set acts" using assms(2) by simp
  obtain wctx us where wctx: "NewContextOrDie (oe_context oe) = Goes_on wctx"
    and acts: "acts = us @ act_WaitedForCaches # map act_Register (registrations (supportDiscoveryV1 wctx)) @
      [act_OnLeader (worker_number (opt_worker opts)), act_Run] @ post" and us: "act_Run \<notin> set us"
    using assms(1) run post by (auto simp: main_def Let_def split: if_splits option.splits starting.splits)
  let ?pre = "us @ act_WaitedForCaches # map act_Register (registrations (supportDiscoveryV1 wctx)) @
    [act_OnLeader (worker_number (opt_worker opts))]"
  have "act_Run \<notin> set ?pre" "act_Run \<notin> set post" using us run_webhook_acts [OF post] by auto
  then have "xs = ?pre \<and> ys = post" using split_unique [of xs act_Run ys ?pre post] acts assms(2) by simp
  moreover have "1 \<le> worker_number n \<and> worker_number n \<le> 50" for n by (simp add: worker_number_def)
  ultimately show ?thesis using wctx run_webhook_acts [OF post] by auto
qed

subsection \<open>Two signals\<close>

text \<open>The first signal cancels the context, the second one exits with 130, and the set-up can be done once.\<close>

theorem signals_cancel_then_exit:
  assumes "sig_done st = False" and "sig_exit st = None"
  shows "(sig_done ((on_signal ^^ n) st) \<longleftrightarrow> 1 \<le> n) \<and> sig_exit ((on_signal ^^ n) st) = (if 2 \<le> n then Some 130 else None)"
proof (induction n)
  case (Suc n)
  then show ?case by (cases "n = 0 \<or> n = 1") (auto simp: on_signal_def assms)
qed (simp add: assms)

end
