(* ===== verification/AddrHeap.thy ===== *)
theory AddrHeap
  imports AddrAlloc
begin

text \<open>
  The allocator of \<open>pkg/ipcalc/ipcalc.go\<close> with the byte arrays that it shares. An address is a Go slice: assigning it copies a
  reference, \<open>To16\<close> of an address of sixteen bytes returns the same array, and \<open>IPIncrease\<close> writes into the array it is given. The
  functions of the theory \<open>Ipcalc\<close> are the same on values; here \<open>GetAvailableIP\<close> runs on a store of arrays, and it is shown to compute what the
  function on values computes, to return a fresh array, and to leave every array of its caller as it was.
\<close>

subsection \<open>The store\<close>

text \<open>
  A store is the list of the arrays made so far, a reference an index into it, and \<open>None\<close> the nil slice. The slices here always
  cover their whole array.
\<close>

type_synonym heap = "byte list list"
type_synonym slice = "nat option"

definition hval :: "heap \<Rightarrow> slice \<Rightarrow> net_IP" where
  "hval h p = (case p of None \<Rightarrow> [] | Some r \<Rightarrow> h ! r)"

definition h_new :: "byte list \<Rightarrow> heap \<Rightarrow> slice \<times> heap" where
  "h_new v h = (Some (length h), h @ [v])"

text \<open>\<open>slices.Clone\<close> and \<open>bytes.Clone\<close>: the clone of nil is nil.\<close>

definition h_Clone :: "slice \<Rightarrow> heap \<Rightarrow> slice \<times> heap" where
  "h_Clone p h = (case p of None \<Rightarrow> (None, h) | Some r \<Rightarrow> h_new (h ! r) h)"

text \<open>\<open>To16\<close> of the package net: the same slice, a new array, or nil.\<close>

definition h_To16 :: "slice \<Rightarrow> heap \<Rightarrow> slice \<times> heap" where
  "h_To16 p h =
     (case p of
        None \<Rightarrow> (None, h)
      | Some r \<Rightarrow>
          if length (h ! r) = 4 then h_new (v4InV6Prefix @ h ! r) h
          else if length (h ! r) = 16 then (p, h)
          else (None, h))"

text \<open>The loops of \<open>IPIncrease\<close> and \<open>IPDecrease\<close>, with \<open>n\<close> bytes left.\<close>

fun inc_loop :: "nat \<Rightarrow> byte list \<Rightarrow> byte list" where
  "inc_loop 0 b = b"
| "inc_loop (Suc j) b = (let b = b[j := b ! j + 1] in if b ! j > 0 then b else inc_loop j b)"

fun dec_loop :: "nat \<Rightarrow> byte list \<Rightarrow> byte list" where
  "dec_loop 0 b = b"
| "dec_loop (Suc j) b = (let b = b[j := b ! j - 1] in if b ! j \<noteq> 0xFF then b else dec_loop j b)"

definition h_IPIncrease :: "slice \<Rightarrow> heap \<Rightarrow> heap" where
  "h_IPIncrease p h = (case p of None \<Rightarrow> h | Some r \<Rightarrow> h[r := inc_loop (length (h ! r)) (h ! r)])"

record h_IPRange =
  hFrom :: slice
  hTo :: slice

definition range_val :: "heap \<Rightarrow> h_IPRange \<Rightarrow> IPRange" where
  "range_val h r = \<lparr>From = hval h (hFrom r), To = hval h (hTo r)\<rparr>"

subsection \<open>The allocator on the store\<close>

text \<open>The predicates only read, so that they are those on values.\<close>

fun h_skip_used :: "slice \<Rightarrow> h_IPRange list \<Rightarrow> heap \<Rightarrow> slice \<times> heap" where
  "h_skip_used start [] h = (start, h)"
| "h_skip_used start (u # us) h =
     (if IP_Equal (hval h (hFrom u)) (hval h start) then
        (case h_To16 (hTo u) h of (p, h) \<Rightarrow> case h_Clone p h of (start, h) \<Rightarrow> h_skip_used start us h)
      else h_skip_used start us h)"

text \<open>The condition of this loop reads \<open>start\<close>, its body and its increment work on \<open>ip\<close>.\<close>

partial_function (option) h_scan_range ::
    "IPNet \<Rightarrow> h_IPRange list \<Rightarrow> slice \<Rightarrow> slice \<Rightarrow> slice \<Rightarrow> heap \<Rightarrow> (slice \<times> heap) option" where
  "h_scan_range network usedIPs end start ip h =
     (if bytes_Compare (hval h start) (hval h end) \<le> 0 then
        (case h_To16 ip h of
           (ip, h) \<Rightarrow>
             if hval h ip = [] \<or> \<not> IsAvailableIP (hval h ip) (Some network) then
               h_scan_range network usedIPs end start ip (h_IPIncrease ip h)
             else if \<not> IPInRanges (hval h ip) (map (range_val h) usedIPs) then Some (ip, h)
             else h_scan_range network usedIPs end start ip (h_IPIncrease ip h))
      else Some (None, h))"

fun h_scan_ranges :: "IPNet \<Rightarrow> h_IPRange list \<Rightarrow> h_IPRange list \<Rightarrow> heap \<Rightarrow> (slice \<times> heap) option" where
  "h_scan_ranges network usedIPs [] h = Some (None, h)"
| "h_scan_ranges network usedIPs (r # rs) h =
     (case h_To16 (hFrom r) h of
        (p, h) \<Rightarrow> case h_Clone p h of
        (start, h) \<Rightarrow> case h_To16 (hTo r) h of
        (end, h) \<Rightarrow> case h_skip_used start usedIPs h of
        (start, h) \<Rightarrow>
          if hval h start = [] \<or> hval h end = [] then h_scan_ranges network usedIPs rs h
          else
            (case h_scan_range network usedIPs end start start h of
               None \<Rightarrow> None
             | Some (Some ip, h) \<Rightarrow> Some (Some ip, h)
             | Some (None, h) \<Rightarrow> h_scan_ranges network usedIPs rs h))"

partial_function (option) h_scan_network ::
    "IPNet \<Rightarrow> h_IPRange list \<Rightarrow> slice \<Rightarrow> heap \<Rightarrow> (slice \<times> heap) option" where
  "h_scan_network network usedIPs ip h =
     (if Contains network (hval h ip) then
        (case h_To16 ip h of
           (ip, h) \<Rightarrow>
             if hval h ip = [] \<or> \<not> IsAvailableIP (hval h ip) (Some network) then
               h_scan_network network usedIPs ip (h_IPIncrease ip h)
             else if \<not> IPInRanges (hval h ip) (map (range_val h) usedIPs) then Some (ip, h)
             else h_scan_network network usedIPs ip (h_IPIncrease ip h))
      else Some (None, h))"

declare h_scan_range.simps [code] h_scan_network.simps [code]

definition h_found :: "slice \<times> heap \<Rightarrow> (error + slice) \<times> heap" where
  "h_found r = (case r of (None, h) \<Rightarrow> (Inl (Sentinel ErrNoAvailableIP), h) | (Some ip, h) \<Rightarrow> (Inr (Some ip), h))"

definition h_GetAvailableIP ::
    "string \<Rightarrow> h_IPRange list \<Rightarrow> h_IPRange list \<Rightarrow> heap \<Rightarrow> ((error + slice) \<times> heap) option" where
  "h_GetAvailableIP cidr ipRanges usedIPs h =
     (case ParseCIDR cidr of
        Inl e \<Rightarrow> Some (Inl e, h)
      | Inr (ip, network) \<Rightarrow>
          if ipRanges \<noteq> [] then map_option h_found (h_scan_ranges network usedIPs ipRanges h)
          else
            (case (let v = IP_Mask ip (NetMask network) in if v = [] then (None, h) else h_new v h) of
               (start, h) \<Rightarrow> case h_skip_used start usedIPs (h_IPIncrease start h) of
               (start, h) \<Rightarrow> map_option h_found (h_scan_network network usedIPs start h)))"

subsection \<open>The loops in place\<close>

lemma inc_loop_append: "inc_loop (length xs) (xs @ ys) = rev (inc_bytes (rev xs)) @ ys"
proof (induction xs arbitrary: ys rule: rev_induct)
  case (snoc x xs)
  have upd: "(xs @ x # ys)[length xs := v] = xs @ v # ys" for v by (simp add: list_update_append)
  show ?case using snoc.IH [of "(x + 1) # ys"] by (simp add: Let_def upd nth_append)
qed simp

lemma inc_loop_IPIncrease: "inc_loop (length b) b = IPIncrease b"
  using inc_loop_append [of b "[]"] by (simp add: IPIncrease_def)

lemma dec_loop_append: "dec_loop (length xs) (xs @ ys) = rev (dec_bytes (rev xs)) @ ys"
proof (induction xs arbitrary: ys rule: rev_induct)
  case (snoc x xs)
  have upd: "(xs @ x # ys)[length xs := v] = xs @ v # ys" for v by (simp add: list_update_append)
  show ?case using snoc.IH [of "255 # ys"] by (simp add: Let_def upd nth_append)
qed simp

lemma dec_loop_IPDecrease: "dec_loop (length b) b = IPDecrease b"
  using dec_loop_append [of b "[]"] by (simp add: IPDecrease_def)

lemma h_IPIncrease_Some: "h_IPIncrease (Some r) h = h[r := IPIncrease (h ! r)]"
  by (simp add: h_IPIncrease_def inc_loop_IPIncrease)

subsection \<open>Slices that survive\<close>

text \<open>
  \<open>known n p\<close>: the array of the slice, if it has one, is one of the first \<open>n\<close>. \<open>keeps n h h'\<close>: the first \<open>n\<close> arrays of \<open>h\<close> are the
  same in \<open>h'\<close>, which has at least as many arrays as \<open>h\<close>.
\<close>

definition known :: "nat \<Rightarrow> slice \<Rightarrow> bool" where
  "known n p \<longleftrightarrow> (case p of None \<Rightarrow> True | Some r \<Rightarrow> r < n)"

definition known_range :: "nat \<Rightarrow> h_IPRange \<Rightarrow> bool" where
  "known_range n r \<longleftrightarrow> known n (hFrom r) \<and> known n (hTo r)"

definition keeps :: "nat \<Rightarrow> heap \<Rightarrow> heap \<Rightarrow> bool" where
  "keeps n h h' \<longleftrightarrow> n \<le> length h \<and> length h \<le> length h' \<and> (\<forall>r < n. h' ! r = h ! r)"

text \<open>\<open>owned n h p\<close>: the array of the slice is in the store and none of the first \<open>n\<close>.\<close>

definition owned :: "nat \<Rightarrow> heap \<Rightarrow> slice \<Rightarrow> bool" where
  "owned n h p \<longleftrightarrow> (case p of None \<Rightarrow> True | Some r \<Rightarrow> n \<le> r \<and> r < length h)"

lemma keeps_refl: "n \<le> length h \<Longrightarrow> keeps n h h"
  by (simp add: keeps_def)

lemma keeps_trans: "keeps n h h' \<Longrightarrow> keeps n h' h'' \<Longrightarrow> keeps n h h''"
  by (simp add: keeps_def)

lemma keeps_append: "n \<le> length h \<Longrightarrow> keeps n h (h @ xs)"
  by (simp add: keeps_def nth_append)

lemma keeps_update: "n \<le> length h \<Longrightarrow> n \<le> r \<Longrightarrow> keeps n h (h[r := v])"
  by (simp add: keeps_def)

lemma keeps_hval: "keeps n h h' \<Longrightarrow> known n p \<Longrightarrow> hval h' p = hval h p"
  by (cases p) (auto simp: keeps_def known_def hval_def)

lemma keeps_range: "keeps n h h' \<Longrightarrow> known_range n r \<Longrightarrow> range_val h' r = range_val h r"
  by (simp add: range_val_def known_range_def keeps_hval)

lemma keeps_ranges: "keeps n h h' \<Longrightarrow> list_all (known_range n) rs \<Longrightarrow> map (range_val h') rs = map (range_val h) rs"
  by (auto simp: list_all_iff keeps_range)

lemma keeps_le: "keeps n h h' \<Longrightarrow> m \<le> n \<Longrightarrow> keeps m h h'"
  by (simp add: keeps_def)

lemma known_le: "known n p \<Longrightarrow> n \<le> m \<Longrightarrow> known m p"
  by (auto simp: known_def split: option.splits)

lemma owned_known: "owned n h p \<Longrightarrow> known (length h) p"
  by (auto simp: known_def owned_def split: option.splits)

text \<open>\<open>To16\<close> and \<open>Clone\<close> only add arrays.\<close>

lemma h_To16_run:
  assumes "h_To16 p h = (q, h')" and "known (length h) p"
  shows "hval h' q = To16 (hval h p) \<and> (\<exists>xs. h' = h @ xs) \<and> known (length h') q \<and> (q = None \<or> q = p \<or> owned (length h) h' q)"
  using assms
  by (auto simp: h_To16_def h_new_def hval_def known_def owned_def To16_def nth_append split: option.splits if_splits)

lemma h_Clone_run:
  assumes "h_Clone p h = (q, h')" and "known (length h) p"
  shows "hval h' q = hval h p \<and> (\<exists>xs. h' = h @ xs) \<and> owned (length h) h' q"
  using assms by (auto simp: h_Clone_def h_new_def hval_def known_def owned_def nth_append split: option.splits)

lemma h_IPIncrease_run:
  assumes "owned n h p" and "n \<le> length h"
  shows "keeps n h (h_IPIncrease p h) \<and> owned n (h_IPIncrease p h) p \<and> hval (h_IPIncrease p h) p = IPIncrease (hval h p)"
proof (cases p)
  case None
  then show ?thesis using assms by (simp add: h_IPIncrease_def keeps_refl hval_def IPIncrease_def owned_def)
next
  case (Some r)
  then show ?thesis using assms by (simp add: h_IPIncrease_Some keeps_update hval_def owned_def)
qed

lemma skip_used_Cons:
  "skip_used v (u # us) = skip_used (if IP_Equal (From u) v then To16 (To u) else v) us"
  by (simp add: skip_used_def)

lemma keeps_known_ranges: "keeps n h h' \<Longrightarrow> list_all (known_range n) us \<Longrightarrow> list_all (known_range n) us \<and> n \<le> length h'"
  by (simp add: keeps_def)

lemma h_skip_used_run:
  assumes "h_skip_used start us h = (s, h')" and "list_all (known_range n) us" and "n \<le> length h" and "owned n h start"
  shows "hval h' s = skip_used (hval h start) (map (range_val h) us) \<and> (\<exists>xs. h' = h @ xs) \<and> owned n h' s \<and>
    (s = start \<or> owned (length h) h' s)"
  using assms
proof (induction us arbitrary: start h)
  case Nil
  then show ?case by (simp add: skip_used_def)
next
  case (Cons u us)
  have u: "known (length h) (hTo u)" "known_range n u" and us: "list_all (known_range n) us"
    using Cons.prems(2,3) known_le [of n "hTo u" "length h"] by (simp_all add: known_range_def [of n u])
  show ?case
  proof (cases "IP_Equal (hval h (hFrom u)) (hval h start)")
    case False
    then show ?thesis
      using Cons.IH [OF _ us Cons.prems(3,4)] Cons.prems(1) by (simp add: skip_used_Cons range_val_def)
  next
    case True
    obtain q h1 where q: "h_To16 (hTo u) h = (q, h1)" by fastforce
    obtain t h2 where t: "h_Clone q h1 = (t, h2)" by fastforce
    obtain xs where xs: "hval h1 q = To16 (hval h (hTo u))" "h1 = h @ xs" "known (length h1) q"
      using h_To16_run [OF q u(1)] by blast
    obtain ys where ys: "hval h2 t = hval h1 q" "h2 = h1 @ ys" "owned (length h1) h2 t"
      using h_Clone_run [OF t xs(3)] by blast
    have own: "owned n h2 t" "n \<le> length h2"
      using ys(2,3) xs(2) Cons.prems(3) by (auto simp: owned_def split: option.splits)
    have same: "map (range_val h2) us = map (range_val h) us"
      using keeps_append [OF Cons.prems(3), of "xs @ ys"] us by (intro keeps_ranges [of n]) (simp_all add: xs(2) ys(2))
    have run: "h_skip_used t us h2 = (s, h')" using Cons.prems(1) True q t by simp
    note IH = Cons.IH [OF run us own(2,1)]
    have "s = start \<or> owned (length h) h' s"
      using IH ys(2,3) xs(2) by (auto simp: owned_def split: option.splits)
    moreover have "hval h' s = skip_used (hval h start) (map (range_val h) (u # us))"
      using IH True xs(1) ys(1) same by (simp add: skip_used_Cons range_val_def [of h u])
    moreover have "\<exists>zs. h' = h @ zs" using IH xs(2) ys(2) by auto
    ultimately show ?thesis using IH by blast
  qed
qed

subsection \<open>The loop over a range\<close>

text \<open>
  The loop on the store with \<open>start\<close> and \<open>ip\<close> on the same array of sixteen bytes, against the loop on values: both do not end, or both end,
  with the address that was found in that array.
\<close>

definition apart :: "nat \<Rightarrow> slice \<Rightarrow> h_IPRange list \<Rightarrow> bool" where
  "apart r end us \<longleftrightarrow> end \<noteq> Some r \<and> list_all (\<lambda>u. hFrom u \<noteq> Some r \<and> hTo u \<noteq> Some r) us"

lemma hval_update: "p \<noteq> Some r \<Longrightarrow> hval (h[r := v]) p = hval h p"
  by (cases p) (auto simp: hval_def nth_list_update_neq)

lemma apart_update:
  assumes "apart r end us"
  shows "hval (h[r := v]) end = hval h end" and "map (range_val (h[r := v])) us = map (range_val h) us"
  using assms by (auto simp: apart_def hval_update range_val_def list_all_iff)

lemma h_scan_range_unfold:
  assumes "r < length h" and "length (h ! r) = 16"
  shows "h_scan_range network us end (Some r) (Some r) h =
    (if bytes_Compare (h ! r) (hval h end) \<le> 0 then
       if h ! r = [] \<or> \<not> IsAvailableIP (h ! r) (Some network) then
         h_scan_range network us end (Some r) (Some r) (h[r := IPIncrease (h ! r)])
       else if \<not> IPInRanges (h ! r) (map (range_val h) us) then Some (Some r, h)
       else h_scan_range network us end (Some r) (Some r) (h[r := IPIncrease (h ! r)])
     else Some (None, h))"
  using assms by (subst h_scan_range.simps) (simp add: hval_def h_To16_def h_IPIncrease_Some)

lemma h_scan_range_ends:
  assumes "scan_range network vs e v = Some y"
  shows "\<forall>h r. r < length h \<longrightarrow> h ! r = v \<longrightarrow> length v = 16 \<longrightarrow> apart r end us \<longrightarrow> hval h end = e \<longrightarrow>
    map (range_val h) us = vs \<longrightarrow>
    (\<exists>v'. h_scan_range network us end (Some r) (Some r) h = Some (if y = None then None else Some r, h[r := v']) \<and> (y \<noteq> None \<longrightarrow> y = Some v'))"
    (is "?P network vs e v y")
proof (rule scan_range.raw_induct [where P = ?P, OF _ assms], intro allI impI)
  fix f network vs e v y h r
  assume IH: "\<And>network vs e v y. f network vs e v = Some y \<Longrightarrow> ?P network vs e v y"
    and body: "(if bytes_Compare v e \<le> 0
      then if v = [] \<or> \<not> IsAvailableIP v (Some network) then f network vs e (IPIncrease v)
           else if \<not> IPInRanges v vs then Some (Some v) else f network vs e (IPIncrease v)
      else Some None) = Some y"
    and r: "r < length h" and v: "h ! r = v" "length v = 16" and ap: "apart r end us"
    and e: "hval h end = e" and vs: "map (range_val h) us = vs"
  note unfold = h_scan_range_unfold [of r h network us "end", unfolded v(1) e vs, OF r v(2)]
  let ?h = "h[r := IPIncrease v]"
  have step: "\<exists>v'. h_scan_range network us end (Some r) (Some r) ?h =
      Some (if y = None then None else Some r, h[r := v']) \<and> (y \<noteq> None \<longrightarrow> y = Some v')"
    if "f network vs e (IPIncrease v) = Some y"
    using IH [OF that, rule_format, of r ?h] r v ap apart_update [OF ap, of h "IPIncrease v"] e vs by simp
  show "\<exists>v'. h_scan_range network us end (Some r) (Some r) h =
      Some (if y = None then None else Some r, h[r := v']) \<and> (y \<noteq> None \<longrightarrow> y = Some v')"
    using body step unfold v by (auto split: if_splits intro: exI [of _ v])
qed

lemma h_scan_range_ended:
  assumes "h_scan_range network us end start ip h = Some z"
  shows "\<forall>r. start = Some r \<longrightarrow> ip = Some r \<longrightarrow> r < length h \<longrightarrow> length (h ! r) = 16 \<longrightarrow> apart r end us \<longrightarrow>
    scan_range network (map (range_val h) us) (hval h end) (h ! r) \<noteq> None"
    (is "?P network us end start ip h z")
proof (rule h_scan_range.raw_induct [where P = ?P, OF _ assms], intro allI impI)
  fix f network us "end" start ip h z r
  assume IH: "\<And>network us end start ip h z. f network us end start ip h = Some z \<Longrightarrow> ?P network us end start ip h z"
    and body: "(if bytes_Compare (hval h start) (hval h end) \<le> 0
      then case h_To16 ip h of (ip, h) \<Rightarrow>
          if hval h ip = [] \<or> \<not> IsAvailableIP (hval h ip) (Some network) then f network us end start ip (h_IPIncrease ip h)
          else if \<not> IPInRanges (hval h ip) (map (range_val h) us) then Some (ip, h)
          else f network us end start ip (h_IPIncrease ip h)
      else Some (None, h)) = Some z"
    and p: "start = Some r" "ip = Some r" and r: "r < length h" "length (h ! r) = 16" and ap: "apart r end us"
  let ?h = "h[r := IPIncrease (h ! r)]"
  have step: "scan_range network (map (range_val h) us) (hval h end) (IPIncrease (h ! r)) \<noteq> None"
    if "f network us end (Some r) (Some r) ?h = Some z"
    using IH [OF that] r ap apart_update [OF ap, of h "IPIncrease (h ! r)"] by simp
  show "scan_range network (map (range_val h) us) (hval h end) (h ! r) \<noteq> None"
    using body step r p
    by (subst scan_range.simps) (auto simp: hval_def h_To16_def h_IPIncrease_Some split: if_splits)
qed

lemma h_scan_range_refines:
  assumes "r < length h" and "length (h ! r) = 16" and "apart r end us"
  shows "case scan_range network (map (range_val h) us) (hval h end) (h ! r) of
      None \<Rightarrow> h_scan_range network us end (Some r) (Some r) h = None
    | Some y \<Rightarrow> \<exists>v. h_scan_range network us end (Some r) (Some r) h = Some (if y = None then None else Some r, h[r := v]) \<and>
        (y \<noteq> None \<longrightarrow> y = Some v)"
proof (cases "scan_range network (map (range_val h) us) (hval h end) (h ! r)")
  case None
  then have "h_scan_range network us end (Some r) (Some r) h \<noteq> Some z" for z
    using h_scan_range_ended [of network us "end" "Some r" "Some r" h] assms by blast
  then have "h_scan_range network us end (Some r) (Some r) h = None"
    by (cases "h_scan_range network us end (Some r) (Some r) h") blast+
  then show ?thesis using None by simp
next
  case (Some y)
  then show ?thesis using h_scan_range_ends [OF Some, rule_format, OF assms(1) refl assms(2,3) refl refl] by simp
qed

subsection \<open>The loop over a network\<close>

lemma h_scan_network_step:
  assumes "h_To16 ip h = (q, h1)" and "owned n h ip" and "n \<le> length h" and "list_all (known_range n) us"
  shows "owned n h1 q" and "hval h1 q = To16 (hval h ip)" and "map (range_val h1) us = map (range_val h) us" and "keeps n h h1"
    and "keeps n h (h_IPIncrease q h1)" and "owned n (h_IPIncrease q h1) q" and "n \<le> length (h_IPIncrease q h1)"
    and "hval (h_IPIncrease q h1) q = IPIncrease (To16 (hval h ip))"
    and "map (range_val (h_IPIncrease q h1)) us = map (range_val h) us"
proof -
  obtain xs where q: "hval h1 q = To16 (hval h ip)" "h1 = h @ xs" "q = None \<or> q = ip \<or> owned (length h) h1 q"
    using h_To16_run [OF assms(1) owned_known [OF assms(2)]] by blast
  show own: "owned n h1 q" using q(2,3) assms(2,3) by (auto simp: owned_def split: option.splits)
  show k1: "keeps n h h1" using keeps_append [OF assms(3)] by (simp add: q(2))
  show "hval h1 q = To16 (hval h ip)" by (rule q(1))
  have n1: "n \<le> length h1" using q(2) assms(3) by simp
  note inc = h_IPIncrease_run [OF own n1]
  show k2: "keeps n h (h_IPIncrease q h1)" using inc keeps_trans [OF k1] by blast
  show "owned n (h_IPIncrease q h1) q" "n \<le> length (h_IPIncrease q h1)"
    "hval (h_IPIncrease q h1) q = IPIncrease (To16 (hval h ip))"
    using inc q(1) n1 by (simp_all add: keeps_def)
  show "map (range_val h1) us = map (range_val h) us" "map (range_val (h_IPIncrease q h1)) us = map (range_val h) us"
    using keeps_ranges [OF k1 assms(4)] keeps_ranges [OF k2 assms(4)] by blast+
qed

lemma h_scan_network_ends:
  assumes "scan_network network vs v = Some y" and us: "list_all (known_range n) us"
  shows "\<forall>h ip. n \<le> length h \<longrightarrow> owned n h ip \<longrightarrow> hval h ip = v \<longrightarrow> map (range_val h) us = vs \<longrightarrow>
    (\<exists>p h'. h_scan_network network us ip h = Some (p, h') \<and> keeps n h h' \<and> owned n h' p \<and>
       (case y of None \<Rightarrow> p = None | Some a \<Rightarrow> p \<noteq> None \<and> hval h' p = a))"
    (is "?P network vs v y")
proof (rule scan_network.raw_induct [where P = ?P, OF _ assms(1)], intro allI impI)
  fix f network vs v y h ip
  assume IH: "\<And>network vs v y. f network vs v = Some y \<Longrightarrow> ?P network vs v y"
    and body: "(if Contains network v
      then if To16 v = [] \<or> \<not> IsAvailableIP (To16 v) (Some network) then f network vs (IPIncrease (To16 v))
           else if \<not> IPInRanges (To16 v) vs then Some (Some (To16 v)) else f network vs (IPIncrease (To16 v))
      else Some None) = Some y"
    and n: "n \<le> length h" and own: "owned n h ip" and v: "hval h ip = v" and vs: "map (range_val h) us = vs"
  obtain q h1 where q: "h_To16 ip h = (q, h1)" by fastforce
  note step = h_scan_network_step [OF q own n us, unfolded v vs]
  let ?R = "\<lambda>h0 r. \<exists>p h'. r = Some (p, h') \<and> keeps n h0 h' \<and> owned n h' p \<and>
    (case y of None \<Rightarrow> p = None | Some a \<Rightarrow> p \<noteq> None \<and> hval h' p = a)"
  have rec: "?R h (h_scan_network network us q (h_IPIncrease q h1))" if "f network vs (IPIncrease (To16 v)) = Some y"
    using IH [OF that, rule_format, OF step(7,6,8,9)] keeps_trans [OF step(5)] by blast
  have fin: "q \<noteq> None" if "To16 v \<noteq> []" using that step(2) by (cases q) (simp_all add: hval_def)
  show "?R h (h_scan_network network us ip h)"
    unfolding h_scan_network.simps [of network us ip h] q v prod.case step(2,3)
    using body rec fin step(1,2,4) keeps_refl [OF n] by (auto simp: owned_def [of n h None] split: if_splits)
qed

lemma h_scan_network_ended:
  assumes "h_scan_network network us ip h = Some z"
  shows "list_all (known_range n) us \<longrightarrow> n \<le> length h \<longrightarrow> owned n h ip \<longrightarrow>
    scan_network network (map (range_val h) us) (hval h ip) \<noteq> None"
    (is "?P network us ip h z")
proof (rule h_scan_network.raw_induct [where P = ?P, OF _ assms], intro impI)
  fix f network us ip h z
  assume IH: "\<And>network us ip h z. f network us ip h = Some z \<Longrightarrow> ?P network us ip h z"
    and body: "(if Contains network (hval h ip)
      then case h_To16 ip h of (ip, h) \<Rightarrow>
          if hval h ip = [] \<or> \<not> IsAvailableIP (hval h ip) (Some network) then f network us ip (h_IPIncrease ip h)
          else if \<not> IPInRanges (hval h ip) (map (range_val h) us) then Some (ip, h)
          else f network us ip (h_IPIncrease ip h)
      else Some (None, h)) = Some z"
    and us: "list_all (known_range n) us" and n: "n \<le> length h" and own: "owned n h ip"
  obtain q h1 where q: "h_To16 ip h = (q, h1)" by fastforce
  note step = h_scan_network_step [OF q own n us]
  have rec: "scan_network network (map (range_val h) us) (IPIncrease (To16 (hval h ip))) \<noteq> None"
    if "f network us q (h_IPIncrease q h1) = Some z"
    using IH [OF that] us step(6,7,8,9) by simp
  show "scan_network network (map (range_val h) us) (hval h ip) \<noteq> None"
    using body rec unfolding q prod.case step(2,3)
    by (subst scan_network.simps) (auto split: if_splits)
qed

text \<open>
  \<open>agrees n h y r\<close>: the run on the store \<open>h\<close> with the result \<open>r\<close> does what the run on values with the result \<open>y\<close> does, keeps the first \<open>n\<close>
  arrays, and returns an array that is none of them.
\<close>

definition agrees :: "nat \<Rightarrow> heap \<Rightarrow> net_IP option option \<Rightarrow> (slice \<times> heap) option \<Rightarrow> bool" where
  "agrees n h y r \<longleftrightarrow>
     (case y of
        None \<Rightarrow> r = None
      | Some y \<Rightarrow> \<exists>p h'. r = Some (p, h') \<and> keeps n h h' \<and> owned n h' p \<and>
          (case y of None \<Rightarrow> p = None | Some a \<Rightarrow> p \<noteq> None \<and> hval h' p = a))"

lemma agrees_keeps: "agrees n h' y r \<Longrightarrow> keeps n h h' \<Longrightarrow> agrees n h y r"
  by (auto simp: agrees_def intro: keeps_trans split: option.splits)

lemma h_scan_network_refines:
  assumes "list_all (known_range n) us" and "n \<le> length h" and "owned n h ip"
  shows "agrees n h (scan_network network (map (range_val h) us) (hval h ip)) (h_scan_network network us ip h)"
proof (cases "scan_network network (map (range_val h) us) (hval h ip)")
  case None
  then have "h_scan_network network us ip h \<noteq> Some z" for z
    using h_scan_network_ended [of network us ip h z n] assms by blast
  then have "h_scan_network network us ip h = None" by (cases "h_scan_network network us ip h") blast+
  then show ?thesis using None by (simp add: agrees_def)
next
  case (Some y)
  then show ?thesis using h_scan_network_ends [OF Some assms(1), rule_format, OF assms(2,3) refl refl] by (simp add: agrees_def)
qed

subsection \<open>The ranges, and the allocator\<close>

text \<open>The slices of one round over the ranges: \<open>start\<close> has an array of its own, apart from \<open>end\<close> and from the used ranges.\<close>

lemma range_round:
  assumes r: "known_range n r" and us: "list_all (known_range n) us" and n: "n \<le> length h"
    and runs: "h_To16 (hFrom r) h = (p, h1)" "h_Clone p h1 = (s0, h2)" "h_To16 (hTo r) h2 = (e, h3)" "h_skip_used s0 us h3 = (s, h4)"
  shows "hval h4 s = skip_used (To16 (hval h (hFrom r))) (map (range_val h) us)" and "hval h4 e = To16 (hval h (hTo r))"
    and "keeps n h h4" and "s = Some a \<Longrightarrow> n \<le> a \<and> a < length h4 \<and> apart a e us" and "s = Some a \<Longrightarrow> h4 ! a \<noteq> [] \<Longrightarrow> length (h4 ! a) = 16"
proof -
  obtain x1 where 1: "hval h1 p = To16 (hval h (hFrom r))" "h1 = h @ x1" "known (length h1) p"
    using h_To16_run [OF runs(1)] r known_le [OF _ n, of "hFrom r"] by (auto simp: known_range_def)
  obtain x2 where 2: "hval h2 s0 = hval h1 p" "h2 = h1 @ x2" "owned (length h1) h2 s0" using h_Clone_run [OF runs(2) 1(3)] by blast
  have "known (length h2) (hTo r)" using r n 1(2) 2(2) known_le [of n "hTo r" "length h2"] by (simp add: known_range_def)
  then obtain x3 where 3: "hval h3 e = To16 (hval h2 (hTo r))" "h3 = h2 @ x3" "known (length h3) e"
      "e = None \<or> e = hTo r \<or> owned (length h2) h3 e"
    using h_To16_run [OF runs(3)] by blast
  have own: "owned n h3 s0" "n \<le> length h3" using 2(2,3) 3(2) 1(2) n by (auto simp: owned_def split: option.splits)
  obtain x4 where 4: "hval h4 s = skip_used (hval h3 s0) (map (range_val h3) us)" "h4 = h3 @ x4" "owned n h4 s"
      "s = s0 \<or> owned (length h3) h4 s"
    using h_skip_used_run [OF runs(4) us own(2,1)] by blast
  have k: "keeps n h h2" "keeps n h h3" "keeps (length h2) h2 h3" "keeps (length h3) h3 h4"
    using keeps_append [OF n, of "x1 @ x2"] keeps_append [OF n, of "x1 @ x2 @ x3"] keeps_append [of "length h2" h2 x3]
      keeps_append [of "length h3" h3 x4] by (simp_all add: 1(2) 2(2) 3(2) 4(2))
  show "keeps n h h4" using keeps_append [OF n, of "x1 @ x2 @ x3 @ x4"] by (simp add: 1(2) 2(2) 3(2) 4(2))
  have "hval h3 s0 = hval h2 s0" by (rule keeps_hval [OF k(3) owned_known [OF 2(3)]])
  then show val: "hval h4 s = skip_used (To16 (hval h (hFrom r))) (map (range_val h) us)"
    using 4(1) 2(1) 1(1) keeps_ranges [OF k(2) us] by simp
  show "hval h4 e = To16 (hval h (hTo r))"
    using keeps_hval [OF k(4) 3(3)] 3(1) keeps_hval [OF k(1)] r by (simp add: known_range_def)
  show "length (h4 ! a) = 16" if "s = Some a" "h4 ! a \<noteq> []"
    using skip_used_length [of "To16 (hval h (hFrom r))" "map (range_val h) us"] val that by (auto simp: hval_def To16_def)
  show "n \<le> a \<and> a < length h4 \<and> apart a e us" if a: "s = Some a"
  proof -
    have na: "n \<le> a" "a < length h4" using 4(3) a by (simp_all add: owned_def)
    have "list_all (\<lambda>u. hFrom u \<noteq> Some a \<and> hTo u \<noteq> Some a) us"
      using us na(1) by (auto simp: list_all_iff known_range_def known_def)
    moreover have "e \<noteq> Some a"
    proof
      assume e: "e = Some a"
      have "hTo r \<noteq> Some a" using r na(1) by (auto simp: known_range_def known_def)
      then have "length h2 \<le> a" "a < length h3" using 3(4) e by (auto simp: owned_def)
      then show False using 4(4) 2(3) a by (auto simp: owned_def)
    qed
    ultimately show ?thesis using na by (simp add: apart_def)
  qed
qed

lemma h_scan_ranges_refines:
  assumes "list_all (known_range n) us" and "list_all (known_range n) rs" and "n \<le> length h"
  shows "agrees n h (scan_ranges network (map (range_val h) us) (map (range_val h) rs)) (h_scan_ranges network us rs h)"
  using assms(2,3)
proof (induction rs arbitrary: h)
  case Nil
  then show ?case by (simp add: agrees_def keeps_refl owned_def)
next
  case (Cons r rs)
  obtain p h1 where 1: "h_To16 (hFrom r) h = (p, h1)" by fastforce
  obtain s0 h2 where 2: "h_Clone p h1 = (s0, h2)" by fastforce
  obtain e h3 where 3: "h_To16 (hTo r) h2 = (e, h3)" by fastforce
  obtain s h4 where 4: "h_skip_used s0 us h3 = (s, h4)" by fastforce
  note round = range_round [OF _ assms(1) Cons.prems(2) 1 2 3 4]
  have r: "known_range n r" and rs: "list_all (known_range n) rs" using Cons.prems(1) by simp_all
  let ?vs = "map (range_val h) us" and ?s = "hval h4 s" and ?e = "hval h4 e"
  have rest: "agrees n h (scan_ranges network ?vs (map (range_val h) rs)) (h_scan_ranges network us rs h')" if "keeps n h h'" for h'
    using Cons.IH [of h'] rs that keeps_ranges [OF that] assms(1) agrees_keeps by (simp add: keeps_def)
  have pure: "scan_ranges network ?vs (map (range_val h) (r # rs)) =
      (if ?s = [] \<or> ?e = [] then scan_ranges network ?vs (map (range_val h) rs)
       else case scan_range network ?vs ?e ?s of
         None \<Rightarrow> None | Some (Some ip) \<Rightarrow> Some (Some ip) | Some None \<Rightarrow> scan_ranges network ?vs (map (range_val h) rs))"
    using round(1,2) [OF r] by (simp add: range_val_def Let_def)
  show ?case
  proof (cases "?s = [] \<or> ?e = []")
    case True
    then show ?thesis using rest [OF round(3) [OF r]] 1 2 3 4 unfolding pure by simp
  next
    case False
    then obtain a where a: "s = Some a" by (cases s) (auto simp: hval_def)
    have ap: "n \<le> a" "a < length h4" "apart a e us" "length (h4 ! a) = 16"
      using round(4,5) [OF r a] False a by (simp_all add: hval_def)
    have run: "h_scan_ranges network us (r # rs) h =
        (case h_scan_range network us e (Some a) (Some a) h4 of
           None \<Rightarrow> None | Some (Some ip, h) \<Rightarrow> Some (Some ip, h) | Some (None, h) \<Rightarrow> h_scan_ranges network us rs h)"
      using False 1 2 3 4 a by simp
    have k: "keeps n h (h4[a := v])" for v
      using keeps_trans [OF round(3) [OF r] keeps_update [of n h4 a v]] ap(1) round(3) [OF r] by (simp add: keeps_def)
    note ref = h_scan_range_refines [OF ap(2,4,3), of network, unfolded keeps_ranges [OF round(3) [OF r] assms(1)]]
    show ?thesis
    proof (cases "scan_range network ?vs ?e ?s")
      case None
      then show ?thesis using ref False a unfolding pure run by (simp add: hval_def agrees_def)
    next
      case (Some y)
      then obtain v where v: "h_scan_range network us e (Some a) (Some a) h4 = Some (if y = None then None else Some a, h4[a := v])"
          "y \<noteq> None \<longrightarrow> y = Some v"
        using ref a by (auto simp: hval_def)
      show ?thesis
      proof (cases y)
        case none: None
        then show ?thesis using v(1) rest [OF k] Some False unfolding pure run by simp
      next
        case found: (Some b)
        then have "agrees n h (Some (Some b)) (Some (Some a, h4[a := v]))"
          using v(2) k [of v] ap(1,2) by (auto simp: agrees_def owned_def hval_def)
        then show ?thesis using v(1) found Some False unfolding pure run by simp
      qed
    qed
  qed
qed

text \<open>What the caller sees of a run: the error, or the bytes of the address returned.\<close>

lemma found_agrees:
  assumes "agrees n h y r"
  shows "case map_option found_or_error y of
      None \<Rightarrow> map_option h_found r = None
    | Some z \<Rightarrow> \<exists>z' h'. map_option h_found r = Some (z', h') \<and> (\<forall>r < n. h' ! r = h ! r) \<and>
        (case z of Inl e \<Rightarrow> z' = Inl e | Inr a \<Rightarrow> \<exists>p. z' = Inr (Some p) \<and> n \<le> p \<and> p < length h' \<and> h' ! p = a)"
proof (cases y)
  case (Some w)
  then obtain p h' where r: "r = Some (p, h')" "keeps n h h'" "owned n h' p"
      "case w of None \<Rightarrow> p = None | Some a \<Rightarrow> p \<noteq> None \<and> hval h' p = a"
    using assms by (auto simp: agrees_def)
  then show ?thesis
    using Some by (cases w; cases p) (auto simp: found_or_error_def h_found_def owned_def hval_def keeps_def)
qed (use assms in \<open>simp add: agrees_def\<close>)

text \<open>Without ranges: the first address after that of the network gets an array of its own.\<close>

lemma h_whole_network_refines:
  assumes us: "list_all (known_range (length h)) us" and s: "(if v = [] then (None, h) else h_new v h) = (s, h1)"
    and t: "h_skip_used s us (h_IPIncrease s h1) = (t, h2)"
  shows "agrees (length h) h (scan_network network (map (range_val h) us) (skip_used (IPIncrease v) (map (range_val h) us)))
    (h_scan_network network us t h2)"
proof -
  have h1: "hval h1 s = v" "owned (length h) h1 s" "keeps (length h) h h1"
    using s keeps_append [of "length h" h "[v]"] keeps_refl [of "length h" h]
    by (auto simp: h_new_def hval_def owned_def split: if_splits)
  have le: "length h \<le> length h1" using h1(3) by (simp add: keeps_def)
  note inc = h_IPIncrease_run [OF h1(2) le]
  have k: "keeps (length h) h (h_IPIncrease s h1)" using keeps_trans [OF h1(3)] inc by blast
  have le2: "length h \<le> length (h_IPIncrease s h1)" using k by (simp add: keeps_def)
  obtain xs where h2: "hval h2 t = skip_used (IPIncrease v) (map (range_val h) us)" "h2 = h_IPIncrease s h1 @ xs" "owned (length h) h2 t"
    using h_skip_used_run [OF t us le2] inc h1(1) keeps_ranges [OF k us] by auto
  have k2: "keeps (length h) h h2" using keeps_trans [OF k] keeps_append [OF le2, of xs] by (simp add: h2(2))
  have "length h \<le> length h2" using k2 by (simp add: keeps_def)
  from agrees_keeps [OF h_scan_network_refines [OF us this h2(3), of network] k2] show ?thesis
    by (simp add: h2(1) keeps_ranges [OF k2 us])
qed

text \<open>
  C3. The allocator on the store of arrays refines the allocator on values. For ranges whose arrays are in the store, both do not
  return, or both return the same error, or the store then has a new array with the bytes of the address. Every array that
  was there before has its bytes still, although the loops increase their addresses in place and compare through a second name of the
  same array.
\<close>

theorem GetAvailableIP_on_store:
  assumes "list_all (known_range (length h)) ipRanges" and "list_all (known_range (length h)) usedIPs"
  shows "case GetAvailableIP cidr (map (range_val h) ipRanges) (map (range_val h) usedIPs) of
      None \<Rightarrow> h_GetAvailableIP cidr ipRanges usedIPs h = None
    | Some z \<Rightarrow> \<exists>z' h'. h_GetAvailableIP cidr ipRanges usedIPs h = Some (z', h') \<and> (\<forall>r < length h. h' ! r = h ! r) \<and>
        (case z of Inl e \<Rightarrow> z' = Inl e | Inr a \<Rightarrow> \<exists>p. z' = Inr (Some p) \<and> length h \<le> p \<and> p < length h' \<and> h' ! p = a)"
proof (cases "ParseCIDR cidr")
  case (Inl e)
  then show ?thesis by (simp add: GetAvailableIP_def h_GetAvailableIP_def)
next
  case (Inr c)
  obtain ip network where c: "ParseCIDR cidr = Inr (ip, network)" using Inr by (cases c) simp
  let ?us = "map (range_val h) usedIPs" and ?v = "IP_Mask ip (NetMask network)"
  show ?thesis
  proof (cases "ipRanges = []")
    case False
    then have "GetAvailableIP cidr (map (range_val h) ipRanges) ?us =
        map_option found_or_error (scan_ranges network ?us (map (range_val h) ipRanges))"
      "h_GetAvailableIP cidr ipRanges usedIPs h = map_option h_found (h_scan_ranges network usedIPs ipRanges h)"
      by (simp_all add: GetAvailableIP_def h_GetAvailableIP_def c)
    then show ?thesis using found_agrees [OF h_scan_ranges_refines [OF assms(2,1) order.refl, of network]] by (simp only:)
  next
    case True
    obtain s h1 where s: "(if ?v = [] then (None, h) else h_new ?v h) = (s, h1)" by fastforce
    obtain t h2 where t: "h_skip_used s usedIPs (h_IPIncrease s h1) = (t, h2)" by fastforce
    have "GetAvailableIP cidr (map (range_val h) ipRanges) ?us =
        map_option found_or_error (scan_network network ?us (skip_used (IPIncrease ?v) ?us))"
      using True by (simp add: GetAvailableIP_def c)
    moreover have "h_GetAvailableIP cidr ipRanges usedIPs h = map_option h_found (h_scan_network network usedIPs t h2)"
      using True s t by (auto simp: h_GetAvailableIP_def c Let_def split: if_splits)
    ultimately show ?thesis using found_agrees [OF h_whole_network_refines [OF assms(2) s t, of network]] by (simp only:)
  qed
qed

text \<open>A store with the arrays of a range, the first end given in four bytes, and of a used range that begins with it.\<close>

definition example_heap :: heap where
  "example_heap = [[10, 1, 0, 1], ParseIP ''10.1.0.9'', ParseIP ''10.1.0.1'', ParseIP ''10.1.0.3'']"

theorem GetAvailableIP_on_store_witness:
  "\<exists>p h'. h_GetAvailableIP ''10.1.0.0/16'' [\<lparr>hFrom = Some 0, hTo = Some 1\<rparr>] [\<lparr>hFrom = Some 2, hTo = Some 3\<rparr>] example_heap =
      Some (Inr (Some p), h') \<and> h' ! p = ParseIP ''10.1.0.4'' \<and> (\<forall>r < length example_heap. h' ! r = example_heap ! r)"
proof -
  let ?rs = "[\<lparr>hFrom = Some 0, hTo = Some 1\<rparr>]" and ?us = "[\<lparr>hFrom = Some 2, hTo = Some 3\<rparr>]"
  have known: "list_all (known_range (length example_heap)) ?rs" "list_all (known_range (length example_heap)) ?us"
    by (simp_all add: known_range_def known_def example_heap_def)
  have "GetAvailableIP ''10.1.0.0/16'' (map (range_val example_heap) ?rs) (map (range_val example_heap) ?us) =
      Some (Inr (ParseIP ''10.1.0.4''))"
    by code_simp
  with GetAvailableIP_on_store [OF known, of "''10.1.0.0/16''"] show ?thesis by auto
qed

end
