(* ===== verification/Spec2Isabelle.thy ===== *)
theory Spec2Isabelle
  imports IPAMRuns SubnetRuns AllocLock PodController WorkloadController Webhook EndpointControllers IngressController NamespaceController
    CniRuns MigrateBackup PodAllocation Operator AddrHeap
begin

text \<open>
  \<^bold>\<open>rancher-flat-network: a model of the operator, its webhook and its network plugin.\<close>

  \<^bold>\<open>The program.\<close> The operator gives pods a second network interface with an address of a flat network.
  An administrator declares \<open>FlatNetworkSubnet\<close> resources; a pod asks for an address by annotations. The parts
  interact through resources of the API server only:
  the pod controller writes one \<open>FlatNetworkIP\<close> for each pod, with the name of the pod;
  the IP controller allocates an address for it from the subnet, records the address in the status of the subnet,
  and then in the status of the IP; the subnet controller validates subnets, activates them and recounts the
  addresses in use; the workload controller labels workloads and reserves their fixed addresses in the subnet;
  the service, endpoints, endpoint slice and ingress controllers publish the flat addresses; the webhook refuses
  subnets and workloads that could not work; the network plugin (CNI) runs on the node, waits until the IP has an
  address, and builds the interface and the routes of the pod.

  \<^bold>\<open>Theories and sources.\<close>
  \<^item> \<open>Prelude\<close>: Go strings, errors, maps, slices; \<open>GoNet\<close>: the functions of Go's package net that the sources call,
    among them the parsers and printers of addresses; \<open>Types\<close>: \<open>pkg/apis/flatnetwork.pandaria.io/v1/types.go\<close>.
  \<^item> \<open>Ipcalc\<close>: \<open>pkg/ipcalc/ipcalc.go\<close>, function by function. \<open>AddrRanges\<close>: a list of ranges denotes a set of addresses;
    adding and removing an address, as an instance of the contract \<open>addr_store\<close>. \<open>AddrAlloc\<close>: the allocator finds the
    least free address and ends exactly when it should; the conflict checks decide overlap. \<open>AddrHeap\<close>: the allocator on a store of byte arrays, which it increases in place,
    computes the same and leaves the arrays of its caller alone.
  \<^item> \<open>Common\<close>: \<open>pkg/common/common.go\<close> (validation of subnets and annotations) and the modes of
    \<open>pkg/cni/macvlan\<close> and \<open>pkg/cni/ipvlan\<close>.
  \<^item> \<open>KubeAPI\<close>: the calls of the Kubernetes client as a record of operations, the argument of every handler, and the
    laws the controllers rely on, as the locales \<open>kube\<close>, \<open>kube_admin\<close>, \<open>kube_pods\<close> and, for progress, \<open>kube_live\<close>. \<open>MemCluster\<close>: an API server in memory
    that satisfies the laws, and the clusters of the examples.
  \<^item> \<open>IPController\<close>: \<open>pkg/controller/flatnetworkip\<close>. \<open>IPAM\<close>, \<open>IPAMRuns\<close>: the invariant that allocated addresses are recorded
    and pairwise different, the abstract allocator (\<open>alloc_step\<close> on \<open>grants_of\<close>) that every handler implements, and runs of the
    controller as a step relation. \<open>IPAMLive\<close>: the create handler succeeds while an address is left, and what it does
    when the subnet it reads is behind.
  \<^item> \<open>SubnetController\<close>: \<open>pkg/controller/flatnetworksubnet\<close>. \<open>SubnetRuns\<close>: what activation, the periodic check, the recount
    and the error handler guarantee.
  \<^item> \<open>AllocLock\<close>: the lock of \<open>pkg/controller/wrangler/utils.go\<close> as interleaved steps of goroutines.
  \<^item> \<open>PodController\<close>: \<open>pkg/controller/pod\<close>. \<open>WorkloadController\<close>: \<open>pkg/controller/workload\<close>. \<open>Webhook\<close>: \<open>pkg/admission/webhook\<close>.
    \<open>PodAllocation\<close>: the pod controller and the IP controller together give a pod its address.
  \<^item> \<open>ServiceController\<close>: \<open>pkg/controller/service\<close> and the recognition of services of \<open>pkg/utils/utils.go\<close>.
    \<open>Endpoints\<close>: \<open>pkg/common/endpoints.go\<close>.
  \<^item> \<open>EndpointControllers\<close>: \<open>pkg/controller/endpoints\<close> and \<open>pkg/controller/endpointslice\<close>; the laws of the store are the
    locale \<open>ep_store\<close>. \<open>IngressController\<close>: \<open>pkg/controller/ingress\<close>, with the locale \<open>service_store\<close>.
    \<open>NamespaceController\<close>: \<open>pkg/controller/namespace\<close>, with the locale \<open>nad_store\<close>.
  \<^item> \<open>CniLinks\<close>: netlink as a record of operations (with namespaces of the pods), \<open>pkg/cni/common\<close>, and \<open>Create\<close> of \<open>pkg/cni/macvlan\<close> and
    \<open>pkg/cni/ipvlan\<close>. \<open>CniRoutes\<close>: \<open>pkg/cni/route\<close>; the kernel's routing tables are the locale \<open>routing\<close>, with a kernel in memory.
    \<open>CniConf\<close>: \<open>pkg/cni/types\<close>, \<open>commands/common.go\<close> and the check of an interface. \<open>CniCommands\<close>: the commands \<open>ADD\<close>, \<open>DEL\<close> and
    \<open>CHECK\<close> of \<open>pkg/cni/commands\<close> with their deferred functions. \<open>CniRuns\<close>: what \<open>ADD\<close> has done when it succeeds, what it undoes and
    what it leaves behind when it fails, with the locales \<open>link_table\<close> (deleting an interface) and \<open>link_keeping\<close> (the calls that leave
    interfaces alone).
  \<^item> \<open>Migrate\<close>: \<open>pkg/migrate\<close>, the tool that turns the resources of the first version into those of this one, with the locale
    \<open>migration\<close>. \<open>MigrateBackup\<close>: the files of its backups and the commands of \<open>migrator/commands\<close>, with the locales \<open>backup_file\<close> and
    \<open>backup_cluster\<close>.
  \<^item> \<open>Logging\<close>: the set-up of the log in \<open>pkg/utils/utils.go\<close> and \<open>pkg/cni/logger\<close>, with the locale \<open>log_host\<close>. \<open>HttpServers\<close>:
    \<open>pkg/logserver\<close> and \<open>pkg/admission\<close> as the statements of two goroutines on the process, whose default multiplexer a server without a
    handler uses. \<open>Operator\<close>: \<open>main.go\<close> as the actions of its start,
    \<open>pkg/controller/wrangler/context.go\<close>, the \<open>Register\<close> function of every controller as the wiring of its handler and the
    handlers it registers, and \<open>pkg/signal\<close>.


  \<^bold>\<open>How code becomes definitions.\<close> A struct is a record with the field names of Go (with a prefix where two structs share a name),
  a \<open>net.IP\<close> is a list of bytes of length 0, 4 or 16, an \<open>int\<close> field is an unbounded integer unless its width
  matters, a map is an association list where its order is observed through sorting and a function otherwise.
  A function that returns a value and an error returns a sum with the error on the left; an error keeps its format
  and its cause, so that \<open>errors.Is\<close> and the reason of an API error can be asked. A handler is a program of the state monad over
  the world of the API; \<open>outcome\<close> adds that it panics or does not return. Log output is left out.

  \<^bold>\<open>Loops.\<close> The scans of \<open>GetAvailableIP\<close> and the pages of the webhook are partial functions into an option, so
  that not returning is a value; that they return is proved (\<open>ValidateSubnet_allocates\<close>, \<open>onIPCreate_progress\<close>, \<open>list_pages_complete\<close>), and so is the one
  input on which the scan does not return (\<open>GetAvailableIP_never_returns\<close>). The polls of the pod controller run for the
  sixty rounds of the source. The pages of the migration tool are partial functions too (\<open>migrateSubnets_complete\<close>). All other loops are structural. The retries of \<open>RetryOnConflict\<close> are an inductive
  relation with any number of attempts; the server in memory makes at most three.

  \<^bold>\<open>Assumptions.\<close> Theorems about handlers assume a locale of \<open>KubeAPI\<close>: caches are fresh, updates check the
  resource version, failed calls change nothing; the other locales above say the same of their stores. \<open>stale_cache_double_allocation\<close> shows that the first is needed. Each
  such theorem is applied to the server in memory.

  \<^bold>\<open>What the theorems show.\<close> Along every sequence of runs of the IP controller that return, from a state in the invariant, no two pods of a subnet have the same address
  (\<open>ipam_unique_addresses\<close>), each such step is one of the abstract allocator (\<open>ip_controller_refines_allocator\<close>), and a pod gets an
  address as long as its subnet has one (\<open>pod_gets_address\<close>); an allocation takes the least free address of the first range with one and is recorded before it is used, a removal frees only its
  own address, the count agrees with the recorded set; at most one goroutine holds the lock of a subnet and one can always go
  on; a subnet that is activated passed the checks against those of its interface and has its gateway reserved, and the recount is exact; a workload that the webhook looks into and admits
  uses addresses that are free or its own, and a reserved address is refused to the others it looks into; the pod controller
  ends with one IP that says what the annotations say. The endpoint slices of a service become current and keep their
  family, a namespace gets the network definition, the services behind an ingress change in one annotation only; the plugin redirects exactly the
  default routes of a pod, removes the interface when it fails, with the exceptions that the theorem lists, and when it succeeds has gone through all its calls in order and made the IP active
  with the address of the interface; the migration converts every
  subnet once, moves every annotation whatever the order of the map, and restores what it saved. Behaviours of the code that a reader may not expect are
  theorems too: an early return in \<open>CheckSubnetConflict\<close>, the panic of the fallback of the IP controller, the cleanup
  that deletes every pod of an address, the flag of the lock that is cleared while the lock is held, an ingress annotation that selects
  nothing, a check of macvlan interfaces that always fails, an interface that stays behind when a custom route or a host route cannot be added, a second grant of an
  address when a cache is behind,
  and a log level that can be set through the port of the webhook.

  \<^bold>\<open>Not modelled.\<close> The queues behind \<open>EnqueueAfter\<close> and the leader election (packages of wrangler), TLS and the sockets of
  the servers, the parsing of command lines, single log lines, the entry of the plugin in \<open>cni/main.go\<close>, which hands the three commands to
  a library, the generated clients, the generated deep copies (values of HOL are copies), code generation, and the flags of the migration tool. Netlink, namespaces, other CNI plugins, YAML and JSON are parameters.
\<close>

subsection \<open>Reserved addresses: the workload controller and the webhook\<close>

lemma map_of_reserved_refused:
  assumes "map_of (ReservedIP (sn_Status s)) key = Some r" and "IPInRanges ip r"
    and "CheckPodAnnotationIPs (PodTemplateAnnotations wl AnnotationIP) = Inr ips" and "ip \<in> set ips"
    and "workload_type (wr_Kind wl) = Some t" and "wr_Kind wl \<noteq> ''Job'' \<or> OwnerReferences (w_meta (wr_Workload wl)) = []"
    and "GetWorkloadReservdIPKey t (w_meta (wr_Workload wl)) \<noteq> key"
  shows "validateIPsInReserved wl s \<noteq> None"
proof
  assume "validateIPsInReserved wl s = None"
  from reserved_guards [OF this assms(3,5)] have "k \<noteq> GetWorkloadReservdIPKey t (w_meta (wr_Workload wl)) \<longrightarrow> \<not> IPInRanges ip x"
    if "(k, x) \<in> set (ReservedIP (sn_Status s))" for k x
    using that assms(4,6) by blast
  then show False using map_of_SomeD [OF assms(1)] assms(2,7) by blast
qed

text \<open>
  C23. Reserved addresses are protected: once the workload controller has recorded the addresses of a
  workload, the webhook, when it reads that subnet, refuses every other workload that it looks into and that asks for one of
  them. It looks into a workload that has a name and is not being deleted, uses an attached network, names the subnet, and does not change
  its flat-network labels; a job with an owner is exempt, because the owner has been checked.
\<close>

theorem reserved_address_is_refused:
  assumes "kube api view" and "run_state (syncWorkloadReservedIP api w) st = (None, st')"
    and "CheckPodAnnotationIPs (mget (Annotations (GetTemplateObjectMeta w)) AnnotationIP) = Inr ips"
    and "list_all inner_addr ips" and "ip \<in> set ips"
    and "mget (Annotations (GetTemplateObjectMeta w)) AnnotationSubnet = sn" and "sn \<noteq> []"
    and "GetWorkloadReservdIPKey (w_type w) (w_meta w) = key" and "key \<noteq> []"
    and "c_subnets (view st') (SubnetNamespace, sn) = Some s"
    and "deserializeWorkloadReview h req = Inr wl" and "subnetClient_Get h SubnetNamespace sn = Inr s"
    and "Name (w_meta (wr_Workload wl)) \<noteq> []" and "DeletionTimestamp (w_meta (wr_Workload wl)) = None"
    and "PodTemplateAnnotations wl NetworkAttachmentAnnot \<noteq> [] \<or> PodTemplateAnnotations wl ''v1.multus-cni.io/default-network'' \<noteq> []"
    and "PodTemplateAnnotations wl AnnotationSubnet = sn" and "\<not> isUpdatingWorkloadSubnetLabel h wl"
    and "CheckPodAnnotationIPs (PodTemplateAnnotations wl AnnotationIP) = Inr ips'" and "ip \<in> set ips'"
    and "workload_type (wr_Kind wl) = Some t" and "wr_Kind wl \<noteq> ''Job'' \<or> OwnerReferences (w_meta (wr_Workload wl)) = []"
    and "GetWorkloadReservdIPKey t (w_meta (wr_Workload wl)) \<noteq> key"
  shows "\<exists>e. validateWorkload h req = Returns (False, Some e)"
proof -
  let ?r = "fold AddIPToRange ips []"
  have ne: "ips \<noteq> []" using assms(5) by auto
  have "reserves (view st') sn key (Some ?r)"
    using kube.sync_reserved_run [OF assms(1,2,3) ne assms(6-9)] by (simp add: only_key_def)
  then have stored: "map_of (ReservedIP (sn_Status s)) key = Some ?r" using assms(10) by (simp add: reserves_def)
  have inner: "inner_addr ip" using assms(4,5) by (auto simp: list_all_iff)
  have "canon ?r" "bval ip \<in> ranges_set ?r" using rng.fold_add [OF assms(4), of "[]"] assms(5) by auto
  then have "IPInRanges ip ?r" using rng.mem_iff [OF inner] by blast
  from map_of_reserved_refused [OF stored this assms(18-22)]
  have "\<exists>e. check_workload h wl s = Returns (False, Some e)" by (auto simp: check_workload_def split: option.splits)
  then show ?thesis using assms(7,11-17) by (auto simp: validateWorkload_def Let_def)
qed

definition rival_review :: WorkloadReview where
  "rival_review = \<lparr>wr_Kind = ''StatefulSet'', wr_Workload = (example_workload ''10.1.0.6'')\<lparr>w_type := StatefulSet,
     w_template := (example_meta [] [])\<lparr>Annotations := [(NetworkAttachmentAnnot, ''rancher-flat-network''), (AnnotationIP, ''10.1.0.6''),
       (AnnotationSubnet, ''s'')]\<rparr>\<rparr>\<rparr>"

text \<open>The webhook of a cluster with the subnet, asked about the other workload.\<close>

definition rival_hooks :: "FlatNetworkSubnet \<Rightarrow> hooks" where
  "rival_hooks s = example_hooks\<lparr>subnetClient_Get := (\<lambda>ns n. Inr s), unmarshal_workload := (\<lambda>t raw. Inr (wr_Workload rival_review))\<rparr>"

abbreviation rival_request :: AdmissionRequest where
  "rival_request \<equiv> \<lparr>req_UID = ''2'', req_Kind = ''StatefulSet'', req_Object = []\<rparr>"

theorem reserved_address_is_refused_witness:
  "\<exists>st' s e. run_state (syncWorkloadReservedIP mem_api (example_workload ''10.1.0.5-10.1.0.6'')) (example_world [] []) = (None, st') \<and>
     c_subnets (mem_view st') (SubnetNamespace, ''s'') = Some s \<and> validateWorkload (rival_hooks s) rival_request = Returns (False, Some e)"
proof -
  define w where "w = example_workload ''10.1.0.5-10.1.0.6''"
  define out where "out = run_state (syncWorkloadReservedIP mem_api w) (example_world [] [])"
  have "fst out = None" unfolding out_def w_def by code_simp
  then have run: "run_state (syncWorkloadReservedIP mem_api w) (example_world [] []) = (None, snd out)"
    unfolding out_def by (metis prod.collapse)
  have "case c_subnets (mem_view (snd out)) (SubnetNamespace, ''s'') of None \<Rightarrow> False | Some _ \<Rightarrow> True"
    unfolding out_def w_def by code_simp
  then obtain s where s: "c_subnets (mem_view (snd out)) (SubnetNamespace, ''s'') = Some s" by (auto split: option.splits)
  have ips: "CheckPodAnnotationIPs (mget (Annotations (GetTemplateObjectMeta w)) AnnotationIP) =
      Inr [ParseIP ''10.1.0.5'', ParseIP ''10.1.0.6'']"
    and inner: "list_all inner_addr [ParseIP ''10.1.0.5'', ParseIP ''10.1.0.6'']"
    and sn: "mget (Annotations (GetTemplateObjectMeta w)) AnnotationSubnet = ''s''"
    and key: "GetWorkloadReservdIPKey (w_type w) (w_meta w) = ''Deployment/default/d''"
    and rival: "CheckPodAnnotationIPs (PodTemplateAnnotations rival_review AnnotationIP) = Inr [ParseIP ''10.1.0.6'']"
      "GetWorkloadReservdIPKey StatefulSet (w_meta (wr_Workload rival_review)) \<noteq> ''Deployment/default/d''"
    unfolding w_def by code_simp+
  have q: "deserializeWorkloadReview (rival_hooks s) rival_request = Inr rival_review" "subnetClient_Get (rival_hooks s) SubnetNamespace ''s'' = Inr s"
    "Name (w_meta (wr_Workload rival_review)) \<noteq> []" "DeletionTimestamp (w_meta (wr_Workload rival_review)) = None"
    "PodTemplateAnnotations rival_review NetworkAttachmentAnnot \<noteq> [] \<or> PodTemplateAnnotations rival_review ''v1.multus-cni.io/default-network'' \<noteq> []"
    "PodTemplateAnnotations rival_review AnnotationSubnet = ''s''" "\<not> isUpdatingWorkloadSubnetLabel (rival_hooks s) rival_review"
    "workload_type (wr_Kind rival_review) = Some StatefulSet" "wr_Kind rival_review \<noteq> ''Job'' \<or> OwnerReferences (w_meta (wr_Workload rival_review)) = []"
    by (simp_all add: rival_hooks_def rival_review_def deserializeWorkloadReview_def workload_type_def PodTemplateAnnotations_def mget_def
        isUpdatingWorkloadSubnetLabel_def example_hooks_def example_workload_def example_meta_def)
  have mem: "ParseIP ''10.1.0.6'' \<in> set [ParseIP ''10.1.0.5'', ParseIP ''10.1.0.6'']" "ParseIP ''10.1.0.6'' \<in> set [ParseIP ''10.1.0.6'']"
    by simp_all
  have ne: "''s'' \<noteq> []" "''Deployment/default/d'' \<noteq> []" by simp_all
  from reserved_address_is_refused [where api = mem_api and view = mem_view, OF mem.kube_axioms run ips inner mem(1) sn ne(1)
      key ne(2) s q(1-7) rival(1) mem(2) q(8,9) rival(2)]
  show ?thesis using run s unfolding w_def by blast
qed

subsection \<open>The log and the network plugin\<close>

text \<open>
  A flag file that names no level stops the network plugin: with \<open>Setup\<close> as the set-up of the log, ADD, DEL and CHECK all fail before
  they read their input.
\<close>

theorem broken_log_level_stops_plugin:
  assumes "log_host api out lev flag" and "flag w = Some s" and "ParseLevel api (strings_TrimSpace s) = Inl e"
    and "logger_Setup p = Setup api"
  shows "fst (run_state (Add p k args) w) \<noteq> None" and "fst (run_state (Del p k args) w) \<noteq> None"
    and "fst (run_state (Check p k args) w) \<noteq> None"
proof -
  obtain r w' where r: "run_state (Setup api) w = (r, w')" by fastforce
  then obtain e' where "r = Some e'" using log_host.Setup_run [OF assms(1) r] assms(2,3) by (cases r) auto
  then show "fst (run_state (Add p k args) w) \<noteq> None" "fst (run_state (Del p k args) w) \<noteq> None"
    "fst (run_state (Check p k args) w) \<noteq> None"
    using r assms(4) by (simp_all add: Add_def Del_def Check_def)
qed

end
